(* ===== verification/Prelude.thy ===== *)
theory Prelude
  imports Main "HOL-Library.Char_ord" "HOL-Library.List_Lexorder" "HOL-Library.Sublist"
begin

text \<open>
  What every component shares: JavaScript strings as character lists with the operations of
  the standard library the program calls (\<open>trim\<close>, \<open>split\<close>, \<open>join\<close>, \<open>indexOf\<close>, \<open>includes\<close>,
  \<open>toLowerCase\<close>, \<open>String(n)\<close>), insertion-ordered objects and \<open>Map\<close>s as association lists,
  results of code that may throw, and the lemma collections the component proofs use.

  Strings: a character is one code unit below 256, so the model covers ASCII and Latin-1
  text.  \<open>Array.prototype.sort()\<close> without a comparator is the lexicographic order on code units.
\<close>

named_theorems js_str \<open>facts about the string operations\<close>
named_theorems assoc_facts \<open>facts about insertion-ordered objects\<close>

subsection \<open>Results\<close>

text \<open>A function that may throw returns \<open>Inl\<close> the error or \<open>Inr\<close> the value.\<close>

type_synonym ('e, 'a) res = "'e + 'a"

abbreviation isr :: "('e, 'a) res \<Rightarrow> bool" where
  "isr r \<equiv> \<not> isl r"

definition res_bind :: "('e, 'a) res \<Rightarrow> ('a \<Rightarrow> ('e, 'b) res) \<Rightarrow> ('e, 'b) res" where
  "res_bind m f = (case m of Inl e \<Rightarrow> Inl e | Inr a \<Rightarrow> f a)"

lemma res_bind_simps [simp]:
  "res_bind (Inl e) f = Inl e" "res_bind (Inr a) f = f a"
  by (simp_all add: res_bind_def)

lemma res_bind_Inr: "res_bind m f = Inr b \<longleftrightarrow> (\<exists>a. m = Inr a \<and> f a = Inr b)"
  by (cases m) auto

lemma res_bind_Inl: "res_bind m f = Inl e \<longleftrightarrow> m = Inl e \<or> (\<exists>a. m = Inr a \<and> f a = Inl e)"
  by (cases m) auto

lemma res_bind_cong [fundef_cong]:
  "m = m' \<Longrightarrow> (\<And>a. m' = Inr a \<Longrightarrow> f a = g a) \<Longrightarrow> res_bind m f = res_bind m' g"
  by (cases m') auto

text \<open>\<open>xs.map(f)\<close> where \<open>f\<close> may throw: the first error wins, later elements are not visited.\<close>

fun map_res :: "('a \<Rightarrow> ('e, 'b) res) \<Rightarrow> 'a list \<Rightarrow> ('e, 'b list) res" where
  "map_res f [] = Inr []"
| "map_res f (x # xs) = res_bind (f x) (\<lambda>y. res_bind (map_res f xs) (\<lambda>ys. Inr (y # ys)))"

lemma map_res_cong [fundef_cong]:
  "xs = ys \<Longrightarrow> (\<And>x. x \<in> set ys \<Longrightarrow> f x = g x) \<Longrightarrow> map_res f xs = map_res g ys"
  by (induction ys arbitrary: xs) auto

lemma map_res_length: "map_res f xs = Inr ys \<Longrightarrow> length ys = length xs"
  by (induction xs arbitrary: ys) (auto simp: res_bind_Inr)

lemma map_res_nth: "map_res f xs = Inr ys \<Longrightarrow> i < length xs \<Longrightarrow> f (xs ! i) = Inr (ys ! i)"
proof (induction xs arbitrary: ys i)
  case Nil
  then show ?case by simp
next
  case (Cons x xs)
  then show ?case by (cases i) (auto simp: res_bind_Inr)
qed

lemma map_res_total: "(\<And>x. x \<in> set xs \<Longrightarrow> \<exists>y. f x = Inr y) \<Longrightarrow> \<exists>ys. map_res f xs = Inr ys"
proof (induction xs)
  case Nil
  then show ?case by simp
next
  case (Cons x xs)
  from Cons.prems obtain y where "f x = Inr y" by auto
  moreover from Cons obtain ys where "map_res f xs = Inr ys" by auto
  ultimately show ?case by simp
qed

subsection \<open>Characters\<close>

text \<open>\<open>\s\<close> and \<open>trim\<close> agree on white space: tab, LF, VT, FF, CR, space, no-break space.\<close>

definition js_ws :: "char \<Rightarrow> bool" where
  "js_ws c \<longleftrightarrow> c \<in> {CHR 0x09, CHR 0x0A, CHR 0x0B, CHR 0x0C, CHR 0x0D, CHR '' '', CHR 0xA0}"

definition code_unit :: "char \<Rightarrow> nat" where
  "code_unit c = of_char c"

definition is_digit :: "char \<Rightarrow> bool" where
  "is_digit c \<longleftrightarrow> 48 \<le> code_unit c \<and> code_unit c \<le> 57"

definition is_upper :: "char \<Rightarrow> bool" where
  "is_upper c \<longleftrightarrow> 65 \<le> code_unit c \<and> code_unit c \<le> 90"

definition is_lower :: "char \<Rightarrow> bool" where
  "is_lower c \<longleftrightarrow> 97 \<le> code_unit c \<and> code_unit c \<le> 122"

definition is_alpha :: "char \<Rightarrow> bool" where
  "is_alpha c \<longleftrightarrow> is_upper c \<or> is_lower c"

definition is_alnum :: "char \<Rightarrow> bool" where
  "is_alnum c \<longleftrightarrow> is_alpha c \<or> is_digit c"

text \<open>\<open>\w\<close>, and the first character of an identifier.\<close>

definition is_word :: "char \<Rightarrow> bool" where
  "is_word c \<longleftrightarrow> is_alnum c \<or> c = CHR ''_''"

definition is_ident_start :: "char \<Rightarrow> bool" where
  "is_ident_start c \<longleftrightarrow> is_alpha c \<or> c = CHR ''_''"

lemmas char_class_defs = js_ws_def code_unit_def is_digit_def is_upper_def is_lower_def is_alpha_def
  is_alnum_def is_word_def is_ident_start_def

definition lower_char :: "char \<Rightarrow> char" where
  "lower_char c = (let n = code_unit c in
     if (65 \<le> n \<and> n \<le> 90) \<or> (192 \<le> n \<and> n \<le> 222 \<and> n \<noteq> 215) then char_of (n + 32) else c)"

definition upper_char :: "char \<Rightarrow> char" where
  "upper_char c = (let n = code_unit c in
     if (97 \<le> n \<and> n \<le> 122) \<or> (224 \<le> n \<and> n \<le> 254 \<and> n \<noteq> 247) then char_of (n - 32) else c)"

definition to_lower :: "string \<Rightarrow> string" where
  "to_lower s = map lower_char s"

definition to_upper :: "string \<Rightarrow> string" where
  "to_upper s = map upper_char s"

lemma lower_char_idem [simp]: "lower_char (lower_char c) = lower_char c"
proof -
  have lt: "(of_char c :: nat) < 256" by simp
  then show ?thesis by (auto simp: lower_char_def Let_def code_unit_def)
qed

lemma to_lower_idem [simp]: "to_lower (to_lower s) = to_lower s"
  by (simp add: to_lower_def comp_def)

lemma to_lower_append [simp]: "to_lower (s @ t) = to_lower s @ to_lower t"
  by (simp add: to_lower_def)

subsection \<open>The string operations of the standard library\<close>

definition trim_start :: "string \<Rightarrow> string" where
  "trim_start s = dropWhile js_ws s"

definition trim_end :: "string \<Rightarrow> string" where
  "trim_end s = rev (dropWhile js_ws (rev s))"

definition trim :: "string \<Rightarrow> string" where
  "trim s = trim_end (trim_start s)"

definition starts_with :: "string \<Rightarrow> string \<Rightarrow> bool" where
  "starts_with s p = prefix p s"

definition ends_with :: "string \<Rightarrow> string \<Rightarrow> bool" where
  "ends_with s p = suffix p s"

text \<open>\<open>s.indexOf(p)\<close>: the least index at which \<open>p\<close> occurs, \<open>None\<close> for \<open>-1\<close>.\<close>

fun index_of :: "string \<Rightarrow> string \<Rightarrow> nat option" where
  "index_of p [] = (if p = [] then Some 0 else None)"
| "index_of p (c # s) = (if prefix p (c # s) then Some 0 else map_option Suc (index_of p s))"

definition str_includes :: "string \<Rightarrow> string \<Rightarrow> bool" where
  "str_includes s p \<longleftrightarrow> index_of p s \<noteq> None"

text \<open>\<open>s.split(c)\<close> for a one-character separator, and \<open>xs.join(sep)\<close>.\<close>

fun split_on :: "char \<Rightarrow> string \<Rightarrow> string list" where
  "split_on d [] = [[]]"
| "split_on d (c # s) =
     (if c = d then [] # split_on d s
      else case split_on d s of [] \<Rightarrow> [[c]] | w # ws \<Rightarrow> (c # w) # ws)"

fun join :: "string \<Rightarrow> string list \<Rightarrow> string" where
  "join sep [] = []"
| "join sep [w] = w"
| "join sep (w # v # ws) = w @ sep @ join sep (v # ws)"

text \<open>\<open>s.replace(/c/g, r)\<close> for a single character.\<close>

definition replace_char :: "char \<Rightarrow> string \<Rightarrow> string \<Rightarrow> string" where
  "replace_char c r s = concat (map (\<lambda>d. if d = c then r else [d]) s)"

text \<open>\<open>String(n)\<close> for a non-negative integer, and for an integer.\<close>

fun nat_str :: "nat \<Rightarrow> string" where
  "nat_str n = (if n < 10 then [char_of (48 + n)] else nat_str (n div 10) @ [char_of (48 + n mod 10)])"

declare nat_str.simps [simp del]

definition int_str :: "int \<Rightarrow> string" where
  "int_str i = (if i < 0 then ''-'' @ nat_str (nat (- i)) else nat_str (nat i))"

lemma index_of_Some: "index_of p s = Some i \<Longrightarrow> i \<le> length s \<and> prefix p (drop i s)"
  by (induction p s arbitrary: i rule: index_of.induct) (auto split: if_splits)

lemma index_of_None: "index_of p s = None \<Longrightarrow> i \<le> length s \<Longrightarrow> \<not> prefix p (drop i s)"
proof (induction p s arbitrary: i rule: index_of.induct)
  case (1 p)
  then show ?case by (auto split: if_splits)
next
  case (2 p c s)
  then show ?case by (cases i) (auto split: if_splits)
qed

lemma str_includes_iff: "str_includes s p \<longleftrightarrow> (\<exists>xs ys. s = xs @ p @ ys)"
proof
  assume "str_includes s p"
  then obtain i where "index_of p s = Some i" by (auto simp: str_includes_def)
  then obtain ys where "drop i s = p @ ys"
    using index_of_Some by (force simp: prefix_def)
  then have "s = take i s @ p @ ys" by (metis append_take_drop_id)
  then show "\<exists>xs ys. s = xs @ p @ ys" by blast
next
  assume "\<exists>xs ys. s = xs @ p @ ys"
  then obtain xs ys where s: "s = xs @ p @ ys" by blast
  then have "prefix p (drop (length xs) s)" by simp
  moreover have "length xs \<le> length s" using s by simp
  ultimately show "str_includes s p" using index_of_None by (fastforce simp: str_includes_def)
qed

lemma trim_end_no_ws: "trim_end s = [] \<or> \<not> js_ws (last (trim_end s))"
proof -
  have "dropWhile js_ws (rev s) = [] \<or> \<not> js_ws (hd (dropWhile js_ws (rev s)))"
    using hd_dropWhile by blast
  then show ?thesis by (simp add: trim_end_def last_rev)
qed

lemma trim_end_split: "\<exists>w. s = trim_end s @ w \<and> list_all js_ws w"
proof -
  let ?w = "rev (takeWhile js_ws (rev s))"
  have "rev s = takeWhile js_ws (rev s) @ dropWhile js_ws (rev s)" by simp
  then have "s = trim_end s @ ?w"
    unfolding trim_end_def by (metis rev_append rev_rev_ident)
  moreover have "list_all js_ws ?w" by (auto simp: list_all_iff dest: set_takeWhileD)
  ultimately show ?thesis by blast
qed

lemma trim_start_split: "\<exists>w. s = w @ trim_start s \<and> list_all js_ws w"
  unfolding trim_start_def
  by (rule exI [of _ "takeWhile js_ws s"]) (auto simp: list_all_iff dest: set_takeWhileD)

lemma trim_split: "\<exists>u w. s = u @ trim s @ w \<and> list_all js_ws u \<and> list_all js_ws w"
proof -
  obtain u where u: "s = u @ trim_start s" "list_all js_ws u" using trim_start_split by blast
  obtain w where w: "trim_start s = trim s @ w" "list_all js_ws w"
    unfolding trim_def using trim_end_split by blast
  from u(1) w(1) have "s = u @ trim s @ w" by simp
  with u(2) w(2) show ?thesis by blast
qed

lemma dropWhile_id: "xs = [] \<or> \<not> P (hd xs) \<Longrightarrow> dropWhile P xs = xs"
  by (cases xs) auto

lemma dropWhile_all_append: "list_all P w \<Longrightarrow> dropWhile P (w @ s) = dropWhile P s"
  by (induction w) auto

lemma dropWhile_all: "list_all P w \<Longrightarrow> dropWhile P w = []"
  by (induction w) auto

lemma list_all_rev: "list_all P (rev w) = list_all P w"
  by (simp add: list_all_iff)

lemma trim_start_ws_append [js_str]: "list_all js_ws w \<Longrightarrow> trim_start (w @ s) = trim_start s"
  by (simp add: trim_start_def dropWhile_all_append)

lemma trim_end_ws_append [js_str]: "list_all js_ws w \<Longrightarrow> trim_end (s @ w) = trim_end s"
  by (simp add: trim_end_def dropWhile_all_append list_all_rev)

lemma trim_end_id: "s = [] \<or> \<not> js_ws (last s) \<Longrightarrow> trim_end s = s"
  by (auto simp: trim_end_def hd_rev dropWhile_id)

lemma trim_hd: "trim s = [] \<or> \<not> js_ws (hd (trim s))"
proof (cases "trim s = []")
  case False
  obtain w where w: "trim_start s = trim s @ w" unfolding trim_def using trim_end_split by blast
  then have "hd (trim_start s) = hd (trim s)" "trim_start s \<noteq> []" using False by auto
  then show ?thesis by (metis hd_dropWhile trim_start_def)
qed simp

lemma trim_last: "trim s = [] \<or> \<not> js_ws (last (trim s))"
  unfolding trim_def by (rule trim_end_no_ws)

lemma trim_id: "s = [] \<or> (\<not> js_ws (hd s) \<and> \<not> js_ws (last s)) \<Longrightarrow> trim s = s"
  by (auto simp: trim_def trim_start_def dropWhile_id trim_end_id)

lemma trim_trim [simp]: "trim (trim s) = trim s"
  using trim_hd [of s] trim_last [of s] by (intro trim_id) auto

lemma trim_start_trim_end_commute: "trim_start (trim_end s) = trim s"
proof (cases "list_all js_ws s")
  case True
  then have "trim_end s = []" "trim_start s = []"
    by (auto simp: trim_end_def trim_start_def dropWhile_all list_all_rev)
  moreover have "trim_end [] = []" "trim_start [] = []" by (simp_all add: trim_start_def trim_end_def)
  ultimately show ?thesis by (simp only: trim_def)
next
  case False
  obtain w where w: "s = trim_end s @ w" "list_all js_ws w" using trim_end_split by blast
  have "\<not> list_all js_ws (trim_end s @ w)" using False w(1) by simp
  then have "\<not> list_all js_ws (trim_end s)" using w(2) by (simp only: list_all_append) simp
  then obtain x where x: "x \<in> set (trim_end s)" "\<not> js_ws x" by (auto simp: list_all_iff)
  have "trim_start (trim_end s @ w) = trim_start (trim_end s) @ w"
    unfolding trim_start_def by (rule dropWhile_append1 [where P = js_ws, OF x])
  then have st: "trim_start s = trim_start (trim_end s) @ w" by (simp only: w(1) [symmetric])
  have ne: "trim_start (trim_end s) \<noteq> []" using x by (auto simp: trim_start_def)
  have "trim_end s \<noteq> []" using x by auto
  then have "\<not> js_ws (last (trim_end s))" using trim_end_no_ws by blast
  moreover obtain u where u: "trim_end s = u @ trim_start (trim_end s)" using trim_start_split by blast
  then have "last (trim_end s) = last (u @ trim_start (trim_end s))" by simp
  ultimately have "\<not> js_ws (last (trim_start (trim_end s)))" using ne by simp
  then show ?thesis by (simp only: trim_def st trim_end_ws_append [OF w(2)]) (simp add: trim_end_id)
qed

lemma trim_ws_append_left [js_str]: "list_all js_ws w \<Longrightarrow> trim (w @ s) = trim s"
  by (simp add: trim_def trim_start_ws_append)

lemma trim_ws_append_right [js_str]: "list_all js_ws w \<Longrightarrow> trim (s @ w) = trim s"
  by (simp only: trim_start_trim_end_commute [symmetric] trim_end_ws_append)

lemma split_on_nonempty [simp]: "split_on d s \<noteq> []"
  by (induction s) (auto split: list.splits)

lemma join_split_on [simp]: "join [d] (split_on d s) = s"
proof (induction s)
  case Nil
  then show ?case by simp
next
  case (Cons c s)
  obtain w ws where "split_on d s = w # ws" using split_on_nonempty by (meson list.exhaust)
  then show ?case using Cons by (cases ws) auto
qed

lemma split_on_no_sep: "w \<in> set (split_on d s) \<Longrightarrow> d \<notin> set w"
  by (induction s arbitrary: w) (auto split: if_splits list.splits)

lemma split_on_append_sep: "d \<notin> set w \<Longrightarrow> split_on d (w @ d # s) = w # split_on d s"
  by (induction w) auto

lemma split_on_no_occ: "d \<notin> set w \<Longrightarrow> split_on d w = [w]"
  by (induction w) auto

lemma split_on_join:
  "ws \<noteq> [] \<Longrightarrow> (\<And>w. w \<in> set ws \<Longrightarrow> d \<notin> set w) \<Longrightarrow> split_on d (join [d] ws) = ws"
  by (induction "[d]" ws rule: join.induct) (auto simp: split_on_append_sep split_on_no_occ)

lemma join_append:
  "xs \<noteq> [] \<Longrightarrow> ys \<noteq> [] \<Longrightarrow> join sep (xs @ ys) = join sep xs @ sep @ join sep ys"
proof (induction sep xs rule: join.induct)
  case (2 sep w)
  then show ?case by (cases ys) auto
qed auto

lemma join_Cons: "xs \<noteq> [] \<Longrightarrow> join sep (w # xs) = w @ sep @ join sep xs"
  by (cases xs) auto

lemma set_join: "set (join sep ws) \<subseteq> set sep \<union> (\<Union>w\<in>set ws. set w)"
  by (induction sep ws rule: join.induct) auto

lemma of_char_digit: "(d :: nat) < 10 \<Longrightarrow> is_digit (char_of (48 + d))"
  by (simp add: is_digit_def code_unit_def)

lemma nat_str_digits: "list_all is_digit (nat_str n)"
proof (induction n rule: nat_str.induct)
  case (1 n)
  then show ?case by (subst nat_str.simps) (auto simp: of_char_digit)
qed

lemma nat_str_nonempty [simp]: "nat_str n \<noteq> []"
  by (subst nat_str.simps) simp

lemma nat_str_val: "foldl (\<lambda>a c. 10 * a + (of_char c - 48)) 0 (nat_str n) = (n :: nat)"
proof (induction n rule: nat_str.induct)
  case (1 n)
  then show ?case by (subst nat_str.simps) (auto simp: of_char_of)
qed

lemma nat_str_inj: "nat_str m = nat_str n \<Longrightarrow> m = n"
  by (metis nat_str_val)

lemma nat_str_head: "\<exists>c s. nat_str n = c # s \<and> is_digit c"
  using nat_str_digits [of n] nat_str_nonempty [of n] by (cases "nat_str n") auto

section \<open>Evaluation of the character classes\<close>

text \<open>The classes and the case mapping on the bits of a character, for fast evaluation.\<close>

lemma code_unit_Char:
  "code_unit (Char b0 b1 b2 b3 b4 b5 b6 b7) =
     of_bool b0 + 2 * of_bool b1 + 4 * of_bool b2 + 8 * of_bool b3 + 16 * of_bool b4
     + 32 * of_bool b5 + 64 * of_bool b6 + 128 * of_bool b7"
  by (simp add: code_unit_def of_char_Char)

lemma is_upper_code [code]:
  "is_upper (Char b0 b1 b2 b3 b4 b5 b6 b7) \<longleftrightarrow>
     \<not> b7 \<and> b6 \<and> \<not> b5 \<and> (b0 \<or> b1 \<or> b2 \<or> b3 \<or> b4) \<and> \<not> (b4 \<and> b3 \<and> (b2 \<or> b1 \<and> b0))"
  unfolding is_upper_def code_unit_Char
  by (cases b7; cases b6; cases b5; cases b4; cases b3; cases b2; cases b1; cases b0) simp_all

lemma is_lower_code [code]:
  "is_lower (Char b0 b1 b2 b3 b4 b5 b6 b7) \<longleftrightarrow>
     \<not> b7 \<and> b6 \<and> b5 \<and> (b0 \<or> b1 \<or> b2 \<or> b3 \<or> b4) \<and> \<not> (b4 \<and> b3 \<and> (b2 \<or> b1 \<and> b0))"
  unfolding is_lower_def code_unit_Char
  by (cases b7; cases b6; cases b5; cases b4; cases b3; cases b2; cases b1; cases b0) simp_all

lemma is_digit_code [code]:
  "is_digit (Char b0 b1 b2 b3 b4 b5 b6 b7) \<longleftrightarrow> \<not> b7 \<and> \<not> b6 \<and> b5 \<and> b4 \<and> \<not> (b3 \<and> (b2 \<or> b1))"
  unfolding is_digit_def code_unit_Char
  by (cases b7; cases b6; cases b5; cases b4; cases b3; cases b2; cases b1; cases b0) simp_all

lemma upper_char_code [code]:
  "upper_char (Char b0 b1 b2 b3 b4 b5 b6 b7) =
     (if b6 \<and> b5 \<and>
         (if b7 then \<not> (b0 \<and> b1 \<and> b2 \<and> b4) else (b0 \<or> b1 \<or> b2 \<or> b3 \<or> b4) \<and> \<not> (b4 \<and> b3 \<and> (b2 \<or> b1 \<and> b0)))
      then Char b0 b1 b2 b3 b4 False b6 b7 else Char b0 b1 b2 b3 b4 b5 b6 b7)"
  unfolding upper_char_def code_unit_Char Let_def
  by (cases b7; cases b6; cases b5; cases b4; cases b3; cases b2; cases b1; cases b0)
    (simp_all add: char_of_def bit_simps)

lemma lower_char_code [code]:
  "lower_char (Char b0 b1 b2 b3 b4 b5 b6 b7) =
     (if b6 \<and> \<not> b5 \<and>
         (if b7 then \<not> (b0 \<and> b1 \<and> b2 \<and> b4) else (b0 \<or> b1 \<or> b2 \<or> b3 \<or> b4) \<and> \<not> (b4 \<and> b3 \<and> (b2 \<or> b1 \<and> b0)))
      then Char b0 b1 b2 b3 b4 True b6 b7 else Char b0 b1 b2 b3 b4 b5 b6 b7)"
  unfolding lower_char_def code_unit_Char Let_def
  by (cases b7; cases b6; cases b5; cases b4; cases b3; cases b2; cases b1; cases b0)
    (simp_all add: char_of_def bit_simps)

end
