(* ===== verification/JsRegex.thy ===== *)
theory JsRegex
  imports Prelude
begin

text \<open>
  The regular expressions of the language, for the constructs the program uses.  A pattern is a
  term of \<open>re\<close>; the matcher is the backtracking matcher of the language: it lists the end states
  of all matches in priority order (greedy before lazy, left alternative first, an iteration of a
  star must consume), so the head of the list is the match the program sees.  A state is the text
  before the position (reversed), the text after it, and the captures.

  \<open>Bol\<close>/\<open>Eol\<close> are \<open>^\<close>/\<open>$\<close> without the flag \<open>m\<close>, \<open>MBol\<close>/\<open>MEol\<close> with it.  Patterns with the
  flag \<open>i\<close> are written with case-closed character classes (\<open>lit_ci\<close>).
\<close>

datatype re =
    Eps
  | Cls "char \<Rightarrow> bool"
  | Seq re re
  | Alt re re
  | Star re
  | LStar re
  | Bol | Eol | MBol | MEol | WordB
  | Grp nat re

type_synonym mstate = "string \<times> string \<times> (nat \<times> string) list"

abbreviation st_rest :: "mstate \<Rightarrow> string" where
  "st_rest s \<equiv> fst (snd s)"

definition line_term :: "char \<Rightarrow> bool" where
  "line_term c \<longleftrightarrow> c = CHR 0x0A \<or> c = CHR 0x0D"

definition word_at :: "string \<Rightarrow> bool" where
  "word_at s = (case s of [] \<Rightarrow> False | c # _ \<Rightarrow> is_word c)"

function (sequential) re_match :: "re \<Rightarrow> mstate \<Rightarrow> mstate list" where
  "re_match Eps s = [s]"
| "re_match (Cls P) (l, r, cs) =
     (case r of [] \<Rightarrow> [] | c # r' \<Rightarrow> if P c then [(c # l, r', cs)] else [])"
| "re_match (Seq a b) s = concat (map (re_match b) (re_match a s))"
| "re_match (Alt a b) s = re_match a s @ re_match b s"
| "re_match (Star a) s =
     concat (map (\<lambda>t. if length (st_rest t) < length (st_rest s) then re_match (Star a) t else [])
       (re_match a s)) @ [s]"
| "re_match (LStar a) s =
     s # concat (map (\<lambda>t. if length (st_rest t) < length (st_rest s) then re_match (LStar a) t else [])
       (re_match a s))"
| "re_match Bol (l, r, cs) = (if l = [] then [(l, r, cs)] else [])"
| "re_match Eol (l, r, cs) = (if r = [] then [(l, r, cs)] else [])"
| "re_match MBol (l, r, cs) = (if l = [] \<or> line_term (hd l) then [(l, r, cs)] else [])"
| "re_match MEol (l, r, cs) = (if r = [] \<or> line_term (hd r) then [(l, r, cs)] else [])"
| "re_match WordB (l, r, cs) = (if word_at l \<noteq> word_at r then [(l, r, cs)] else [])"
| "re_match (Grp n a) (l, r, cs) =
     map (\<lambda>(l', r', cs'). (l', r', (n, rev (take (length l' - length l) l')) # cs'))
       (re_match a (l, r, cs))"
  by pat_completeness auto
termination
  by (relation "measures [\<lambda>(e, s). size e, \<lambda>(e, s). length (st_rest s)]") auto

declare re_match.simps(5,6) [simp del]

lemma re_match_Star_set:
  "t \<in> set (re_match (Star a) s) \<longleftrightarrow>
     t = s \<or> (\<exists>v \<in> set (re_match a s). length (st_rest v) < length (st_rest s)
       \<and> t \<in> set (re_match (Star a) v))"
  by (subst re_match.simps) auto

lemma re_match_LStar_set:
  "t \<in> set (re_match (LStar a) s) \<longleftrightarrow>
     t = s \<or> (\<exists>v \<in> set (re_match a s). length (st_rest v) < length (st_rest s)
       \<and> t \<in> set (re_match (LStar a) v))"
  by (subst re_match.simps) auto

subsection \<open>Patterns\<close>

definition chr :: "char \<Rightarrow> re" where
  "chr c = Cls (\<lambda>d. d = c)"

definition chr_ci :: "char \<Rightarrow> re" where
  "chr_ci c = Cls (\<lambda>d. lower_char d = lower_char c)"

fun re_seq :: "re list \<Rightarrow> re" where
  "re_seq [] = Eps"
| "re_seq [a] = a"
| "re_seq (a # as) = Seq a (re_seq as)"

fun re_alt :: "re list \<Rightarrow> re" where
  "re_alt [] = Cls (\<lambda>_. False)"
| "re_alt [a] = a"
| "re_alt (a # as) = Alt a (re_alt as)"

definition lit :: "string \<Rightarrow> re" where
  "lit s = re_seq (map chr s)"

definition lit_ci :: "string \<Rightarrow> re" where
  "lit_ci s = re_seq (map chr_ci s)"

definition opt :: "re \<Rightarrow> re" where
  "opt a = Alt a Eps"

definition plus1 :: "re \<Rightarrow> re" where
  "plus1 a = Seq a (Star a)"

definition ws0 :: re where "ws0 = Star (Cls js_ws)"
definition ws1 :: re where "ws1 = plus1 (Cls js_ws)"
definition any_char :: re where "any_char = Cls (\<lambda>_. True)"
definition dot :: re where "dot = Cls (\<lambda>c. \<not> line_term c)"

lemmas re_defs = chr_def chr_ci_def lit_def lit_ci_def opt_def plus1_def ws0_def ws1_def
  any_char_def dot_def

subsection \<open>test, exec and replace\<close>

fun re_exec_at :: "re \<Rightarrow> string \<Rightarrow> string \<Rightarrow> (string \<times> mstate) option" where
  "re_exec_at e l r =
     (case re_match e (l, r, []) of
        t # _ \<Rightarrow> Some (l, t)
      | [] \<Rightarrow> (case r of [] \<Rightarrow> None | c # r' \<Rightarrow> re_exec_at e (c # l) r'))"

declare re_exec_at.simps [simp del]

text \<open>\<open>e.exec(s)\<close>: the text before the match (reversed) and the end state; \<open>e.test(s)\<close>.\<close>

definition re_exec :: "re \<Rightarrow> string \<Rightarrow> (string \<times> mstate) option" where
  "re_exec e s = re_exec_at e [] s"

definition re_test :: "re \<Rightarrow> string \<Rightarrow> bool" where
  "re_test e s \<longleftrightarrow> re_exec e s \<noteq> None"

definition matched :: "string \<Rightarrow> mstate \<Rightarrow> string" where
  "matched l t = rev (take (length (fst t) - length l) (fst t))"

definition capture :: "nat \<Rightarrow> mstate \<Rightarrow> string option" where
  "capture n t = map_of (snd (snd t)) n"

text \<open>
  \<open>s.replace(e, f)\<close> with the flag \<open>g\<close>: matches are replaced left to right; after an empty match
  one character is copied.  \<open>f\<close> gets the matched text and the end state (for the captures).
\<close>

function re_replace_at :: "re \<Rightarrow> (string \<Rightarrow> mstate \<Rightarrow> string) \<Rightarrow> string \<Rightarrow> string \<Rightarrow> string" where
  "re_replace_at e f l r =
     (case re_match e (l, r, []) of
        t # _ \<Rightarrow>
          (if length (st_rest t) < length r
           then f (matched l t) t @ re_replace_at e f (fst t) (st_rest t)
           else f (matched l t) t @ (case r of [] \<Rightarrow> [] | c # r' \<Rightarrow> c # re_replace_at e f (c # l) r'))
      | [] \<Rightarrow> (case r of [] \<Rightarrow> [] | c # r' \<Rightarrow> c # re_replace_at e f (c # l) r'))"
  by pat_completeness auto
termination
  by (relation "measure (\<lambda>(e, f, l, r). length r)") auto

declare re_replace_at.simps [simp del]

definition re_replace_all :: "re \<Rightarrow> (string \<Rightarrow> mstate \<Rightarrow> string) \<Rightarrow> string \<Rightarrow> string" where
  "re_replace_all e f s = re_replace_at e f [] s"

definition re_remove_all :: "re \<Rightarrow> string \<Rightarrow> string" where
  "re_remove_all e s = re_replace_all e (\<lambda>_ _. []) s"

text \<open>\<open>s.replace(e, x)\<close> without the flag \<open>g\<close>: the first match only.\<close>

definition re_replace_first :: "re \<Rightarrow> string \<Rightarrow> string \<Rightarrow> string" where
  "re_replace_first e x s =
     (case re_exec e s of None \<Rightarrow> s | Some (l, t) \<Rightarrow> rev l @ x @ st_rest t)"

subsection \<open>What a match is\<close>

text \<open>A match consumes a piece of the text, at least as long as the pattern's shortest word.\<close>

fun min_len :: "re \<Rightarrow> nat" where
  "min_len (Cls P) = 1"
| "min_len (Seq a b) = min_len a + min_len b"
| "min_len (Alt a b) = min (min_len a) (min_len b)"
| "min_len (Grp n a) = min_len a"
| "min_len _ = 0"

definition consumes :: "nat \<Rightarrow> mstate \<Rightarrow> mstate \<Rightarrow> bool" where
  "consumes k s t \<longleftrightarrow> (\<exists>u. fst t = rev u @ fst s \<and> st_rest s = u @ st_rest t \<and> k \<le> length u)"

lemma consumes_refl [simp]: "consumes 0 s s"
  by (simp add: consumes_def)

lemma consumes_trans: "consumes j s t \<Longrightarrow> consumes k t u \<Longrightarrow> consumes (j + k) s u"
  unfolding consumes_def by (elim exE, rename_tac v w) (rule_tac x = "v @ w" in exI, auto)

lemma consumes_mono: "consumes k s t \<Longrightarrow> j \<le> k \<Longrightarrow> consumes j s t"
  by (auto simp: consumes_def)

lemma re_match_consumes: "t \<in> set (re_match e s) \<Longrightarrow> consumes (min_len e) s t"
proof (induction e s arbitrary: t rule: re_match.induct)
  case (2 P l r cs)
  then show ?case by (auto simp: consumes_def split: list.splits if_splits)
next
  case (3 a b s)
  from 3(3) obtain v where v: "v \<in> set (re_match a s)" "t \<in> set (re_match b v)" by auto
  show ?case using consumes_trans [OF 3(1) [OF v(1)] 3(2) [OF v]] by simp
next
  case (4 a b s)
  from 4(3) have "t \<in> set (re_match a s) \<or> t \<in> set (re_match b s)" by simp
  then have "consumes (min_len a) s t \<or> consumes (min_len b) s t" using 4(1,2) by blast
  then show ?case
    using consumes_mono [of "min_len a" s t "min_len (Alt a b)"]
      consumes_mono [of "min_len b" s t "min_len (Alt a b)"] by auto
next
  case (5 a s)
  show ?case
  proof (cases "t = s")
    case False
    with 5(3) obtain v where v: "v \<in> set (re_match a s)" "length (st_rest v) < length (st_rest s)"
        "t \<in> set (re_match (Star a) v)" using re_match_Star_set [of t a s] by blast
    have "consumes 0 s v" using 5(1) [OF v(1)] by (rule consumes_mono) simp
    moreover have "consumes 0 v t" using 5(2) [OF v] by simp
    ultimately show ?thesis using consumes_trans [of 0 s v 0 t] by simp
  qed simp
next
  case (6 a s)
  show ?case
  proof (cases "t = s")
    case False
    with 6(3) obtain v where v: "v \<in> set (re_match a s)" "length (st_rest v) < length (st_rest s)"
        "t \<in> set (re_match (LStar a) v)" using re_match_LStar_set [of t a s] by blast
    have "consumes 0 s v" using 6(1) [OF v(1)] by (rule consumes_mono) simp
    moreover have "consumes 0 v t" using 6(2) [OF v] by simp
    ultimately show ?thesis using consumes_trans [of 0 s v 0 t] by simp
  qed simp
next
  case (12 n a l r cs)
  then obtain u where u: "u \<in> set (re_match a (l, r, cs))" "fst t = fst u" "st_rest t = st_rest u"
    by auto
  show ?case using 12(1) [OF u(1)] u(2,3) by (simp add: consumes_def)
qed (auto split: if_splits)

lemma re_exec_at_consumes:
  "re_exec_at e l r = Some (l', t) \<Longrightarrow>
     \<exists>u v. r = u @ v \<and> l' = rev u @ l \<and> t \<in> set (re_match e (l', v, []))"
proof (induction r arbitrary: l)
  case Nil
  then show ?case
    by (subst (asm) re_exec_at.simps) (auto split: list.splits intro: list.set_intros)
next
  case (Cons c r)
  show ?case
  proof (cases "re_match e (l, c # r, [])")
    case Nil
    with Cons.prems have "re_exec_at e (c # l) r = Some (l', t)"
      by (subst (asm) re_exec_at.simps) simp
    from Cons.IH [OF this] show ?thesis by (metis append_Cons append_assoc append_Nil rev.simps(2))
  next
    case (Cons m ms)
    with Cons.prems have "l' = l \<and> t = m" by (subst (asm) re_exec_at.simps) simp
    with Cons show ?thesis by (intro exI [of _ "[]"] exI [of _ "c # r"]) auto
  qed
qed

text \<open>The matched text is a piece of the subject, at the position of the match.\<close>

lemma re_exec_matched:
  assumes "re_exec e s = Some (l, t)"
  shows "\<exists>u. s = rev l @ u @ st_rest t \<and> matched l t = u \<and> min_len e \<le> length u"
proof -
  obtain u v where *: "s = u @ v" "l = rev u" "t \<in> set (re_match e (l, v, []))"
    using re_exec_at_consumes [OF assms [unfolded re_exec_def]] by auto
  from re_match_consumes [OF *(3)] obtain w where
    w: "fst t = rev w @ l" "v = w @ st_rest t" "min_len e \<le> length w"
    by (auto simp: consumes_def)
  have "matched l t = w" by (simp add: matched_def w(1))
  with * w show ?thesis by (intro exI [of _ w]) simp
qed

subsection \<open>Runs of a character class\<close>

text \<open>\<open>[..]*\<close> matches every prefix of the maximal run, the longest first.\<close>

definition run_states :: "(char \<Rightarrow> bool) \<Rightarrow> mstate \<Rightarrow> mstate list" where
  "run_states P s = (case s of (l, r, cs) \<Rightarrow>
     map (\<lambda>k. (rev (take k r) @ l, drop k r, cs)) (rev [0..<Suc (length (takeWhile P r))]))"

lemma re_match_Star_Cls: "re_match (Star (Cls P)) (l, r, cs) = run_states P (l, r, cs)"
proof (induction r arbitrary: l)
  case Nil
  then show ?case by (subst re_match.simps) (simp add: run_states_def)
next
  case (Cons c r)
  show ?case
  proof (cases "P c")
    case True
    have "re_match (Star (Cls P)) (l, c # r, cs) = run_states P (c # l, r, cs) @ [(l, c # r, cs)]"
      using True Cons.IH [of "c # l"] by (subst re_match.simps) simp
    also have "\<dots> = run_states P (l, c # r, cs)"
    proof -
      have "[0..<Suc (Suc n)] = 0 # map Suc [0..<Suc n]" for n
        by (simp only: map_Suc_upt) (simp add: upt_conv_Cons)
      then have "rev [0..<Suc (Suc n)] = map Suc (rev [0..<Suc n]) @ [0]" for n
        by (simp only: rev.simps rev_map)
      then show ?thesis using True by (simp add: run_states_def del: upt_Suc)
    qed
    finally show ?thesis .
  next
    case False
    then show ?thesis by (subst re_match.simps) (simp add: run_states_def)
  qed
qed

end
