(* ===== verification/SqlSplitter.thy ===== *)
theory SqlSplitter
  imports JsRegex
begin

text \<open>
  \<open>src/migrations/sql-splitter.ts\<close>: patch files split into transactional and non-transactional
  segments, SQL text split into statements, transaction control stripped.  The index loops of the
  source are recursions over the unread suffix (\<open>sql.slice(i)\<close>); each equation is one branch of
  the loop body.
\<close>

subsection \<open>parsePatchSegments\<close>

datatype seg_kind = Tx | NoTx

record patch_segment =
  seg_kind :: seg_kind
  seg_sql :: string

definition pragma_re :: re where
  "pragma_re = re_seq [MBol, ws0, lit ''--'', ws0, lit ''pb:no-transaction'', ws0, MEol]"

definition has_markers_re :: re where
  "has_markers_re = re_seq [lit ''--'', ws0, lit ''pb:begin-no-transaction'']"

definition begin_marker_re :: re where
  "begin_marker_re = re_seq [Bol, ws0, lit ''--'', ws0, lit ''pb:begin-no-transaction'', ws0, Eol]"

definition end_marker_re :: re where
  "end_marker_re = re_seq [Bol, ws0, lit ''--'', ws0, lit ''pb:end-no-transaction'', ws0, Eol]"

definition flush_seg :: "string list \<Rightarrow> seg_kind \<Rightarrow> patch_segment list" where
  "flush_seg cur kind =
     (let sql = trim (join [CHR 0x0A] cur)
      in if sql \<noteq> [] then [\<lparr>seg_kind = kind, seg_sql = sql\<rparr>] else [])"

fun seg_loop :: "string list \<Rightarrow> string list \<Rightarrow> seg_kind \<Rightarrow> patch_segment list" where
  "seg_loop [] cur kind = flush_seg cur kind"
| "seg_loop (line # lines) cur kind =
     (if re_test begin_marker_re line then flush_seg cur kind @ seg_loop lines [] NoTx
      else if re_test end_marker_re line then flush_seg cur kind @ seg_loop lines [] Tx
      else seg_loop lines (cur @ [line]) kind)"

definition parsePatchSegments :: "string \<Rightarrow> patch_segment list" where
  "parsePatchSegments raw =
     (let pragma = re_test pragma_re raw;
          hasMarkers = re_test has_markers_re raw
      in if pragma \<and> \<not> hasMarkers then [\<lparr>seg_kind = NoTx, seg_sql = raw\<rparr>]
         else if \<not> hasMarkers then [\<lparr>seg_kind = Tx, seg_sql = raw\<rparr>]
         else seg_loop (split_on (CHR 0x0A) raw) [] Tx)"

subsection \<open>isTxControlStatement\<close>

text \<open>\<open>/--[^\n]*/g\<close> and \<open>/\/\*[\s\S]*?\*\//g\<close>.\<close>

definition line_comment_re :: re where
  "line_comment_re = re_seq [lit ''--'', Star (Cls (\<lambda>c. c \<noteq> CHR 0x0A))]"

definition block_comment_re :: re where
  "block_comment_re = re_seq [lit ''/*'', LStar any_char, lit ''*/'']"

definition TX_CONTROL_RE :: re where
  "TX_CONTROL_RE = re_seq [Bol, ws0,
     re_alt [lit_ci ''BEGIN'', re_seq [lit_ci ''START'', ws1, lit_ci ''TRANSACTION''],
             lit_ci ''COMMIT'', lit_ci ''END'', lit_ci ''ROLLBACK'', lit_ci ''ABORT''],
     opt (re_seq [ws1, re_alt [lit_ci ''WORK'', lit_ci ''TRANSACTION'',
            re_seq [lit_ci ''AND'', ws1, opt (re_seq [lit_ci ''NO'', ws1]), lit_ci ''CHAIN'']]]),
     ws0, opt (lit '';''), ws0, Eol]"

definition strip_comments :: "string \<Rightarrow> string" where
  "strip_comments s = trim (re_remove_all block_comment_re (re_remove_all line_comment_re s))"

definition isTxControlStatement :: "string \<Rightarrow> bool" where
  "isTxControlStatement stmt = re_test TX_CONTROL_RE (strip_comments stmt)"

subsection \<open>splitSqlStatements\<close>

text \<open>The filter of \<open>flush\<close>: blank and comment-only statements are dropped.\<close>

definition only_comments_re :: re where
  "only_comments_re = re_seq [Bol,
     Star (re_alt [re_seq [lit ''--'', Star (Cls (\<lambda>c. c \<noteq> CHR 0x0A)), opt (chr (CHR 0x0A))],
                   Cls js_ws]),
     Eol]"

definition code_char_re :: re where
  "code_char_re = Cls (\<lambda>c. c \<noteq> CHR ''-'' \<and> \<not> js_ws c)"

definition keep_stmt :: "string \<Rightarrow> bool" where
  "keep_stmt s \<longleftrightarrow>
     s \<noteq> [] \<and> \<not> re_test only_comments_re s
     \<and> re_test code_char_re (re_remove_all line_comment_re s)
     \<and> strip_comments s \<noteq> []"

definition flush_stmt :: "string \<Rightarrow> string list" where
  "flush_stmt cur = (let s = trim cur in if keep_stmt s then [s] else [])"

text \<open>\<open>sql.slice(0, e)\<close> and \<open>sql.slice(e)\<close> for the first occurrence of \<open>p\<close> at or after \<open>from\<close>, its
  end included; the whole text and nothing when there is none.\<close>

definition cut_after :: "string \<Rightarrow> nat \<Rightarrow> string \<Rightarrow> string \<times> string" where
  "cut_after p from s =
     (case index_of p (drop from s) of
        None \<Rightarrow> (s, [])
      | Some e \<Rightarrow> (take (from + e + length p) s, drop (from + e + length p) s))"

text \<open>The number of characters the inner loop scans before the closing quote (\<open>j - (i + 1)\<close>).\<close>

fun quote_scan :: "char \<Rightarrow> string \<Rightarrow> nat" where
  "quote_scan q [] = 0"
| "quote_scan q [c] = (if c = q then 0 else 1)"
| "quote_scan q (c # d # r) =
     (if c = q then (if d = q then 2 + quote_scan q r else 0) else Suc (quote_scan q (d # r)))"

text \<open>\<open>/^\$([a-zA-Z_][a-zA-Z0-9_]*)?\$/\<close>: the matched tag.\<close>

definition dollar_tag_re :: re where
  "dollar_tag_re = re_seq [Bol, chr (CHR ''$''),
     opt (re_seq [Cls is_ident_start, Star (Cls is_word)]), chr (CHR ''$'')]"

definition dollar_tag :: "string \<Rightarrow> string option" where
  "dollar_tag s = map_option (\<lambda>(l, t). matched l t) (re_exec dollar_tag_re s)"

lemma dollar_tag_prefix:
  assumes "dollar_tag s = Some tag"
  shows "prefix tag s \<and> 2 \<le> length tag"
proof -
  obtain l t where e: "re_exec dollar_tag_re s = Some (l, t)" and tag: "tag = matched l t"
    using assms by (auto simp: dollar_tag_def)
  from re_exec_matched [OF e] tag have s: "s = rev l @ tag @ st_rest t" "min_len dollar_tag_re \<le> length tag"
    by auto
  have "l = []"
    using e re_exec_at_consumes [of dollar_tag_re "[]" s l t]
    by (auto simp: re_exec_def dollar_tag_re_def chr_def split: if_splits)
  moreover have "min_len dollar_tag_re = 2" by (simp add: dollar_tag_re_def re_defs)
  ultimately show ?thesis using s by (auto simp: prefix_def)
qed

function split_loop :: "string \<Rightarrow> string \<Rightarrow> string list" where
  "split_loop cur sql =
     (case sql of
        [] \<Rightarrow> flush_stmt cur
      | ch # rest \<Rightarrow>
          if ch = CHR ''-'' \<and> starts_with rest ''-'' then
            split_loop cur (dropWhile (\<lambda>c. c \<noteq> CHR 0x0A) (ch # rest))
          else if ch = CHR ''/'' \<and> starts_with rest ''*'' then
            (let (tok, rest') = cut_after ''*/'' 2 (ch # rest) in split_loop (cur @ tok) rest')
          else if ch = CHR 0x27 \<or> ch = CHR ''\"'' then
            (let k = quote_scan ch rest + 2
             in split_loop (cur @ take k (ch # rest)) (drop k (ch # rest)))
          else if ch = CHR ''$'' then
            (case dollar_tag (ch # rest) of
               Some tag \<Rightarrow>
                 (let (tok, rest') = cut_after tag (length tag) (ch # rest)
                  in split_loop (cur @ tok) rest')
             | None \<Rightarrow> split_loop (cur @ [ch]) rest)
          else if ch = CHR '';'' then flush_stmt cur @ split_loop [] rest
          else split_loop (cur @ [ch]) rest)"
  by pat_completeness auto
termination
proof (relation "measure (\<lambda>(cur, sql). length sql)")
qed (auto simp: cut_after_def starts_with_def length_dropWhile_le less_Suc_eq_le
       intro: le_less_trans [OF length_dropWhile_le] split: option.splits dest!: dollar_tag_prefix)

declare split_loop.simps [simp del]

definition splitSqlStatements :: "string \<Rightarrow> string list" where
  "splitSqlStatements sql = split_loop [] sql"

definition stripTxControl :: "string \<Rightarrow> string" where
  "stripTxControl sql =
     join ('';'' @ [CHR 0x0A]) (filter (\<lambda>s. \<not> isTxControlStatement s) (splitSqlStatements sql))"

end
