(* ===== verification/SplitterFacts.thy ===== *)
theory SplitterFacts
  imports SqlSplitter
begin

text \<open>
  Facts about the statement splitter: the scanner as a token relation, stability of a token under
  a change of what follows it, and from these: splitting the joined statements gives the
  statements back, so text that went through \<open>stripTxControl\<close> has no transaction control left.
\<close>

subsection \<open>Dollar tags\<close>

definition next_char :: "string \<Rightarrow> char option" where
  "next_char s = (case s of [] \<Rightarrow> None | c # _ \<Rightarrow> Some c)"

definition after_word :: "string \<Rightarrow> char option" where
  "after_word s = next_char (dropWhile is_word s)"

definition tag_body_ok :: "string \<Rightarrow> bool" where
  "tag_body_ok w \<longleftrightarrow> w = [] \<or> is_ident_start (hd w)"

lemma dollar_not_word [simp]: "\<not> is_word (CHR ''$'')" "\<not> is_ident_start (CHR ''$'')"
  by (simp_all add: char_class_defs)

lemma ident_start_word: "is_ident_start c \<Longrightarrow> is_word c"
  by (auto simp: char_class_defs)

text \<open>The tag at a dollar sign: an identifier run (or nothing) followed by a second dollar sign.\<close>

lemma run_then_dollar:
  "concat (map (re_match (chr (CHR ''$''))) (run_states is_word (l, r, cs))) =
     (if after_word r = Some (CHR ''$'')
      then [(CHR ''$'' # rev (takeWhile is_word r) @ l, tl (dropWhile is_word r), cs)] else [])"
proof -
  let ?n = "length (takeWhile is_word r)"
  have at: "re_match (chr (CHR ''$'')) (rev (take k r) @ l, drop k r, cs) = []" if "k < ?n" for k
  proof -
    have "r ! k = takeWhile is_word r ! k" using that by (simp add: takeWhile_nth)
    then have "is_word (r ! k)" using that by (metis nth_mem set_takeWhileD)
    moreover have "k < length r" using that length_takeWhile_le [of is_word r] by linarith
    then have "drop k r = r ! k # drop (Suc k) r" by (simp add: Cons_nth_drop_Suc)
    ultimately show ?thesis by (auto simp: chr_def)
  qed
  have z: "concat (map (re_match (chr (CHR ''$'')))
      (map (\<lambda>k. (rev (take k r) @ l, drop k r, cs)) ks)) = []" if "\<forall>k \<in> set ks. k < ?n" for ks
    using that by (induction ks) (simp_all add: at)
  have d: "drop ?n r = dropWhile is_word r" "take ?n r = takeWhile is_word r"
    by (metis dropWhile_eq_drop) (metis takeWhile_eq_take)
  have "run_states is_word (l, r, cs) =
      (rev (takeWhile is_word r) @ l, dropWhile is_word r, cs) #
      map (\<lambda>k. (rev (take k r) @ l, drop k r, cs)) (rev [0..<?n])"
    by (simp add: run_states_def d)
  moreover have "re_match (chr (CHR ''$'')) (u, w, cs) =
     (if next_char w = Some (CHR ''$'') then [(CHR ''$'' # u, tl w, cs)] else [])" for u w
    by (cases w) (simp_all add: chr_def next_char_def)
  ultimately show ?thesis using z [of "rev [0..<?n]"] by (simp add: after_word_def)
qed

definition tag_spec :: "string \<Rightarrow> string option" where
  "tag_spec s = (case s of [] \<Rightarrow> None | c # r \<Rightarrow>
     (let w = takeWhile is_word r in
      if c = CHR ''$'' \<and> tag_body_ok w \<and> after_word r = Some (CHR ''$'')
      then Some ([CHR ''$''] @ w @ [CHR ''$'']) else None))"

lemma tag_match_at:
  "re_match dollar_tag_re ([], CHR ''$'' # r, []) =
     (if tag_body_ok (takeWhile is_word r) \<and> after_word r = Some (CHR ''$'')
      then [(CHR ''$'' # rev (takeWhile is_word r) @ [CHR ''$''], tl (dropWhile is_word r), [])] else [])"
proof (cases r)
  case Nil
  then show ?thesis
    by (simp add: dollar_tag_re_def opt_def chr_def tag_body_ok_def after_word_def next_char_def)
next
  case (Cons c r')
  show ?thesis
  proof (cases "is_ident_start c")
    case True
    have c: "c \<noteq> CHR ''$''" "is_word c" using True ident_start_word by auto
    have "re_match dollar_tag_re ([], CHR ''$'' # r, []) =
        concat (map (re_match (chr (CHR ''$''))) (run_states is_word ([c, CHR ''$''], r', [])))"
      using True c unfolding Cons dollar_tag_re_def opt_def
      by (simp add: chr_def re_match_Star_Cls)
    then show ?thesis
      using True c Cons by (simp add: run_then_dollar tag_body_ok_def after_word_def)
  next
    case False
    have w: "tag_body_ok (takeWhile is_word r) \<longleftrightarrow> \<not> is_word c"
      using False Cons ident_start_word by (auto simp: tag_body_ok_def)
    have "re_match dollar_tag_re ([], CHR ''$'' # r, []) =
        re_match (chr (CHR ''$'')) ([CHR ''$''], r, [])"
      using False unfolding Cons dollar_tag_re_def opt_def by (simp add: chr_def)
    then show ?thesis
      using w Cons by (auto simp: chr_def after_word_def next_char_def)
  qed
qed

lemma no_tag_later: "l \<noteq> [] \<Longrightarrow> re_exec_at dollar_tag_re l r = None"
proof (induction r arbitrary: l)
  case Nil
  then show ?case by (subst re_exec_at.simps) (simp add: dollar_tag_re_def)
next
  case (Cons c r)
  then show ?case by (subst re_exec_at.simps) (simp add: dollar_tag_re_def)
qed

lemma dollar_tag_eq: "dollar_tag s = tag_spec s"
proof (cases s)
  case Nil
  then show ?thesis
    by (simp add: dollar_tag_def tag_spec_def re_exec_def)
      (subst re_exec_at.simps, simp add: dollar_tag_re_def chr_def)
next
  case (Cons c r)
  show ?thesis
  proof (cases "c = CHR ''$''")
    case True
    then show ?thesis
      unfolding Cons dollar_tag_def re_exec_def tag_spec_def
      by (subst re_exec_at.simps) (simp add: tag_match_at no_tag_later matched_def Let_def)
  next
    case False
    then have "re_match dollar_tag_re ([], c # r, []) = []"
      by (simp add: dollar_tag_re_def chr_def)
    with False show ?thesis
      unfolding Cons dollar_tag_def re_exec_def tag_spec_def
      by (subst re_exec_at.simps) (simp add: no_tag_later Let_def)
  qed
qed

subsection \<open>The scanner as a sequence of tokens\<close>

text \<open>One iteration of the loop: the text it appends to \<open>cur\<close> and the unread rest.\<close>

definition lex1 :: "string \<Rightarrow> string \<times> string" where
  "lex1 s = (case s of [] \<Rightarrow> ([], []) | ch # rest \<Rightarrow>
     if ch = CHR ''-'' \<and> starts_with rest ''-'' then ([], dropWhile (\<lambda>c. c \<noteq> CHR 0x0A) s)
     else if ch = CHR ''/'' \<and> starts_with rest ''*'' then cut_after ''*/'' 2 s
     else if ch = CHR 0x27 \<or> ch = CHR ''\"'' then
       (take (quote_scan ch rest + 2) s, drop (quote_scan ch rest + 2) s)
     else if ch = CHR ''$'' then
       (case dollar_tag s of Some tag \<Rightarrow> cut_after tag (length tag) s | None \<Rightarrow> ([ch], rest))
     else ([ch], rest))"

lemma split_loop_lex:
  "ch \<noteq> CHR '';'' \<Longrightarrow> split_loop cur (ch # rest) =
     split_loop (cur @ fst (lex1 (ch # rest))) (snd (lex1 (ch # rest)))"
  by (subst split_loop.simps) (auto simp: lex1_def Let_def split: option.splits prod.splits)

lemma split_loop_semi: "split_loop cur (CHR '';'' # rest) = flush_stmt cur @ split_loop [] rest"
  by (subst split_loop.simps) simp

lemma split_loop_end: "split_loop cur [] = flush_stmt cur"
  by (subst split_loop.simps) simp

lemma cut_after_shorter:
  "cut_after p n s = (e, r) \<Longrightarrow> s \<noteq> [] \<Longrightarrow> 0 < n \<Longrightarrow> length r < length s"
  by (auto simp: cut_after_def split: option.splits)

lemma lex1_shorter:
  assumes "s \<noteq> []" shows "length (snd (lex1 s)) < length s"
proof (cases s)
  case (Cons ch rest)
  show ?thesis
  proof (cases "ch = CHR ''-'' \<and> starts_with rest ''-''")
    case True
    then show ?thesis using Cons
      by (auto simp: lex1_def less_Suc_eq_le intro: length_dropWhile_le)
  next
    case False
    then show ?thesis using Cons
      by (auto simp: lex1_def cut_after_def split: option.splits dest!: dollar_tag_prefix)
  qed
qed (use assms in simp)

lemma lex1_shorter_Cons [simp]: "length (snd (lex1 (c # r))) < Suc (length r)"
  using lex1_shorter [of "c # r"] by simp

text \<open>The text of the statement that starts here, and what follows its semicolon.\<close>

function stmt_of :: "string \<Rightarrow> string \<times> string option" where
  "stmt_of [] = ([], None)"
| "stmt_of (ch # rest) =
     (if ch = CHR '';'' then ([], Some rest)
      else let (t, x) = stmt_of (snd (lex1 (ch # rest))) in (fst (lex1 (ch # rest)) @ t, x))"
  by pat_completeness auto
termination
  by (relation "measure length") auto

declare stmt_of.simps(2) [simp del]

lemma stmt_of_semi [simp]: "stmt_of (CHR '';'' # r) = ([], Some r)"
  by (simp add: stmt_of.simps)

lemma stmt_of_lex:
  "s \<noteq> [] \<Longrightarrow> hd s \<noteq> CHR '';'' \<Longrightarrow> lex1 s = (e, r) \<Longrightarrow> stmt_of r = (t, x) \<Longrightarrow> stmt_of s = (e @ t, x)"
  by (cases s) (auto simp: stmt_of.simps)

lemma split_loop_stmt:
  "split_loop cur s = flush_stmt (cur @ fst (stmt_of s)) @
     (case snd (stmt_of s) of None \<Rightarrow> [] | Some r \<Rightarrow> split_loop [] r)"
proof (induction s arbitrary: cur rule: stmt_of.induct)
  case 1
  then show ?case by (simp add: split_loop_end)
next
  case (2 ch rest)
  show ?case
  proof (cases "ch = CHR '';''")
    case True
    then show ?thesis by (simp add: split_loop_semi)
  next
    case False
    obtain t x where tx: "stmt_of (snd (lex1 (ch # rest))) = (t, x)" by fastforce
    show ?thesis
      using False 2 [OF False, of "cur @ fst (lex1 (ch # rest))"] tx
      by (simp add: split_loop_lex stmt_of.simps)
  qed
qed

subsection \<open>Stability of a token\<close>

text \<open>A following text \<open>z\<close> may stand for \<open>r\<close> if it starts alike, or with a separator.\<close>

definition follows :: "string \<Rightarrow> string \<Rightarrow> bool" where
  "follows r z \<longleftrightarrow>
     (next_char z = None \<or> next_char z = next_char r \<or> next_char z = Some (CHR '';'')
      \<or> next_char z = Some (CHR 0x0A))
     \<and> takeWhile is_word z = takeWhile is_word r
     \<and> (after_word z = Some (CHR ''$'') \<longrightarrow> after_word r = Some (CHR ''$''))"

lemma index_of_append_first:
  assumes "index_of p (b @ r) = Some i" "i + length p \<le> length b" "p \<noteq> []"
  shows "index_of p (b @ z) = Some i"
  using assms
proof (induction b arbitrary: i)
  case Nil
  then show ?case by simp
next
  case (Cons c b)
  show ?case
  proof (cases i)
    case 0
    then have "prefix p (c # b @ r)" using Cons.prems(1) by (auto split: if_splits)
    then have "p = take (length p) (c # b @ r)" by (metis append_eq_conv_conj prefixE)
    also have "\<dots> = take (length p) (c # b)" using Cons.prems(2) 0 by (cases p) auto
    finally have "prefix p (c # b)" by (metis take_is_prefix)
    then have "prefix p ((c # b) @ z)" by (rule prefix_prefix)
    then show ?thesis using 0 by simp
  next
    case (Suc j)
    then have np: "\<not> prefix p (c # b @ r)" and j: "index_of p (b @ r) = Some j"
      using Cons.prems(1) by (auto split: if_splits)
    have "\<not> prefix p (c # b @ z)"
    proof
      assume "prefix p (c # b @ z)"
      then have "p = take (length p) (c # b @ z)" by (metis append_eq_conv_conj prefixE)
      also have "\<dots> = take (length p) (c # b)" using Cons.prems(2) by (cases p) auto
      finally have "prefix p (c # b)" by (metis take_is_prefix)
      then have "prefix p ((c # b) @ r)" by (rule prefix_prefix)
      then show False using np by simp
    qed
    moreover have "index_of p (b @ z) = Some j"
      using Cons.IH [OF j] Cons.prems(2,3) Suc by simp
    ultimately show ?thesis using Suc by simp
  qed
qed

lemma drop_eq_len: "drop k (e @ r) = r \<Longrightarrow> r \<noteq> [] \<Longrightarrow> k = length e"
proof -
  assume "drop k (e @ r) = r" and r: "r \<noteq> []"
  then have "length e + length r - k = length r" by (metis length_append length_drop)
  moreover have "0 < length r" using r by simp
  ultimately show ?thesis by linarith
qed

lemma cut_after_len:
  assumes "cut_after p n (e @ r) = (e, r)" "r \<noteq> []"
  obtains i where "index_of p (drop n (e @ r)) = Some i" "length e = n + i + length p"
proof -
  obtain i where "index_of p (drop n (e @ r)) = Some i" "drop (n + i + length p) (e @ r) = r"
    using assms by (auto simp: cut_after_def split: option.splits)
  then show thesis using that drop_eq_len assms(2) by metis
qed

lemma cut_after_stable:
  assumes "cut_after p n (e @ r) = (e, r)" "r \<noteq> []" "p \<noteq> []"
  shows "cut_after p n (e @ z) = (e, z)"
proof -
  obtain i where i: "index_of p (drop n (e @ r)) = Some i" and len: "length e = n + i + length p"
    using cut_after_len [OF assms(1,2)] by blast
  then have "n \<le> length e" by simp
  then have "index_of p (drop n e @ r) = Some i" using i by simp
  then have "index_of p (drop n e @ z) = Some i"
    by (rule index_of_append_first) (use len assms(3) in auto)
  then show ?thesis using len \<open>n \<le> length e\<close> by (simp add: cut_after_def)
qed

lemma quote_scan_closed:
  "quote_scan q (b @ r) + 1 = length b \<Longrightarrow> r \<noteq> [] \<Longrightarrow>
     next_char r \<noteq> Some q \<and> (next_char z \<noteq> Some q \<longrightarrow> quote_scan q (b @ z) + 1 = length b)"
proof (induction q b rule: quote_scan.induct)
  case (1 q)
  then show ?case by simp
next
  case (2 q c)
  then show ?case by (cases r; cases z) (auto simp: next_char_def split: if_splits)
next
  case (3 q c d b)
  then show ?case by (auto split: if_splits)
qed

lemma quote_scan_le: "quote_scan q s \<le> length s"
  by (induction q s rule: quote_scan.induct) auto


definition is_comment :: "string \<Rightarrow> bool" where
  "is_comment s \<longleftrightarrow> prefix ''--'' s"

lemma lex1_cases:
  assumes "s \<noteq> []" "lex1 s = (e, r)"
  shows "(is_comment s \<and> e = [] \<and> r = dropWhile (\<lambda>c. c \<noteq> CHR 0x0A) s)
       \<or> (\<not> is_comment s \<and> e \<noteq> [] \<and> s = e @ r)"
proof (cases s)
  case (Cons ch rest)
  show ?thesis
  proof (cases "ch = CHR ''-'' \<and> starts_with rest ''-''")
    case True
    then show ?thesis using assms(2) Cons by (simp add: lex1_def is_comment_def starts_with_def)
  next
    case False
    then have nc: "\<not> is_comment s" using Cons by (auto simp: is_comment_def starts_with_def)
    have "s = e @ r" using False assms(2) Cons
      by (auto simp: lex1_def cut_after_def split: if_splits option.splits)
    moreover have "length r < length s" using lex1_shorter [OF assms(1)] assms(2) by simp
    ultimately show ?thesis using nc by auto
  qed
qed (use assms in simp)

lemma tag_spec_append:
  assumes "tag_spec (tag @ r) = Some tag"
  shows "tag_spec (tag @ z) = Some tag"
proof -
  obtain w where w: "tag = [CHR ''$''] @ w @ [CHR ''$'']" "tag_body_ok w" "\<forall>c \<in> set w. is_word c"
  proof -
    obtain c r' where cr: "tag @ r = c # r'" using assms by (cases "tag @ r") (auto simp: tag_spec_def)
    have "tag = [CHR ''$''] @ takeWhile is_word r' @ [CHR ''$'']" "tag_body_ok (takeWhile is_word r')"
      using assms cr by (auto simp: tag_spec_def Let_def split: if_splits)
    then show thesis using that set_takeWhileD by metis
  qed
  then have "takeWhile is_word (w @ CHR ''$'' # z) = w" "dropWhile is_word (w @ CHR ''$'' # z) = CHR ''$'' # z"
    by auto
  then show ?thesis using w(1,2) by (simp add: tag_spec_def after_word_def next_char_def)
qed

lemma tag_spec_nonempty: "tag_spec s = Some tag \<Longrightarrow> tag \<noteq> [] \<and> 2 \<le> length tag \<and> last tag = CHR ''$''"
  by (auto simp: tag_spec_def Let_def split: list.splits if_splits)

text \<open>A token stays a token when the text after it is replaced by one that \<open>follows\<close> it.\<close>

lemma lex1_stable:
  assumes lex: "lex1 (e @ r) = (e, r)" and ne: "e \<noteq> []" and r: "r \<noteq> []" and z: "follows r z"
  shows "lex1 (e @ z) = (e, z)"
proof -
  obtain ch b where e: "e = ch # b" using ne by (cases e) auto
  have nz: "next_char z \<noteq> Some c" if "next_char r \<noteq> Some c" "c \<noteq> CHR '';''" "c \<noteq> CHR 0x0A" for c
    using z that by (auto simp: follows_def)
  have sw: "starts_with (b @ y) [c] \<longleftrightarrow> (if b = [] then next_char y = Some c else hd b = c)" for y c
    by (cases b; cases y) (auto simp: starts_with_def next_char_def)
  have dash: "ch = CHR ''-'' \<Longrightarrow> b = [] \<and> next_char r \<noteq> Some (CHR ''-'')"
    using lex e sw [of r "CHR ''-''"] by (auto simp: lex1_def split: if_splits)
  show ?thesis
  proof (cases "ch = CHR ''/'' \<and> starts_with (b @ r) ''*''")
    case True
    then have cut: "cut_after ''*/'' 2 (e @ r) = (e, r)" using lex e by (simp add: lex1_def)
    then have st: "cut_after ''*/'' 2 (e @ z) = (e, z)" by (rule cut_after_stable) (use r in auto)
    have "b \<noteq> []"
      using cut_after_len [OF cut r] e by (metis One_nat_def add_2_eq_Suc add_eq_self_zero length_Cons
          list.size(3) nat.distinct(1) nat.inject plus_nat.simps(2))
    then have "starts_with (b @ z) ''*''" using True sw by auto
    then show ?thesis using True st e by (simp add: lex1_def)
  next
    case noblk: False
    have noblk': "\<not> (ch = CHR ''/'' \<and> starts_with (b @ z) ''*'')"
    proof
      assume a: "ch = CHR ''/'' \<and> starts_with (b @ z) ''*''"
      then have "b = []" using lex e noblk by (auto simp: lex1_def split: if_splits)
      then show False using a noblk sw nz by auto
    qed
    have nodash: "\<not> (ch = CHR ''-'' \<and> starts_with (b @ z) ''-'')"
      using dash sw nz by auto
    have nodash0: "\<not> (ch = CHR ''-'' \<and> starts_with (b @ r) ''-'')"
      using dash sw by auto
    show ?thesis
    proof (cases "ch = CHR 0x27 \<or> ch = CHR ''\"''")
      case True
      let ?k = "quote_scan ch (b @ r)"
      have "take (?k + 2) (e @ r) = e" "drop (?k + 2) (e @ r) = r"
        using lex e True nodash0 noblk by (auto simp: lex1_def)
      then have "?k + 2 = length e" using drop_eq_len r by blast
      then have k: "?k + 1 = length b" using e by simp
      have "next_char r \<noteq> Some ch" using quote_scan_closed [OF k r] by blast
      then have "next_char z \<noteq> Some ch" using True nz by auto
      then have "quote_scan ch (b @ z) + 1 = length b" using quote_scan_closed [OF k r] by blast
      then have "quote_scan ch (b @ z) + 2 = Suc (length b)" by simp
      then show ?thesis using True unfolding e by (auto simp: lex1_def)
    next
      case noq: False
      show ?thesis
      proof (cases "ch = CHR ''$''")
        case True
        show ?thesis
        proof (cases "tag_spec (e @ r)")
          case None
          then have b: "b = []" using lex e True by (simp add: lex1_def starts_with_def dollar_tag_eq)
          have "tag_spec (e @ z) = None"
            using None z e b True
            by (auto simp: tag_spec_def Let_def follows_def split: if_splits)
          then show ?thesis using e b True by (simp add: lex1_def starts_with_def dollar_tag_eq)
        next
          case (Some tag)
          then have cut: "cut_after tag (length tag) (e @ r) = (e, r)"
            using lex e True by (simp add: lex1_def starts_with_def dollar_tag_eq)
          have tag: "tag \<noteq> []" using Some tag_spec_nonempty by blast
          have pre: "prefix tag (e @ r)" using dollar_tag_prefix Some by (simp add: dollar_tag_eq)
          have "length tag \<le> length e" using cut_after_len [OF cut r] by (metis le_add1 trans_le_add1)
          then have "prefix tag e" using pre by (meson prefix_length_prefix prefixI)
          then obtain e' where e': "e = tag @ e'" by (auto simp: prefix_def)
          have "tag_spec (tag @ (e' @ z)) = Some tag"
            by (rule tag_spec_append [of tag "e' @ r"]) (use Some e' in simp)
          then have "tag_spec (e @ z) = Some tag" using e' by simp
          moreover have "cut_after tag (length tag) (e @ z) = (e, z)"
            by (rule cut_after_stable [OF cut r tag])
          ultimately show ?thesis using e True by (simp add: lex1_def starts_with_def dollar_tag_eq)
        qed
      next
        case False
        then have "b = []" using lex e noq noblk nodash0 by (auto simp: lex1_def)
        then show ?thesis using e False noq noblk' nodash by (auto simp: lex1_def)
      qed
    qed
  qed
qed


subsection \<open>The emitted text scans to itself\<close>

definition end_of :: "string \<Rightarrow> string option" where
  "end_of y = (case y of [] \<Rightarrow> None | _ # r \<Rightarrow> Some r)"

text \<open>\<open>y\<close> is what may stand after a statement: nothing, or a semicolon and more text.\<close>

definition tail_ok :: "string \<Rightarrow> bool" where
  "tail_ok y \<longleftrightarrow> y = [] \<or> hd y = CHR '';''"

lemma tail_ok_simps: "tail_ok []" "tail_ok (CHR '';'' # r)"
  by (simp_all add: tail_ok_def)

lemma stmt_of_tail: "tail_ok y \<Longrightarrow> stmt_of y = ([], end_of y)"
  by (cases y) (auto simp: tail_ok_def end_of_def)

lemma word_lex1: "is_word c \<Longrightarrow> lex1 (c # r) = ([c], r)"
  by (auto simp: lex1_def char_class_defs)

lemma semi_not_word [simp]: "\<not> is_word (CHR '';'')" "\<not> is_word (CHR 0x0A)" "\<not> is_word (CHR ''-'')"
  by (simp_all add: char_class_defs)

lemma stmt_of_ws: "js_ws c \<Longrightarrow> stmt_of z = (t, x) \<Longrightarrow> stmt_of (c # z) = (c # t, x)"
proof -
  assume c: "js_ws c" and z: "stmt_of z = (t, x)"
  have "lex1 (c # z) = ([c], z)" using c by (auto simp: lex1_def js_ws_def)
  moreover have "hd (c # z) \<noteq> CHR '';''" using c by (auto simp: js_ws_def)
  ultimately show ?thesis using stmt_of_lex [of "c # z" "[c]" z t x] z by simp
qed

lemma comment_rest:
  assumes "is_comment r"
  shows "next_char (fst (stmt_of r) @ y) = next_char y \<and> fst (stmt_of r) = []
       \<or> next_char (fst (stmt_of r) @ y) = Some (CHR 0x0A)"
proof -
  let ?d = "dropWhile (\<lambda>c. c \<noteq> CHR 0x0A) r"
  have ne: "r \<noteq> []" and hd: "hd r \<noteq> CHR '';''" using assms by (auto simp: is_comment_def prefix_def)
  have lex: "lex1 r = ([], ?d)"
    using assms by (cases r) (auto simp: lex1_def is_comment_def starts_with_def)
  then have s: "fst (stmt_of r) = fst (stmt_of ?d)"
    using stmt_of_lex [OF ne hd lex] by (metis append_Nil prod.collapse fst_conv)
  show ?thesis
  proof (cases ?d)
    case Nil
    have "fst (stmt_of ?d) = []" unfolding Nil by simp
    then show ?thesis using s by simp
  next
    case (Cons c d)
    then have c: "c = CHR 0x0A" using hd_dropWhile [of "\<lambda>c. c \<noteq> CHR 0x0A" r] by auto
    obtain td xd where d: "stmt_of d = (td, xd)" by fastforce
    have "stmt_of ?d = (CHR 0x0A # td, xd)"
      unfolding Cons c by (rule stmt_of_ws [OF _ d]) (simp add: js_ws_def)
    then show ?thesis using s by (simp add: next_char_def)
  qed
qed

lemma follows_word: "is_word c \<Longrightarrow> follows r z \<Longrightarrow> follows (c # r) (c # z)"
  by (simp add: follows_def after_word_def next_char_def)

lemma stmt_of_follows:
  assumes "stmt_of r = (t, x)" "tail_ok y"
  shows "follows r (t @ y)"
  using assms
proof (induction r arbitrary: t x rule: measure_induct_rule [of length])
  case (less r)
  have y: "next_char y = None \<or> next_char y = Some (CHR '';'')" "takeWhile is_word y = []"
    "after_word y \<noteq> Some (CHR ''$'')"
    using less.prems(2) by (cases y; auto simp: tail_ok_def next_char_def after_word_def)+
  have sep: "follows r z" if "next_char z \<in> {None, Some (CHR '';''), Some (CHR 0x0A)}"
      "next_char r = None \<or> \<not> is_word (hd r)" for z
    using that by (cases z; cases r) (auto simp: follows_def next_char_def after_word_def)
  show ?case
  proof (cases "r = [] \<or> hd r = CHR '';''")
    case True
    then have "t = []" using less.prems(1) by (cases r) auto
    then show ?thesis using sep [of y] y(1) True by (cases r) (auto simp: next_char_def)
  next
    case False
    then have ne: "r \<noteq> []" and hd: "hd r \<noteq> CHR '';''" by auto
    obtain e r1 where lex: "lex1 r = (e, r1)" by fastforce
    obtain t1 x1 where st: "stmt_of r1 = (t1, x1)" by fastforce
    have t: "t = e @ t1" using stmt_of_lex [OF ne hd lex st] less.prems(1) by simp
    show ?thesis
    proof (cases "is_comment r")
      case True
      then have "\<not> is_word (hd r)" by (auto simp: is_comment_def prefix_def)
      then show ?thesis
        using sep [of "t @ y"] comment_rest [OF True, of y] less.prems(1) y(1) by auto
    next
      case False
      then have r: "r = e @ r1" and e: "e \<noteq> []" using lex1_cases [OF ne lex] by auto
      have nc: "next_char (t @ y) = next_char r" using r e t by (cases e) (auto simp: next_char_def)
      show ?thesis
      proof (cases "is_word (hd r)")
        case True
        then have e1: "e = [hd r]" using lex word_lex1 [OF True, of "tl r"] ne by auto
        have "length r1 < length r" using lex1_shorter [OF ne] lex by simp
        then have "follows r1 (t1 @ y)" by (rule less.IH [OF _ st less.prems(2)])
        from follows_word [OF True this] have "follows ([hd r] @ r1) (([hd r] @ t1) @ y)" by simp
        then show ?thesis unfolding t e1 [symmetric] using r by simp
      next
        case w: False
        then show ?thesis using nc r e t
          by (cases e) (auto simp: follows_def after_word_def next_char_def)
      qed
    qed
  qed
qed

lemma stmt_of_stable:
  assumes "stmt_of s = (t, x)" "tail_ok y" "y = [] \<or> x \<noteq> None"
  shows "stmt_of (t @ y) = (t, end_of y)"
  using assms
proof (induction s arbitrary: t rule: measure_induct_rule [of length])
  case (less s)
  show ?case
  proof (cases "s = [] \<or> hd s = CHR '';''")
    case True
    then have "t = []" using less.prems(1) by (cases s) auto
    then show ?thesis using stmt_of_tail less.prems(2) by simp
  next
    case False
    then have ne: "s \<noteq> []" and hd: "hd s \<noteq> CHR '';''" by auto
    obtain e r1 where lex: "lex1 s = (e, r1)" by fastforce
    obtain t1 x1 where st: "stmt_of r1 = (t1, x1)" by fastforce
    have t: "t = e @ t1" "x1 = x" using stmt_of_lex [OF ne hd lex st] less.prems(1) by auto
    have len: "length r1 < length s" using lex1_shorter [OF ne] lex by simp
    have IH: "stmt_of (t1 @ y) = (t1, end_of y)"
      by (rule less.IH [OF len]) (use st t less.prems in auto)
    show ?thesis
    proof (cases "is_comment s")
      case True
      then show ?thesis using lex1_cases [OF ne lex] t IH by auto
    next
      case False
      then have s: "s = e @ r1" and e: "e \<noteq> []" using lex1_cases [OF ne lex] by auto
      have lex': "lex1 (e @ t1 @ y) = (e, t1 @ y)"
      proof (cases "r1 = []")
        case True
        then have "t1 = []" "x = None" using st t by auto
        then show ?thesis using less.prems(3) True s lex by auto
      next
        case False
        show ?thesis
          by (rule lex1_stable [OF _ e False stmt_of_follows [OF st less.prems(2)]]) (use s lex in simp)
      qed
      have "e @ t1 @ y \<noteq> []" "hd (e @ t1 @ y) \<noteq> CHR '';''" using e hd s by auto
      from stmt_of_lex [OF this lex' IH] show ?thesis using t by simp
    qed
  qed
qed


subsection \<open>Trimming\<close>

lemma stmt_of_ws_append: "list_all js_ws w \<Longrightarrow> stmt_of z = (t, x) \<Longrightarrow> stmt_of (w @ z) = (w @ t, x)"
  by (induction w) (auto simp: stmt_of_ws)

lemma stmt_of_ws_strip:
  assumes "list_all js_ws w" "stmt_of (w @ z) = (w @ t, x)"
  shows "stmt_of z = (t, x)"
proof -
  obtain t' x' where "stmt_of z = (t', x')" by fastforce
  then show ?thesis using stmt_of_ws_append [OF assms(1)] assms(2) by fastforce
qed

text \<open>No comment is dropped when the emitted text is as long as the scanned text.\<close>

lemma stmt_of_len:
  "stmt_of s = (t, x) \<Longrightarrow> length t + (case x of None \<Rightarrow> 0 | Some r \<Rightarrow> Suc (length r)) \<le> length s"
proof (induction s arbitrary: t x rule: measure_induct_rule [of length])
  case (less s)
  show ?case
  proof (cases "s = [] \<or> hd s = CHR '';''")
    case True
    then show ?thesis using less.prems by (cases s) auto
  next
    case False
    then have ne: "s \<noteq> []" and hd: "hd s \<noteq> CHR '';''" by auto
    obtain e r1 where lex: "lex1 s = (e, r1)" by fastforce
    obtain t1 x1 where st: "stmt_of r1 = (t1, x1)" by fastforce
    have t: "t = e @ t1" "x1 = x" using stmt_of_lex [OF ne hd lex st] less.prems by auto
    have len: "length r1 < length s" using lex1_shorter [OF ne] lex by simp
    have "length e + length r1 \<le> length s" using lex1_cases [OF ne lex] len by auto
    then show ?thesis using less.IH [OF len st] t by simp
  qed
qed

lemma quote_scan_ws:
  "quote_scan q (s @ w) = length (s @ w) \<Longrightarrow> list_all js_ws w \<Longrightarrow> \<not> js_ws q \<Longrightarrow>
     quote_scan q s = length s"
proof (induction q s rule: quote_scan.induct)
  case (2 q c)
  then show ?case by (cases w) (auto split: if_splits)
next
  case (3 q c d r)
  then show ?case using quote_scan_le [of q "r @ w"] by (auto split: if_splits)
qed simp

lemma index_of_prefix_None: "index_of p (s @ w) = None \<Longrightarrow> p \<noteq> [] \<Longrightarrow> index_of p s = None"
proof (induction s)
  case (Cons c s)
  then show ?case by (auto split: if_splits simp: prefix_Cons)
qed simp


lemma tag_spec_trim:
  assumes "tag_spec (s @ w) = Some tag" "list_all js_ws w"
  shows "tag_spec s = Some tag \<and> prefix tag s"
proof -
  have pre: "prefix tag (s @ w)"
    using dollar_tag_prefix [of "s @ w" tag] assms(1) unfolding dollar_tag_eq by blast
  have l: "last tag = CHR ''$''" "tag \<noteq> []" using tag_spec_nonempty [OF assms(1)] by auto
  have "prefix tag s"
  proof (rule ccontr)
    assume np: "\<not> prefix tag s"
    then obtain us where us: "tag = s @ us" "prefix us w" using pre unfolding prefix_append by blast
    have "us \<noteq> []" using np us(1) by (cases us) auto
    then have "last tag = last us" "last us \<in> set us" unfolding us(1) by simp_all
    then have "last us \<in> set w" using set_mono_prefix [OF us(2)] by blast
    then have "CHR ''$'' \<in> set w" using \<open>last tag = last us\<close> l(1) by simp
    then have "js_ws (CHR ''$'')" using assms(2) by (simp add: list_all_iff)
    then show False by (simp add: js_ws_def)
  qed
  then obtain s' where s: "s = tag @ s'" unfolding prefix_def by blast
  have "tag_spec (tag @ s') = Some tag"
    by (rule tag_spec_append [of tag "s' @ w"]) (use assms(1) in \<open>simp only: s append_assoc\<close>)
  then show ?thesis unfolding s by simp
qed

lemma cut_after_trim:
  assumes "cut_after p n (s @ w) = (s @ w, [])" "list_all js_ws w" "w \<noteq> []"
    and p: "p \<noteq> []" "\<not> js_ws (last p)" and n: "n \<le> length s"
  shows "cut_after p n s = (s, [])"
proof (cases "index_of p (drop n (s @ w))")
  case None
  then have "index_of p (drop n s) = None" using index_of_prefix_None [OF _ p(1)] n by simp
  then show ?thesis by (simp add: cut_after_def)
next
  case (Some i)
  then have "drop (n + i + length p) (s @ w) = []" using assms(1) by (simp add: cut_after_def)
  then have all: "length (s @ w) \<le> n + i + length p" by (simp only: drop_eq_Nil)
  have "prefix p (drop i (drop n (s @ w)))" using index_of_Some [OF Some] by blast
  then obtain v where v: "drop (i + n) (s @ w) = p @ v" by (auto simp only: drop_drop prefix_def)
  then have "length (s @ w) - (i + n) = length p + length v" by (metis length_append length_drop)
  moreover have lp: "0 < length p" using p(1) by simp
  ultimately have "length v = 0" "i + n < length (s @ w)" using all by linarith+
  then have "v = []" "i + n < length (s @ w)" by simp_all
  then have "last p = last (s @ w)" using v by (metis append_Nil2 last_drop)
  then have "last p \<in> set w" using assms(3) by simp
  then show ?thesis using assms(2) p(2) by (auto simp: list_all_iff)
qed

lemma quote_scan_last: "quote_scan q u + 1 = length u \<Longrightarrow> u \<noteq> [] \<and> last u = q"
proof (induction q u rule: quote_scan.induct)
  case (2 q c)
  then show ?case by (simp split: if_splits)
next
  case (3 q c d r)
  show ?case
  proof (cases "c = q")
    case True
    then have dq: "d = q" using 3(3) by (simp split: if_splits)
    then have "quote_scan q r + 1 = length r" using 3(3) True by simp
    then show ?thesis using 3(1) [OF True dq] by simp
  next
    case False
    then show ?thesis using 3(2) [OF False] 3(3) by simp
  qed
qed simp

text \<open>An unterminated token cut at trailing white space is still the same unterminated token.\<close>

lemma lex1_unterminated:
  assumes "lex1 (s @ w) = (s @ w, [])" "list_all js_ws w" "s \<noteq> []"
  shows "lex1 s = (s, [])"
proof (cases "w = []")
  case False
  obtain ch b where s: "s = ch # b" using assms(3) by (cases s) auto
  have hdw: "starts_with (b @ w) [c] \<longleftrightarrow> starts_with b [c]" if "\<not> js_ws c" for c
    using assms(2) that by (cases b; cases w) (auto simp: starts_with_def)
  have ws: "\<not> js_ws (CHR ''*'')" "\<not> js_ws (CHR ''-'')" "\<not> js_ws (CHR 0x27)" "\<not> js_ws (CHR ''\"'')"
    by (simp_all add: js_ws_def)
  have long: "b @ w \<noteq> []" using False by simp
  have nd: "\<not> (ch = CHR ''-'' \<and> starts_with b ''-'')"
    using assms(1) s hdw [OF ws(2)] by (auto simp: lex1_def)
  consider (blk) "ch = CHR ''/'' \<and> starts_with b ''*''" | (q) "ch = CHR 0x27 \<or> ch = CHR ''\"''"
    | (dol) tag where "ch = CHR ''$''" "tag_spec (s @ w) = Some tag"
    using assms(1) s long nd hdw [OF ws(1)] hdw [OF ws(2)]
    by (auto simp: lex1_def dollar_tag_eq split: if_splits option.splits)
  then show ?thesis
  proof cases
    case blk
    then have two: "2 \<le> length s" using s by (cases b) (auto simp: starts_with_def)
    have cut: "cut_after ''*/'' 2 (s @ w) = (s @ w, [])"
      using assms(1) blk s hdw [OF ws(1)] by (simp add: lex1_def)
    have "cut_after ''*/'' 2 s = (s, [])"
      by (rule cut_after_trim [OF cut assms(2) False]) (use two in \<open>auto simp: js_ws_def\<close>)
    then show ?thesis using blk s by (simp add: lex1_def)
  next
    case q
    then have nws: "\<not> js_ws ch" using ws by auto
    let ?u = "b @ w"
    have "drop (quote_scan ch ?u + 2) (s @ w) = []"
      using assms(1) q s by (auto simp: lex1_def)
    then have "length (s @ w) \<le> quote_scan ch ?u + 2" by (simp only: drop_eq_Nil)
    then have "length ?u \<le> quote_scan ch ?u + 1" using s by (simp only: append_Cons length_Cons)
    moreover have "quote_scan ch ?u + 1 \<noteq> length ?u"
    proof
      assume "quote_scan ch ?u + 1 = length ?u"
      then have "last ?u = ch" using quote_scan_last by blast
      then have "ch \<in> set w" using False by (metis last_appendR last_in_set)
      then show False using assms(2) nws by (auto simp: list_all_iff)
    qed
    ultimately have "quote_scan ch ?u = length ?u" using quote_scan_le [of ch ?u] by linarith
    then have "quote_scan ch b = length b" by (rule quote_scan_ws [OF _ assms(2) nws])
    then show ?thesis using q s by (auto simp: lex1_def)
  next
    case dol
    from tag_spec_trim [OF dol(2) assms(2)] have t: "tag_spec s = Some tag" "prefix tag s" by auto
    have cut: "cut_after tag (length tag) (s @ w) = (s @ w, [])"
      using assms(1) dol s by (simp add: lex1_def dollar_tag_eq)
    have tg: "tag \<noteq> []" "\<not> js_ws (last tag)"
      using tag_spec_nonempty [OF t(1)] by (auto simp: js_ws_def)
    have "cut_after tag (length tag) s = (s, [])"
      by (rule cut_after_trim [OF cut assms(2) False tg]) (use t(2) in \<open>simp add: prefix_length_le\<close>)
    then show ?thesis using dol(1) t(1) s by (simp add: lex1_def dollar_tag_eq)
  qed
qed (use assms in simp)

lemma follows_ws:
  assumes "list_all js_ws w" "tail_ok y"
  shows "follows (s @ w @ y) (s @ y)"
proof -
  have nw: "\<not> is_word c" "c \<noteq> CHR ''$''" if "js_ws c" for c using that by (auto simp: char_class_defs)
  have y: "takeWhile is_word y = []" "after_word y \<noteq> Some (CHR ''$'')"
      "next_char y = None \<or> next_char y = Some (CHR '';'')"
    using assms(2) by (cases y; auto simp: tail_ok_def next_char_def after_word_def)+
  have wy: "takeWhile is_word (w @ y) = []" "next_char (w @ y) \<noteq> Some (CHR ''$'')"
    using assms(1) y nw by (cases w; auto simp: next_char_def after_word_def)+
  show ?thesis
  proof (cases s)
    case Nil
    then show ?thesis using y wy by (auto simp: follows_def)
  next
    case (Cons c s')
    have "takeWhile is_word (s @ w @ y) = takeWhile is_word (s @ y)"
      using y wy by (cases "\<forall>c \<in> set s. is_word c") (auto simp: takeWhile_append)
    moreover have "after_word (s @ y) = Some (CHR ''$'') \<longrightarrow> after_word (s @ w @ y) = Some (CHR ''$'')"
      using y by (cases "\<forall>c \<in> set s. is_word c") (auto simp: after_word_def dropWhile_append next_char_def split: list.splits)
    ultimately show ?thesis using Cons by (auto simp: follows_def next_char_def)
  qed
qed


lemma cut_after_last:
  assumes "cut_after p n (e @ r) = (e, r)" "r \<noteq> []" "p \<noteq> []"
  shows "last e = last p"
proof -
  obtain i where i: "index_of p (drop n (e @ r)) = Some i" and len: "length e = n + i + length p"
    using cut_after_len [OF assms(1,2)] by blast
  have "prefix p (drop i (drop n (e @ r)))" using index_of_Some [OF i] by blast
  moreover have "drop i (drop n (e @ r)) = drop (i + n) e @ r" using len by (simp add: add.commute)
  ultimately have "prefix p (drop (i + n) e @ r)" by simp
  then have "prefix p (drop (i + n) e)"
    by (rule prefix_length_prefix [OF _ prefixI [OF refl]]) (use len in simp)
  then obtain v where v: "drop (i + n) e = p @ v" unfolding prefix_def by blast
  then have "length e - (i + n) = length p + length v" by (metis length_append length_drop)
  moreover have "0 < length p" using assms(3) by simp
  ultimately have "length v = 0" "i + n < length e" using len by linarith+
  then show ?thesis using v by (metis append_Nil2 last_drop length_0_conv)
qed

lemma lex1_closed_last:
  assumes lex: "lex1 (e @ r) = (e, r)" and r: "r \<noteq> []" and len: "2 \<le> length e"
  shows "\<not> js_ws (last e)"
proof -
  obtain ch b where e: "e = ch # b" and b: "b \<noteq> []" using len by (cases e) (auto simp: Suc_le_eq)
  have nd: "\<not> (ch = CHR ''-'' \<and> starts_with (b @ r) ''-'')" using lex e by (auto simp: lex1_def)
  consider (blk) "ch = CHR ''/'' \<and> starts_with (b @ r) ''*''" | (q) "ch = CHR 0x27 \<or> ch = CHR ''\"''"
    | (dol) tag where "ch = CHR ''$''" "tag_spec (e @ r) = Some tag"
    using lex e b nd by (auto simp: lex1_def dollar_tag_eq split: if_splits option.splits)
  then show ?thesis
  proof cases
    case blk
    then have "cut_after ''*/'' 2 (e @ r) = (e, r)" using lex e by (simp add: lex1_def)
    then have "last e = last ''*/''" by (rule cut_after_last) (use r in auto)
    then show ?thesis by (simp add: js_ws_def)
  next
    case q
    let ?k = "quote_scan ch (b @ r)"
    have "drop (?k + 2) (e @ r) = r" using lex e q by (auto simp: lex1_def)
    then have "?k + 2 = length e" using drop_eq_len r by blast
    then have k: "?k + 1 = length b" using e by simp
    have "next_char [] \<noteq> Some ch" by (simp add: next_char_def)
    then have "quote_scan ch (b @ []) + 1 = length b" using quote_scan_closed [OF k r] by blast
    then have "last b = ch" using quote_scan_last by simp
    then show ?thesis using q e b by (auto simp: js_ws_def)
  next
    case dol
    have cut: "cut_after tag (length tag) (e @ r) = (e, r)"
      using lex dol e by (simp add: lex1_def dollar_tag_eq)
    then have "last e = CHR ''$''"
      using cut_after_last [OF cut r] tag_spec_nonempty [OF dol(2)] by simp
    then show ?thesis by (simp add: js_ws_def)
  qed
qed

lemma stmt_of_trim_end:
  "stmt_of (s @ w @ y) = (s @ w, end_of y) \<Longrightarrow> list_all js_ws w \<Longrightarrow> tail_ok y \<Longrightarrow>
     stmt_of (s @ y) = (s, end_of y)"
proof (induction s rule: measure_induct_rule [of length])
  case (less s)
  note w = less.prems(2) and y = less.prems(3)
  show ?case
  proof (cases s)
    case Nil
    then show ?thesis using stmt_of_tail [OF y] by simp
  next
    case (Cons ch b)
    let ?all = "s @ w @ y"
    have ne: "?all \<noteq> []" using Cons by simp
    have hd: "hd ?all \<noteq> CHR '';''" using less.prems(1) Cons by (auto simp: stmt_of.simps)
    obtain e r1 where lex: "lex1 ?all = (e, r1)" by fastforce
    obtain t1 x1 where st: "stmt_of r1 = (t1, x1)" by fastforce
    have t: "e @ t1 = s @ w" "x1 = end_of y" using stmt_of_lex [OF ne hd lex st] less.prems(1) by auto
    have "length y = (case end_of y of None \<Rightarrow> 0 | Some r \<Rightarrow> Suc (length r))"
      by (cases y) (auto simp: end_of_def)
    then have "length t1 + length y \<le> length r1" using stmt_of_len [OF st] t by simp
    moreover have "length r1 < length ?all" using lex1_shorter [OF ne] lex by simp
    moreover have "length (e @ t1) = length s + length w" using t(1) by simp
    ultimately have "e \<noteq> []" by auto
    then have all: "?all = e @ r1" using lex1_cases [OF ne lex] by auto
    then have "e @ r1 = e @ t1 @ y" using t(1) by (metis append.assoc)
    then have r1: "r1 = t1 @ y" by simp
    show ?thesis
    proof (cases "r1 = []")
      case True
      then have ty: "t1 = []" "y = []" using r1 by auto
      then have "lex1 (s @ w) = (s @ w, [])" using lex t(1) True by simp
      then have l: "lex1 s = (s, [])" by (rule lex1_unterminated [OF _ w]) (simp add: Cons)
      have "s \<noteq> []" "hd s \<noteq> CHR '';''" using hd Cons by auto
      from stmt_of_lex [OF this l stmt_of.simps(1)] show ?thesis using ty by (simp add: end_of_def)
    next
      case r1ne: False
      consider us where "s = e @ us" "us @ w = t1" | us where "e = s @ us" "us \<noteq> []" "us @ t1 = w"
        using t(1) by (metis append_Nil2 append_eq_append_conv2)
      then show ?thesis
      proof cases
        case (1 us)
        have "stmt_of (us @ w @ y) = (us @ w, end_of y)" using st t(2) r1 by (simp add: 1(2) [symmetric])
        then have IH: "stmt_of (us @ y) = (us, end_of y)"
          using less.IH [of us] w y 1(1) \<open>e \<noteq> []\<close> by simp
        have f: "follows r1 (us @ y)" using follows_ws [OF w y, of us] r1 1(2) by (metis append.assoc)
        have "lex1 (e @ us @ y) = (e, us @ y)"
          by (rule lex1_stable [OF _ \<open>e \<noteq> []\<close> r1ne f]) (use lex all in simp)
        moreover have "hd (e @ us @ y) \<noteq> CHR '';''" using hd all \<open>e \<noteq> []\<close> by auto
        ultimately show ?thesis using stmt_of_lex [of "e @ us @ y" e "us @ y"] IH \<open>e \<noteq> []\<close> 1(1) by simp
      next
        case (2 us)
        have "\<not> js_ws (last e)"
          by (rule lex1_closed_last [of e r1]) (use lex all r1ne 2 Cons in \<open>auto simp: Suc_le_eq\<close>)
        moreover have "last e \<in> set w" using 2 by (metis Un_iff last_appendR last_in_set set_append)
        ultimately show ?thesis using w by (auto simp: list_all_iff)
      qed
    qed
  qed
qed

lemma stmt_of_trim:
  assumes "stmt_of (t @ y) = (t, end_of y)" "tail_ok y"
  shows "stmt_of (trim t @ y) = (trim t, end_of y)"
proof -
  obtain u w where t: "t = u @ trim t @ w" "list_all js_ws u" "list_all js_ws w" using trim_split by blast
  have "stmt_of (u @ (trim t @ w @ y)) = (u @ (trim t @ w), end_of y)"
    using assms(1) t(1) by (metis append.assoc)
  then have "stmt_of (trim t @ w @ y) = (trim t @ w, end_of y)" by (rule stmt_of_ws_strip [OF t(2)])
  then show ?thesis by (rule stmt_of_trim_end [OF _ t(3) assms(2)])
qed

subsection \<open>Splitting what was joined\<close>

text \<open>A whole statement: it scans to itself before any separator, or at the end of the text.\<close>

definition scans_before :: "string \<Rightarrow> bool" where
  "scans_before s \<longleftrightarrow> (\<forall>x. stmt_of (s @ CHR '';'' # x) = (s, Some x))"

definition scans_last :: "string \<Rightarrow> bool" where
  "scans_last s \<longleftrightarrow> stmt_of s = (s, None)"

fun scan_list :: "string list \<Rightarrow> bool" where
  "scan_list [] = True"
| "scan_list [s] = scans_last s"
| "scan_list (s # ss) = (scans_before s \<and> scan_list ss)"

lemma scans_before_last: "scans_before s \<Longrightarrow> scans_last s"
proof -
  assume "scans_before s"
  then have "stmt_of (s @ CHR '';'' # []) = (s, Some [])" unfolding scans_before_def by blast
  from stmt_of_stable [OF this tail_ok_simps(1)] show ?thesis by (simp add: scans_last_def end_of_def)
qed

lemma scan_list_Cons: "scan_list (s # ss) \<Longrightarrow> scan_list ss \<and> scans_last s"
  by (cases ss) (auto dest: scans_before_last)

lemma scan_list_ConsI: "scans_before s \<Longrightarrow> scan_list ss \<Longrightarrow> scan_list (s # ss)"
  by (cases ss) (auto dest: scans_before_last)

lemma scan_list_filter: "scan_list ss \<Longrightarrow> scan_list (filter P ss)"
proof (induction ss rule: scan_list.induct)
  case (3 s v ss)
  then show ?case by (cases "P s") (auto intro: scan_list_ConsI)
qed auto

lemma flush_stmt_id: "trim s = s \<Longrightarrow> keep_stmt s \<Longrightarrow> flush_stmt s = [s]"
  by (simp add: flush_stmt_def)

lemma flush_stmt_ws: "list_all js_ws w \<Longrightarrow> flush_stmt (w @ s) = flush_stmt s"
  by (simp add: flush_stmt_def trim_ws_append_left)

lemma split_join:
  assumes "scan_list ss" "\<And>s. s \<in> set ss \<Longrightarrow> trim s = s \<and> keep_stmt s" "list_all js_ws w"
  shows "split_loop [] (w @ join ('';'' @ [CHR 0x0A]) ss) = ss"
  using assms
proof (induction ss arbitrary: w rule: scan_list.induct)
  case 1
  have "stmt_of (w @ []) = (w @ [], None)" using 1(3) by (rule stmt_of_ws_append) simp
  moreover have "flush_stmt (w @ []) = []"
    using flush_stmt_ws [OF 1(3), of "[]"] by (simp add: flush_stmt_def keep_stmt_def trim_def
        trim_start_def trim_end_def)
  ultimately show ?case by (simp add: split_loop_stmt)
next
  case (2 s)
  have "stmt_of (w @ s) = (w @ s, None)"
    using 2 by (intro stmt_of_ws_append) (auto simp: scans_last_def)
  then show ?case using 2 by (simp add: split_loop_stmt flush_stmt_ws flush_stmt_id)
next
  case (3 s v ss)
  let ?r = "CHR 0x0A # join ('';'' @ [CHR 0x0A]) (v # ss)"
  have "stmt_of (s @ CHR '';'' # ?r) = (s, Some ?r)" using 3 unfolding scan_list.simps scans_before_def by blast
  then have "stmt_of (w @ s @ CHR '';'' # ?r) = (w @ s, Some ?r)" by (rule stmt_of_ws_append [OF 3(4)])
  moreover have "split_loop [] ([CHR 0x0A] @ join ('';'' @ [CHR 0x0A]) (v # ss)) = v # ss"
    by (rule 3(1)) (use 3 in \<open>auto simp: js_ws_def\<close>)
  ultimately show ?case using 3 by (subst split_loop_stmt) (simp add: flush_stmt_ws flush_stmt_id)
qed

lemma split_loop_scans: "scan_list (split_loop [] s)"
proof (induction s rule: measure_induct_rule [of length])
  case (less s)
  obtain t x where st: "stmt_of s = (t, x)" by fastforce
  have last: "scans_last (trim t)"
    using stmt_of_trim [of t "[]"] stmt_of_stable [OF st tail_ok_simps(1)]
    by (simp add: tail_ok_simps scans_last_def end_of_def)
  show ?case
  proof (cases x)
    case None
    then show ?thesis using st last by (subst split_loop_stmt) (simp add: flush_stmt_def Let_def)
  next
    case (Some r)
    have "scans_before (trim t)" unfolding scans_before_def
    proof
      fix z
      have "stmt_of (t @ CHR '';'' # z) = (t, end_of (CHR '';'' # z))"
        using stmt_of_stable [OF st tail_ok_simps(2)] Some by simp
      from stmt_of_trim [OF this tail_ok_simps(2)]
      show "stmt_of (trim t @ CHR '';'' # z) = (trim t, Some z)" by (simp add: end_of_def)
    qed
    moreover have "length r < length s" using stmt_of_len [OF st] Some by simp
    then have "scan_list (split_loop [] r)" by (rule less.IH)
    ultimately show ?thesis using st Some
      by (subst split_loop_stmt) (auto simp: flush_stmt_def Let_def intro: scan_list_ConsI)
  qed
qed

lemma flush_stmt_kept: "s \<in> set (flush_stmt cur) \<Longrightarrow> trim s = s \<and> keep_stmt s"
  by (auto simp: flush_stmt_def Let_def split: if_splits)

lemma split_loop_kept: "s \<in> set (split_loop cur sql) \<Longrightarrow> trim s = s \<and> keep_stmt s"
proof (induction sql arbitrary: cur rule: measure_induct_rule [of length])
  case (less sql)
  obtain t x where st: "stmt_of sql = (t, x)" by fastforce
  show ?case
  proof (cases x)
    case None
    then show ?thesis using st less.prems flush_stmt_kept by (subst (asm) split_loop_stmt) simp
  next
    case (Some r)
    then have "length r < length sql" using stmt_of_len [OF st] by simp
    then show ?thesis using less.IH [of r "[]"] st Some less.prems flush_stmt_kept
      by (subst (asm) split_loop_stmt) auto
  qed
qed

lemma split_strip:
  "splitSqlStatements (stripTxControl sql) = filter (\<lambda>s. \<not> isTxControlStatement s) (splitSqlStatements sql)"
  using split_join [of "filter (\<lambda>s. \<not> isTxControlStatement s) (split_loop [] sql)" "[]"]
    scan_list_filter [OF split_loop_scans] split_loop_kept [of _ "[]" sql]
  by (simp add: splitSqlStatements_def stripTxControl_def)


text \<open>
  C40: stripping transaction control does exactly that: splitting the stripped text gives the
  statements of the original text, in order and verbatim, without the transaction-control ones.
  So no BEGIN/COMMIT/ROLLBACK of a patch file reaches the engine's own transaction, and nothing
  else is lost or merged by the join with a semicolon and a newline.
\<close>

theorem strip_removes_exactly_tx_control:
  "splitSqlStatements (stripTxControl sql) =
     filter (\<lambda>s. \<not> isTxControlStatement s) (splitSqlStatements sql)"
  by (rule split_strip)

subsection \<open>Segments\<close>

text \<open>
  The specification of \<open>parsePatchSegments\<close>: every line that is not a marker, with the mode in
  force at it.  Blank characters are not compared, because each segment is trimmed.
\<close>

definition ink :: "string \<Rightarrow> string" where
  "ink s = filter (\<lambda>c. \<not> js_ws c) s"

definition mode_ink :: "seg_kind \<Rightarrow> string \<Rightarrow> (seg_kind \<times> char) list" where
  "mode_ink k s = map (Pair k) (ink s)"

fun line_modes :: "string list \<Rightarrow> seg_kind \<Rightarrow> (seg_kind \<times> string) list" where
  "line_modes [] k = []"
| "line_modes (l # ls) k =
     (if re_test begin_marker_re l then line_modes ls NoTx
      else if re_test end_marker_re l then line_modes ls Tx
      else (k, l) # line_modes ls k)"

definition patch_modes :: "string \<Rightarrow> (seg_kind \<times> string) list" where
  "patch_modes raw =
     (if re_test has_markers_re raw then line_modes (split_on (CHR 0x0A) raw) Tx
      else [(if re_test pragma_re raw then NoTx else Tx, raw)])"

lemma ink_append [simp]: "ink (s @ t) = ink s @ ink t"
  by (simp add: ink_def)

lemma ink_ws: "list_all js_ws w \<Longrightarrow> ink w = []"
  by (auto simp: ink_def list_all_iff filter_empty_conv)

lemma ink_trim: "ink (trim s) = ink s"
proof -
  obtain u w where s: "s = u @ trim s @ w" "list_all js_ws u" "list_all js_ws w" using trim_split by blast
  have "ink s = ink u @ ink (trim s) @ ink w" by (subst s(1)) simp
  then show ?thesis using s by (simp add: ink_ws)
qed

lemma ink_join: "ink (join [CHR 0x0A] ls) = concat (map ink ls)"
  by (induction "[CHR 0x0A]" ls rule: join.induct) (auto simp: ink_def js_ws_def)

definition seg_ink :: "patch_segment list \<Rightarrow> (seg_kind \<times> char) list" where
  "seg_ink ss = concat (map (\<lambda>s. mode_ink (seg_kind s) (seg_sql s)) ss)"

lemma seg_ink_flush: "seg_ink (flush_seg cur k) = concat (map (mode_ink k) cur)"
proof -
  have "mode_ink k (trim (join [CHR 0x0A] cur)) = concat (map (mode_ink k) cur)"
    by (simp add: mode_ink_def [abs_def] ink_trim ink_join map_concat comp_def)
  then show ?thesis by (auto simp: seg_ink_def flush_seg_def Let_def mode_ink_def ink_def)
qed

lemma seg_ink_loop:
  "seg_ink (seg_loop ls cur k) =
     concat (map (mode_ink k) cur) @ concat (map (\<lambda>(k, l). mode_ink k l) (line_modes ls k))"
proof (induction ls arbitrary: cur k)
  case Nil
  then show ?case by (simp add: seg_ink_flush)
next
  case (Cons l ls)
  have "seg_ink (xs @ ys) = seg_ink xs @ seg_ink ys" for xs ys by (simp add: seg_ink_def)
  then show ?case using Cons by (simp add: seg_ink_flush)
qed

text \<open>
  C36: the segments of a patch file hold every non-blank character of every non-marker line once,
  in order, in the mode (transactional or not) that the markers put in force at its line; without
  markers the whole file is one segment whose mode is the file's pragma.
\<close>

theorem segments_follow_markers:
  "concat (map (\<lambda>s. mode_ink (seg_kind s) (seg_sql s)) (parsePatchSegments raw)) =
     concat (map (\<lambda>(k, l). mode_ink k l) (patch_modes raw))"
  using seg_ink_loop [of "split_on (CHR 0x0A) raw" "[]" Tx]
  by (simp add: parsePatchSegments_def patch_modes_def seg_ink_def Let_def)

lemma no_marker_single_segment:
  "\<not> re_test has_markers_re raw \<Longrightarrow>
     parsePatchSegments raw = [\<lparr>seg_kind = (if re_test pragma_re raw then NoTx else Tx), seg_sql = raw\<rparr>]"
  by (simp add: parsePatchSegments_def Let_def)

end
