(* ===== verification/PatchNaming.thy ===== *)
theory PatchNaming
  imports JsRegex
begin

text \<open>
  \<open>src/schema-diff/patch-naming.ts\<close>, the string functions: timestamps and slugs for patch file
  names, the patch name of a file, and the line-ending normalisation applied before hashing.
  (\<open>patchSlugFromDiff\<close> and \<open>buildPatchFilename\<close> are in the theory of the patch emitter; the hash
  \<open>sha256Hex\<close> is a parameter wherever it is used.)
\<close>

text \<open>The UTC fields of a \<open>Date\<close>; the month is 0-based as in \<open>getUTCMonth\<close>.\<close>

record utc_date =
  utc_year :: nat
  utc_month :: nat
  utc_day :: nat
  utc_hours :: nat
  utc_minutes :: nat
  utc_seconds :: nat

definition pad2 :: "nat \<Rightarrow> string" where
  "pad2 n = (let s = nat_str n in replicate (2 - length s) (CHR ''0'') @ s)"

definition utcTimestampForFilename :: "utc_date \<Rightarrow> string" where
  "utcTimestampForFilename d =
     nat_str (utc_year d) @ pad2 (utc_month d + 1) @ pad2 (utc_day d)
     @ pad2 (utc_hours d) @ pad2 (utc_minutes d) @ pad2 (utc_seconds d)"

text \<open>\<open>/[^a-zA-Z0-9]+/g\<close>, \<open>/^_+|_+$/g\<close>, \<open>/_+/g\<close>.\<close>

definition non_alnum_re :: re where
  "non_alnum_re = plus1 (Cls (\<lambda>c. \<not> is_alnum c))"

definition edge_us_re :: re where
  "edge_us_re = re_alt [re_seq [Bol, plus1 (chr (CHR ''_''))], re_seq [plus1 (chr (CHR ''_'')), Eol]]"

definition us_run_re :: re where
  "us_run_re = plus1 (chr (CHR ''_''))"

definition slugifyPatchSegment :: "string \<Rightarrow> string" where
  "slugifyPatchSegment s =
     (let x = take 72 (to_lower
               (re_replace_all us_run_re (\<lambda>_ _. ''_'')
                 (re_remove_all edge_us_re
                   (re_replace_all non_alnum_re (\<lambda>_ _. ''_'') s))))
      in if x = [] then ''patch'' else x)"

text \<open>\<open>filename.replace(/\.sql$/i, "")\<close>.\<close>

definition sql_ext_re :: re where
  "sql_ext_re = re_seq [chr (CHR ''.''), lit_ci ''sql'', Eol]"

definition patchNameFromFilename :: "string \<Rightarrow> string" where
  "patchNameFromFilename filename = re_replace_first sql_ext_re [] filename"

text \<open>\<open>body.replace(/\r\n?/g, "\n")\<close>.\<close>

definition eol_re :: re where
  "eol_re = re_seq [chr (CHR 0x0D), opt (chr (CHR 0x0A))]"

definition normalizePatchEol :: "string \<Rightarrow> string" where
  "normalizePatchEol body = re_replace_all eol_re (\<lambda>_ _. [CHR 0x0A]) body"

subsection \<open>Line endings\<close>

text \<open>The specification: each CRLF or lone CR becomes one LF.\<close>

fun norm_eol :: "string \<Rightarrow> string" where
  "norm_eol [] = []"
| "norm_eol [c] = (if c = CHR 0x0D then [CHR 0x0A] else [c])"
| "norm_eol (c # d # r) =
     (if c = CHR 0x0D then CHR 0x0A # (if d = CHR 0x0A then norm_eol r else norm_eol (d # r))
      else c # norm_eol (d # r))"

lemma eol_replace: "re_replace_at eol_re (\<lambda>_ _. [CHR 0x0A]) l r = norm_eol r"
proof (induction r arbitrary: l rule: norm_eol.induct)
  case 1
  then show ?case by (subst re_replace_at.simps) (simp add: eol_re_def re_defs)
next
  case (2 c)
  then show ?case
    by (subst re_replace_at.simps, subst re_replace_at.simps)
      (simp add: eol_re_def re_defs re_replace_at.simps [of _ _ _ "[]"])
next
  case (3 c d r)
  show ?case
  proof (cases "c = CHR 0x0D")
    case True
    then show ?thesis using 3(1,2)
      by (subst re_replace_at.simps) (simp add: eol_re_def re_defs)
  next
    case False
    then show ?thesis using 3(3) [of "c # l"]
      by (subst re_replace_at.simps) (simp add: eol_re_def re_defs)
  qed
qed

lemma normalizePatchEol_eq: "normalizePatchEol s = norm_eol s"
  by (simp add: normalizePatchEol_def re_replace_all_def eol_replace)

lemma norm_eol_no_cr: "CHR 0x0D \<notin> set (norm_eol s)"
  by (induction s rule: norm_eol.induct) auto

lemma norm_eol_id: "CHR 0x0D \<notin> set s \<Longrightarrow> norm_eol s = s"
  by (induction s rule: norm_eol.induct) auto

text \<open>The checkout variants of an LF text: every LF written as CRLF, or as CR.\<close>

definition to_crlf :: "string \<Rightarrow> string" where
  "to_crlf s = replace_char (CHR 0x0A) [CHR 0x0D, CHR 0x0A] s"

definition to_cr :: "string \<Rightarrow> string" where
  "to_cr s = replace_char (CHR 0x0A) [CHR 0x0D] s"

lemma norm_eol_Cons: "c \<noteq> CHR 0x0D \<Longrightarrow> norm_eol (c # r) = c # norm_eol r"
  by (cases r) auto

lemma norm_eol_crlf: "CHR 0x0D \<notin> set s \<Longrightarrow> norm_eol (to_crlf s) = s"
  by (induction s) (auto simp: to_crlf_def replace_char_def norm_eol_Cons)

text \<open>
  C37: patch hashes do not depend on the checkout's line endings: the normalised text has no
  carriage return, normalising twice is normalising once, and a text committed with LF and checked
  out with CRLF normalises to the committed text, so the manifest's hash still matches.
\<close>

theorem normalize_eol_stable:
  assumes "CHR 0x0D \<notin> set committed"
  shows "normalizePatchEol (to_crlf committed) = committed
    \<and> normalizePatchEol committed = committed
    \<and> (\<forall>s. CHR 0x0D \<notin> set (normalizePatchEol s)
            \<and> normalizePatchEol (normalizePatchEol s) = normalizePatchEol s)"
  using assms by (simp add: normalizePatchEol_eq norm_eol_crlf norm_eol_id norm_eol_no_cr)

theorem normalize_eol_stable_witness:
  "normalizePatchEol (to_crlf [CHR ''a'', CHR 0x0A, CHR ''b'']) = [CHR ''a'', CHR 0x0A, CHR ''b'']"
  using normalize_eol_stable [of "[CHR ''a'', CHR 0x0A, CHR ''b'']"] by simp

subsection \<open>Patch names\<close>

lemma ext_match:
  "re_match sql_ext_re (l, r, []) =
     (if length r = 4 \<and> hd r = CHR ''.'' \<and> to_lower (tl r) = ''sql'' then [(rev r @ l, [], [])] else [])"
proof -
  consider "r = []" | a where "r = [a]" | a b where "r = [a, b]" | a b c where "r = [a, b, c]"
    | a b c d where "r = [a, b, c, d]" | a b c d e r' where "r = a # b # c # d # e # r'"
    by (metis list.exhaust)
  then show ?thesis
    by cases (auto simp: sql_ext_re_def re_defs to_lower_def lower_char_def code_unit_def)
qed

lemma ext_exec_long: "re_exec_at sql_ext_re l (p @ ''.sql'') = Some (rev p @ l, (rev ''.sql'' @ rev p @ l, [], []))"
proof (induction p arbitrary: l)
  case Nil
  have "to_lower ''sql'' = ''sql''" by (simp add: to_lower_def lower_char_def code_unit_def)
  then show ?case by (subst re_exec_at.simps) (simp add: ext_match)
next
  case (Cons c p)
  then show ?case by (subst re_exec_at.simps) (simp add: ext_match)
qed

lemma patch_name_sql: "patchNameFromFilename (p @ ''.sql'') = p"
  by (simp add: patchNameFromFilename_def re_replace_first_def re_exec_def ext_exec_long)

text \<open>Two different \<open>.sql\<close> files have different patch names.\<close>

lemma patch_name_inj:
  assumes "ends_with f ''.sql''" "ends_with g ''.sql''" "patchNameFromFilename f = patchNameFromFilename g"
  shows "f = g"
proof -
  obtain p q where "f = p @ ''.sql''" "g = q @ ''.sql''"
    using assms(1,2) by (auto simp: ends_with_def suffix_def)
  then show ?thesis using assms(3) by (simp only: patch_name_sql)
qed

end
