(* ===== verification/Manifest.thy ===== *)
theory Manifest
  imports Prelude
begin

text \<open>
  \<open>src/migrations/manifest.ts\<close>: the canonical JSON text that is signed, the keyring, and the
  verification and signing of \<open>MANIFEST.json\<close>.  Numbers are integers (the only number of a
  manifest is its version); the ed25519 primitives of \<open>node:crypto\<close> and the contents of the files
  are parameters.
\<close>

section \<open>Canonical JSON\<close>

datatype json =
    JNull
  | JBool bool
  | JNum int
  | JStr string
  | JArr "json list"
  | JObj "(string \<times> json) list"

text \<open>\<open>JSON.stringify\<close> on a string: the two mandatory escapes, the five short ones, \<open>\u00xx\<close> for the
  other control characters.\<close>

definition hex_digit :: "nat \<Rightarrow> char" where
  "hex_digit n = (''0123456789abcdef'' ! n)"

definition json_char :: "char \<Rightarrow> string" where
  "json_char c =
     (if c = CHR ''\"'' then [CHR 0x5C, CHR ''\"'']
      else if c = CHR 0x5C then [CHR 0x5C, CHR 0x5C]
      else if c = CHR 0x08 then [CHR 0x5C, CHR ''b'']
      else if c = CHR 0x09 then [CHR 0x5C, CHR ''t'']
      else if c = CHR 0x0A then [CHR 0x5C, CHR ''n'']
      else if c = CHR 0x0C then [CHR 0x5C, CHR ''f'']
      else if c = CHR 0x0D then [CHR 0x5C, CHR ''r'']
      else if of_char c < (32 :: nat)
        then [CHR 0x5C, CHR ''u'', CHR ''0'', CHR ''0'',
              hex_digit (of_char c div 16), hex_digit (of_char c mod 16)]
      else [c])"

definition json_str :: "string \<Rightarrow> string" where
  "json_str s = ''\"'' @ concat (map json_char s) @ ''\"''"

text \<open>An object is the list of its properties, whose keys are distinct; \<open>Object.keys(o).sort()\<close> orders
  them by code unit.\<close>

fun canonicalJson :: "json \<Rightarrow> string" where
  "canonicalJson JNull = ''null''"
| "canonicalJson (JBool b) = (if b then ''true'' else ''false'')"
| "canonicalJson (JNum n) = int_str n"
| "canonicalJson (JStr s) = json_str s"
| "canonicalJson (JArr vs) = ''['' @ join '','' (map canonicalJson vs) @ '']''"
| "canonicalJson (JObj kvs) =
     ''{'' @ join '','' (map (\<lambda>(k, t). json_str k @ '':'' @ t)
                        (sort_key fst (map (\<lambda>(k, v). (k, canonicalJson v)) kvs))) @ ''}''"

section \<open>Keyring and manifest\<close>

datatype trust = Release | Dev

record trusted_key =
  tk_key_id :: string
  tk_public_key :: string
  tk_trust :: trust

record patch_manifest =
  mf_version :: int
  mf_key_id :: string
  mf_issued_at :: string
  mf_patches :: "(string \<times> string) list"
  mf_signature :: string

datatype manifest_error =
    ManifestError string string
  | CryptoError string
  | JsonSyntaxError string

text \<open>What a JSON file holds: no file, a text that does not parse, or a value.\<close>

datatype 'a json_file = FileAbsent | FileMalformed string | FileValue 'a

definition loadKeyring :: "string \<Rightarrow> trusted_key list option json_file \<Rightarrow> (manifest_error, trusted_key list) res" where
  "loadKeyring keysPath file =
     (case file of
        FileAbsent \<Rightarrow> Inr []
      | FileMalformed m \<Rightarrow> Inl (JsonSyntaxError m)
      | FileValue None \<Rightarrow> Inl (ManifestError ''keys_invalid'' (keysPath @ '': expected a JSON array''))
      | FileValue (Some raw) \<Rightarrow> Inr raw)"

definition loadManifest :: "patch_manifest json_file \<Rightarrow> (manifest_error, patch_manifest option) res" where
  "loadManifest file =
     (case file of
        FileAbsent \<Rightarrow> Inr None
      | FileMalformed m \<Rightarrow> Inl (JsonSyntaxError m)
      | FileValue m \<Rightarrow> Inr (Some m))"

definition trust_name :: "trust \<Rightarrow> string" where
  "trust_name t = (case t of Release \<Rightarrow> ''release'' | Dev \<Rightarrow> ''dev'')"

text \<open>\<open>{ signature, ...unsigned } = manifest\<close>: the signed part.\<close>

definition unsigned_json :: "patch_manifest \<Rightarrow> json" where
  "unsigned_json m =
     JObj [(''version'', JNum (mf_version m)), (''key_id'', JStr (mf_key_id m)),
           (''issued_at'', JStr (mf_issued_at m)),
           (''patches'', JObj (map (\<lambda>(k, v). (k, JStr v)) (mf_patches m)))]"

definition find_key :: "string \<Rightarrow> trust list \<Rightarrow> trusted_key list \<Rightarrow> trusted_key option" where
  "find_key kid allowed keyring = List.find (\<lambda>k. tk_key_id k = kid \<and> tk_trust k \<in> set allowed) keyring"

text \<open>\<open>ed_verify pub msg sig\<close> is \<open>verify(null, msg, createPublicKey(pub), sig)\<close>, which throws for a
  key that does not parse.\<close>

definition verifyManifest ::
  "(string \<Rightarrow> string \<Rightarrow> string \<Rightarrow> (string, bool) res) \<Rightarrow> patch_manifest \<Rightarrow> trusted_key list \<Rightarrow> trust list
     \<Rightarrow> (manifest_error, trusted_key) res" where
  "verifyManifest ed_verify manifest keyring allowedTrust =
     (case find_key (mf_key_id manifest) allowedTrust keyring of
        None \<Rightarrow> Inl (ManifestError ''manifest_untrusted_key''
          (''MANIFEST signed by '' @ [CHR 0x27] @ mf_key_id manifest @ [CHR 0x27]
           @ '' - not in trusted keyring (allowed trust: '' @ join '','' (map trust_name allowedTrust) @ '')''))
      | Some key \<Rightarrow>
          (case ed_verify (tk_public_key key) (canonicalJson (unsigned_json manifest)) (mf_signature manifest) of
             Inl e \<Rightarrow> Inl (CryptoError e)
           | Inr ok \<Rightarrow>
               if \<not> ok then Inl (ManifestError ''manifest_bad_signature''
                                  ''MANIFEST.json signature verification failed'')
               else Inr key))"

definition signManifest ::
  "(string \<Rightarrow> string \<Rightarrow> (string, string) res) \<Rightarrow> patch_manifest \<Rightarrow> string
     \<Rightarrow> (manifest_error, patch_manifest) res" where
  "signManifest ed_sign manifest privateKeyB64 =
     (case ed_sign privateKeyB64 (canonicalJson (unsigned_json manifest)) of
        Inl e \<Rightarrow> Inl (CryptoError e)
      | Inr s \<Rightarrow> Inr (manifest\<lparr>mf_signature := s\<rparr>))"

section \<open>The canonical text is canonical\<close>

lemma of_char_lt: "(of_char c :: nat) < 256"
  by (rule nat_of_char_less_256)

definition hex_val :: "char \<Rightarrow> nat" where
  "hex_val c = (if is_digit c then of_char c - 48 else of_char c - 87)"

lemma hex_val_digit:
  assumes "n < 16"
  shows "hex_val (hex_digit n) = n"
proof -
  have "\<forall>i\<in>set [0..<16]. hex_val (hex_digit i) = i" by code_simp
  then show ?thesis using assms by simp
qed

definition json_unchar :: "string \<Rightarrow> char \<times> string" where
  "json_unchar s = (case s of
     a # b # t \<Rightarrow>
       if a \<noteq> CHR 0x5C then (a, b # t)
       else if b = CHR ''b'' then (CHR 0x08, t)
       else if b = CHR ''t'' then (CHR 0x09, t)
       else if b = CHR ''n'' then (CHR 0x0A, t)
       else if b = CHR ''f'' then (CHR 0x0C, t)
       else if b = CHR ''r'' then (CHR 0x0D, t)
       else if b = CHR ''u'' then (char_of (16 * hex_val (t ! 2) + hex_val (t ! 3)), drop 4 t)
       else (b, t)
   | [a] \<Rightarrow> (a, [])
   | [] \<Rightarrow> (undefined, []))"

lemma json_unchar: "json_unchar (json_char c @ r) = (c, r)"
proof -
  have lt: "of_char c div 16 < (16 :: nat)"
    using of_char_lt [of c] by (intro less_mult_imp_div_less) simp
  have u: "char_of (16 * hex_val (hex_digit (of_char c div 16)) + hex_val (hex_digit (of_char c mod 16))) = c"
    using hex_val_digit [OF lt] hex_val_digit [of "of_char c mod 16"] by simp
  consider (special) "c \<in> {CHR ''\"'', CHR 0x5C, CHR 0x08, CHR 0x09, CHR 0x0A, CHR 0x0C, CHR 0x0D}"
    | (control) "c \<notin> {CHR ''\"'', CHR 0x5C, CHR 0x08, CHR 0x09, CHR 0x0A, CHR 0x0C, CHR 0x0D}"
        "of_char c < (32 :: nat)"
    | (plain) "c \<notin> {CHR ''\"'', CHR 0x5C, CHR 0x08, CHR 0x09, CHR 0x0A, CHR 0x0C, CHR 0x0D}"
        "\<not> of_char c < (32 :: nat)"
    by blast
  then show ?thesis
  proof cases
    case special
    then show ?thesis by (elim insertE) (simp_all add: json_char_def json_unchar_def)
  next
    case control
    then have "json_char c = [CHR 0x5C, CHR ''u'', CHR ''0'', CHR ''0'',
        hex_digit (of_char c div 16), hex_digit (of_char c mod 16)]"
      by (simp add: json_char_def)
    then show ?thesis using u by (simp add: json_unchar_def)
  next
    case plain
    then have "json_char c = [c]" by (simp add: json_char_def)
    then show ?thesis using plain(1) by (cases r) (simp_all add: json_unchar_def)
  qed
qed

lemma json_char_prefix:
  assumes "json_char c @ r = json_char d @ r'"
  shows "c = d \<and> r = r'"
  using arg_cong [OF assms, of json_unchar] by (simp only: json_unchar prod.inject)

lemma json_char_head: "\<exists>a t. json_char c = a # t \<and> a \<noteq> CHR ''\"''"
proof -
  have "json_char c \<noteq> []" "hd (json_char c) \<noteq> CHR ''\"''"
    unfolding json_char_def by simp_all
  then show ?thesis by (cases "json_char c") auto
qed

lemma json_chars_prefix:
  "concat (map json_char s) @ CHR ''\"'' # r = concat (map json_char s') @ CHR ''\"'' # r'
     \<Longrightarrow> s = s' \<and> r = r'"
proof (induction s arbitrary: s')
  case Nil
  then show ?case using json_char_head [of "hd s'"] by (cases s') auto
next
  case (Cons c s)
  then show ?case
  proof (cases s')
    case Nil
    then show ?thesis using Cons.prems json_char_head [of c] by auto
  next
    case (Cons d t)
    then have e: "json_char c @ (concat (map json_char s) @ CHR ''\"'' # r)
        = json_char d @ (concat (map json_char t) @ CHR ''\"'' # r')"
      using Cons.prems by simp
    from json_char_prefix [OF e] Cons.IH [of t] Cons show ?thesis by simp
  qed
qed

lemma json_str_prefix: "json_str s @ r = json_str s' @ r' \<Longrightarrow> s = s' \<and> r = r'"
  using json_chars_prefix [of s r s' r'] by (simp add: json_str_def)

text \<open>What may follow a value.\<close>

definition delim :: "string \<Rightarrow> bool" where
  "delim r \<longleftrightarrow> r = [] \<or> hd r \<in> {CHR '','', CHR '']'', CHR ''}''}"

lemma digits_prefix:
  assumes "list_all is_digit xs" "list_all is_digit ys" "xs @ r = ys @ r'" "delim r" "delim r'"
  shows "xs = ys \<and> r = r'"
proof -
  have d: "takeWhile is_digit r = []" if "delim r" for r
    using that by (cases r) (auto simp: delim_def is_digit_def code_unit_def)
  have t: "takeWhile is_digit (zs @ r) = zs" if "list_all is_digit zs" "delim r" for zs r
    using d [OF that(2)] that(1) by (simp add: list_all_iff takeWhile_append2)
  show ?thesis using t [OF assms(1,4)] t [OF assms(2,5)] assms(3) by simp
qed

lemma int_str_head: "\<exists>c s. int_str n = c # s \<and> (is_digit c \<or> c = CHR ''-'')"
proof -
  obtain c s where "nat_str (nat n) = c # s" "is_digit c"
    using nat_str_digits [of "nat n"] nat_str_nonempty [of "nat n"] by (cases "nat_str (nat n)") auto
  then show ?thesis by (simp add: int_str_def)
qed

lemma int_str_prefix:
  assumes "int_str m @ r = int_str n @ r'" "delim r" "delim r'"
  shows "m = n \<and> r = r'"
proof -
  note p = digits_prefix [OF nat_str_digits nat_str_digits _ assms(2,3)]
  consider "m < 0" "n < 0" | "m < 0" "0 \<le> n" | "0 \<le> m" "n < 0" | "0 \<le> m" "0 \<le> n" by linarith
  then show ?thesis
  proof cases
    case 1
    then show ?thesis using assms(1) p [of "nat (- m)" "nat (- n)"] nat_str_inj [of "nat (- m)" "nat (- n)"]
      by (simp add: int_str_def)
  next
    case 2
    then show ?thesis using assms(1) nat_str_head [of "nat n"] by (auto simp: int_str_def is_digit_def code_unit_def)
  next
    case 3
    then show ?thesis using assms(1) nat_str_head [of "nat m"] by (auto simp: int_str_def is_digit_def code_unit_def)
  next
    case 4
    then show ?thesis using assms(1) p [of "nat m" "nat n"] nat_str_inj [of "nat m" "nat n"]
      by (simp add: int_str_def)
  qed
qed

fun sort_json :: "json \<Rightarrow> json" where
  "sort_json (JArr vs) = JArr (map sort_json vs)"
| "sort_json (JObj kvs) = JObj (sort_key fst (map (\<lambda>(k, v). (k, sort_json v)) kvs))"
| "sort_json v = v"

fun raw_json :: "json \<Rightarrow> string" where
  "raw_json JNull = ''null''"
| "raw_json (JBool b) = (if b then ''true'' else ''false'')"
| "raw_json (JNum n) = int_str n"
| "raw_json (JStr s) = json_str s"
| "raw_json (JArr vs) = ''['' @ join '','' (map raw_json vs) @ '']''"
| "raw_json (JObj kvs) =
     ''{'' @ join '','' (map (\<lambda>(k, v). json_str k @ '':'' @ raw_json v) kvs) @ ''}''"

lemma sort_key_map_snd:
  fixes kvs :: "(string \<times> 'a) list"
  shows "sort_key fst (map (\<lambda>(k, v). (k, f v)) kvs) = map (\<lambda>(k, v). (k, f v)) (sort_key fst kvs)"
proof -
  have i: "insort_key fst (k, f v) (map (\<lambda>(k, v). (k, f v)) xs) = map (\<lambda>(k, v). (k, f v)) (insort_key fst (k, v) xs)"
    for k v and xs :: "(string \<times> 'a) list"
    by (induction xs) auto
  show ?thesis by (induction kvs) (auto simp: i)
qed

lemma canonicalJson_raw: "canonicalJson v = raw_json (sort_json v)"
proof (induction v rule: canonicalJson.induct)
  case (5 vs)
  then show ?case by (simp cong: map_cong)
next
  case (6 kvs)
  have e: "map (\<lambda>(k, v). (k, canonicalJson v)) kvs = map (\<lambda>(k, v). (k, raw_json (sort_json v))) kvs"
    using 6 by auto
  have c: "(\<lambda>(k, t). json_str k @ '':'' @ t) \<circ> (\<lambda>(k, v). (k, raw_json (sort_json v))) =
      (\<lambda>(k, v). json_str k @ '':'' @ raw_json v) \<circ> (\<lambda>(k, v). (k, sort_json v))" by auto
  show ?case
    unfolding canonicalJson.simps sort_json.simps raw_json.simps e sort_key_map_snd map_map c ..
qed simp_all

text \<open>The items of an array or of an object up to its closing bracket.\<close>

lemma delim_Cons [simp]: "delim (c # r) \<longleftrightarrow> c \<in> {CHR '','', CHR '']'', CHR ''}''}"
  by (simp add: delim_def)

lemma items_prefix:
  assumes "\<And>x y r r'. x \<in> set xs \<Longrightarrow> f x @ r = f y @ r' \<Longrightarrow> delim r \<Longrightarrow> delim r' \<Longrightarrow> x = y \<and> r = r'"
    and "\<And>x. \<exists>a t. f x = a # t \<and> a \<notin> {CHR '','', CHR '']'', CHR ''}''}"
    and "c \<in> {CHR '']'', CHR ''}''}"
    and "join '','' (map f xs) @ c # r = join '','' (map f ys) @ c # r'"
  shows "xs = ys \<and> r = r'"
  using assms(1,4)
proof (induction xs arbitrary: ys)
  case Nil
  then show ?case using assms(2) [of "hd ys"] assms(3)
    by (cases ys rule: list.exhaust; cases "tl ys") (auto simp: join_Cons)
next
  case (Cons x xs)
  have h: "\<exists>s. join '','' (map f zs) @ c # q = (if zs = [] then c # q else f (hd zs) @ s) \<and>
      (zs \<noteq> [] \<longrightarrow> delim s \<and> s = (if tl zs = [] then c # q else CHR '','' # join '','' (map f (tl zs)) @ c # q))"
    for zs q using assms(3) by (cases zs; cases "tl zs") (auto simp: join_Cons)
  show ?case
  proof (cases ys)
    case Nil
    then show ?thesis using Cons.prems(2) h [of "x # xs" r] assms(2) [of x] assms(3) by auto
  next
    case (Cons y ys')
    obtain s where s: "join '','' (map f (x # xs)) @ c # r = f x @ s" "delim s"
        "s = (if xs = [] then c # r else CHR '','' # join '','' (map f xs) @ c # r)"
      using h [of "x # xs" r, unfolded list.sel] by auto
    obtain s' where s': "join '','' (map f (y # ys')) @ c # r' = f y @ s'" "delim s'"
        "s' = (if ys' = [] then c # r' else CHR '','' # join '','' (map f ys') @ c # r')"
      using h [of "y # ys'" r', unfolded list.sel] by auto
    have "f x @ s = f y @ s'" using Cons.prems(2) s(1) s'(1) Cons by simp
    then have xy: "x = y" "s = s'" using Cons.prems(1) [of x s y s'] s(2) s'(2) by auto
    have "xs = [] \<longleftrightarrow> ys' = []" using xy(2) s(3) s'(3) assms(3) by (auto split: if_splits)
    moreover have "xs \<noteq> [] \<Longrightarrow> ys' \<noteq> [] \<Longrightarrow> xs = ys' \<and> r = r'"
    proof (rule Cons.IH)
      show "xs \<noteq> [] \<Longrightarrow> ys' \<noteq> [] \<Longrightarrow> join '','' (map f xs) @ c # r = join '','' (map f ys') @ c # r'"
        using xy(2) s(3) s'(3) by simp
    qed (use Cons.prems(1) in auto)
    ultimately show ?thesis using xy s(3) s'(3) Cons by (cases "xs = []") auto
  qed
qed
lemma raw_json_head: "\<exists>a t. raw_json v = a # t \<and> a \<notin> {CHR '','', CHR '']'', CHR ''}''}"
proof (cases v)
  case (JNum n)
  then show ?thesis using int_str_head [of n] by (auto simp: is_digit_def code_unit_def)
qed (auto simp: json_str_def)

definition head_kind :: "char \<Rightarrow> nat" where
  "head_kind c = (if c = CHR ''n'' then 0 else if c = CHR ''t'' then 1 else if c = CHR ''f'' then 2
     else if c = CHR ''\"'' then 4 else if c = CHR ''['' then 5 else if c = CHR ''{'' then 6 else 3)"

fun json_kind :: "json \<Rightarrow> nat" where
  "json_kind JNull = 0"
| "json_kind (JBool b) = (if b then 1 else 2)"
| "json_kind (JNum _) = 3"
| "json_kind (JStr _) = 4"
| "json_kind (JArr _) = 5"
| "json_kind (JObj _) = 6"

lemma json_kind_head: "head_kind (hd (raw_json v @ r)) = json_kind v"
proof (cases v)
  case (JNum n)
  obtain c s where "int_str n = c # s" "is_digit c \<or> c = CHR ''-''" using int_str_head by blast
  then show ?thesis using JNum by (auto simp: head_kind_def is_digit_def code_unit_def)
qed (auto simp: head_kind_def json_str_def)

lemma raw_json_kind: "raw_json v @ r = raw_json w @ r' \<Longrightarrow> json_kind v = json_kind w"
  using json_kind_head [of v r] json_kind_head [of w r'] by argo

lemma raw_json_prefix:
  "raw_json v @ r = raw_json w @ r' \<Longrightarrow> delim r \<Longrightarrow> delim r' \<Longrightarrow> v = w \<and> r = r'"
proof (induction v arbitrary: w r r')
  case JNull
  then show ?case using raw_json_kind [OF JNull(1)] by (cases w) (auto split: if_splits)
next
  case (JBool b)
  then show ?case using raw_json_kind [OF JBool(1)] by (cases w) (auto split: if_splits)
next
  case (JNum n)
  then obtain m where "w = JNum m" using raw_json_kind [OF JNum(1)] by (cases w) (auto split: if_splits)
  then show ?case using JNum int_str_prefix [of n r m r'] by simp
next
  case (JStr s)
  then obtain t where "w = JStr t" using raw_json_kind [OF JStr(1)] by (cases w) (auto split: if_splits)
  then show ?case using JStr json_str_prefix [of s r t r'] by simp
next
  case (JArr vs)
  then obtain ws where w: "w = JArr ws" using raw_json_kind [OF JArr(2)] by (cases w) (auto split: if_splits)
  have "vs = ws \<and> r = r'"
  proof (rule items_prefix [where f = raw_json and c = "CHR '']''"])
    show "join '','' (map raw_json vs) @ CHR '']'' # r = join '','' (map raw_json ws) @ CHR '']'' # r'"
      using JArr(2) w by simp
  qed (use JArr(1) raw_json_head in auto)
  then show ?case using w by simp
next
  case (JObj kvs)
  let ?f = "\<lambda>(k, v). json_str k @ '':'' @ raw_json v"
  obtain kws where w: "w = JObj kws" using raw_json_kind [OF JObj(2)] by (cases w) (auto split: if_splits)
  have "kvs = kws \<and> r = r'"
  proof (rule items_prefix [where f = ?f and c = "CHR ''}''"])
    show "join '','' (map ?f kvs) @ CHR ''}'' # r = join '','' (map ?f kws) @ CHR ''}'' # r'"
      using JObj(2) w by simp
    show "x = y \<and> q = q'" if "x \<in> set kvs" "?f x @ q = ?f y @ q'" "delim q" "delim q'" for x y q q'
    proof -
      obtain k v k' v' where xy: "x = (k, v)" "y = (k', v')" by (cases x; cases y) auto
      have "json_str k @ ('':'' @ raw_json v @ q) = json_str k' @ ('':'' @ raw_json v' @ q')"
        using that(2) xy by simp
      from json_str_prefix [OF this] have "k = k'" "raw_json v @ q = raw_json v' @ q'" by auto
      then show ?thesis using that xy by (auto dest: JObj(1) [rotated 2])
    qed
    show "\<exists>a t. ?f x = a # t \<and> a \<notin> {CHR '','', CHR '']'', CHR ''}''}" for x
      by (cases x) (simp add: json_str_def)
  qed simp
  then show ?case using w by simp
qed

lemma raw_json_inj: "raw_json v = raw_json w \<longleftrightarrow> v = w"
  using raw_json_prefix [of v "[]" w "[]"] by (auto simp: delim_def)

text \<open>
  C38: the signed text is canonical: two JSON values have the same canonical text exactly when they
  are equal up to the order of object keys.  So key order never breaks a signature, and no other
  change of a value (a hash, a name with quotes or commas in it, a moved bracket) leaves the
  signed text as it was.
\<close>

theorem canonical_json_canonical: "canonicalJson v = canonicalJson w \<longleftrightarrow> sort_json v = sort_json w"
  by (simp add: canonicalJson_raw raw_json_inj)

lemma map_of_sort_key: "map_of (sort_key fst kvs) k = map_of (kvs :: (string \<times> 'a) list) k"
proof -
  have "map_of (insort_key fst x xs) k = map_of (x # xs) k" for x and xs :: "(string \<times> 'a) list"
    by (induction xs) auto
  then show ?thesis by (induction kvs) auto
qed

section \<open>Verification\<close>

lemma sort_json_patches:
  "sort_json (JObj (map (\<lambda>(k, v). (k, JStr v)) ps)) = JObj (map (\<lambda>(k, v). (k, JStr v)) (sort_key fst ps))"
proof -
  have "map (\<lambda>(k, v). (k, sort_json v)) (map (\<lambda>(k, v). (k, JStr v)) ps) = map (\<lambda>(k, v). (k, JStr v)) ps"
    by auto
  then show ?thesis using sort_key_map_snd [of JStr ps] by (simp only: sort_json.simps)
qed

lemma sort_unsigned_json:
  "sort_json (unsigned_json m) =
     JObj [(''issued_at'', JStr (mf_issued_at m)), (''key_id'', JStr (mf_key_id m)),
           (''patches'', JObj (map (\<lambda>(k, v). (k, JStr v)) (sort_key fst (mf_patches m)))),
           (''version'', JNum (mf_version m))]"
proof -
  have s: "sort_key fst [(''version'', a), (''key_id'', b), (''issued_at'', c), (''patches'', d)] =
      [(''issued_at'', c), (''key_id'', b), (''patches'', d), (''version'', a)]" for a b c d :: json
    by code_simp
  have e: "map (\<lambda>(k, v). (k, sort_json v)) [(''version'', a), (''key_id'', b), (''issued_at'', c), (''patches'', d)] =
      [(''version'', sort_json a), (''key_id'', sort_json b), (''issued_at'', sort_json c), (''patches'', sort_json d)]"
    for a b c d by simp
  show ?thesis
    unfolding unsigned_json_def sort_json.simps(2) [of "_ # _"] e s sort_json_patches by simp
qed

lemma signed_text_binds:
  assumes "canonicalJson (unsigned_json m) = canonicalJson (unsigned_json m')"
  shows "mf_version m = mf_version m' \<and> mf_key_id m = mf_key_id m' \<and> mf_issued_at m = mf_issued_at m'
    \<and> map_of (mf_patches m) = map_of (mf_patches m')"
proof -
  let ?p = "\<lambda>m. sort_key fst (mf_patches m)"
  have "sort_json (unsigned_json m) = sort_json (unsigned_json m')"
    using assms by (simp add: canonicalJson_raw raw_json_inj)
  then have e: "mf_version m = mf_version m'" "mf_key_id m = mf_key_id m'" "mf_issued_at m = mf_issued_at m'"
    "map (\<lambda>(k, v). (k, JStr v)) (?p m) = map (\<lambda>(k, v). (k, JStr v)) (?p m')"
    by (simp_all add: sort_unsigned_json)
  have "inj (\<lambda>(k :: string, v). (k, JStr v))" by (auto simp: inj_def)
  then have "?p m = ?p m'" using e(4) by (simp only: inj_map_eq_map)
  then have "map_of (mf_patches m) k = map_of (mf_patches m') k" for k
    using map_of_sort_key [of "mf_patches m" k] map_of_sort_key [of "mf_patches m'" k] by simp
  then show ?thesis using e by auto
qed

lemma find_key_SomeD:
  "find_key kid allowed keyring = Some k \<Longrightarrow>
     k \<in> set keyring \<and> tk_key_id k = kid \<and> tk_trust k \<in> set allowed"
  by (auto simp: find_key_def find_Some_iff)

lemma verifyManifest_InrD:
  assumes "verifyManifest ed m keyring allowed = Inr key"
  shows "find_key (mf_key_id m) allowed keyring = Some key"
    and "ed (tk_public_key key) (canonicalJson (unsigned_json m)) (mf_signature m) = Inr True"
  using assms by (auto simp: verifyManifest_def split: option.splits sum.splits if_splits)

text \<open>
  C26: a manifest is accepted only under a key of the keyring with the manifest's key id and an
  allowed trust level; and if that key's signature was made for one text only (nobody else holds
  the private key), the accepted manifest is the signed one: same version, key id and date, and the
  same hash for every patch name, so editing, adding or removing a patch entry is refused.
\<close>

theorem tampered_manifest_refused:
  assumes "verifyManifest ed_verify m' keyring allowed = Inr key"
    and "\<forall>msg. ed_verify (tk_public_key key) msg (mf_signature m') = Inr True \<longrightarrow>
           msg = canonicalJson (unsigned_json m)"
  shows "key \<in> set keyring \<and> tk_key_id key = mf_key_id m' \<and> tk_trust key \<in> set allowed
    \<and> mf_version m' = mf_version m \<and> mf_key_id m' = mf_key_id m \<and> mf_issued_at m' = mf_issued_at m
    \<and> map_of (mf_patches m') = map_of (mf_patches m)"
  using find_key_SomeD [OF verifyManifest_InrD(1) [OF assms(1)]]
    signed_text_binds [of m' m] verifyManifest_InrD(2) [OF assms(1)] assms(2) by auto

text \<open>A concrete scheme for the witnesses: the signature of a text is the text after the key.\<close>

definition plain_sign :: "string \<Rightarrow> string \<Rightarrow> (string, string) res" where
  "plain_sign k msg = Inr (k @ '':'' @ msg)"

definition plain_verify :: "string \<Rightarrow> string \<Rightarrow> string \<Rightarrow> (string, bool) res" where
  "plain_verify k msg sg = Inr (sg = k @ '':'' @ msg)"

definition sample_manifest :: patch_manifest where
  "sample_manifest = \<lparr>mf_version = 1, mf_key_id = ''k1'', mf_issued_at = ''2025-01-01'',
     mf_patches = [(''20250102_b'', ''bb''), (''20250101_a'', ''aa'')], mf_signature = []\<rparr>"

definition sample_key :: "trust \<Rightarrow> trusted_key" where
  "sample_key t = \<lparr>tk_key_id = ''k1'', tk_public_key = ''pub'', tk_trust = t\<rparr>"

definition sample_signed :: patch_manifest where
  "sample_signed = sample_manifest\<lparr>mf_signature := ''pub:'' @ canonicalJson (unsigned_json sample_manifest)\<rparr>"

lemma sample_accepted:
  "verifyManifest plain_verify sample_signed [sample_key Dev, sample_key Release] [Release] = Inr (sample_key Release)"
  by code_simp

theorem tampered_manifest_refused_witness:
  "map_of (mf_patches sample_signed) = map_of (mf_patches sample_manifest)
     \<and> tk_trust (sample_key Release) \<in> set [Release]"
  using tampered_manifest_refused [OF sample_accepted, of sample_manifest]
  by (simp add: plain_verify_def sample_key_def sample_signed_def)

text \<open>
  C39: signing and verifying fit together: a manifest signed with the private key of a keyring
  entry is accepted under that entry whatever its patches are, when the entry is the first one of
  its id with an allowed trust level and the signature scheme accepts its own signatures.
\<close>

theorem sign_then_verify:
  assumes "signManifest ed_sign m priv = Inr m'"
    and "\<forall>msg s. ed_sign priv msg = Inr s \<longrightarrow> ed_verify (tk_public_key key) msg s = Inr True"
    and "keyring = pre @ key # post"
    and "tk_key_id key = mf_key_id m" and "tk_trust key \<in> set allowed"
    and "\<forall>k\<in>set pre. tk_key_id k = mf_key_id m \<longrightarrow> tk_trust k \<notin> set allowed"
  shows "verifyManifest ed_verify m' keyring allowed = Inr key \<and> mf_patches m' = mf_patches m"
proof -
  obtain s where s: "ed_sign priv (canonicalJson (unsigned_json m)) = Inr s" "m' = m\<lparr>mf_signature := s\<rparr>"
    using assms(1) by (auto simp: signManifest_def split: sum.splits)
  have u: "unsigned_json m' = unsigned_json m" by (simp add: s(2) unsigned_json_def)
  have "List.find P (pre @ key # post) = Some key" if "P key" "\<forall>k\<in>set pre. \<not> P k" for P
    using that by (induction pre) auto
  then have "find_key (mf_key_id m') allowed keyring = Some key"
    using assms(3-6) s(2) by (auto simp: find_key_def)
  then show ?thesis using s u assms(2) by (simp add: verifyManifest_def)
qed

theorem sign_then_verify_witness:
  "verifyManifest plain_verify sample_signed [sample_key Dev, sample_key Release] [Release] = Inr (sample_key Release)
     \<and> mf_patches sample_signed = mf_patches sample_manifest"
proof (rule sign_then_verify [where ed_sign = plain_sign and priv = "''pub''" and pre = "[sample_key Dev]" and post = "[]"])
  show "signManifest plain_sign sample_manifest ''pub'' = Inr sample_signed"
    by (simp add: signManifest_def plain_sign_def sample_signed_def)
qed (simp_all add: plain_sign_def plain_verify_def sample_key_def sample_manifest_def)

end
