(* ===== verification/PatchRegistry.thy ===== *)
theory PatchRegistry
  imports Prelude
begin

text \<open>
  \<open>src/migrations/patch-registry.ts\<close> and \<open>src/migrations/status.ts\<close>: the per-schema patch registry,
  the statements that change it (the upsert of \<open>engine.ts\<close> and the three admin transitions) with
  their SQL meaning on the table, and the life cycle of a patch as a step relation.
\<close>

section \<open>Rows and statements\<close>

datatype patch_status = Pending | Applied | Failed | PendingReview | Approved | ResolvedManual

record patch_row =
  patch_name :: string
  content_sha256 :: string
  status :: patch_status
  signed_key_id :: "string option"
  attempts :: int
  duration_ms :: "int option"
  error :: "string option"
  applied_by :: "string option"
  resolved_by :: "string option"
  resolved_note :: "string option"
  atomic :: bool
  applied_at :: int
  updated_at :: int

text \<open>The table, \<open>None\<close> before the DDL has run; \<open>patch_name\<close> is its primary key.\<close>

type_synonym registry = "patch_row list option"

definition patchRegistryDdl :: "string \<Rightarrow> string" where
  "patchRegistryDdl schema =
     (let fq = ''\"'' @ schema @ ''\".primebrick_database_patches''
      in join [CHR 0x0A]
        [''CREATE SCHEMA IF NOT EXISTS \"'' @ schema @ ''\";'',
         ''CREATE TABLE IF NOT EXISTS '' @ fq @ '' ('',
         ''  patch_name     text PRIMARY KEY,'',
         ''  content_sha256 text NOT NULL,'',
         ''  status         text NOT NULL DEFAULT '' @ [CHR 0x27] @ ''pending'' @ [CHR 0x27] @ '','',
         ''  signed_key_id  text,'',
         ''  attempts       int  NOT NULL DEFAULT 0,'',
         ''  duration_ms    int,'',
         ''  error          text,'',
         ''  applied_by     text,'',
         ''  resolved_by    text,'',
         ''  resolved_note  text,'',
         ''  atomic         boolean NOT NULL DEFAULT true,'',
         ''  applied_at     timestamptz NOT NULL DEFAULT now(),'',
         ''  updated_at     timestamptz NOT NULL DEFAULT now()'',
         '');'',
         ''CREATE INDEX IF NOT EXISTS primebrick_database_patches_status_idx'',
         ''  ON '' @ fq @ '' (status);'',
         ''ALTER TABLE '' @ fq @ '' DROP COLUMN IF EXISTS severity;'',
         ''''])"

text \<open>The effect of that DDL on the table.\<close>

definition registry_ddl :: "registry \<Rightarrow> registry" where
  "registry_ddl reg = (case reg of None \<Rightarrow> Some [] | Some t \<Rightarrow> Some t)"

text \<open>The parameters of \<open>upsertStatus\<close>.\<close>

record upsert_args =
  up_name :: string
  up_sha256 :: string
  up_status :: patch_status
  up_key_id :: "string option"
  up_duration :: "int option"
  up_error :: "string option"
  up_actor :: "string option"
  up_atomic :: bool

definition coalesce :: "'a option \<Rightarrow> 'a option \<Rightarrow> 'a option" where
  "coalesce a b = (case a of None \<Rightarrow> b | Some _ \<Rightarrow> a)"

definition inserted_row :: "int \<Rightarrow> upsert_args \<Rightarrow> patch_row" where
  "inserted_row now a =
     \<lparr>patch_name = up_name a, content_sha256 = up_sha256 a, status = up_status a,
      signed_key_id = up_key_id a, attempts = 1, duration_ms = up_duration a, error = up_error a,
      applied_by = up_actor a, resolved_by = None, resolved_note = None, atomic = up_atomic a,
      applied_at = now, updated_at = now\<rparr>"

definition conflict_row :: "int \<Rightarrow> upsert_args \<Rightarrow> patch_row \<Rightarrow> patch_row" where
  "conflict_row now a r =
     r\<lparr>content_sha256 := up_sha256 a, status := up_status a, signed_key_id := up_key_id a,
       attempts := attempts r + 1, duration_ms := coalesce (up_duration a) (duration_ms r),
       error := up_error a, applied_by := coalesce (up_actor a) (applied_by r),
       atomic := up_atomic a,
       applied_at := (if up_status a \<in> {Applied, ResolvedManual} then now else applied_at r),
       updated_at := now\<rparr>"

definition upsertStatus :: "int \<Rightarrow> upsert_args \<Rightarrow> patch_row list \<Rightarrow> patch_row list" where
  "upsertStatus now a t =
     (if list_ex (\<lambda>r. patch_name r = up_name a) t
      then map (\<lambda>r. if patch_name r = up_name a then conflict_row now a r else r) t
      else t @ [inserted_row now a])"

text \<open>An \<open>UPDATE .. SET .. WHERE ..\<close>: the new table and the row count.\<close>

definition update_where :: "(patch_row \<Rightarrow> bool) \<Rightarrow> (patch_row \<Rightarrow> patch_row) \<Rightarrow> patch_row list \<Rightarrow> nat \<times> patch_row list" where
  "update_where p f t = (length (filter p t), map (\<lambda>r. if p r then f r else r) t)"

section \<open>status.ts\<close>

definition no_table :: string where
  "no_table = ''relation does not exist''"

text \<open>\<open>collate\<close> is the sort key of the database's collation.\<close>

definition registryStatus :: "(string \<Rightarrow> string) \<Rightarrow> registry \<Rightarrow> patch_row list" where
  "registryStatus collate reg =
     (case reg of None \<Rightarrow> [] | Some t \<Rightarrow> sort_key (\<lambda>r. collate (patch_name r)) t)"

definition retryFailedPatches :: "int \<Rightarrow> string option \<Rightarrow> registry \<Rightarrow> (string, nat \<times> registry) res" where
  "retryFailedPatches now actor reg =
     (case reg of
        None \<Rightarrow> Inl no_table
      | Some t \<Rightarrow>
          (let (n, t') = update_where (\<lambda>r. status r = Failed)
             (\<lambda>r. r\<lparr>status := Pending, error := None, updated_at := now, resolved_by := actor\<rparr>) t
           in Inr (n, Some t')))"

definition approvePendingReview ::
  "int \<Rightarrow> string \<Rightarrow> string \<Rightarrow> string option \<Rightarrow> registry \<Rightarrow> (string, bool \<times> registry) res" where
  "approvePendingReview now patchName actor note reg =
     (case reg of
        None \<Rightarrow> Inl no_table
      | Some t \<Rightarrow>
          (let (n, t') = update_where (\<lambda>r. patch_name r = patchName \<and> status r = PendingReview)
             (\<lambda>r. r\<lparr>status := Approved, updated_at := now, resolved_by := Some actor, resolved_note := note\<rparr>) t
           in Inr (n = 1, Some t')))"

definition resolveManually ::
  "int \<Rightarrow> string \<Rightarrow> string \<Rightarrow> string \<Rightarrow> registry \<Rightarrow> (string, bool \<times> registry) res" where
  "resolveManually now patchName actor note reg =
     (case reg of
        None \<Rightarrow> Inl no_table
      | Some t \<Rightarrow>
          (let (n, t') = update_where
             (\<lambda>r. patch_name r = patchName \<and> status r \<in> {Failed, Pending, PendingReview})
             (\<lambda>r. r\<lparr>status := ResolvedManual, updated_at := now, resolved_by := Some actor,
                    resolved_note := Some note, error := None\<rparr>) t
           in Inr (n = 1, Some t')))"

section \<open>The life cycle of a patch\<close>

definition done_row :: "patch_row \<Rightarrow> bool" where
  "done_row r \<longleftrightarrow> status r = Applied \<or> status r = ResolvedManual"

definition reg_wf :: "patch_row list \<Rightarrow> bool" where
  "reg_wf t \<longleftrightarrow> distinct (map patch_name t)
     \<and> (\<forall>r\<in>set t. 0 \<le> attempts r)
     \<and> (\<forall>r\<in>set t. status r = Approved \<longrightarrow> resolved_by r \<noteq> None)
     \<and> (\<forall>r\<in>set t. status r = ResolvedManual \<longrightarrow> resolved_by r \<noteq> None \<and> resolved_note r \<noteq> None)"

definition row_of :: "patch_row list \<Rightarrow> string \<Rightarrow> patch_row option" where
  "row_of t n = List.find (\<lambda>r. patch_name r = n) t"

text \<open>The steps of a registry: the engine's upserts, for patches whose row is not done, and the
  admin transitions.\<close>

inductive reg_step :: "registry \<Rightarrow> registry \<Rightarrow> bool" where
  ddl: "reg_step reg (registry_ddl reg)"
| engine: "\<lbrakk>\<forall>r\<in>set t. patch_name r = up_name a \<longrightarrow> \<not> done_row r;
            up_status a \<in> {Applied, Failed, PendingReview}\<rbrakk>
           \<Longrightarrow> reg_step (Some t) (Some (upsertStatus now a t))"
| retry: "retryFailedPatches now actor reg = Inr (n, reg') \<Longrightarrow> reg_step reg reg'"
| approve: "approvePendingReview now p actor note reg = Inr (b, reg') \<Longrightarrow> reg_step reg reg'"
| resolve: "resolveManually now p actor note' reg = Inr (b, reg') \<Longrightarrow> reg_step reg reg'"

lemma patch_name_conflict [simp]: "patch_name (conflict_row now a r) = patch_name r"
  by (simp add: conflict_row_def)

lemma patch_name_inserted [simp]: "patch_name (inserted_row now a) = up_name a"
  by (simp add: inserted_row_def)

lemma row_of_Some_iff:
  "distinct (map patch_name t) \<Longrightarrow> row_of t n = Some r \<longleftrightarrow> r \<in> set t \<and> patch_name r = n"
  by (induction t) (force simp: row_of_def)+

lemma row_of_None_iff: "row_of t n = None \<longleftrightarrow> n \<notin> patch_name ` set t"
  by (auto simp: row_of_def find_None_iff)

lemma row_of_map:
  assumes "\<And>r. patch_name (f r) = patch_name r"
  shows "row_of (map f t) n = map_option f (row_of t n)"
  by (induction t) (auto simp: row_of_def assms)

lemma row_of_upsert:
  "row_of (upsertStatus now a t) n =
     (if n = up_name a
      then Some (case row_of t n of None \<Rightarrow> inserted_row now a | Some r \<Rightarrow> conflict_row now a r)
      else row_of t n)"
proof (cases "list_ex (\<lambda>r. patch_name r = up_name a) t")
  case True
  let ?f = "\<lambda>r. if patch_name r = up_name a then conflict_row now a r else r"
  have "row_of (map ?f t) n = map_option ?f (row_of t n)" by (rule row_of_map) simp
  moreover have "patch_name r = n" if "row_of t n = Some r" for r
    using that by (auto simp: row_of_def find_Some_iff)
  moreover have "row_of t (up_name a) \<noteq> None" using True unfolding row_of_None_iff by (force simp: list_ex_iff)
  ultimately show ?thesis using True by (cases "row_of t n") (auto simp: upsertStatus_def)
next
  case False
  then have n: "row_of t (up_name a) = None" by (auto simp: row_of_None_iff list_ex_iff)
  have "row_of (t @ [x]) n = (case row_of t n of None \<Rightarrow> if patch_name x = n then Some x else None | s \<Rightarrow> s)" for x
    by (induction t) (auto simp: row_of_def)
  then show ?thesis using False n by (cases "row_of t n") (auto simp: upsertStatus_def)
qed

lemma reg_wf_upsert:
  assumes "reg_wf t" "up_status a \<in> {Applied, Failed, PendingReview}"
  shows "reg_wf (upsertStatus now a t)"
proof -
  have "map patch_name (map (\<lambda>r. if patch_name r = up_name a then conflict_row now a r else r) t) = map patch_name t"
    by simp
  then show ?thesis using assms
    unfolding reg_wf_def upsertStatus_def
    by (auto simp: list_ex_iff conflict_row_def inserted_row_def simp del: map_map)
qed

lemma reg_wf_update:
  assumes "reg_wf t" "\<And>r. patch_name (f r) = patch_name r" "\<And>r. attempts (f r) = attempts r"
    and "\<And>r. p r \<Longrightarrow> status (f r) = Approved \<Longrightarrow> resolved_by (f r) \<noteq> None"
    and "\<And>r. p r \<Longrightarrow> status (f r) = ResolvedManual \<Longrightarrow> resolved_by (f r) \<noteq> None \<and> resolved_note (f r) \<noteq> None"
  shows "reg_wf (snd (update_where p f t))"
proof -
  have "map patch_name (map (\<lambda>r. if p r then f r else r) t) = map patch_name t" using assms(2) by simp
  then show ?thesis using assms unfolding reg_wf_def update_where_def by (auto simp del: map_map)
qed

definition registry_wf :: "registry \<Rightarrow> bool" where
  "registry_wf reg = (case reg of None \<Rightarrow> True | Some t \<Rightarrow> reg_wf t)"

definition reg_row :: "registry \<Rightarrow> string \<Rightarrow> patch_row option" where
  "reg_row reg n = (case reg of None \<Rightarrow> None | Some t \<Rightarrow> row_of t n)"

text \<open>The status changes a step can make to a row.\<close>

definition status_step :: "patch_status \<Rightarrow> patch_status \<Rightarrow> bool" where
  "status_step s s' \<longleftrightarrow>
     s' = s
   \<or> s \<notin> {Applied, ResolvedManual} \<and> s' \<in> {Applied, Failed, PendingReview}
   \<or> s = Failed \<and> s' = Pending
   \<or> s = PendingReview \<and> s' = Approved
   \<or> s \<in> {Failed, Pending, PendingReview} \<and> s' = ResolvedManual"

text \<open>What a step does to the row of a patch: a done row is not touched at all.\<close>

definition row_step :: "patch_row option \<Rightarrow> patch_row option \<Rightarrow> bool" where
  "row_step x y \<longleftrightarrow>
     (case x of
        None \<Rightarrow> (case y of None \<Rightarrow> True
                 | Some r' \<Rightarrow> status r' \<in> {Applied, Failed, PendingReview} \<and> attempts r' = 1)
      | Some r \<Rightarrow> (case y of None \<Rightarrow> False
                   | Some r' \<Rightarrow> status_step (status r) (status r') \<and> attempts r \<le> attempts r'
                              \<and> (done_row r \<longrightarrow> r' = r)))"

lemma status_step_refl: "status_step s s"
  by (simp add: status_step_def)

lemma row_step_refl [simp]: "row_step x x"
  by (auto simp: row_step_def status_step_def split: option.splits)

lemma reg_row_update:
  assumes "\<And>r. patch_name (f r) = patch_name r"
  shows "reg_row (Some (snd (update_where p f t))) n = map_option (\<lambda>r. if p r then f r else r) (row_of t n)"
  unfolding reg_row_def update_where_def using row_of_map [of "\<lambda>r. if p r then f r else r" t n] assms by simp

lemma row_of_name: "row_of t n = Some r \<Longrightarrow> patch_name r = n \<and> r \<in> set t"
  by (auto simp: row_of_def find_Some_iff)

text \<open>The three admin transitions have one shape: a guarded update of rows that are not done.\<close>

definition admin_update :: "(patch_row \<Rightarrow> bool) \<Rightarrow> (patch_row \<Rightarrow> patch_row) \<Rightarrow> bool" where
  "admin_update p f \<longleftrightarrow>
     (\<forall>r. patch_name (f r) = patch_name r \<and> attempts (f r) = attempts r
        \<and> (p r \<longrightarrow> status_step (status r) (status (f r)) \<and> \<not> done_row r
             \<and> (status (f r) = Approved \<longrightarrow> resolved_by (f r) \<noteq> None)
             \<and> (status (f r) = ResolvedManual \<longrightarrow> resolved_by (f r) \<noteq> None \<and> resolved_note (f r) \<noteq> None)))"

lemma reg_step_cases:
  assumes "reg_step reg reg'"
  obtains (ddl) "reg' = registry_ddl reg"
    | (engine) t a now where "reg = Some t" "reg' = Some (upsertStatus now a t)"
        "\<forall>r\<in>set t. patch_name r = up_name a \<longrightarrow> \<not> done_row r" "up_status a \<in> {Applied, Failed, PendingReview}"
    | (admin) t p f where "reg = Some t" "reg' = Some (snd (update_where p f t))" "admin_update p f"
  using assms
proof (cases rule: reg_step.cases)
  case (retry now actor n)
  then obtain t where "reg = Some t" "reg' = Some (snd (update_where (\<lambda>r. status r = Failed)
      (\<lambda>r. r\<lparr>status := Pending, error := None, updated_at := now, resolved_by := actor\<rparr>) t))"
    by (auto simp: retryFailedPatches_def split: option.splits prod.splits)
  then show ?thesis by (rule that(3)) (simp add: admin_update_def status_step_def done_row_def)
next
  case (approve now p actor nt b)
  then obtain t where "reg = Some t" "reg' = Some (snd (update_where (\<lambda>r. patch_name r = p \<and> status r = PendingReview)
      (\<lambda>r. r\<lparr>status := Approved, updated_at := now, resolved_by := Some actor, resolved_note := nt\<rparr>) t))"
    by (auto simp: approvePendingReview_def split: option.splits prod.splits)
  then show ?thesis by (rule that(3)) (simp add: admin_update_def status_step_def done_row_def)
next
  case (resolve now p actor nt b)
  then obtain t where "reg = Some t" "reg' = Some (snd (update_where
      (\<lambda>r. patch_name r = p \<and> status r \<in> {Failed, Pending, PendingReview})
      (\<lambda>r. r\<lparr>status := ResolvedManual, updated_at := now, resolved_by := Some actor,
             resolved_note := Some nt, error := None\<rparr>) t))"
    by (auto simp: resolveManually_def split: option.splits prod.splits)
  then show ?thesis by (rule that(3)) (auto simp: admin_update_def status_step_def done_row_def)
qed (rule that; assumption)+

lemma reg_step_wf:
  assumes "reg_step reg reg'" "registry_wf reg"
  shows "registry_wf reg'"
  using assms(1)
proof (cases rule: reg_step_cases)
  case ddl
  then show ?thesis using assms(2) by (cases reg) (simp_all add: registry_ddl_def registry_wf_def reg_wf_def)
next
  case (engine t a now)
  then show ?thesis using assms(2) reg_wf_upsert [of t a now] by (simp add: registry_wf_def)
next
  case (admin t p f)
  then show ?thesis using assms(2) reg_wf_update [of t f p] by (simp add: registry_wf_def admin_update_def)
qed

lemma row_step_upsert:
  assumes "\<forall>r\<in>set t. patch_name r = up_name a \<longrightarrow> \<not> done_row r" "up_status a \<in> {Applied, Failed, PendingReview}"
  shows "row_step (row_of t n) (row_of (upsertStatus now a t) n)"
proof (cases "n = up_name a")
  case True
  show ?thesis
  proof (cases "row_of t n")
    case None
    then show ?thesis using True assms(2) by (simp add: row_of_upsert row_step_def inserted_row_def)
  next
    case (Some r)
    then have "\<not> done_row r" using row_of_name [OF Some] assms(1) True by blast
    then show ?thesis using Some True assms(2)
      by (simp add: row_of_upsert row_step_def conflict_row_def status_step_def done_row_def)
  qed
qed (simp add: row_of_upsert)

lemma reg_step_row:
  assumes "reg_step reg reg'"
  shows "row_step (reg_row reg n) (reg_row reg' n)"
  using assms
proof (cases rule: reg_step_cases)
  case ddl
  then show ?thesis by (cases reg) (simp_all add: registry_ddl_def reg_row_def row_of_def)
next
  case (engine t a now)
  then show ?thesis using row_step_upsert [of t a n now] by (simp add: reg_row_def)
next
  case (admin t p f)
  then show ?thesis using reg_row_update [of f p t n]
    by (auto simp: reg_row_def row_step_def admin_update_def status_step_refl split: option.splits)
qed

lemma reg_steps_wf: "reg_step\<^sup>*\<^sup>* reg reg' \<Longrightarrow> registry_wf reg \<Longrightarrow> registry_wf reg'"
  by (induction rule: rtranclp_induct) (auto intro: reg_step_wf)


definition sample_args :: "string \<Rightarrow> patch_status \<Rightarrow> upsert_args" where
  "sample_args n s = \<lparr>up_name = n, up_sha256 = ''aa'', up_status = s, up_key_id = None, up_duration = Some 5,
     up_error = None, up_actor = Some ''svc'', up_atomic = True\<rparr>"

definition sample_row :: patch_row where
  "sample_row = inserted_row 1 (sample_args ''p1'' Applied)"


text \<open>
  C34: the registry's invariant holds in every state reachable from an empty database: one row per
  patch name, a patch is approved only by a named admin, and it is resolved by hand only with a
  name and a note.
\<close>

theorem reachable_registry_wf:
  assumes "reg_step\<^sup>*\<^sup>* None (Some t)"
  shows "distinct (map patch_name t)
    \<and> (\<forall>r\<in>set t. status r = Approved \<longrightarrow> resolved_by r \<noteq> None)
    \<and> (\<forall>r\<in>set t. status r = ResolvedManual \<longrightarrow> resolved_by r \<noteq> None \<and> resolved_note r \<noteq> None)"
  using reg_steps_wf [OF assms] by (simp add: registry_wf_def reg_wf_def)

lemma reach_approved:
  "reg_step\<^sup>*\<^sup>* None
     (Some [(inserted_row 1 (sample_args ''p2'' PendingReview))
        \<lparr>status := Approved, updated_at := 2, resolved_by := Some ''ada'', resolved_note := None\<rparr>])"
proof -
  let ?r = "inserted_row 1 (sample_args ''p2'' PendingReview)"
  have "reg_step None (registry_ddl None)" by (rule reg_step.ddl)
  then have 1: "reg_step None (Some [])" by (simp add: registry_ddl_def)
  have "reg_step (Some []) (Some (upsertStatus 1 (sample_args ''p2'' PendingReview) []))"
    by (rule reg_step.engine) (simp_all add: sample_args_def)
  then have 2: "reg_step (Some []) (Some [?r])" by (simp add: upsertStatus_def)
  have 3: "reg_step (Some [?r])
      (Some [?r\<lparr>status := Approved, updated_at := 2, resolved_by := Some ''ada'', resolved_note := None\<rparr>])"
    by (rule reg_step.approve [of 2 "''p2''" "''ada''" None _ True])
      (simp add: approvePendingReview_def update_where_def inserted_row_def sample_args_def)
  show ?thesis
    using rtranclp_trans [OF r_into_rtranclp [of reg_step, OF 1]
        rtranclp_trans [OF r_into_rtranclp [of reg_step, OF 2] r_into_rtranclp [of reg_step, OF 3]]] .
qed

theorem reachable_registry_wf_witness:
  "resolved_by (inserted_row 1 (sample_args ''p2'' PendingReview)
     \<lparr>status := Approved, updated_at := 2, resolved_by := Some ''ada'', resolved_note := None\<rparr>) \<noteq> None"
  using reachable_registry_wf [OF reach_approved] by simp

end
