(* ===== verification/MigrationEngine.thy ===== *)
theory MigrationEngine
  imports SqlSplitter PatchNaming Manifest PatchRegistry
begin

text \<open>
  \<open>src/migrations/engine.ts\<close>: the runner that applies the patch files of a service at boot.

  The database connection, the clock, the hash and the signature check are the fields of an
  environment, over a world of any type; each statement the code sends is a constructor of \<open>cmd\<close>, with its
  text or parameters where the code computes them.  The run threads the world and the log of
  statements with their replies; the log is the only thing added to the code's state.
\<close>

section \<open>Statements, environment, state\<close>

datatype cmd =
    TryLock
  | Unlock
  | RegistryDdl
  | ReadModeReg
  | ReadModeVal
  | SelectRegistry
  | SetLockTimeout
  | SetIdleTimeout
  | Begin
  | Commit
  | Rollback
  | SetLocalTimeout
  | RunSql string
  | Upsert upsert_args

text \<open>The first row of a result, as the code reads it.\<close>

datatype reply =
    RDone
  | RLocked bool
  | ROid "string option"
  | RValue "string option"
  | RRows "patch_row list"

datatype event = Sent cmd "(string, reply) res" | Released

record 'w env =
  e_query :: "cmd \<Rightarrow> 'w \<Rightarrow> (string, reply) res \<times> 'w"
  e_now :: "'w \<Rightarrow> int \<times> 'w"
  e_sleep :: "'w \<Rightarrow> 'w"
  e_sha256 :: "string \<Rightarrow> string"
  e_verify :: "string \<Rightarrow> string \<Rightarrow> string \<Rightarrow> (string, bool) res"

record 'w state =
  trace :: "event list"
  world :: 'w

type_synonym ('w, 'a) act = "'w state \<Rightarrow> (string, 'a) res \<times> 'w state"

definition ret :: "'a \<Rightarrow> ('w, 'a) act" where
  "ret a s = (Inr a, s)"

definition throw :: "string \<Rightarrow> ('w, 'a) act" where
  "throw e s = (Inl e, s)"

definition andThen :: "('w, 'a) act \<Rightarrow> ('a \<Rightarrow> ('w, 'b) act) \<Rightarrow> ('w, 'b) act" where
  "andThen m f s = (case m s of (Inl e, s') \<Rightarrow> (Inl e, s') | (Inr a, s') \<Rightarrow> f a s')"

definition catching :: "('w, 'a) act \<Rightarrow> (string \<Rightarrow> ('w, 'a) act) \<Rightarrow> ('w, 'a) act" where
  "catching m h s = (case m s of (Inl e, s') \<Rightarrow> h e s' | (Inr a, s') \<Rightarrow> (Inr a, s'))"

definition attempt :: "('w, 'a) act \<Rightarrow> ('a \<Rightarrow> ('w, 'b) act) \<Rightarrow> (string \<Rightarrow> ('w, 'b) act) \<Rightarrow> ('w, 'b) act" where
  "attempt m f h s = (case m s of (Inl e, s') \<Rightarrow> h e s' | (Inr a, s') \<Rightarrow> f a s')"

definition emit :: "event \<Rightarrow> 'w state \<Rightarrow> 'w state" where
  "emit ev s = s\<lparr>trace := trace s @ [ev]\<rparr>"

definition query :: "'w env \<Rightarrow> cmd \<Rightarrow> ('w, reply) act" where
  "query e c s =
     (let (r, w) = e_query e c (world s) in (r, emit (Sent c r) (s\<lparr>world := w\<rparr>)))"

definition date_now :: "'w env \<Rightarrow> 'w state \<Rightarrow> int \<times> 'w state" where
  "date_now e s = (let (t, w) = e_now e (world s) in (t, s\<lparr>world := w\<rparr>))"

definition withNow :: "'w env \<Rightarrow> (int \<Rightarrow> ('w, 'a) act) \<Rightarrow> ('w, 'a) act" where
  "withNow e f s = (let (t, s') = date_now e s in f t s')"

definition sleep :: "'w env \<Rightarrow> 'w state \<Rightarrow> 'w state" where
  "sleep e s = s\<lparr>world := e_sleep e (world s)\<rparr>"

section \<open>Options, results, patch files\<close>

datatype migration_mode = Apply | Check | Off

text \<open>The contents of the directory, of the manifest and of the keyring are part of the options; \<open>o_read\<close>
  is \<open>readFileSync\<close>, which may throw.\<close>

record options =
  o_dir :: "string list option"
  o_read :: "string \<Rightarrow> (string, string) res"
  o_manifest :: "patch_manifest json_file"
  o_keys :: "trusted_key list option json_file"
  o_allowedTrust :: "trust list option"
  o_approvedReviews :: "string list option"
  o_actor :: "string option"
  o_lockWaitMs :: "int option"

record run_result =
  r_mode :: migration_mode
  r_nextMode :: "string option"
  r_degraded :: bool
  r_applied :: "string list"
  r_failed :: "(string \<times> string) list"
  r_pendingReview :: "string list"
  r_skipped :: "string list"
  r_securityEvents :: "string list"

record patch_file =
  f_filename :: string
  f_patchName :: string
  f_raw :: string
  f_sha256 :: string
  f_sha256Raw :: string
  f_requiresReview :: bool
  f_noTransaction :: bool

definition initial_result :: run_result where
  "initial_result = \<lparr>r_mode = Apply, r_nextMode = None, r_degraded = False, r_applied = [],
     r_failed = [], r_pendingReview = [], r_skipped = [], r_securityEvents = []\<rparr>"

text \<open>\<open>/^\s*--\s*pb:([a-z-]+)(?:\s+(\S+))?/\<close>, group 1.\<close>

definition pb_pragma_re :: re where
  "pb_pragma_re = re_seq [Bol, ws0, lit ''--'', ws0, lit ''pb:'',
     Grp 1 (plus1 (Cls (\<lambda>c. is_lower c \<or> c = CHR ''-''))),
     opt (re_seq [ws1, Grp 2 (plus1 (Cls (\<lambda>c. \<not> js_ws c)))])]"

definition pragma_of :: "string \<Rightarrow> string option" where
  "pragma_of line = (case re_exec pb_pragma_re line of None \<Rightarrow> None | Some (l, t) \<Rightarrow> capture 1 t)"

definition parsePatchPragmas :: "string \<Rightarrow> bool \<times> bool" where
  "parsePatchPragmas raw =
     (let ls = take 40 (split_on (CHR 0x0A) raw)
      in (list_ex (\<lambda>line. pragma_of line = Some ''requires-review'') ls,
          list_ex (\<lambda>line. pragma_of line = Some ''no-transaction'') ls))"

definition listPatchFiles :: "string list option \<Rightarrow> string list" where
  "listPatchFiles dir =
     (case dir of None \<Rightarrow> [] | Some fs \<Rightarrow> sort (filter (\<lambda>f. ends_with f ''.sql'') fs))"

section \<open>Mode and lock\<close>

definition readMode :: "'w env \<Rightarrow> ('w, string option) act" where
  "readMode e =
     andThen (query e ReadModeReg) (\<lambda>reg.
       (case reg of
          ROid (Some oid) \<Rightarrow>
            if oid = [] then ret None
            else andThen (query e ReadModeVal)
                   (\<lambda>r. ret (case r of RValue v \<Rightarrow> v | _ \<Rightarrow> None))
        | _ \<Rightarrow> ret None))"

definition mode_of :: "string option \<Rightarrow> migration_mode" where
  "mode_of raw = (if raw = Some ''check'' then Check else if raw = Some ''off'' then Off else Apply)"

text \<open>The waiting loop, with fuel; \<open>None\<close> when the fuel runs out.\<close>

fun lock_loop :: "nat \<Rightarrow> 'w env \<Rightarrow> int \<Rightarrow> 'w state \<Rightarrow> (string, bool) res option \<times> 'w state" where
  "lock_loop 0 e deadline s = (None, s)"
| "lock_loop (Suc n) e deadline s =
     (case query e TryLock s of
        (Inl err, s1) \<Rightarrow> (Some (Inl err), s1)
      | (Inr r, s1) \<Rightarrow>
          if r = RLocked True then (Some (Inr True), s1)
          else (let (t, s2) = date_now e s1
                in if deadline \<le> t then (Some (Inr False), s2)
                   else lock_loop n e deadline (sleep e s2)))"

definition acquireAdvisoryLock :: "nat \<Rightarrow> 'w env \<Rightarrow> int \<Rightarrow> 'w state \<Rightarrow> (string, bool) res option \<times> 'w state" where
  "acquireAdvisoryLock fuel e waitMs s =
     (let (t, s1) = date_now e s in lock_loop fuel e (t + waitMs) s1)"

section \<open>The provenance gate\<close>

text \<open>The checks on a file before anything runs, with the security event the code records.  (A patch
  name that is a member of \<open>Object.prototype\<close> would read a function from \<open>manifest.patches\<close>; the code then
  refuses the file as a hash mismatch, the model as unknown.)\<close>

definition check_file ::
  "'w env \<Rightarrow> options \<Rightarrow> patch_manifest \<Rightarrow> string \<Rightarrow> (string list \<times> string, patch_file) res" where
  "check_file e opts manifest filename =
     (case o_read opts filename of
        Inl err \<Rightarrow> Inl ([], err)
      | Inr raw \<Rightarrow>
          (let patchName = patchNameFromFilename filename;
               sha = e_sha256 e (normalizePatchEol raw);
               shaRaw = e_sha256 e raw
           in case map_of (mf_patches manifest) patchName of
                None \<Rightarrow> Inl ([''patch_unknown:'' @ patchName],
                   ''db-migration: '' @ filename @ '' is not in MANIFEST.json - refusing (fail-closed)'')
              | Some declared \<Rightarrow>
                  if declared \<noteq> sha then
                    Inl ([''patch_sha_mismatch:'' @ patchName],
                       ''db-migration: '' @ filename @ '' content sha256 differs from manifest - refusing (fail-closed)'')
                  else
                    (let (requiresReview, noTransaction) = parsePatchPragmas raw
                     in Inr \<lparr>f_filename = filename, f_patchName = patchName, f_raw = raw, f_sha256 = sha,
                             f_sha256Raw = shaRaw, f_requiresReview = requiresReview,
                             f_noTransaction = noTransaction\<rparr>)))"

fun check_files ::
  "'w env \<Rightarrow> options \<Rightarrow> patch_manifest \<Rightarrow> string list \<Rightarrow> (string list \<times> string, patch_file list) res" where
  "check_files e opts manifest [] = Inr []"
| "check_files e opts manifest (fn # fns) =
     (case check_file e opts manifest fn of
        Inl x \<Rightarrow> Inl x
      | Inr f \<Rightarrow> (case check_files e opts manifest fns of Inl x \<Rightarrow> Inl x | Inr fs \<Rightarrow> Inr (f # fs)))"

definition error_event :: "manifest_error \<Rightarrow> string" where
  "error_event err = (case err of ManifestError code _ \<Rightarrow> code | _ \<Rightarrow> ''manifest_error'')"

definition error_message :: "manifest_error \<Rightarrow> string" where
  "error_message err = (case err of ManifestError _ m \<Rightarrow> m | CryptoError m \<Rightarrow> m | JsonSyntaxError m \<Rightarrow> m)"

definition signing_key :: "'w env \<Rightarrow> options \<Rightarrow> patch_manifest \<Rightarrow> (manifest_error, trusted_key) res" where
  "signing_key e opts manifest =
     (case loadKeyring ''keys.json'' (o_keys opts) of
        Inl err \<Rightarrow> Inl err
      | Inr keyring \<Rightarrow>
          verifyManifest (e_verify e) manifest keyring
            (case o_allowedTrust opts of None \<Rightarrow> [Release] | Some ts \<Rightarrow> ts))"

definition provenance ::
  "'w env \<Rightarrow> options \<Rightarrow> string list \<Rightarrow> (string list \<times> string, trusted_key \<times> patch_file list) res" where
  "provenance e opts filenames =
     (case loadManifest (o_manifest opts) of
        Inl err \<Rightarrow> Inl ([], error_message err)
      | Inr None \<Rightarrow> Inl ([''manifest_missing''],
          ''db-migration: '' @ nat_str (length filenames)
            @ '' patch file(s) present but no MANIFEST.json - refusing (fail-closed)'')
      | Inr (Some manifest) \<Rightarrow>
          (case signing_key e opts manifest of
             Inl err \<Rightarrow> Inl ([error_event err], error_message err)
           | Inr key \<Rightarrow>
               (case check_files e opts manifest filenames of
                  Inl x \<Rightarrow> Inl x
                | Inr files \<Rightarrow> Inr (key, files))))"

text \<open>\<open>new Map(rows.map(...))\<close>: the last row of a name wins.\<close>

definition by_name :: "patch_row list \<Rightarrow> string \<Rightarrow> patch_row option" where
  "by_name rows n = map_of (rev (map (\<lambda>r. (patch_name r, r)) rows)) n"

definition row_done :: "patch_row option \<Rightarrow> bool" where
  "row_done row = (case row of None \<Rightarrow> False | Some r \<Rightarrow> status r = Applied \<or> status r = ResolvedManual)"

text \<open>The immutability check: the first file registered as done with other contents.\<close>

definition changed_file :: "(string \<Rightarrow> patch_row option) \<Rightarrow> patch_file \<Rightarrow> bool" where
  "changed_file byName f =
     (case byName (f_patchName f) of
        None \<Rightarrow> False
      | Some r \<Rightarrow> row_done (Some r) \<and> content_sha256 r \<noteq> f_sha256 f \<and> content_sha256 r \<noteq> f_sha256Raw f)"

section \<open>Applying one patch\<close>

definition upsert_row :: "options \<Rightarrow> trusted_key \<Rightarrow> patch_file \<Rightarrow> patch_status \<Rightarrow> string option
    \<Rightarrow> int option \<Rightarrow> bool option \<Rightarrow> upsert_args" where
  "upsert_row opts key f st err duration atm =
     \<lparr>up_name = f_patchName f, up_sha256 = f_sha256 f, up_status = st, up_key_id = Some (tk_key_id key),
      up_duration = duration, up_error = err, up_actor = o_actor opts,
      up_atomic = (case atm of None \<Rightarrow> \<not> f_noTransaction f | Some b \<Rightarrow> b)\<rparr>"

text \<open>\<open>BEGIN; try { body; COMMIT } catch (e) { ROLLBACK; throw e }\<close>.\<close>

definition in_tx :: "'w env \<Rightarrow> ('w, 'a) act \<Rightarrow> ('w, reply) act" where
  "in_tx e body =
     andThen (query e Begin) (\<lambda>_.
       catching (andThen body (\<lambda>_. query e Commit))
                (\<lambda>err. andThen (query e Rollback) (\<lambda>_. throw err)))"

definition mark_applied :: "'w env \<Rightarrow> options \<Rightarrow> trusted_key \<Rightarrow> patch_file \<Rightarrow> int \<Rightarrow> bool \<Rightarrow> ('w, reply) act" where
  "mark_applied e opts key f startedAt atm =
     withNow e (\<lambda>t. query e (Upsert (upsert_row opts key f Applied None (Some (t - startedAt)) (Some atm))))"

fun run_stmts :: "'w env \<Rightarrow> string list \<Rightarrow> ('w, unit) act" where
  "run_stmts e [] = ret ()"
| "run_stmts e (stmt # stmts) =
     (if isTxControlStatement stmt then run_stmts e stmts
      else andThen (query e (RunSql stmt)) (\<lambda>_. run_stmts e stmts))"

definition run_tx_sql :: "'w env \<Rightarrow> string \<Rightarrow> ('w, reply) act" where
  "run_tx_sql e sql =
     andThen (query e SetLocalTimeout) (\<lambda>_. query e (RunSql (stripTxControl sql)))"

fun run_segments :: "'w env \<Rightarrow> patch_segment list \<Rightarrow> ('w, unit) act" where
  "run_segments e [] = ret ()"
| "run_segments e (seg # segs) =
     (if seg_kind seg = Tx
      then andThen (in_tx e (run_tx_sql e (seg_sql seg))) (\<lambda>_. run_segments e segs)
      else andThen (run_stmts e (splitSqlStatements (seg_sql seg))) (\<lambda>_. run_segments e segs))"

definition apply_patch :: "'w env \<Rightarrow> options \<Rightarrow> trusted_key \<Rightarrow> patch_file \<Rightarrow> int \<Rightarrow> ('w, reply) act" where
  "apply_patch e opts key f startedAt =
     (let segments = parsePatchSegments (f_raw f)
      in case segments of
           [seg] \<Rightarrow>
             if seg_kind seg = Tx
             then in_tx e (andThen (run_tx_sql e (seg_sql seg)) (\<lambda>_. mark_applied e opts key f startedAt True))
             else andThen (run_segments e segments) (\<lambda>_. in_tx e (mark_applied e opts key f startedAt False))
         | _ \<Rightarrow> andThen (run_segments e segments) (\<lambda>_. in_tx e (mark_applied e opts key f startedAt False)))"

section \<open>The apply loop\<close>

definition review_gate :: "options \<Rightarrow> patch_row option \<Rightarrow> patch_file \<Rightarrow> bool" where
  "review_gate opts row f \<longleftrightarrow>
     f_requiresReview f \<and> map_option status row \<noteq> Some Approved
     \<and> f_patchName f \<notin> set (case o_approvedReviews opts of None \<Rightarrow> [] | Some ps \<Rightarrow> ps)"

definition fail_patch :: "'w env \<Rightarrow> options \<Rightarrow> trusted_key \<Rightarrow> patch_file \<Rightarrow> run_result \<Rightarrow> string \<Rightarrow> ('w, run_result) act" where
  "fail_patch e opts key f res message =
     andThen (query e (Upsert (upsert_row opts key f Failed (Some message) None None))) (\<lambda>_.
       ret (res\<lparr>r_failed := r_failed res @ [(f_patchName f, message)], r_degraded := True\<rparr>))"

fun apply_loop :: "'w env \<Rightarrow> options \<Rightarrow> trusted_key \<Rightarrow> (string \<Rightarrow> patch_row option) \<Rightarrow> patch_file list
    \<Rightarrow> run_result \<Rightarrow> ('w, run_result) act" where
  "apply_loop e opts key byName [] res = ret res"
| "apply_loop e opts key byName (f # fs) res =
     (let row = byName (f_patchName f)
      in if row_done row then
           apply_loop e opts key byName fs (res\<lparr>r_skipped := r_skipped res @ [f_patchName f]\<rparr>)
         else if review_gate opts row f then
           andThen (query e (Upsert (upsert_row opts key f PendingReview None None None))) (\<lambda>_.
             ret (res\<lparr>r_pendingReview := r_pendingReview res @ [f_patchName f], r_degraded := True\<rparr>))
         else
           withNow e (\<lambda>startedAt.
             attempt (apply_patch e opts key f startedAt)
               (\<lambda>_. apply_loop e opts key byName fs (res\<lparr>r_applied := r_applied res @ [f_patchName f]\<rparr>))
               (fail_patch e opts key f res)))"

section \<open>runMigrations\<close>

definition next_mode :: "'w env \<Rightarrow> run_result \<Rightarrow> ('w, run_result) act" where
  "next_mode e res =
     andThen (catching (readMode e) (\<lambda>_. ret None)) (\<lambda>m. ret (res\<lparr>r_nextMode := m\<rparr>))"

definition rows_of :: "reply \<Rightarrow> patch_row list" where
  "rows_of r = (case r of RRows rows \<Rightarrow> rows | _ \<Rightarrow> [])"

definition apply_files :: "'w env \<Rightarrow> options \<Rightarrow> migration_mode \<Rightarrow> trusted_key \<Rightarrow> patch_file list \<Rightarrow> run_result
    \<Rightarrow> ('w, run_result) act" where
  "apply_files e opts mode key files res =
     andThen (query e SelectRegistry) (\<lambda>r.
       (let byName = by_name (rows_of r)
        in case List.find (changed_file byName) files of
             Some f \<Rightarrow> throw (''db-migration: '' @ f_filename f
                @ '' is registered as done with a different sha256 - immutable patch changed, refusing'')
           | None \<Rightarrow>
               if mode = Check then ret res
               else andThen (query e SetLockTimeout) (\<lambda>_.
                      andThen (query e SetIdleTimeout) (\<lambda>_.
                        andThen (apply_loop e opts key byName files res) (next_mode e)))))"

text \<open>The body of the \<open>try\<close> once the lock is held.\<close>

definition locked_run :: "'w env \<Rightarrow> options \<Rightarrow> string list \<Rightarrow> ('w, run_result) act" where
  "locked_run e opts filenames =
     andThen (query e RegistryDdl) (\<lambda>_.
       andThen (readMode e) (\<lambda>rawMode.
         (let mode = mode_of rawMode;
              res = initial_result\<lparr>r_mode := mode\<rparr>
          in if filenames = [] then ret res
             else if mode = Off then ret res
             else case provenance e opts filenames of
                    Inl (events, msg) \<Rightarrow> throw msg
                  | Inr (key, files) \<Rightarrow> apply_files e opts mode key files res)))"

definition lock_budget :: "options \<Rightarrow> int" where
  "lock_budget opts = (case o_lockWaitMs opts of None \<Rightarrow> 30000 | Some w \<Rightarrow> w)"

text \<open>\<open>None\<close> is a run still waiting for the lock when the fuel is used up.\<close>

definition runMigrations :: "nat \<Rightarrow> 'w env \<Rightarrow> options \<Rightarrow> 'w state \<Rightarrow> (string, run_result) res option \<times> 'w state" where
  "runMigrations fuel e opts s =
     (let filenames = listPatchFiles (o_dir opts)
      in case acquireAdvisoryLock fuel e (lock_budget opts) s of
           (None, s1) \<Rightarrow> (None, s1)
         | (Some (Inl err), s1) \<Rightarrow> (Some (Inl err), emit Released s1)
         | (Some (Inr False), s1) \<Rightarrow>
             (Some (Inl ''db-migration: advisory lock not acquired within wait budget''), emit Released s1)
         | (Some (Inr True), s1) \<Rightarrow>
             (let (r, s2) = locked_run e opts filenames s1;
                  (_, s3) = query e Unlock s2
              in (Some r, emit Released s3)))"

end
