(* ===== verification/EngineFacts.thy ===== *)
theory EngineFacts
  imports MigrationEngine
begin

text \<open>
  What a migration run may send to the database, whatever the database answers: a small logic of
  traces (\<open>emits\<close>), the transaction and lock disciplines as automata, and the provenance of every
  SQL text.
\<close>

section \<open>A logic of traces\<close>

definition emits :: "('w, 'a) act \<Rightarrow> ((string, 'a) res \<Rightarrow> event list \<Rightarrow> bool) \<Rightarrow> bool" where
  "emits m P \<longleftrightarrow> (\<forall>s. \<exists>l. trace (snd (m s)) = trace s @ l \<and> P (fst (m s)) l)"

lemma emitsI: "(\<And>s. \<exists>l. trace (snd (m s)) = trace s @ l \<and> P (fst (m s)) l) \<Longrightarrow> emits m P"
  by (simp add: emits_def)

lemma emitsD: "emits m P \<Longrightarrow> \<exists>l. trace (snd (m s)) = trace s @ l \<and> P (fst (m s)) l"
  by (simp add: emits_def)

lemma emits_mono: "emits m P \<Longrightarrow> (\<And>r l. P r l \<Longrightarrow> Q r l) \<Longrightarrow> emits m Q"
  unfolding emits_def by blast

lemma trace_emit [simp]: "trace (emit ev s) = trace s @ [ev]"
  by (simp add: emit_def)

lemma emits_ret: "P (Inr a) [] \<Longrightarrow> emits (ret a) P"
  by (simp add: emits_def ret_def)

lemma emits_throw: "P (Inl e) [] \<Longrightarrow> emits (throw e) P"
  by (simp add: emits_def throw_def)

lemma emits_query: "(\<And>r. P r [Sent c r]) \<Longrightarrow> emits (query e c) P"
  by (auto simp: emits_def query_def split: prod.splits)

lemma emits_withNow:
  fixes f :: "int \<Rightarrow> ('w, 'a) act"
  assumes f: "\<And>t. emits (f t) P"
  shows "emits (withNow e f) P"
proof (rule emitsI)
  fix s :: "'w state"
  obtain t w where t: "e_now e (world s) = (t, w)" by (cases "e_now e (world s)")
  show "\<exists>l. trace (snd (withNow e f s)) = trace s @ l \<and> P (fst (withNow e f s)) l"
    using emitsD [OF f [of t], of "s\<lparr>world := w\<rparr>"] t by (simp add: withNow_def date_now_def)
qed

lemma emits_attempt:
  assumes "emits m P"
    and "\<And>a l. P (Inr a) l \<Longrightarrow> emits (f a) (\<lambda>r l'. Q r (l @ l'))"
    and "\<And>x l. P (Inl x) l \<Longrightarrow> emits (h x) (\<lambda>r l'. Q r (l @ l'))"
  shows "emits (attempt m f h) Q"
proof (rule emitsI)
  fix s
  obtain r s' where m: "m s = (r, s')" by (cases "m s") auto
  obtain l where l: "trace s' = trace s @ l" "P r l" using emitsD [OF assms(1), of s] m by auto
  show "\<exists>l. trace (snd (attempt m f h s)) = trace s @ l \<and> Q (fst (attempt m f h s)) l"
  proof (cases r)
    case (Inl x)
    then show ?thesis using emitsD [OF assms(3) [of x l], of s'] l m
      by (auto simp: attempt_def)
  next
    case (Inr a)
    then show ?thesis using emitsD [OF assms(2) [of a l], of s'] l m
      by (auto simp: attempt_def)
  qed
qed

lemma andThen_attempt: "andThen m f = attempt m f throw"
  by (auto simp: andThen_def attempt_def throw_def fun_eq_iff split: prod.splits sum.splits)

lemma catching_attempt: "catching m h = attempt m ret h"
  by (auto simp: catching_def attempt_def ret_def fun_eq_iff split: prod.splits sum.splits)

lemma emits_andThen:
  assumes "emits m P"
    and "\<And>a l. P (Inr a) l \<Longrightarrow> emits (f a) (\<lambda>r l'. Q r (l @ l'))"
    and "\<And>x l. P (Inl x) l \<Longrightarrow> Q (Inl x) l"
  shows "emits (andThen m f) Q"
  unfolding andThen_attempt
  by (rule emits_attempt [OF assms(1)]) (simp_all add: assms(2,3) emits_throw)

lemma emits_catching:
  assumes "emits m P"
    and "\<And>a l. P (Inr a) l \<Longrightarrow> Q (Inr a) l"
    and "\<And>x l. P (Inl x) l \<Longrightarrow> emits (h x) (\<lambda>r l'. Q r (l @ l'))"
  shows "emits (catching m h) Q"
  unfolding catching_attempt
  by (rule emits_attempt [OF assms(1)]) (simp_all add: assms(2,3) emits_ret)

text \<open>The common postconditions: an automaton over the events goes back to its state; in particular
  every event satisfies a predicate.\<close>

fun run_trace :: "('q \<Rightarrow> event \<Rightarrow> 'q option) \<Rightarrow> 'q \<Rightarrow> event list \<Rightarrow> 'q option" where
  "run_trace step q [] = Some q"
| "run_trace step q (ev # l) = (case step q ev of None \<Rightarrow> None | Some q' \<Rightarrow> run_trace step q' l)"

lemma run_trace_append:
  "run_trace step q (l @ l') = (case run_trace step q l of None \<Rightarrow> None | Some q' \<Rightarrow> run_trace step q' l')"
  by (induction l arbitrary: q) (auto split: option.splits)

definition keeps :: "('q \<Rightarrow> event \<Rightarrow> 'q option) \<Rightarrow> 'q \<Rightarrow> ('w, 'a) act \<Rightarrow> bool" where
  "keeps step q m \<longleftrightarrow> emits m (\<lambda>_ l. run_trace step q l = Some q)"

named_theorems trace_intros

definition only :: "(event \<Rightarrow> bool) \<Rightarrow> unit \<Rightarrow> event \<Rightarrow> unit option" where
  "only \<phi> q ev = (if \<phi> ev then Some () else None)"

lemma run_only: "run_trace (only \<phi>) () l = Some () \<longleftrightarrow> (\<forall>ev\<in>set l. \<phi> ev)"
  by (induction l) (auto simp: only_def)

lemma keeps_ret [trace_intros]: "keeps step q (ret a)"
  by (simp add: keeps_def emits_ret)

lemma keeps_throw [trace_intros]: "keeps step q (throw e)"
  by (simp add: keeps_def emits_throw)

lemma keeps_query: "(\<And>r. step q (Sent c r) = Some q) \<Longrightarrow> keeps step q (query e c)"
  by (simp add: keeps_def emits_query)

lemma keeps_withNow [trace_intros]: "(\<And>t. keeps step q (f t)) \<Longrightarrow> keeps step q (withNow e f)"
  by (simp add: keeps_def emits_withNow)

lemma keeps_attempt [trace_intros]:
  "keeps step q m \<Longrightarrow> (\<And>a. keeps step q (f a)) \<Longrightarrow> (\<And>x. keeps step q (h x)) \<Longrightarrow> keeps step q (attempt m f h)"
  unfolding keeps_def
  by (rule emits_attempt [where P = "\<lambda>_ l. run_trace step q l = Some q"]) (simp_all add: run_trace_append)

lemma keeps_andThen [trace_intros]:
  "keeps step q m \<Longrightarrow> (\<And>a. keeps step q (f a)) \<Longrightarrow> keeps step q (andThen m f)"
  unfolding andThen_attempt by (intro trace_intros)

lemma keeps_catching [trace_intros]:
  "keeps step q m \<Longrightarrow> (\<And>x. keeps step q (h x)) \<Longrightarrow> keeps step q (catching m h)"
  unfolding catching_attempt by (intro trace_intros)

lemma keeps_if [trace_intros]:
  "(c \<Longrightarrow> keeps step q m) \<Longrightarrow> (\<not> c \<Longrightarrow> keeps step q m') \<Longrightarrow> keeps step q (if c then m else m')"
  by simp

section \<open>Transactions\<close>

text \<open>The client's transaction state along the trace: \<open>BEGIN\<close> only outside a transaction, \<open>COMMIT\<close>,
  \<open>ROLLBACK\<close> and \<open>SET LOCAL\<close> only inside, everything that is not patch work only outside.  A failed
  \<open>COMMIT\<close> leaves the transaction to be rolled back.\<close>

definition tx_step :: "bool \<Rightarrow> event \<Rightarrow> bool option" where
  "tx_step q ev =
     (case ev of
        Sent Begin r \<Rightarrow> if q then None else Some (isr r)
      | Sent Commit r \<Rightarrow> if q then Some (\<not> isr r) else None
      | Sent Rollback r \<Rightarrow> if q then Some False else None
      | Sent SetLocalTimeout r \<Rightarrow> if q then Some True else None
      | Sent (RunSql _) _ \<Rightarrow> Some q
      | Sent (Upsert _) _ \<Rightarrow> Some q
      | _ \<Rightarrow> if q then None else Some False)"

datatype lock_state = Waiting | Held | Freed | Gone

definition lock_step :: "lock_state \<Rightarrow> event \<Rightarrow> lock_state option" where
  "lock_step q ev =
     (case q of
        Waiting \<Rightarrow> (case ev of Sent TryLock r \<Rightarrow> Some (if r = Inr (RLocked True) then Held else Waiting)
                    | Released \<Rightarrow> Some Gone | _ \<Rightarrow> None)
      | Held \<Rightarrow> (case ev of Sent Unlock _ \<Rightarrow> Some Freed | Sent TryLock _ \<Rightarrow> None | Released \<Rightarrow> None | _ \<Rightarrow> Some Held)
      | Freed \<Rightarrow> (case ev of Released \<Rightarrow> Some Gone | _ \<Rightarrow> None)
      | Gone \<Rightarrow> None)"

section \<open>Monitors of the patch work\<close>

text \<open>The SQL texts a patch file may send.\<close>

definition patch_statements :: "string \<Rightarrow> string list" where
  "patch_statements raw =
     concat (map (\<lambda>g. if seg_kind g = Tx then [stripTxControl (seg_sql g)]
                      else filter (\<lambda>s. \<not> isTxControlStatement s) (splitSqlStatements (seg_sql g)))
                 (parsePatchSegments raw))"

text \<open>A monitor is an automaton over events with a state outside and a state inside a transaction,
  that accepts the engine's own statements where the engine sends them, and the SQL texts and upserts
  its parameters allow.  The engine's code, under the lock, keeps every monitor in its outside state
  when the files to apply are allowed.\<close>

locale monitor =
  fixes step :: "'q \<Rightarrow> event \<Rightarrow> 'q option" and out :: 'q and inside :: 'q
    and ok_sql :: "string \<Rightarrow> bool" and ok_up :: "upsert_args \<Rightarrow> bool"
  assumes begin_step: "step out (Sent Begin r) = Some (if isr r then inside else out)"
    and commit_step: "step inside (Sent Commit r) = Some (if isr r then out else inside)"
    and rollback_step: "step inside (Sent Rollback r) = Some out"
    and local_step: "step inside (Sent SetLocalTimeout r) = Some inside"
    and sql_step: "q = out \<or> q = inside \<Longrightarrow> ok_sql sql \<Longrightarrow> step q (Sent (RunSql sql) r) = Some q"
    and up_step: "q = out \<or> q = inside \<Longrightarrow> ok_up a \<Longrightarrow> step q (Sent (Upsert a) r) = Some q"
    and plain_step: "c \<in> {RegistryDdl, ReadModeReg, ReadModeVal, SelectRegistry, SetLockTimeout, SetIdleTimeout}
      \<Longrightarrow> step out (Sent c r) = Some out"
begin

lemma keeps_sql: "q = out \<or> q = inside \<Longrightarrow> ok_sql sql \<Longrightarrow> keeps step q (query e (RunSql sql))"
  by (rule keeps_query) (rule sql_step)

lemma keeps_up: "q = out \<or> q = inside \<Longrightarrow> ok_up a \<Longrightarrow> keeps step q (query e (Upsert a))"
  by (rule keeps_query) (rule up_step)

lemma keeps_plain:
  "c \<in> {RegistryDdl, ReadModeReg, ReadModeVal, SelectRegistry, SetLockTimeout, SetIdleTimeout}
     \<Longrightarrow> keeps step out (query e c)"
  by (rule keeps_query) (rule plain_step)

lemma keeps_in_tx:
  assumes "keeps step inside body"
  shows "keeps step out (in_tx e body)"
proof -
  have rb: "emits (andThen (query e Rollback) (\<lambda>_. throw err)) (\<lambda>_ l. run_trace step inside l = Some out)" for err
    by (rule emits_andThen [where P = "\<lambda>r l. l = [Sent Rollback r]"])
      (auto intro!: emits_query emits_throw simp: rollback_step)
  have body: "emits (andThen body (\<lambda>_. query e Commit))
      (\<lambda>r l. run_trace step inside l = Some (if isr r then out else inside))"
    by (rule emits_andThen [OF assms [unfolded keeps_def]])
      (auto intro!: emits_query simp: run_trace_append commit_step)
  have c: "emits (catching (andThen body (\<lambda>_. query e Commit))
       (\<lambda>err. andThen (query e Rollback) (\<lambda>_. throw err))) (\<lambda>_ l. run_trace step inside l = Some out)"
    by (rule emits_catching [OF body]) (auto simp: run_trace_append intro: emits_mono [OF rb])
  show ?thesis unfolding keeps_def in_tx_def
    by (rule emits_andThen [where P = "\<lambda>r l. l = [Sent Begin r]"])
      (auto intro!: emits_query emits_mono [OF c] simp: begin_step)
qed

lemma keeps_run_stmts:
  "(\<And>s. s \<in> set stmts \<Longrightarrow> \<not> isTxControlStatement s \<Longrightarrow> ok_sql s) \<Longrightarrow> keeps step out (run_stmts e stmts)"
proof (induction e stmts rule: run_stmts.induct)
  case (2 e stmt stmts)
  then show ?case by (auto intro!: trace_intros keeps_sql)
qed (auto intro: trace_intros)

lemma keeps_run_tx_sql: "ok_sql (stripTxControl sql) \<Longrightarrow> keeps step inside (run_tx_sql e sql)"
  unfolding run_tx_sql_def by (intro trace_intros keeps_sql keeps_query) (simp_all add: local_step)

lemma keeps_run_segments:
  "(\<And>g. g \<in> set segs \<Longrightarrow> seg_kind g = Tx \<Longrightarrow> ok_sql (stripTxControl (seg_sql g))) \<Longrightarrow>
   (\<And>g s. g \<in> set segs \<Longrightarrow> seg_kind g \<noteq> Tx \<Longrightarrow> s \<in> set (splitSqlStatements (seg_sql g))
      \<Longrightarrow> \<not> isTxControlStatement s \<Longrightarrow> ok_sql s) \<Longrightarrow> keeps step out (run_segments e segs)"
proof (induction e segs rule: run_segments.induct)
  case (2 e seg segs)
  then show ?case
    by (auto intro!: trace_intros keeps_in_tx keeps_run_tx_sql keeps_run_stmts)
qed (auto intro: trace_intros)

lemma keeps_mark_applied:
  "q = out \<or> q = inside \<Longrightarrow> (\<And>d atm. ok_up (upsert_row opts key f Applied None d atm)) \<Longrightarrow>
     keeps step q (mark_applied e opts key f t b)"
  unfolding mark_applied_def by (intro trace_intros keeps_up)

lemma keeps_apply_patch:
  assumes "list_all ok_sql (patch_statements (f_raw f))"
    and "\<And>d atm. ok_up (upsert_row opts key f Applied None d atm)"
  shows "keeps step out (apply_patch e opts key f t)"
proof -
  let ?segs = "parsePatchSegments (f_raw f)"
  have t: "ok_sql (stripTxControl (seg_sql g))" if "g \<in> set ?segs" "seg_kind g = Tx" for g
    using assms(1) that by (force simp: patch_statements_def list_all_iff)
  have n: "ok_sql s" if "g \<in> set ?segs" "seg_kind g \<noteq> Tx" "s \<in> set (splitSqlStatements (seg_sql g))"
      "\<not> isTxControlStatement s" for g s
    using assms(1) that by (force simp: patch_statements_def list_all_iff)
  have segs: "keeps step out (run_segments e ?segs)" by (rule keeps_run_segments [OF t n])
  have non_atomic: "keeps step out
      (andThen (run_segments e ?segs) (\<lambda>_. in_tx e (mark_applied e opts key f t False)))"
    by (intro trace_intros segs keeps_in_tx keeps_mark_applied) (auto intro: assms(2))
  have atm: "keeps step out
      (in_tx e (andThen (run_tx_sql e (seg_sql g)) (\<lambda>_. mark_applied e opts key f t True)))"
    if "?segs = [g]" "seg_kind g = Tx" for g
    using t [of g] that by (intro trace_intros keeps_in_tx keeps_run_tx_sql keeps_mark_applied) (auto intro: assms(2))
  show ?thesis
    using non_atomic atm by (auto simp: apply_patch_def Let_def split: list.splits)
qed

lemma keeps_apply_loop:
  assumes "\<And>f. f \<in> set fs \<Longrightarrow> \<not> row_done (byName (f_patchName f)) \<Longrightarrow>
      (\<not> review_gate opts (byName (f_patchName f)) f \<longrightarrow> list_all ok_sql (patch_statements (f_raw f)))
      \<and> (\<forall>st err d atm. st \<in> {Applied, Failed, PendingReview} \<longrightarrow> ok_up (upsert_row opts key f st err d atm))"
  shows "keeps step out (apply_loop e opts key byName fs res)"
  using assms
proof (induction fs arbitrary: res)
  case Nil
  then show ?case by (simp add: trace_intros)
next
  case (Cons f fs)
  have IH: "keeps step out (apply_loop e opts key byName fs res)" for res
    by (rule Cons.IH) (use Cons.prems in auto)
  show ?case
  proof (cases "row_done (byName (f_patchName f))")
    case True
    then show ?thesis using IH by (simp add: Let_def)
  next
    case False
    note ok = Cons.prems [OF _ False, simplified]
    have up: "ok_up (upsert_row opts key f st err d atm)" if "st \<in> {Applied, Failed, PendingReview}" for st err d atm
      using ok that by auto
    have fl: "keeps step out (fail_patch e opts key f res x)" for x
      unfolding fail_patch_def by (intro trace_intros keeps_up up) auto
    have ap: "keeps step out (apply_patch e opts key f t)" if "\<not> review_gate opts (byName (f_patchName f)) f" for t
      using ok that by (intro keeps_apply_patch up) auto
    show ?thesis using False ap IH fl
      by (auto simp: Let_def intro!: trace_intros keeps_up up)
  qed
qed

lemma keeps_readMode: "keeps step out (readMode e)"
  unfolding readMode_def
  by (intro trace_intros keeps_plain; simp split: reply.split option.split)
    (auto intro!: trace_intros keeps_plain)

end

context monitor
begin

lemma keeps_next_mode: "keeps step out (next_mode e res)"
  unfolding next_mode_def by (intro trace_intros keeps_readMode)

lemma keeps_apply_files:
  assumes "\<And>f. mode \<noteq> Check \<Longrightarrow> f \<in> set files \<Longrightarrow> list_all ok_sql (patch_statements (f_raw f))
      \<and> (\<forall>st err d atm. st \<in> {Applied, Failed, PendingReview} \<longrightarrow> ok_up (upsert_row opts key f st err d atm))"
  shows "keeps step out (apply_files e opts mode key files res)"
proof -
  have "keeps step out (apply_loop e opts key byName files res)" if "mode \<noteq> Check" for byName
    by (rule keeps_apply_loop) (use assms that in blast)
  then show ?thesis
    unfolding apply_files_def
    by (auto intro!: trace_intros keeps_plain keeps_next_mode simp: Let_def split: option.split)
qed

lemma keeps_locked_run:
  assumes "\<And>key files f. provenance e opts filenames = Inr (key, files) \<Longrightarrow> f \<in> set files \<Longrightarrow>
      list_all ok_sql (patch_statements (f_raw f))
      \<and> (\<forall>st err d atm. st \<in> {Applied, Failed, PendingReview} \<longrightarrow> ok_up (upsert_row opts key f st err d atm))"
  shows "keeps step out (locked_run e opts filenames)"
proof -
  have "keeps step out (apply_files e opts mode key files res)"
    if "provenance e opts filenames = Inr (key, files)" for mode key files res
    by (rule keeps_apply_files) (use assms that in blast)
  then show ?thesis
    unfolding locked_run_def
    by (auto intro!: trace_intros keeps_plain keeps_readMode simp: Let_def split: sum.split prod.split)
qed

end

section \<open>Three monitors\<close>

interpretation tx: monitor tx_step False True "\<lambda>_. True" "\<lambda>_. True"
  by unfold_locales (auto simp: tx_step_def)

interpretation lk: monitor lock_step Held Held "\<lambda>_. True" "\<lambda>_. True"
  by unfold_locales (auto simp: lock_step_def)

text \<open>Every SQL text and every upsert of the trace is allowed.\<close>

definition allowed_event :: "(string \<Rightarrow> bool) \<Rightarrow> (upsert_args \<Rightarrow> bool) \<Rightarrow> event \<Rightarrow> bool" where
  "allowed_event ok_sql ok_up ev =
     (case ev of Sent (RunSql sql) _ \<Rightarrow> ok_sql sql | Sent (Upsert a) _ \<Rightarrow> ok_up a | _ \<Rightarrow> True)"

interpretation al: monitor "only (allowed_event ok_sql ok_up)" "()" "()" ok_sql ok_up for ok_sql ok_up
  by unfold_locales (auto simp: only_def allowed_event_def)

section \<open>The shape of a run\<close>

lemma lock_loop_trace:
  "lock_loop n e d s = (r, s') \<Longrightarrow>
     \<exists>l. trace s' = trace s @ l \<and> (\<forall>ev\<in>set l. \<exists>r. ev = Sent TryLock r)
       \<and> run_trace lock_step Waiting l = Some (if r = Some (Inr True) then Held else Waiting)"
proof (induction n e d s rule: lock_loop.induct)
  case (1 e d s)
  then show ?case by auto
next
  case (2 n e d s)
  obtain q s1 where q: "query e TryLock s = (q, s1)" by (cases "query e TryLock s") auto
  then have t1: "trace s1 = trace s @ [Sent TryLock q]" by (auto simp: query_def split: prod.splits)
  obtain t s2 where t: "date_now e s1 = (t, s2)" by (cases "date_now e s1") auto
  then have t2: "trace s2 = trace s1" by (auto simp: date_now_def split: prod.splits)
  show ?case
  proof (cases q)
    case (Inl err)
    then show ?thesis using 2(2) q t1 by (auto simp: lock_step_def)
  next
    case (Inr a)
    show ?thesis
    proof (cases "a = RLocked True \<or> d \<le> t")
      case True
      then show ?thesis using 2(2) q t1 t t2 Inr by (auto simp: lock_step_def split: if_splits)
    next
      case False
      then have "lock_loop n e d (sleep e s2) = (r, s')" using 2(2) q t Inr by auto
      from 2(1) [OF q [symmetric] Inr _ t [symmetric] refl _ this] False
      obtain l where "trace s' = trace (sleep e s2) @ l" "\<forall>ev\<in>set l. \<exists>r. ev = Sent TryLock r"
        "run_trace lock_step Waiting l = Some (if r = Some (Inr True) then Held else Waiting)" by auto
      moreover have "lock_step Waiting (Sent TryLock q) = Some Waiting"
        using False Inr by (simp add: lock_step_def)
      ultimately show ?thesis using t1 t2
        by (intro exI [of _ "Sent TryLock q # l"]) (auto simp: sleep_def)
    qed
  qed
qed

lemma acquire_trace:
  assumes "acquireAdvisoryLock fuel e w s = (r, s')"
  shows "\<exists>l. trace s' = trace s @ l \<and> (\<forall>ev\<in>set l. \<exists>r. ev = Sent TryLock r)
       \<and> run_trace lock_step Waiting l = Some (if r = Some (Inr True) then Held else Waiting)"
proof -
  obtain t s1 where t: "date_now e s = (t, s1)" by (cases "date_now e s") auto
  then have "trace s1 = trace s" by (auto simp: date_now_def split: prod.splits)
  then show ?thesis using lock_loop_trace [of fuel e "t + w" s1 r s'] assms t
    by (simp add: acquireAdvisoryLock_def)
qed

text \<open>A finished run waits for the lock, and then either gives up or runs the locked part and unlocks.\<close>

lemma runMigrations_cases:
  assumes "runMigrations fuel e opts s = (Some r, s')"
  obtains (refused) l err where "r = Inl err" "trace s' = trace s @ l @ [Released]"
      "\<forall>ev\<in>set l. \<exists>r. ev = Sent TryLock r" "run_trace lock_step Waiting l = Some Waiting"
    | (locked) l s1 s2 u where "trace s1 = trace s @ l" "\<forall>ev\<in>set l. \<exists>r. ev = Sent TryLock r"
      "run_trace lock_step Waiting l = Some Held"
      "acquireAdvisoryLock fuel e (lock_budget opts) s = (Some (Inr True), s1)"
      "locked_run e opts (listPatchFiles (o_dir opts)) s1 = (r, s2)"
      "trace s' = trace s2 @ [Sent Unlock u, Released]"
      "world s' = snd (e_query e Unlock (world s2))"
proof -
  obtain a s1 where a: "acquireAdvisoryLock fuel e (lock_budget opts) s = (a, s1)" by fastforce
  obtain l where l: "trace s1 = trace s @ l" "\<forall>ev\<in>set l. \<exists>r. ev = Sent TryLock r"
    "run_trace lock_step Waiting l = Some (if a = Some (Inr True) then Held else Waiting)"
    using acquire_trace [OF a] by auto
  show ?thesis
  proof (cases "a = Some (Inr True)")
    case True
    obtain s2 where "locked_run e opts (listPatchFiles (o_dir opts)) s1 = (r, s2)"
      "s' = emit Released (snd (query e Unlock s2))"
      using assms a True by (auto simp: runMigrations_def split: prod.splits)
    then show ?thesis using that(2) [of s1 l s2] l True a
      by (auto simp: query_def emit_def split: prod.splits)
  next
    case False
    then show ?thesis using assms a l that(1)
      by (auto simp: runMigrations_def split: option.splits sum.splits prod.splits if_splits bool.splits)
  qed
qed

section \<open>Properties of every run\<close>

lemma locked_trace:
  assumes "keeps step q (locked_run e opts fns)" "locked_run e opts fns s1 = (r, s2)"
  shows "\<exists>l. trace s2 = trace s1 @ l \<and> run_trace step q l = Some q"
  using emitsD [OF assms(1) [unfolded keeps_def], of s1] assms(2) by simp

lemma run_trace_waiting:
  "\<forall>ev\<in>set l. \<exists>r. ev = Sent TryLock r \<Longrightarrow> (\<And>r. step q (Sent TryLock r) = Some q) \<Longrightarrow> run_trace step q l = Some q"
  by (induction l) auto

text \<open>A trace predicate that the lock statements satisfy and the locked part keeps holds of the run.\<close>

lemma run_keeps:
  assumes "runMigrations fuel e opts s = (Some r, s')"
    and "keeps step q (locked_run e opts (listPatchFiles (o_dir opts)))"
    and "\<And>c r. c \<in> {TryLock, Unlock} \<Longrightarrow> step q (Sent c r) = Some q" "step q Released = Some q"
  shows "\<exists>l. trace s' = trace s @ l \<and> run_trace step q l = Some q"
  using assms(1)
proof (cases rule: runMigrations_cases)
  case (refused l err)
  then show ?thesis using run_trace_waiting [of l step q] assms(3,4)
    by (intro exI [of _ "l @ [Released]"]) (simp add: run_trace_append)
next
  case (locked l s1 s2 u)
  obtain l2 where "trace s2 = trace s1 @ l2" "run_trace step q l2 = Some q"
    using locked_trace [OF assms(2) locked(5)] by blast
  then show ?thesis using locked(1,2,6) run_trace_waiting [of l step q] assms(3,4)
    by (intro exI [of _ "l @ l2 @ [Sent Unlock u, Released]"]) (simp add: run_trace_append)
qed

text \<open>
  C7: every transaction the engine opens it closes, whatever the database answers and whichever
  statement fails: BEGIN is sent only outside a transaction, COMMIT, ROLLBACK and SET LOCAL only
  inside one, the registry and lock statements only outside, and the run ends outside.
\<close>

theorem run_closes_transactions:
  assumes "runMigrations fuel e opts s = (Some r, s')"
  shows "\<exists>l. trace s' = trace s @ l \<and> run_trace tx_step False l = Some False"
  using assms
proof (rule run_keeps)
  show "keeps tx_step False (locked_run e opts (listPatchFiles (o_dir opts)))"
    by (rule tx.keeps_locked_run) (simp add: list_all_iff)
qed (auto simp: tx_step_def)

text \<open>
  C19: the advisory lock covers the whole run: no statement but the lock attempts is sent before an
  attempt has got the lock, a held lock is released exactly once after the last statement, and the
  connection goes back to the pool exactly once, as the last thing, on every path.
\<close>

theorem run_lock_discipline:
  assumes "runMigrations fuel e opts s = (Some r, s')"
  shows "\<exists>l. trace s' = trace s @ l \<and> run_trace lock_step Waiting l = Some Gone"
  using assms
proof (cases rule: runMigrations_cases)
  case (refused l err)
  have "lock_step Waiting Released = Some Gone" by (simp add: lock_step_def)
  with refused show ?thesis by (intro exI [of _ "l @ [Released]"]) (simp add: run_trace_append)
next
  case (locked l s1 s2 u)
  have "keeps lock_step Held (locked_run e opts (listPatchFiles (o_dir opts)))"
    by (rule lk.keeps_locked_run) (simp add: list_all_iff)
  from locked_trace [OF this locked(5)]
  obtain l2 where "trace s2 = trace s1 @ l2" "run_trace lock_step Held l2 = Some Held" by blast
  moreover have "lock_step Held (Sent Unlock u) = Some Freed" "lock_step Freed Released = Some Gone"
    by (simp_all add: lock_step_def)
  ultimately show ?thesis using locked(1,3,6)
    by (intro exI [of _ "l @ l2 @ [Sent Unlock u, Released]"]) (simp add: run_trace_append)
qed

text \<open>A file is eligible when the manifest, signed by an allowed key, has its hash.\<close>

definition eligible :: "'w env \<Rightarrow> options \<Rightarrow> patch_manifest \<Rightarrow> string \<Rightarrow> string \<Rightarrow> bool" where
  "eligible e opts manifest filename raw \<longleftrightarrow>
     filename \<in> set (listPatchFiles (o_dir opts)) \<and> o_read opts filename = Inr raw
     \<and> map_of (mf_patches manifest) (patchNameFromFilename filename) = Some (e_sha256 e (normalizePatchEol raw))"

definition trusted_manifest :: "'w env \<Rightarrow> options \<Rightarrow> patch_manifest \<Rightarrow> trusted_key \<Rightarrow> bool" where
  "trusted_manifest e opts manifest key \<longleftrightarrow>
     o_manifest opts = FileValue manifest
     \<and> (\<exists>keyring. o_keys opts = FileValue (Some keyring) \<and> key \<in> set keyring)
     \<and> tk_key_id key = mf_key_id manifest
     \<and> tk_trust key \<in> set (case o_allowedTrust opts of None \<Rightarrow> [Release] | Some ts \<Rightarrow> ts)
     \<and> e_verify e (tk_public_key key) (canonicalJson (unsigned_json manifest)) (mf_signature manifest) = Inr True"

lemma check_file_InrD:
  "check_file e opts m fn = Inr f \<Longrightarrow>
     f_filename f = fn \<and> f_patchName f = patchNameFromFilename fn \<and> o_read opts fn = Inr (f_raw f)
     \<and> f_sha256 f = e_sha256 e (normalizePatchEol (f_raw f))
     \<and> map_of (mf_patches m) (f_patchName f) = Some (f_sha256 f)
     \<and> f_requiresReview f = fst (parsePatchPragmas (f_raw f))"
  by (auto simp: check_file_def Let_def split: sum.splits option.splits if_splits prod.splits)

lemma check_files_InrD:
  "check_files e opts m fns = Inr fs \<Longrightarrow> list_all2 (\<lambda>fn f. check_file e opts m fn = Inr f) fns fs"
  by (induction e opts m fns arbitrary: fs rule: check_files.induct) (auto split: sum.splits)

lemma list_all2_in_left: "list_all2 P xs ys \<Longrightarrow> x \<in> set xs \<Longrightarrow> \<exists>y\<in>set ys. P x y"
  by (induction rule: list_all2_induct) auto

lemma list_all2_in_right: "list_all2 P xs ys \<Longrightarrow> y \<in> set ys \<Longrightarrow> \<exists>x\<in>set xs. P x y"
  by (induction rule: list_all2_induct) auto

lemma signing_key_InrD:
  assumes "signing_key e opts m = Inr key" "loadManifest (o_manifest opts) = Inr (Some m)"
  shows "trusted_manifest e opts m key"
proof -
  obtain keyring where k: "loadKeyring ''keys.json'' (o_keys opts) = Inr keyring"
    and v: "verifyManifest (e_verify e) m keyring
       (case o_allowedTrust opts of None \<Rightarrow> [Release] | Some ts \<Rightarrow> ts) = Inr key"
    using assms(1) by (auto simp: signing_key_def split: sum.splits)
  have "key \<in> set keyring" using find_key_SomeD [OF verifyManifest_InrD(1) [OF v]] by blast
  then have "o_keys opts = FileValue (Some keyring)" using k
    by (auto simp: loadKeyring_def split: json_file.splits option.splits)
  moreover have "o_manifest opts = FileValue m" using assms(2)
    by (auto simp: loadManifest_def split: json_file.splits)
  ultimately show ?thesis
    using find_key_SomeD [OF verifyManifest_InrD(1) [OF v]] verifyManifest_InrD(2) [OF v]
    unfolding trusted_manifest_def by blast
qed

lemma provenance_InrD:
  assumes "provenance e opts fns = Inr (key, files)"
  obtains m where "trusted_manifest e opts m key" "check_files e opts m fns = Inr files"
proof -
  obtain m where "loadManifest (o_manifest opts) = Inr (Some m)" "signing_key e opts m = Inr key"
    "check_files e opts m fns = Inr files"
    using assms by (auto simp: provenance_def split: sum.splits option.splits)
  then show ?thesis using signing_key_InrD that by blast
qed

lemma provenance_file:
  assumes "provenance e opts (listPatchFiles (o_dir opts)) = Inr (key, files)" "f \<in> set files"
  shows "\<exists>m. trusted_manifest e opts m key \<and> eligible e opts m (f_filename f) (f_raw f)
     \<and> f_patchName f = patchNameFromFilename (f_filename f) \<and> f_sha256 f = e_sha256 e (normalizePatchEol (f_raw f))"
proof -
  obtain m where m: "trusted_manifest e opts m key"
    and c: "check_files e opts m (listPatchFiles (o_dir opts)) = Inr files"
    using provenance_InrD [OF assms(1)] by blast
  obtain fn where fn: "fn \<in> set (listPatchFiles (o_dir opts))" "check_file e opts m fn = Inr f"
    using list_all2_in_right [OF check_files_InrD [OF c] assms(2)] by blast
  from check_file_InrD [OF fn(2)] fn(1) m show ?thesis unfolding eligible_def by (intro exI [of _ m]) auto
qed

text \<open>
  C1: provenance: every SQL text a run sends to the database is a statement of a patch file whose hash the
  manifest lists, under a manifest whose signature an allowed key of the keyring verifies; and every
  registry row the run writes carries the name and the hash of such a file.
\<close>

theorem only_trusted_sql:
  assumes "runMigrations fuel e opts s = (Some r, s')"
  shows "\<exists>l. trace s' = trace s @ l
    \<and> (\<forall>sql q. Sent (RunSql sql) q \<in> set l \<longrightarrow>
         (\<exists>m key fn raw. trusted_manifest e opts m key \<and> eligible e opts m fn raw
            \<and> sql \<in> set (patch_statements raw)))
    \<and> (\<forall>a q. Sent (Upsert a) q \<in> set l \<longrightarrow>
         (\<exists>m key fn raw. trusted_manifest e opts m key \<and> eligible e opts m fn raw
            \<and> up_name a = patchNameFromFilename fn \<and> up_sha256 a = e_sha256 e (normalizePatchEol raw)
            \<and> up_status a \<in> {Applied, Failed, PendingReview}))"
proof -
  let ?sql = "\<lambda>sql. \<exists>m key fn raw. trusted_manifest e opts m key \<and> eligible e opts m fn raw
            \<and> sql \<in> set (patch_statements raw)"
  let ?up = "\<lambda>a. \<exists>m key fn raw. trusted_manifest e opts m key \<and> eligible e opts m fn raw
            \<and> up_name a = patchNameFromFilename fn \<and> up_sha256 a = e_sha256 e (normalizePatchEol raw)
            \<and> up_status a \<in> {Applied, Failed, PendingReview}"
  have "\<exists>l. trace s' = trace s @ l \<and> run_trace (only (allowed_event ?sql ?up)) () l = Some ()"
    using assms
  proof (rule run_keeps)
    show "keeps (only (allowed_event ?sql ?up)) () (locked_run e opts (listPatchFiles (o_dir opts)))"
    proof (rule al.keeps_locked_run)
      fix key files f
      assume p: "provenance e opts (listPatchFiles (o_dir opts)) = Inr (key, files)" "f \<in> set files"
      from provenance_file [OF p]
      show "list_all ?sql (patch_statements (f_raw f))
        \<and> (\<forall>st err d atm. st \<in> {Applied, Failed, PendingReview} \<longrightarrow> ?up (upsert_row opts key f st err d atm))"
        unfolding list_all_iff upsert_row_def by auto
    qed
  qed (auto simp: only_def allowed_event_def)
  then show ?thesis unfolding run_only by (fastforce simp: allowed_event_def)
qed

definition work_event :: "event \<Rightarrow> bool" where
  "work_event ev \<longleftrightarrow> (\<exists>sql r. ev = Sent (RunSql sql) r) \<or> (\<exists>a r. ev = Sent (Upsert a) r) \<or> (\<exists>r. ev = Sent Begin r)"

lemma work_event_simps [simp]:
  "work_event (Sent (RunSql s) r)" "work_event (Sent (Upsert a) r)" "work_event (Sent Begin r)"
  "\<not> work_event Released"
  by (auto simp: work_event_def)

lemma idle_query:
  "c \<in> {TryLock, Unlock, RegistryDdl, ReadModeReg, ReadModeVal, SelectRegistry, SetLockTimeout, SetIdleTimeout}
     \<Longrightarrow> keeps (only (\<lambda>ev. \<not> work_event ev)) () (query e c)"
  by (rule keeps_query) (auto simp: only_def work_event_def)

lemma idle_readMode: "keeps (only (\<lambda>ev. \<not> work_event ev)) () (readMode e)"
  unfolding readMode_def
  by (intro trace_intros idle_query; simp split: reply.split option.split)
    (auto intro!: trace_intros idle_query)

lemma emits_query1: "emits (query e c) (\<lambda>r l. l = [Sent c r])"
  by (simp add: emits_query)

lemma emits_query_then:
  assumes "\<And>a. emits (f a) (\<lambda>r l. Q r (Sent c (Inr a) # l))" "\<And>x. Q (Inl x) [Sent c (Inl x)]"
  shows "emits (andThen (query e c) f) Q"
  by (rule emits_andThen [OF emits_query1]) (use assms in auto)

section \<open>The mode and the gate\<close>

text \<open>The value of \<open>db_migration.mode\<close> the run reads before it looks at the registry.\<close>

definition mode_read :: "event list \<Rightarrow> string option" where
  "mode_read l =
     (case filter (\<lambda>ev. \<exists>r. ev = Sent ReadModeVal r) (takeWhile (\<lambda>ev. \<nexists>r. ev = Sent SelectRegistry r) l) of
        Sent _ (Inr (RValue v)) # _ \<Rightarrow> v
      | _ \<Rightarrow> None)"

text \<open>\<open>readMode\<close>: the trace of its one or two statements determines its result.\<close>

definition mode_trace :: "(string, string option) res \<Rightarrow> event list \<Rightarrow> bool" where
  "mode_trace r l \<longleftrightarrow>
     (\<exists>x. l = [Sent ReadModeReg x] \<and> (\<forall>v. r = Inr v \<longrightarrow> v = None))
   \<or> (\<exists>x y. l = [Sent ReadModeReg x, Sent ReadModeVal y]
        \<and> (\<forall>v. r = Inr v \<longrightarrow> v = (case y of Inr (RValue v) \<Rightarrow> v | _ \<Rightarrow> None)))"

lemma emits_readMode: "emits (readMode e) mode_trace"
  unfolding readMode_def
proof (rule emits_query_then)
  fix a :: reply
  have v: "emits (andThen (query e ReadModeVal) (\<lambda>r. ret (case r of RValue v \<Rightarrow> v | _ \<Rightarrow> None)))
      (\<lambda>r l. mode_trace r (Sent ReadModeReg (Inr a) # l))"
    by (rule emits_query_then) (auto intro!: emits_ret simp: mode_trace_def)
  have n: "emits (ret None) (\<lambda>r l. mode_trace r (Sent ReadModeReg (Inr a) # l))"
    by (rule emits_ret) (simp add: mode_trace_def)
  show "emits (case a of ROid (Some oid) \<Rightarrow>
            if oid = [] then ret None
            else andThen (query e ReadModeVal) (\<lambda>r. ret (case r of RValue v \<Rightarrow> v | _ \<Rightarrow> None))
        | _ \<Rightarrow> ret None) (\<lambda>r l. mode_trace r (Sent ReadModeReg (Inr a) # l))"
    using v n by (auto split: reply.split option.split)
qed (simp add: mode_trace_def)

lemma mode_read_trace:
  assumes "mode_trace (Inr v) l" "l' = [] \<or> (\<exists>r l''. l' = Sent SelectRegistry r # l'')"
  shows "mode_read (Sent RegistryDdl x # l @ l') = v"
  using assms by (auto simp: mode_trace_def mode_read_def)

lemma mode_trace_idle: "mode_trace r l \<Longrightarrow> ev \<in> set l \<Longrightarrow> \<not> work_event ev"
  by (auto simp: mode_trace_def work_event_def)

text \<open>The decomposition of the apply loop's files, and the result it makes of them.\<close>

definition loop_spec :: "options \<Rightarrow> (string \<Rightarrow> patch_row option) \<Rightarrow> patch_file list \<Rightarrow> patch_file list
    \<Rightarrow> run_result \<Rightarrow> run_result \<Rightarrow> bool" where
  "loop_spec opts byName pre rest res res' \<longleftrightarrow>
        r_mode res' = r_mode res \<and> r_securityEvents res' = r_securityEvents res \<and> r_nextMode res' = r_nextMode res
      \<and> r_skipped res' = r_skipped res @ map f_patchName (filter (\<lambda>f. row_done (byName (f_patchName f))) pre)
      \<and> r_applied res' = r_applied res @ map f_patchName (filter (\<lambda>f. \<not> row_done (byName (f_patchName f))) pre)
      \<and> (\<forall>f\<in>set pre. \<not> row_done (byName (f_patchName f)) \<longrightarrow> \<not> review_gate opts (byName (f_patchName f)) f)
      \<and> (case rest of
           [] \<Rightarrow> r_failed res' = r_failed res \<and> r_pendingReview res' = r_pendingReview res
                 \<and> r_degraded res' = r_degraded res
         | f # _ \<Rightarrow> \<not> row_done (byName (f_patchName f)) \<and> r_degraded res'
             \<and> (if review_gate opts (byName (f_patchName f)) f
                then r_pendingReview res' = r_pendingReview res @ [f_patchName f] \<and> r_failed res' = r_failed res
                else (\<exists>msg. r_failed res' = r_failed res @ [(f_patchName f, msg)])
                     \<and> r_pendingReview res' = r_pendingReview res))"

lemma loop_spec_skip:
  "row_done (byName (f_patchName f)) \<Longrightarrow>
     loop_spec opts byName pre rest (res\<lparr>r_skipped := r_skipped res @ [f_patchName f]\<rparr>) res' \<Longrightarrow>
     loop_spec opts byName (f # pre) rest res res'"
  by (auto simp: loop_spec_def split: list.splits)

lemma loop_spec_apply:
  "\<not> row_done (byName (f_patchName f)) \<Longrightarrow> \<not> review_gate opts (byName (f_patchName f)) f \<Longrightarrow>
     loop_spec opts byName pre rest (res\<lparr>r_applied := r_applied res @ [f_patchName f]\<rparr>) res' \<Longrightarrow>
     loop_spec opts byName (f # pre) rest res res'"
  by (auto simp: loop_spec_def split: list.splits)

definition loop_result :: "options \<Rightarrow> (string \<Rightarrow> patch_row option) \<Rightarrow> patch_file list \<Rightarrow> run_result
    \<Rightarrow> (string, run_result) res \<Rightarrow> bool" where
  "loop_result opts byName fs res r \<longleftrightarrow>
     (\<forall>res'. r = Inr res' \<longrightarrow> (\<exists>pre rest. fs = pre @ rest \<and> loop_spec opts byName pre rest res res'))"

lemma loop_result_Cons:
  assumes "\<And>pre rest res'. loop_spec opts byName pre rest res1 res' \<Longrightarrow> loop_spec opts byName (f # pre) rest res res'"
    and "loop_result opts byName fs res1 r"
  shows "loop_result opts byName (f # fs) res r"
  unfolding loop_result_def
proof (intro allI impI)
  fix res'
  assume "r = Inr res'"
  then obtain pre rest where "fs = pre @ rest" "loop_spec opts byName pre rest res1 res'"
    using assms(2) by (auto simp: loop_result_def)
  then show "\<exists>pre rest. f # fs = pre @ rest \<and> loop_spec opts byName pre rest res res'"
    using assms(1) by (intro exI [of _ "f # pre"] exI [of _ rest]) simp
qed

lemma loop_result_Inl: "loop_result opts byName fs res (Inl x)"
  by (simp add: loop_result_def)

lemma loop_result_stop:
  "loop_spec opts byName [] (f # fs) res res' \<Longrightarrow> loop_result opts byName (f # fs) res (Inr res')"
  unfolding loop_result_def by (auto intro: exI [of _ "[]"])

lemma emits_apply_loop:
  "emits (apply_loop e opts key byName fs res) (\<lambda>r _. loop_result opts byName fs res r)"
proof (induction fs arbitrary: res)
  case Nil
  then show ?case by (auto intro!: emits_ret simp: loop_result_def loop_spec_def)
next
  case (Cons f fs)
  let ?row = "byName (f_patchName f)"
  show ?case
  proof (cases "row_done ?row")
    case True
    have "emits (apply_loop e opts key byName fs (res\<lparr>r_skipped := r_skipped res @ [f_patchName f]\<rparr>))
        (\<lambda>r _. loop_result opts byName (f # fs) res r)"
      by (rule emits_mono [OF Cons], erule loop_result_Cons [rotated], rule loop_spec_skip [of byName f, OF True])
    then show ?thesis using True by (simp add: Let_def)
  next
    case False
    show ?thesis
    proof (cases "review_gate opts ?row f")
      case True
      then show ?thesis using False
        by (auto simp: Let_def intro!: emits_query_then emits_ret loop_result_stop)
          (auto simp: loop_result_Inl loop_spec_def)
    next
      case gate: False
      have next_f: "emits (apply_loop e opts key byName fs (res\<lparr>r_applied := r_applied res @ [f_patchName f]\<rparr>))
          (\<lambda>r _. loop_result opts byName (f # fs) res r)"
        by (rule emits_mono [OF Cons], erule loop_result_Cons [rotated], rule loop_spec_apply [of byName f, OF False gate])
      have fail_f: "emits (fail_patch e opts key f res x) (\<lambda>r _. loop_result opts byName (f # fs) res r)" for x
        unfolding fail_patch_def
        by (rule emits_query_then)
          (use False gate in \<open>auto intro!: emits_ret loop_result_stop simp: loop_spec_def loop_result_Inl\<close>)
      have ap: "emits (apply_patch e opts key f t) (\<lambda>_ _. True)" for t
        by (rule emits_mono [OF tx.keeps_apply_patch [unfolded keeps_def]]) (simp_all add: list_all_iff)
      show ?thesis
        using False gate
        by (auto simp: Let_def intro!: emits_withNow emits_attempt [OF ap] next_f fail_f)
    qed
  qed
qed

definition idle :: "event list \<Rightarrow> bool" where
  "idle l \<longleftrightarrow> (\<forall>ev\<in>set l. \<not> work_event ev)"

lemma idle_simps [simp]:
  "idle []" "idle (ev # l) \<longleftrightarrow> \<not> work_event ev \<and> idle l" "idle (l @ l') \<longleftrightarrow> idle l \<and> idle l'"
  by (auto simp: idle_def)

definition files_post :: "options \<Rightarrow> migration_mode \<Rightarrow> patch_file list \<Rightarrow> run_result
    \<Rightarrow> (string, run_result) res \<Rightarrow> event list \<Rightarrow> bool" where
  "files_post opts mode files res r l \<longleftrightarrow>
     (mode = Check \<longrightarrow> idle l \<and> (\<forall>res'. r = Inr res' \<longrightarrow> res' = res))
   \<and> (\<exists>q l'. l = Sent SelectRegistry q # l')
   \<and> (\<forall>res'. r = Inr res' \<and> mode \<noteq> Check \<longrightarrow>
        (\<exists>q pre rest. Sent SelectRegistry (Inr q) \<in> set l \<and> files = pre @ rest
           \<and> \<not> list_ex (changed_file (by_name (rows_of q))) files
           \<and> loop_spec opts (by_name (rows_of q)) pre rest res (res'\<lparr>r_nextMode := r_nextMode res\<rparr>)))"

lemma loop_spec_next_mode:
  "loop_spec opts byName pre rest res res1 \<Longrightarrow>
     loop_spec opts byName pre rest res (res1\<lparr>r_nextMode := r_nextMode res\<rparr>)"
  by (auto simp: loop_spec_def split: list.splits)

lemma idle_plain:
  "c \<notin> {Begin} \<Longrightarrow> (\<And>s. c \<noteq> RunSql s) \<Longrightarrow> (\<And>a. c \<noteq> Upsert a) \<Longrightarrow> \<not> work_event (Sent c r)"
  by (auto simp: work_event_def)

lemma emits_next_mode:
  "emits (next_mode e res) (\<lambda>r l. \<exists>m. r = Inr (res\<lparr>r_nextMode := m\<rparr>))"
  unfolding next_mode_def
  by (rule emits_andThen [where P = "\<lambda>r l. \<exists>m. r = Inr m"])
    (auto intro!: emits_catching [OF emits_readMode] emits_ret)

lemma emits_apply_files:
  "emits (apply_files e opts mode key files res) (files_post opts mode files res)"
  unfolding apply_files_def
proof (rule emits_query_then)
  show "files_post opts mode files res (Inl x) [Sent SelectRegistry (Inl x)]" for x
    by (simp add: files_post_def idle_plain)
  fix q
  let ?by = "by_name (rows_of q)"
  have run: "emits (andThen (apply_loop e opts key ?by files res) (next_mode e))
      (\<lambda>r l. \<forall>res'. r = Inr res' \<longrightarrow> (\<exists>pre rest. files = pre @ rest
          \<and> loop_spec opts ?by pre rest res (res'\<lparr>r_nextMode := r_nextMode res\<rparr>)))"
  proof (rule emits_andThen [OF emits_apply_loop])
    fix a :: run_result and l :: "event list"
    assume "loop_result opts ?by files res (Inr a)"
    then obtain pre rest where "files = pre @ rest" "loop_spec opts ?by pre rest res a"
      by (auto simp: loop_result_def)
    then have ex: "\<exists>pre rest. files = pre @ rest \<and> loop_spec opts ?by pre rest res (a\<lparr>r_nextMode := r_nextMode res\<rparr>)"
      using loop_spec_next_mode by blast
    show "emits (next_mode e a) (\<lambda>r l'. \<forall>res'. r = Inr res' \<longrightarrow> (\<exists>pre rest. files = pre @ rest
          \<and> loop_spec opts ?by pre rest res (res'\<lparr>r_nextMode := r_nextMode res\<rparr>)))"
      by (rule emits_mono [OF emits_next_mode], elim exE) (simp add: ex)
  qed simp
  show "emits (let byName = ?by in case List.find (changed_file byName) files of
             Some f \<Rightarrow> throw (''db-migration: '' @ f_filename f
                @ '' is registered as done with a different sha256 - immutable patch changed, refusing'')
           | None \<Rightarrow>
               if mode = Check then ret res
               else andThen (query e SetLockTimeout) (\<lambda>_.
                      andThen (query e SetIdleTimeout) (\<lambda>_.
                        andThen (apply_loop e opts key byName files res) (next_mode e))))
      (\<lambda>r l. files_post opts mode files res r (Sent SelectRegistry (Inr q) # l))"
  proof (cases "List.find (changed_file ?by) files")
    case (Some f)
    then show ?thesis by (auto simp: Let_def files_post_def idle_plain intro!: emits_throw)
  next
    case None
    then have n: "\<not> list_ex (changed_file ?by) files" by (simp add: find_None_iff list_ex_iff)
    show ?thesis
    proof (cases "mode = Check")
      case True
      then show ?thesis using None by (auto simp: Let_def files_post_def idle_plain intro!: emits_ret)
    next
      case False
      have "files_post opts mode files res r (Sent SelectRegistry (Inr q) # x # y # l)"
        if p: "\<forall>res'. r = Inr res' \<longrightarrow> (\<exists>pre rest. files = pre @ rest
          \<and> loop_spec opts ?by pre rest res (res'\<lparr>r_nextMode := r_nextMode res\<rparr>))" for r l x y
        unfolding files_post_def
      proof (intro conjI allI impI)
        fix res'
        assume "r = Inr res' \<and> mode \<noteq> Check"
        then obtain pre rest where "files = pre @ rest"
          "loop_spec opts ?by pre rest res (res'\<lparr>r_nextMode := r_nextMode res\<rparr>)" using p by blast
        then show "\<exists>q' pre rest. Sent SelectRegistry (Inr q') \<in> set (Sent SelectRegistry (Inr q) # x # y # l)
           \<and> files = pre @ rest \<and> \<not> list_ex (changed_file (by_name (rows_of q'))) files
           \<and> loop_spec opts (by_name (rows_of q')) pre rest res (res'\<lparr>r_nextMode := r_nextMode res\<rparr>)"
          using n by (intro exI [of _ q] exI [of _ pre] exI [of _ rest]) simp
      qed (use False in simp_all)
      moreover have "files_post opts mode files res (Inl x) (Sent SelectRegistry (Inr q) # l)" for x l
        using False by (simp add: files_post_def)
      ultimately show ?thesis using None False
        by (auto simp: Let_def intro!: emits_query_then emits_mono [OF run])
    qed
  qed
qed

definition run_post :: "'w env \<Rightarrow> options \<Rightarrow> string list \<Rightarrow> (string, run_result) res \<Rightarrow> event list \<Rightarrow> bool" where
  "run_post e opts fns r l \<longleftrightarrow>
     (\<forall>res. r = Inr res \<longrightarrow> r_mode res = mode_of (mode_read l) \<and> r_securityEvents res = [])
   \<and> (mode_of (mode_read l) \<noteq> Apply \<longrightarrow>
        idle l \<and> (\<forall>res. r = Inr res \<longrightarrow> res = initial_result\<lparr>r_mode := mode_of (mode_read l)\<rparr>))
   \<and> (fns \<noteq> [] \<and> isl (provenance e opts fns) \<longrightarrow> idle l \<and> (\<forall>res. r = Inr res \<longrightarrow> r_mode res = Off))
   \<and> (\<forall>res. r = Inr res \<and> r_mode res = Apply \<and> fns \<noteq> [] \<longrightarrow>
        (\<exists>key files q pre rest. provenance e opts fns = Inr (key, files)
           \<and> Sent SelectRegistry (Inr q) \<in> set l \<and> files = pre @ rest
           \<and> \<not> list_ex (changed_file (by_name (rows_of q))) files
           \<and> loop_spec opts (by_name (rows_of q)) pre rest initial_result (res\<lparr>r_nextMode := None\<rparr>)))"

lemma run_post_files:
  assumes "mode_trace (Inr v) l1" "files_post opts (mode_of v) files (initial_result\<lparr>r_mode := mode_of v\<rparr>) r l2"
    and "provenance e opts fns = Inr (key, files)" "mode_of v \<noteq> Off"
    and "\<forall>res. r = Inr res \<longrightarrow> r_mode res = mode_of v \<and> r_securityEvents res = []"
  shows "run_post e opts fns r (Sent RegistryDdl x # l1 @ l2)"
proof -
  have v: "mode_read (Sent RegistryDdl x # l1 @ l2) = v"
    using mode_read_trace [OF assms(1)] assms(2) unfolding files_post_def by blast
  have i: "idle l1" using mode_trace_idle [OF assms(1)] by (simp add: idle_def)
  have a: "initial_result\<lparr>r_mode := Apply\<rparr> = initial_result" "r_nextMode initial_result = None"
    by (simp_all add: initial_result_def)
  show ?thesis
  proof (cases "mode_of v")
    case Apply
    then show ?thesis using assms(2,3,5) unfolding run_post_def v files_post_def
      by (simp add: a) blast
  next
    case Check
    then show ?thesis using assms(2,3,5) i unfolding run_post_def v files_post_def
      by (auto simp: idle_plain)
  qed (use assms(4) in simp)
qed

lemma loop_spec_mode:
  "loop_spec opts byName pre rest res res' \<Longrightarrow> r_mode res' = r_mode res \<and> r_securityEvents res' = r_securityEvents res"
  by (simp add: loop_spec_def)

lemma files_post_mode:
  assumes "files_post opts mode files res r l" "r_mode res = mode" "r_securityEvents res = []"
  shows "\<forall>res'. r = Inr res' \<longrightarrow> r_mode res' = mode \<and> r_securityEvents res' = []"
proof (intro allI impI)
  fix res'
  assume r: "r = Inr res'"
  show "r_mode res' = mode \<and> r_securityEvents res' = []"
  proof (cases "mode = Check")
    case True
    then show ?thesis using assms r by (simp add: files_post_def)
  next
    case False
    then obtain q pre rest where
      "loop_spec opts (by_name (rows_of q)) pre rest res (res'\<lparr>r_nextMode := r_nextMode res\<rparr>)"
      using assms(1) r unfolding files_post_def by blast
    then show ?thesis using loop_spec_mode assms(2,3) by fastforce
  qed
qed

lemma run_post_error: "idle l \<Longrightarrow> run_post e opts fns (Inl x) l"
  by (simp add: run_post_def)

lemma emits_locked_run: "emits (locked_run e opts fns) (run_post e opts fns)"
  unfolding locked_run_def
proof (rule emits_query_then)
  show "run_post e opts fns (Inl x) [Sent RegistryDdl (Inl x)]" for x
    by (rule run_post_error) (simp add: idle_plain)
  fix x
  let ?Q = "\<lambda>r l. run_post e opts fns r (Sent RegistryDdl (Inr x) # l)"
  show "emits (andThen (readMode e) (\<lambda>rawMode.
         (let mode = mode_of rawMode; res = initial_result\<lparr>r_mode := mode\<rparr>
          in if fns = [] then ret res
             else if mode = Off then ret res
             else case provenance e opts fns of
                    Inl (events, msg) \<Rightarrow> throw msg
                  | Inr (key, files) \<Rightarrow> apply_files e opts mode key files res))) ?Q"
  proof (rule emits_andThen [OF emits_readMode])
    fix y l
    assume "mode_trace (Inl y) l"
    then have "idle l" using mode_trace_idle [of "Inl y" l] by (simp add: idle_def)
    then show "?Q (Inl y) l" by (intro run_post_error) (simp add: idle_plain)
  next
    fix v l
    assume t: "mode_trace (Inr v) l"
    have i: "idle l" using mode_trace_idle [OF t] by (simp add: idle_def)
    have stop: "run_post e opts fns (Inr (initial_result\<lparr>r_mode := mode_of v\<rparr>)) (Sent RegistryDdl (Inr x) # l)"
      if "fns = [] \<or> mode_of v = Off"
      using mode_read_trace [OF t, of "[]"] that i by (auto simp: run_post_def idle_plain initial_result_def)
    have gate: "run_post e opts fns (Inl msg) (Sent RegistryDdl (Inr x) # l)" for msg
      by (rule run_post_error) (simp add: i idle_plain)
    have files: "emits (apply_files e opts (mode_of v) key files (initial_result\<lparr>r_mode := mode_of v\<rparr>))
        (\<lambda>r l'. run_post e opts fns r (Sent RegistryDdl (Inr x) # l @ l'))"
      if "provenance e opts fns = Inr (key, files)" "mode_of v \<noteq> Off" for key files
    proof (rule emits_mono [OF emits_apply_files], rule run_post_files [OF t _ that])
      fix r l'
      assume p: "files_post opts (mode_of v) files (initial_result\<lparr>r_mode := mode_of v\<rparr>) r l'"
      then show "files_post opts (mode_of v) files (initial_result\<lparr>r_mode := mode_of v\<rparr>) r l'" .
      show "\<forall>res. r = Inr res \<longrightarrow> r_mode res = mode_of v \<and> r_securityEvents res = []"
        by (rule files_post_mode [OF p]) (simp_all add: that(2) initial_result_def)
    qed
    show "emits (let mode = mode_of v; res = initial_result\<lparr>r_mode := mode\<rparr>
          in if fns = [] then ret res
             else if mode = Off then ret res
             else case provenance e opts fns of
                    Inl (events, msg) \<Rightarrow> throw msg
                  | Inr (key, files) \<Rightarrow> apply_files e opts mode key files res)
       (\<lambda>r l'. run_post e opts fns r (Sent RegistryDdl (Inr x) # l @ l'))"
      using stop gate files by (auto simp: Let_def intro!: emits_ret emits_throw split: sum.split)
  qed
qed

lemma mode_read_lock:
  assumes "\<forall>ev\<in>set ls. \<exists>r. ev = Sent TryLock r"
  shows "mode_read (ls @ l @ [Sent Unlock u, Released]) = mode_read l"
proof -
  have "takeWhile (\<lambda>ev. \<nexists>r. ev = Sent SelectRegistry r) (ls @ m)
      = ls @ takeWhile (\<lambda>ev. \<nexists>r. ev = Sent SelectRegistry r) m" for m
    using assms by (intro takeWhile_append2) auto
  moreover have "filter (\<lambda>ev. \<exists>r. ev = Sent ReadModeVal r) ls = []" using assms by (auto simp: filter_empty_conv)
  moreover have "filter (\<lambda>ev. \<exists>r. ev = Sent ReadModeVal r)
      (takeWhile (\<lambda>ev. \<nexists>r. ev = Sent SelectRegistry r) (m @ [Sent Unlock u, Released]))
    = filter (\<lambda>ev. \<exists>r. ev = Sent ReadModeVal r) (takeWhile (\<lambda>ev. \<nexists>r. ev = Sent SelectRegistry r) m)" for m
    by (induction m) auto
  ultimately show ?thesis by (simp add: mode_read_def)
qed

lemma run_locked_post:
  assumes "runMigrations fuel e opts s = (Some r, s')"
  shows "\<exists>l l1. trace s' = trace s @ l \<and>
     (\<exists>x. r = Inl x \<and> idle l
      \<or> run_post e opts (listPatchFiles (o_dir opts)) r l1 \<and> mode_read l = mode_read l1
        \<and> (idle l \<longleftrightarrow> idle l1) \<and> set l1 \<subseteq> set l)"
  using assms
proof (cases rule: runMigrations_cases)
  case (refused l err)
  then have "idle (l @ [Released])" by (auto simp: idle_def work_event_def)
  then show ?thesis using refused by blast
next
  case (locked ls s1 s2 u)
  obtain l1 where l1: "trace s2 = trace s1 @ l1" "run_post e opts (listPatchFiles (o_dir opts)) r l1"
    using emitsD [OF emits_locked_run [of e opts "listPatchFiles (o_dir opts)"], of s1] locked(5) by auto
  have "idle ls" using locked(2) by (auto simp: idle_def work_event_def)
  then have "idle (ls @ l1 @ [Sent Unlock u, Released]) \<longleftrightarrow> idle l1" by (simp add: idle_plain)
  then show ?thesis using l1 locked(1,6) mode_read_lock [OF locked(2)]
    by (intro exI [of _ "ls @ l1 @ [Sent Unlock u, Released]"] exI [of _ l1]) auto
qed

text \<open>
  C25: the run obeys the mode it reads from the configuration table: with \<open>off\<close> and \<open>check\<close> it sends
  no BEGIN, no patch SQL and no registry write, and a normal result carries nothing but the mode;
  anything else, a missing table included, means apply.
\<close>

theorem run_obeys_mode:
  assumes "runMigrations fuel e opts s = (Some r, s')"
  shows "\<exists>l. trace s' = trace s @ l
    \<and> (\<forall>res. r = Inr res \<longrightarrow> r_mode res = mode_of (mode_read l))
    \<and> (mode_read l \<in> {Some ''off'', Some ''check''} \<longrightarrow>
         (\<forall>ev\<in>set l. \<not> work_event ev)
         \<and> (\<forall>res. r = Inr res \<longrightarrow> res = initial_result\<lparr>r_mode := mode_of (mode_read l)\<rparr>))"
proof -
  obtain l l1 where l: "trace s' = trace s @ l"
    "\<exists>x. r = Inl x \<and> idle l
      \<or> run_post e opts (listPatchFiles (o_dir opts)) r l1 \<and> mode_read l = mode_read l1
        \<and> (idle l \<longleftrightarrow> idle l1) \<and> set l1 \<subseteq> set l"
    using run_locked_post [OF assms] by blast
  have m: "v \<in> {Some ''off'', Some ''check''} \<Longrightarrow> mode_of v \<noteq> Apply" for v
    by (auto simp: mode_of_def)
  show ?thesis
    using l m unfolding run_post_def idle_def by (intro exI [of _ l]) (elim exE disjE; simp)
qed

lemma run_post_gate:
  "run_post e opts fns r l \<Longrightarrow> fns \<noteq> [] \<Longrightarrow> isl (provenance e opts fns) \<Longrightarrow>
     idle l \<and> (\<forall>res. r = Inr res \<longrightarrow> r_mode res = Off)"
  unfolding run_post_def by blast

text \<open>
  C16: the gate fails closed: if the manifest is missing, unreadable or not signed by an allowed key,
  or if a single \<open>.sql\<close> file of the directory is unreadable, unlisted or has another hash, then no patch
  at all runs, the other files included, and the run does not return normally (unless the mode is
  off).
\<close>

theorem gate_fails_closed:
  assumes "runMigrations fuel e opts s = (Some r, s')"
    and "listPatchFiles (o_dir opts) \<noteq> []"
    and "\<nexists>m key. trusted_manifest e opts m key
            \<and> (\<forall>fn\<in>set (listPatchFiles (o_dir opts)). \<exists>raw. eligible e opts m fn raw)"
  shows "\<exists>l. trace s' = trace s @ l \<and> (\<forall>ev\<in>set l. \<not> work_event ev)
    \<and> (\<forall>res. r = Inr res \<longrightarrow> r_mode res = Off)"
proof -
  have "isl (provenance e opts (listPatchFiles (o_dir opts)))"
  proof (rule ccontr)
    assume "\<not> isl (provenance e opts (listPatchFiles (o_dir opts)))"
    then obtain key files where p: "provenance e opts (listPatchFiles (o_dir opts)) = Inr (key, files)"
      by (cases "provenance e opts (listPatchFiles (o_dir opts))") auto
    obtain m where m: "trusted_manifest e opts m key"
      and c: "check_files e opts m (listPatchFiles (o_dir opts)) = Inr files" by (rule provenance_InrD [OF p])
    have "\<exists>raw. eligible e opts m fn raw" if mem: "fn \<in> set (listPatchFiles (o_dir opts))" for fn
    proof -
      obtain f where "check_file e opts m fn = Inr f"
        using list_all2_in_left [OF check_files_InrD [OF c] mem] by blast
      from check_file_InrD [OF this] mem show ?thesis by (auto simp: eligible_def)
    qed
    then show False using assms(3) m by blast
  qed
  moreover obtain l l1 where "trace s' = trace s @ l"
    "\<exists>x. r = Inl x \<and> idle l
      \<or> run_post e opts (listPatchFiles (o_dir opts)) r l1 \<and> mode_read l = mode_read l1
        \<and> (idle l \<longleftrightarrow> idle l1) \<and> set l1 \<subseteq> set l"
    using run_locked_post [OF assms(1)] by blast
  ultimately show ?thesis
    using assms(2) run_post_gate unfolding idle_def by (intro exI [of _ l]) (elim exE disjE; simp; blast)
qed


text \<open>No returned result carries a security event: the code records them and then throws.\<close>

lemma run_no_security_events:
  assumes "runMigrations fuel e opts s = (Some (Inr res), s')"
  shows "r_securityEvents res = []"
proof -
  obtain l1 where p: "run_post e opts (listPatchFiles (o_dir opts)) (Inr res) l1"
    using run_locked_post [OF assms] by auto
  then show ?thesis by (simp add: run_post_def)
qed

end
