(* ===== verification/EngineRuns.thy ===== *)
theory EngineRuns
  imports EngineFacts
begin

text \<open>
  Termination of the lock wait, and runs of the engine on a concrete database, file set and clock,
  which show that the hypotheses of the theorems on runs can hold.
\<close>

section \<open>Waiting for the lock ends\<close>

text \<open>A clock that does not run backwards and that a sleep advances by at least its second.\<close>

definition clock_ok :: "'w env \<Rightarrow> ('w \<Rightarrow> int) \<Rightarrow> bool" where
  "clock_ok e clock \<longleftrightarrow>
     (\<forall>w. fst (e_now e w) = clock w \<and> clock w \<le> clock (snd (e_now e w)))
   \<and> (\<forall>c w. clock w \<le> clock (snd (e_query e c w)))
   \<and> (\<forall>w. clock w + 1000 \<le> clock (e_sleep e w))"

lemma lock_loop_returns:
  assumes "clock_ok e clock"
  shows "d - clock (world s) \<le> 1000 * int n \<Longrightarrow> fst (lock_loop (Suc n) e d s) \<noteq> None"
proof (induction n arbitrary: s)
  case 0
  obtain q s1 where q: "query e TryLock s = (q, s1)" by fastforce
  obtain t s2 where t: "date_now e s1 = (t, s2)" by fastforce
  have "d \<le> t" using 0 q t assms
    by (auto simp: clock_ok_def query_def date_now_def emit_def split: prod.splits) (smt (verit) fst_conv snd_conv)
  then show ?case using q t by (auto split: sum.split)
next
  case (Suc n)
  obtain q s1 where q: "query e TryLock s = (q, s1)" by fastforce
  obtain t s2 where t: "date_now e s1 = (t, s2)" by fastforce
  have "clock (world s) \<le> clock (world s1)" "clock (world s1) \<le> clock (world s2)"
    "clock (world s2) + 1000 \<le> clock (world (sleep e s2))"
    using q t assms
    by (auto simp: clock_ok_def query_def date_now_def emit_def sleep_def split: prod.splits) (metis snd_conv)+
  then have "d - clock (world (sleep e s2)) \<le> 1000 * int n" using Suc.prems by simp
  from Suc.IH [OF this] show ?case using q t by (auto split: sum.split)
qed

text \<open>
  C25: the wait for the advisory lock ends: with a clock that advances by the second it sleeps, one attempt
  per second of the wait budget and two more are enough, so the run returns (or throws) and does
  not hang on a lock that is never given back.
\<close>

theorem lock_wait_ends:
  assumes "clock_ok e clock" "nat (lock_budget opts div 1000) + 2 \<le> fuel"
  shows "\<exists>r s'. runMigrations fuel e opts s = (Some r, s')"
proof -
  obtain n where n: "fuel = Suc n" "nat (lock_budget opts div 1000) + 1 \<le> n" using assms(2) by (cases fuel) auto
  obtain t s1 where t: "date_now e s = (t, s1)" by fastforce
  have "t \<le> clock (world s1)" using t assms(1)
    by (auto simp: clock_ok_def date_now_def split: prod.splits) (metis fst_conv snd_conv)
  moreover have "lock_budget opts \<le> 1000 * int n" using n(2) by linarith
  ultimately have "t + lock_budget opts - clock (world s1) \<le> 1000 * int n" by simp
  from lock_loop_returns [OF assms(1) this]
  obtain a s2 where "acquireAdvisoryLock fuel e (lock_budget opts) s = (Some a, s2)"
    using t n(1) by (cases "lock_loop fuel e (t + lock_budget opts) s1")
      (auto simp: acquireAdvisoryLock_def)
  then show ?thesis
    by (auto simp: runMigrations_def split: prod.splits sum.splits bool.splits)
qed

section \<open>A run on a concrete world\<close>

text \<open>The loop on a given state, for evaluation.\<close>

lemma apply_loop_code [code]:
  "apply_loop e opts key byName [] res s = (Inr res, s)"
  "apply_loop e opts key byName (f # fs) res s =
     (if row_done (byName (f_patchName f)) then
           apply_loop e opts key byName fs (res\<lparr>r_skipped := r_skipped res @ [f_patchName f]\<rparr>) s
      else if review_gate opts (byName (f_patchName f)) f then
        (case query e (Upsert (upsert_row opts key f PendingReview None None None)) s of
           (Inl x, s') \<Rightarrow> (Inl x, s')
         | (Inr _, s') \<Rightarrow> (Inr (res\<lparr>r_pendingReview := r_pendingReview res @ [f_patchName f], r_degraded := True\<rparr>), s'))
      else case date_now e s of (t, s1) \<Rightarrow>
        (case apply_patch e opts key f t s1 of
           (Inl msg, s') \<Rightarrow> fail_patch e opts key f res msg s'
         | (Inr _, s') \<Rightarrow> apply_loop e opts key byName fs (res\<lparr>r_applied := r_applied res @ [f_patchName f]\<rparr>) s'))"
  by (auto simp: Let_def ret_def andThen_def withNow_def attempt_def split: prod.split sum.split)

record demo_world =
  dw_clock :: int
  dw_mode :: "string option"
  dw_rows :: "patch_row list"

definition demo_query :: "cmd \<Rightarrow> demo_world \<Rightarrow> (string, reply) res \<times> demo_world" where
  "demo_query c w =
     (case c of
        TryLock \<Rightarrow> Inr (RLocked (2000 \<le> dw_clock w))
      | ReadModeReg \<Rightarrow> Inr (ROid (map_option (\<lambda>_. ''oid'') (dw_mode w)))
      | ReadModeVal \<Rightarrow> Inr (RValue (dw_mode w))
      | SelectRegistry \<Rightarrow> Inr (RRows (dw_rows w))
      | RunSql sql \<Rightarrow> if str_includes sql ''BAD'' then Inl ''syntax error'' else Inr RDone
      | _ \<Rightarrow> Inr RDone,
      w\<lparr>dw_clock := dw_clock w + 1\<rparr>)"

definition demo_env :: "demo_world env" where
  "demo_env = \<lparr>e_query = demo_query, e_now = (\<lambda>w. (dw_clock w, w)),
     e_sleep = (\<lambda>w. w\<lparr>dw_clock := dw_clock w + 1000\<rparr>),
     e_sha256 = (\<lambda>s. s), e_verify = plain_verify\<rparr>"

definition demo_content :: "string \<Rightarrow> string" where
  "demo_content fn =
     (if fn = ''1_a.sql'' then ''aa''
      else if fn = ''2_b.sql'' then ''--pb:requires-review''
      else ''C'')"

definition demo_manifest :: patch_manifest where
  "demo_manifest =
     (let m = \<lparr>mf_version = 1, mf_key_id = ''k1'', mf_issued_at = ''now'',
               mf_patches = map (\<lambda>fn. (patchNameFromFilename fn, demo_content fn)) [''1_a.sql'', ''2_b.sql'', ''3_c.sql''],
               mf_signature = []\<rparr>
      in m\<lparr>mf_signature := ''pub:'' @ canonicalJson (unsigned_json m)\<rparr>)"

definition demo_opts :: options where
  "demo_opts = \<lparr>o_dir = Some [''2_b.sql'', ''notes.md'', ''1_a.sql'', ''3_c.sql''], o_read = (\<lambda>fn. Inr (demo_content fn)),
     o_manifest = FileValue demo_manifest, o_keys = FileValue (Some [sample_key Release]),
     o_allowedTrust = None, o_approvedReviews = None, o_actor = Some ''svc'', o_lockWaitMs = Some 5000\<rparr>"

definition demo_state :: "string option \<Rightarrow> demo_world state" where
  "demo_state mode = \<lparr>trace = [], world = \<lparr>dw_clock = 0, dw_mode = mode,
     dw_rows = [inserted_row 5 (sample_args ''1_a'' Applied)]\<rparr>\<rparr>"

definition demo_run :: "string option \<Rightarrow> (string, run_result) res option \<times> demo_world state" where
  "demo_run mode = runMigrations 7 demo_env demo_opts (demo_state mode)"

definition demo_result :: run_result where
  "demo_result = \<lparr>r_mode = Apply, r_nextMode = None, r_degraded = True, r_applied = [],
     r_failed = [], r_pendingReview = [''2_b''], r_skipped = [''1_a''], r_securityEvents = []\<rparr>"

lemma demo_apply: "fst (demo_run None) = Some (Inr demo_result)"
  by code_simp

lemma demo_check: "fst (demo_run (Some ''check'')) = Some (Inr (initial_result\<lparr>r_mode := Check\<rparr>))"
  by code_simp

lemma demo_pair: "runMigrations 7 demo_env demo_opts (demo_state m) = (fst (demo_run m), snd (demo_run m))"
  by (simp add: demo_run_def)

lemma demo_run_apply: "runMigrations 7 demo_env demo_opts (demo_state None) = (Some (Inr demo_result), snd (demo_run None))"
  using demo_pair [of None] demo_apply by simp

lemma demo_run_check:
  "runMigrations 7 demo_env demo_opts (demo_state (Some ''check''))
     = (Some (Inr (initial_result\<lparr>r_mode := Check\<rparr>)), snd (demo_run (Some ''check'')))"
  using demo_pair [of "Some ''check''"] demo_check by simp

lemma demo_clock: "clock_ok demo_env dw_clock"
  by (simp add: clock_ok_def demo_env_def demo_query_def)

theorem run_closes_transactions_witness:
  "\<exists>l. trace (snd (demo_run None)) = trace (demo_state None) @ l \<and> run_trace tx_step False l = Some False"
  by (rule run_closes_transactions [OF demo_run_apply])

theorem run_lock_discipline_witness:
  "\<exists>l. trace (snd (demo_run None)) = trace (demo_state None) @ l \<and> run_trace lock_step Waiting l = Some Gone"
  by (rule run_lock_discipline [OF demo_run_apply])

theorem only_trusted_sql_witness:
  "\<exists>l. trace (snd (demo_run None)) = trace (demo_state None) @ l
    \<and> (\<forall>a q. Sent (Upsert a) q \<in> set l \<longrightarrow> up_status a \<in> {Applied, Failed, PendingReview})"
  using only_trusted_sql [OF demo_run_apply] by blast

theorem run_obeys_mode_witness:
  "\<exists>l. trace (snd (demo_run (Some ''check''))) = trace (demo_state (Some ''check'')) @ l
    \<and> Check = mode_of (mode_read l)"
  using run_obeys_mode [OF demo_run_check] by auto

text \<open>The same world with one more file, which the manifest does not list.\<close>

definition demo_opts2 :: options where
  "demo_opts2 = demo_opts\<lparr>o_dir := Some [''2_b.sql'', ''1_a.sql'', ''evil.sql'']\<rparr>"

lemma demo_evil_files: "''evil.sql'' \<in> set (listPatchFiles (o_dir demo_opts2))"
  by code_simp

lemma demo_evil_unlisted: "map_of (mf_patches demo_manifest) (patchNameFromFilename ''evil.sql'') = None"
  by code_simp

lemma demo_evil_run:
  "runMigrations 7 demo_env demo_opts2 (demo_state None)
     = (Some (Inl ''db-migration: evil.sql is not in MANIFEST.json - refusing (fail-closed)''),
        snd (runMigrations 7 demo_env demo_opts2 (demo_state None)))"
proof -
  have "fst (runMigrations 7 demo_env demo_opts2 (demo_state None))
      = Some (Inl ''db-migration: evil.sql is not in MANIFEST.json - refusing (fail-closed)'')" by code_simp
  then show ?thesis by (metis prod.collapse)
qed

theorem gate_fails_closed_witness:
  "\<exists>l. trace (snd (runMigrations 7 demo_env demo_opts2 (demo_state None))) = trace (demo_state None) @ l
    \<and> (\<forall>ev\<in>set l. \<not> work_event ev)"
proof -
  have "\<not> eligible demo_env demo_opts2 demo_manifest ''evil.sql'' raw" for raw
    using demo_evil_unlisted by (simp add: eligible_def)
  moreover have "trusted_manifest demo_env demo_opts2 m key \<Longrightarrow> m = demo_manifest" for m key
    by (simp add: trusted_manifest_def demo_opts2_def demo_opts_def)
  ultimately show ?thesis
    using gate_fails_closed [OF demo_evil_run] demo_evil_files by (metis empty_iff list.set(1))
qed


theorem lock_wait_ends_witness: "\<exists>r s'. runMigrations 7 demo_env demo_opts (demo_state None) = (Some r, s')"
  using lock_wait_ends [OF demo_clock, of demo_opts 7] by (simp add: demo_opts_def lock_budget_def)

end
