(* ===== verification/EntityTypes.thy ===== *)
theory EntityTypes
  imports JsRegex
begin

text \<open>
  \<open>src/meta/entity-ts-to-pg.ts\<close>: the PostgreSQL type of an entity property, from its explicit type,
  the decorators that fix a type, or its TypeScript annotation.  Lengths, precisions and scales
  are integers.
\<close>

section \<open>Annotations and hints\<close>

text \<open>\<open>EntityAnnotationInfo\<close>, as the static extractor delivers it.\<close>

record annotation =
  an_annotation :: string
  an_typeName :: string
  an_isArray :: bool
  an_elementTypeName :: "string option"
  an_isStringLiteralUnion :: bool
  an_isObjectLike :: bool
  an_isUnmappable :: bool

record type_hints =
  h_sqlName :: string
  h_propertyKey :: string
  h_isKey :: bool
  h_explicitPgType :: "string option"
  h_length :: "int option"
  h_precision :: "int option"
  h_scale :: "int option"
  h_auditableType :: "string option"
  h_deletableType :: "string option"
  h_synchronizableType :: "string option"
  h_annotation :: "annotation option"

definition AUDITABLE_TYPE_PINS :: "(string \<times> string) list" where
  "AUDITABLE_TYPE_PINS = [(''CREATED_AT'', ''timestamptz''), (''UPDATED_AT'', ''timestamptz''), (''VERSION'', ''int4'')]"

definition DELETABLE_TYPE_PINS :: "(string \<times> string) list" where
  "DELETABLE_TYPE_PINS = [(''DELETED_AT'', ''timestamptz'')]"

definition SYNCHRONIZABLE_TYPE_PINS :: "(string \<times> string) list" where
  "SYNCHRONIZABLE_TYPE_PINS = [(''LAST_SYNCED_AT'', ''timestamptz'')]"

section \<open>Modifiers and canonical names\<close>

text \<open>\<open>/\w\s*\(.*\)$/\<close>.\<close>

definition parens_re :: re where
  "parens_re = re_seq [Cls is_word, ws0, chr (CHR ''(''), Star dot, chr (CHR '')''), Eol]"

definition type_args :: "string \<Rightarrow> int \<Rightarrow> int option \<Rightarrow> string" where
  "type_args t p s =
     t @ ''('' @ int_str p @ (case s of None \<Rightarrow> [] | Some s \<Rightarrow> '','' @ int_str s) @ '')''"

definition applyLength :: "string \<Rightarrow> int \<Rightarrow> string option" where
  "applyLength t n =
     (if t = ''text'' \<or> t = ''varchar'' \<or> t = ''character varying'' then Some (''varchar('' @ int_str n @ '')'')
      else if t = ''char'' \<or> t = ''character'' then Some (''char('' @ int_str n @ '')'')
      else if t = ''vector'' then Some (''vector('' @ int_str n @ '')'')
      else None)"

definition applyPrecision :: "string \<Rightarrow> type_hints \<Rightarrow> (string, string) res" where
  "applyPrecision t h =
     (if h_precision h = None \<and> h_scale h = None then Inr t
      else case h_precision h of
             None \<Rightarrow> Inl (''Invalid precision for '' @ h_propertyKey h @ '': undefined'')
           | Some p \<Rightarrow>
               if p \<le> 0 then Inl (''Invalid precision for '' @ h_propertyKey h @ '': '' @ int_str p)
               else (case h_scale h of
                       Some s \<Rightarrow>
                         if s < 0 then Inl (''Invalid scale for '' @ h_propertyKey h @ '': '' @ int_str s)
                         else Inr (type_args (if t = ''numeric'' \<or> t = ''decimal'' then ''numeric'' else t) p (Some s))
                     | None \<Rightarrow> Inr (type_args (if t = ''numeric'' \<or> t = ''decimal'' then ''numeric'' else t) p None)))"

definition applyTypeModifiers :: "string \<Rightarrow> type_hints \<Rightarrow> (string, string) res" where
  "applyTypeModifiers baseType h =
     (let t = trim baseType
      in if re_test parens_re t then Inr t
         else case h_length h of
                Some n \<Rightarrow>
                  if n \<le> 0 then Inl (''Invalid length for '' @ h_propertyKey h @ '': '' @ int_str n)
                  else (case applyLength t n of Some r \<Rightarrow> Inr r | None \<Rightarrow> applyPrecision t h)
              | None \<Rightarrow> applyPrecision t h)"

definition PG_TYPE_ALIASES :: "(string \<times> string) list" where
  "PG_TYPE_ALIASES =
     [(''smallint'', ''int2''), (''integer'', ''int4''), (''int'', ''int4''), (''bigint'', ''int8''),
      (''real'', ''float4''), (''double precision'', ''float8''), (''bool'', ''boolean''),
      (''decimal'', ''numeric''), (''character varying'', ''varchar''),
      (''timestamp with time zone'', ''timestamptz''), (''timestamp without time zone'', ''timestamp''),
      (''time with time zone'', ''timetz''), (''time without time zone'', ''time'')]"

definition canonicalPgType :: "string \<Rightarrow> string" where
  "canonicalPgType t =
     (let k = to_lower (trim t)
      in case map_of PG_TYPE_ALIASES k of Some c \<Rightarrow> c | None \<Rightarrow> k)"

section \<open>Annotation to type\<close>

text \<open>\<open>/<.*>$/\<close>.\<close>

definition generic_args_re :: re where
  "generic_args_re = re_seq [chr (CHR ''<''), Star dot, chr (CHR ''>''), Eol]"

definition strip_generics :: "string \<Rightarrow> string" where
  "strip_generics s = re_replace_first generic_args_re [] s"

definition ARRAY_BASES :: "(string \<times> string) list" where
  "ARRAY_BASES =
     [(''string'', ''text''), (''String'', ''text''), (''UUID'', ''uuid''), (''number'', ''float8''),
      (''bigint'', ''int8''), (''boolean'', ''boolean''), (''Decimal'', ''numeric'')]"

definition array_base :: "string option \<Rightarrow> string option" where
  "array_base el = (case el of None \<Rightarrow> None | Some e \<Rightarrow> map_of ARRAY_BASES e)"

definition NAMED_TYPES :: "(string \<times> string) list" where
  "NAMED_TYPES =
     [(''UUID'', ''uuid''), (''Decimal'', ''numeric''), (''ISODate'', ''date''), (''ISOTime'', ''time''),
      (''Vector'', ''vector''), (''string'', ''text''), (''String'', ''text''), (''number'', ''float8''),
      (''Number'', ''float8''), (''bigint'', ''int8''), (''BigInt'', ''int8''), (''boolean'', ''boolean''),
      (''Boolean'', ''boolean''), (''Date'', ''timestamptz''), (''Uint8Array'', ''bytea''), (''Buffer'', ''bytea'')]"

definition is_object_name :: "string \<Rightarrow> bool" where
  "is_object_name n \<longleftrightarrow> n = ''object'' \<or> n = ''unknown'' \<or> n = ''any''"

definition pgTypeFromAnnotation :: "annotation \<Rightarrow> string option" where
  "pgTypeFromAnnotation a =
     (let name = strip_generics (an_typeName a)
      in if an_isArray a then map_option (\<lambda>b. b @ ''[]'') (array_base (an_elementTypeName a))
         else case map_of NAMED_TYPES name of
                Some t \<Rightarrow> Some t
              | None \<Rightarrow>
                  if an_isStringLiteralUnion a then Some ''text''
                  else if an_isUnmappable a then None
                  else if an_isObjectLike a \<or> is_object_name name then Some ''jsonb''
                  else None)"

definition pin_of :: "(string \<times> string) list \<Rightarrow> string option \<Rightarrow> string option" where
  "pin_of pins k = (case k of None \<Rightarrow> None | Some k \<Rightarrow> if k = [] then None else map_of pins k)"

definition or_else :: "'a option \<Rightarrow> 'a option \<Rightarrow> 'a option" where
  "or_else a b = (case a of None \<Rightarrow> b | Some _ \<Rightarrow> a)"

definition semanticPin :: "type_hints \<Rightarrow> string option" where
  "semanticPin h =
     or_else (pin_of AUDITABLE_TYPE_PINS (h_auditableType h))
       (or_else (pin_of DELETABLE_TYPE_PINS (h_deletableType h))
                (pin_of SYNCHRONIZABLE_TYPE_PINS (h_synchronizableType h)))"

definition inferPgTypeFromEntityColumn :: "type_hints \<Rightarrow> (string, string) res" where
  "inferPgTypeFromEntityColumn h =
     (let base =
        (case or_else (map_option trim (h_explicitPgType h))
                (or_else (semanticPin h)
                   (case h_annotation h of None \<Rightarrow> None | Some a \<Rightarrow> pgTypeFromAnnotation a)) of
           Some b \<Rightarrow> b
         | None \<Rightarrow> ''text'')
      in applyTypeModifiers base h)"

section \<open>Compatibility of an explicit type\<close>

text \<open>\<open>t.replace(/\s*\(.*$/, "").trim()\<close>.\<close>

definition modifiers_re :: re where
  "modifiers_re = re_seq [ws0, chr (CHR ''(''), Star dot, Eol]"

definition stripTypeModifiers :: "string \<Rightarrow> string" where
  "stripTypeModifiers t = trim (re_replace_first modifiers_re [] t)"

definition PG_TYPE_ALLOWED :: "(string \<times> string list) list" where
  "PG_TYPE_ALLOWED =
     [(''UUID'', [''uuid'']),
      (''string'', [''text'', ''varchar'', ''char'', ''citext'', ''uuid'', ''inet'', ''cidr'', ''macaddr'',
                    ''macaddr8'', ''json'', ''jsonb'', ''xml'']),
      (''number'', [''float8'', ''float4'', ''int4'', ''int2'']),
      (''bigint'', [''int8'']),
      (''boolean'', [''boolean'']),
      (''Decimal'', [''numeric'']),
      (''Date'', [''timestamptz'', ''timestamp'']),
      (''ISODate'', [''date'']),
      (''ISOTime'', [''time'', ''timetz'']),
      (''Vector'', [''vector'']),
      (''Uint8Array'', [''bytea'']),
      (''object'', [''jsonb'', ''json'']),
      (''string[]'', [''text[]'', ''varchar[]'', ''jsonb'', ''json'']),
      (''UUID[]'', [''uuid[]'']),
      (''number[]'', [''float8[]'', ''float4[]'', ''int4[]'', ''int2[]'', ''numeric[]'']),
      (''bigint[]'', [''int8[]'', ''numeric[]'']),
      (''boolean[]'', [''boolean[]'']),
      (''Decimal[]'', [''numeric[]''])]"

definition ARRAY_KEYS :: "(string \<times> string) list" where
  "ARRAY_KEYS =
     [(''string'', ''string[]''), (''String'', ''string[]''), (''number'', ''number[]''), (''Number'', ''number[]''),
      (''bigint'', ''bigint[]''), (''BigInt'', ''bigint[]''), (''boolean'', ''boolean[]''), (''Boolean'', ''boolean[]''),
      (''UUID'', ''UUID[]''), (''Decimal'', ''Decimal[]'')]"

definition array_key :: "string option \<Rightarrow> string option" where
  "array_key el = (case el of None \<Rightarrow> None | Some e \<Rightarrow> map_of ARRAY_KEYS e)"

definition FAMILY_KEYS :: "(string \<times> string) list" where
  "FAMILY_KEYS =
     [(''string'', ''string''), (''String'', ''string''), (''number'', ''number''), (''Number'', ''number''),
      (''bigint'', ''bigint''), (''BigInt'', ''bigint''), (''boolean'', ''boolean''), (''Boolean'', ''boolean''),
      (''Uint8Array'', ''Uint8Array''), (''Buffer'', ''Uint8Array'')]"

definition annotationKey :: "annotation \<Rightarrow> string option" where
  "annotationKey a =
     (if an_isArray a then array_key (an_elementTypeName a)
      else let n = strip_generics (an_typeName a)
           in if an_isStringLiteralUnion a then Some ''string''
              else case map_of FAMILY_KEYS n of
                     Some k \<Rightarrow> Some k
                   | None \<Rightarrow>
                       if map_of PG_TYPE_ALLOWED n \<noteq> None then Some n
                       else if an_isObjectLike a \<or> is_object_name n then Some ''object''
                       else None)"

definition assertPgTypeCompatible :: "annotation \<Rightarrow> string \<Rightarrow> string \<Rightarrow> (string, unit) res" where
  "assertPgTypeCompatible a explicitPgType propertyKey =
     (case (case annotationKey a of None \<Rightarrow> None | Some k \<Rightarrow> map_of PG_TYPE_ALLOWED k) of
        None \<Rightarrow> Inr ()
      | Some allowed \<Rightarrow>
          if canonicalPgType (stripTypeModifiers explicitPgType) \<in> set allowed then Inr ()
          else Inl (''pgType '' @ explicitPgType @ '' is incompatible with annotation '' @ an_annotation a
                 @ '' on '' @ propertyKey @ '' - allowed: '' @ join '', '' allowed))"

definition resolve_annotation :: "type_hints \<Rightarrow> (string, string) res" where
  "resolve_annotation h =
     (case h_annotation h of
        None \<Rightarrow> Inl (''No type information for '' @ h_propertyKey h)
      | Some a \<Rightarrow>
          (case pgTypeFromAnnotation a of
             None \<Rightarrow> Inl (''Unmappable type '' @ an_annotation a @ '' on '' @ h_propertyKey h)
           | Some t \<Rightarrow> applyTypeModifiers t h))"

definition explicit_ok :: "type_hints \<Rightarrow> (string, unit) res" where
  "explicit_ok h =
     (case (h_explicitPgType h, h_annotation h) of
        (Some t, Some a) \<Rightarrow> assertPgTypeCompatible a t (h_propertyKey h)
      | _ \<Rightarrow> Inr ())"

definition resolvePgTypeForSchema :: "type_hints \<Rightarrow> (string, string) res" where
  "resolvePgTypeForSchema h =
     (case explicit_ok h of
        Inl err \<Rightarrow> Inl err
      | Inr _ \<Rightarrow>
          (case or_else (map_option trim (h_explicitPgType h)) (semanticPin h) of
             Some base \<Rightarrow> if base \<noteq> [] then applyTypeModifiers base h else resolve_annotation h
           | None \<Rightarrow> resolve_annotation h))"

section \<open>Warnings\<close>

datatype warning_kind = UuidName | RedundantPgType

text \<open>\<open>/(^|_)uuid$/i\<close>.\<close>

definition UUID_NAME_RE :: re where
  "UUID_NAME_RE = re_seq [re_alt [Bol, chr (CHR ''_'')], lit_ci ''uuid'', Eol]"

definition columnTypeWarnings :: "type_hints \<Rightarrow> string \<Rightarrow> (string, warning_kind list) res" where
  "columnTypeWarnings h resolved =
     (let canonResolved = canonicalPgType (stripTypeModifiers resolved);
          uuidNamed = re_test UUID_NAME_RE (h_sqlName h);
          w1 = (if uuidNamed \<and> h_explicitPgType h = None \<and> canonResolved \<noteq> ''uuid'' \<and> canonResolved \<noteq> ''uuid[]''
                then [UuidName] else [])
      in case (h_explicitPgType h, h_annotation h) of
           (Some t, Some a) \<Rightarrow>
             if uuidNamed then Inr w1
             else (case pgTypeFromAnnotation a of
                     None \<Rightarrow> Inr w1
                   | Some inferred \<Rightarrow>
                       (case applyTypeModifiers inferred (h\<lparr>h_explicitPgType := None\<rparr>) of
                          Inl err \<Rightarrow> Inl err
                        | Inr m \<Rightarrow>
                            Inr (w1 @ (if canonicalPgType (stripTypeModifiers t) = canonicalPgType (stripTypeModifiers m)
                                       then [RedundantPgType] else []))))
         | _ \<Rightarrow> Inr w1)"

section \<open>Properties\<close>

lemma lower_ws: "js_ws (lower_char c) \<longleftrightarrow> js_ws c"
proof (cases c)
  case (Char b0 b1 b2 b3 b4 b5 b6 b7)
  show ?thesis unfolding Char lower_char_code js_ws_def
    by (cases b7; cases b6; cases b5; cases b4; cases b3; cases b2; cases b1; cases b0) simp_all
qed

lemma trim_to_lower: "trim s = s \<Longrightarrow> trim (to_lower s) = to_lower s"
proof (rule trim_id)
  assume t: "trim s = s"
  show "to_lower s = [] \<or> (\<not> js_ws (hd (to_lower s)) \<and> \<not> js_ws (last (to_lower s)))"
    using trim_hd [of s] trim_last [of s]
    by (cases "s = []") (simp_all add: t to_lower_def hd_map last_map lower_ws)
qed

lemma alias_targets:
  "\<forall>(a, c)\<in>set PG_TYPE_ALIASES. canonicalPgType c = c"
  by code_simp

text \<open>
  C38: folding alias spellings to canonical type names is idempotent, so a stored snapshot compared
  with a fresh one never differs by spelling alone.
\<close>

theorem canonical_type_stable: "canonicalPgType (canonicalPgType t) = canonicalPgType t"
proof (cases "map_of PG_TYPE_ALIASES (to_lower (trim t))")
  case None
  then show ?thesis by (simp add: canonicalPgType_def trim_to_lower)
next
  case (Some c)
  then have "canonicalPgType c = c" using alias_targets map_of_SomeD [OF Some] by blast
  then show ?thesis using Some by (simp add: canonicalPgType_def)
qed

text \<open>What the extractor guarantees of an annotation that is not an array: its name is not the name
  of an array type, and a union of string literals does not have the name of a known type.\<close>

definition annotation_wf :: "annotation \<Rightarrow> bool" where
  "annotation_wf a \<longleftrightarrow>
     (let n = strip_generics (an_typeName a)
      in \<not> an_isArray a \<longrightarrow> n \<notin> set [''string[]'', ''UUID[]'', ''number[]'', ''bigint[]'', ''boolean[]'', ''Decimal[]'']
         \<and> (an_isStringLiteralUnion a \<longrightarrow> map_of NAMED_TYPES n \<in> {None, Some ''text''}))"

definition accepted_key :: "string option \<Rightarrow> string \<Rightarrow> bool" where
  "accepted_key k t \<longleftrightarrow>
     (case (case k of None \<Rightarrow> None | Some k \<Rightarrow> map_of PG_TYPE_ALLOWED k) of
        None \<Rightarrow> True | Some allowed \<Rightarrow> canonicalPgType (stripTypeModifiers t) \<in> set allowed)"

lemma assert_accepted: "accepted_key (annotationKey a) t \<Longrightarrow> assertPgTypeCompatible a t p = Inr ()"
  by (auto simp: accepted_key_def assertPgTypeCompatible_def split: option.splits)

definition plain_key :: "string \<Rightarrow> string option" where
  "plain_key n =
     (case map_of FAMILY_KEYS n of
        Some k \<Rightarrow> Some k
      | None \<Rightarrow> if map_of PG_TYPE_ALLOWED n \<noteq> None then Some n else None)"

lemma named_accepted: "\<forall>(n, t)\<in>set NAMED_TYPES. plain_key n \<noteq> None \<and> accepted_key (plain_key n) t"
  by code_simp

lemma text_accepted: "accepted_key (Some ''string'') ''text''" "accepted_key (Some ''object'') ''jsonb''"
  by code_simp+

lemma array_bases_accepted: "\<forall>(e, b)\<in>set ARRAY_BASES. accepted_key (map_of ARRAY_KEYS e) (b @ ''[]'')"
  by code_simp

lemma array_accepted: "array_base el = Some b \<Longrightarrow> accepted_key (array_key el) (b @ ''[]'')"
  using array_bases_accepted by (auto simp: array_base_def array_key_def split: option.splits dest!: map_of_SomeD)

lemma annotationKey_plain:
  "\<not> an_isArray a \<Longrightarrow> \<not> an_isStringLiteralUnion a \<Longrightarrow> plain_key (strip_generics (an_typeName a)) = Some k \<Longrightarrow>
     annotationKey a = Some k"
  by (simp add: annotationKey_def plain_key_def Let_def split: option.splits if_splits)

lemma family_named: "map_of NAMED_TYPES n = None \<Longrightarrow> map_of FAMILY_KEYS n = None"
proof -
  have "\<forall>n\<in>set (map fst FAMILY_KEYS). map_of NAMED_TYPES n \<noteq> None" by code_simp
  then show "map_of NAMED_TYPES n = None \<Longrightarrow> ?thesis" by (auto simp: map_of_eq_None_iff)
qed

lemma allowed_names:
  "map_of PG_TYPE_ALLOWED n \<noteq> None \<Longrightarrow>
     n \<in> set [''string[]'', ''UUID[]'', ''number[]'', ''bigint[]'', ''boolean[]'', ''Decimal[]'']
     \<or> map_of NAMED_TYPES n \<noteq> None \<or> n = ''object''"
proof -
  have "\<forall>n\<in>set (map fst PG_TYPE_ALLOWED). n \<in> set [''string[]'', ''UUID[]'', ''number[]'', ''bigint[]'', ''boolean[]'', ''Decimal[]'']
     \<or> map_of NAMED_TYPES n \<noteq> None \<or> n = ''object''" by code_simp
  moreover assume "map_of PG_TYPE_ALLOWED n \<noteq> None"
  then have "n \<in> set (map fst PG_TYPE_ALLOWED)" by (simp add: map_of_eq_None_iff)
  ultimately show ?thesis by blast
qed


definition sample_annotation :: annotation where
  "sample_annotation = \<lparr>an_annotation = ''UUID[]'', an_typeName = ''UUID[]'', an_isArray = True,
     an_elementTypeName = Some ''UUID'', an_isStringLiteralUnion = False, an_isObjectLike = True, an_isUnmappable = False\<rparr>"


text \<open>
  C28: the schema pipeline never guesses a type: a type is produced only from an explicit type that
  the annotation (if there is one) allows, from a decorator's pin, or from an annotation that maps to a type;
  in particular a property without any of these is refused and does not become \<open>text\<close>.
\<close>

theorem schema_type_is_declared:
  assumes "resolvePgTypeForSchema h = Inr r"
  shows "\<exists>base. applyTypeModifiers base h = Inr r
    \<and> ((\<exists>t. h_explicitPgType h = Some t \<and> base = trim t
            \<and> (\<forall>a. h_annotation h = Some a \<longrightarrow> assertPgTypeCompatible a t (h_propertyKey h) = Inr ()))
       \<or> semanticPin h = Some base
       \<or> (\<exists>a. h_annotation h = Some a \<and> pgTypeFromAnnotation a = Some base))"
proof -
  have e: "\<forall>t a. h_explicitPgType h = Some t \<and> h_annotation h = Some a \<longrightarrow> assertPgTypeCompatible a t (h_propertyKey h) = Inr ()"
    using assms by (auto simp: resolvePgTypeForSchema_def explicit_ok_def split: sum.splits option.splits)
  have "resolve_annotation h = Inr r \<Longrightarrow> \<exists>a base. h_annotation h = Some a \<and> pgTypeFromAnnotation a = Some base \<and> applyTypeModifiers base h = Inr r"
    by (auto simp: resolve_annotation_def split: option.splits)
  then show ?thesis using assms e
    unfolding resolvePgTypeForSchema_def
    by (cases "h_explicitPgType h"; cases "semanticPin h") (auto simp: or_else_def split: sum.splits if_splits)
qed

definition sample_hints :: type_hints where
  "sample_hints = \<lparr>h_sqlName = ''refs'', h_propertyKey = ''refs'', h_isKey = False, h_explicitPgType = None, h_length = None,
     h_precision = None, h_scale = None, h_auditableType = None, h_deletableType = None, h_synchronizableType = None,
     h_annotation = Some sample_annotation\<rparr>"

theorem schema_type_is_declared_witness: "\<exists>base. applyTypeModifiers base sample_hints = Inr ''uuid[]''"
proof -
  have "resolvePgTypeForSchema sample_hints = Inr ''uuid[]''" by code_simp
  from schema_type_is_declared [OF this] show ?thesis by blast
qed

text \<open>A literal length in \<open>pgType\<close> wins over the \<open>length\<close> option, whatever the documentation of
  \<open>PgColumnType\<close> says.\<close>

lemma literal_length_wins:
  "inferPgTypeFromEntityColumn (sample_hints\<lparr>h_explicitPgType := Some ''vector(3)'', h_length := Some 5\<rparr>) = Inr ''vector(3)''"
  by code_simp

end
