(* ===== verification/Identifiers.thy ===== *)
theory Identifiers
  imports JsRegex
begin

text \<open>
  Regular expressions of the shape \<open>/^[p][q]*$/\<close>, which the code uses to check identifiers, and the
  quoting of identifiers (\<open>quoteIdent\<close> of \<open>src/query/query-builder.ts\<close>).
\<close>

definition ident_shape :: "(char \<Rightarrow> bool) \<Rightarrow> (char \<Rightarrow> bool) \<Rightarrow> re" where
  "ident_shape p q = re_seq [Bol, Cls p, Star (Cls q), Eol]"

lemma star_to_end: "re_match (Seq (Star (Cls q)) Eol) (l, r, cs) \<noteq> [] \<longleftrightarrow> list_all q r"
proof -
  have "re_match (Seq (Star (Cls q)) Eol) (l, r, cs) = concat (map (re_match Eol) (run_states q (l, r, cs)))"
    by (simp add: re_match_Star_Cls)
  then have "re_match (Seq (Star (Cls q)) Eol) (l, r, cs) \<noteq> [] \<longleftrightarrow>
      (\<exists>k\<in>set [0..<Suc (length (takeWhile q r))]. drop k r = [])"
    by (simp add: run_states_def del: upt_Suc) blast
  also have "\<dots> \<longleftrightarrow> (\<exists>k\<le>length (takeWhile q r). drop k r = [])" by (auto simp: less_Suc_eq_le)
  also have "\<dots> \<longleftrightarrow> length r \<le> length (takeWhile q r)" by auto
  also have "\<dots> \<longleftrightarrow> takeWhile q r = r"
    using length_takeWhile_le [of q r] takeWhile_eq_take [of q r] by (metis le_antisym take_all_iff order_refl)
  also have "\<dots> \<longleftrightarrow> list_all q r" by (simp add: takeWhile_eq_all_conv list_all_iff)
  finally show ?thesis .
qed

lemma bol_only_at_start: "l \<noteq> [] \<Longrightarrow> re_exec_at (Seq Bol e) l r = None"
proof (induction r arbitrary: l)
  case Nil
  then show ?case by (subst re_exec_at.simps) simp
next
  case (Cons c r)
  then show ?case by (subst re_exec_at.simps) simp
qed

lemma bol_test: "re_test (Seq Bol e) s \<longleftrightarrow> re_match e ([], s, []) \<noteq> []"
proof (cases "re_match e ([], s, [])")
  case Nil
  then show ?thesis using bol_only_at_start [of "[hd s]" e "tl s"]
    by (cases s) (simp_all add: re_test_def re_exec_def re_exec_at.simps [of _ "[]"])
next
  case (Cons m ms)
  then show ?thesis by (simp add: re_test_def re_exec_def re_exec_at.simps [of _ "[]"])
qed

lemma ident_shape_test: "re_test (ident_shape p q) s \<longleftrightarrow> (\<exists>c r. s = c # r \<and> p c \<and> list_all q r)"
proof (cases s)
  case Nil
  then show ?thesis by (simp add: ident_shape_def bol_test)
next
  case (Cons c r)
  have "re_match (Seq (Cls p) (Seq (Star (Cls q)) Eol)) ([], c # r, []) =
      (if p c then re_match (Seq (Star (Cls q)) Eol) ([c], r, []) else [])" by simp
  then show ?thesis using star_to_end [of q "[c]" r "[]"] Cons
    by (simp add: ident_shape_def bol_test del: re_match.simps)
qed

section \<open>Quoted identifiers\<close>

definition ident_re :: re where
  "ident_re = ident_shape is_ident_start is_word"

definition assertValidIdentPart :: "string \<Rightarrow> string \<Rightarrow> (string, unit) res" where
  "assertValidIdentPart s what =
     (if \<not> re_test ident_re s then Inl (''Invalid '' @ what @ '': '' @ s) else Inr ())"

definition quoteIdent :: "string \<Rightarrow> (string, string) res" where
  "quoteIdent ident =
     res_bind (assertValidIdentPart ident ''identifier'') (\<lambda>_. Inr (''\"'' @ ident @ ''\"''))"

definition valid_ident :: "string \<Rightarrow> bool" where
  "valid_ident s \<longleftrightarrow> (\<exists>c r. s = c # r \<and> is_ident_start c \<and> list_all is_word r)"

lemma ident_re_valid: "re_test ident_re s \<longleftrightarrow> valid_ident s"
  by (simp add: ident_re_def ident_shape_test valid_ident_def)

lemma assertValidIdentPart_InrD: "assertValidIdentPart s what = Inr u \<Longrightarrow> valid_ident s"
  by (simp add: assertValidIdentPart_def ident_re_valid split: if_splits)

lemma quoteIdent_Inr: "quoteIdent s = Inr t \<longleftrightarrow> valid_ident s \<and> t = ''\"'' @ s @ ''\"''"
  by (auto simp: quoteIdent_def assertValidIdentPart_def ident_re_valid res_bind_def)

end
