(* ===== verification/SchemaDomain.thy ===== *)
theory SchemaDomain
  imports Identifiers
begin

text \<open>
  \<open>src/meta/schema-domain.ts\<close>: the set of PostgreSQL schemas a service may touch.  The module variable
  \<open>domain\<close> is passed as an argument of type \<open>schema_domain option\<close>.
\<close>

record schema_domain =
  sd_allowed :: "string list"
  sd_primary :: string
  sd_sharedTables :: "string list"

datatype domain_error = SchemaDomainViolation string

text \<open>\<open>/^[a-z_][a-z0-9_]*$/\<close>, for schemas and for tables.\<close>

definition lower_ident_re :: re where
  "lower_ident_re = ident_shape (\<lambda>c. is_lower c \<or> c = CHR ''_'')
     (\<lambda>c. is_lower c \<or> is_digit c \<or> c = CHR ''_'')"

definition PLATFORM_SHARED_TABLES :: "string list" where
  "PLATFORM_SHARED_TABLES = [''user_profiles'', ''translations'']"

definition configureSchemaDomain :: "string list \<Rightarrow> string list \<Rightarrow> (domain_error, schema_domain) res" where
  "configureSchemaDomain schemas sharedTables =
     (case schemas of
        [] \<Rightarrow> Inl (SchemaDomainViolation ''DalConfig.schemas must be a non-empty array of schema names'')
      | s0 # _ \<Rightarrow>
          (let bad = filter (\<lambda>s. \<not> re_test lower_ident_re s) schemas;
               badTables = filter (\<lambda>t. \<not> re_test lower_ident_re t) sharedTables
           in if bad \<noteq> [] then
                Inl (SchemaDomainViolation (''DalConfig.schemas contains invalid name(s) ['' @ join '', '' bad @ '']''))
              else if badTables \<noteq> [] then
                Inl (SchemaDomainViolation (''DalConfig.sharedTables contains invalid name(s) ['' @ join '', '' badTables @ '']''))
              else Inr \<lparr>sd_allowed = schemas, sd_primary = s0,
                        sd_sharedTables = PLATFORM_SHARED_TABLES @ sharedTables\<rparr>))"

definition resolveEntitySchema ::
  "schema_domain option \<Rightarrow> string option \<Rightarrow> string option \<Rightarrow> string \<Rightarrow> (domain_error, string) res" where
  "resolveEntitySchema domain tableSchema tableName fallback =
     (let effective = (case tableSchema of Some s \<Rightarrow> s
                       | None \<Rightarrow> (case domain of Some d \<Rightarrow> sd_primary d | None \<Rightarrow> fallback))
      in case domain of
           None \<Rightarrow> Inr effective
         | Some d \<Rightarrow>
             if effective \<in> set (sd_allowed d) then Inr effective
             else (case tableName of
                     Some t \<Rightarrow>
                       if t \<noteq> [] \<and> t \<in> set (sd_sharedTables d) then Inr effective
                       else Inl (SchemaDomainViolation (''entity targets schema '' @ effective
                              @ '' which is outside the declared domain ['' @ join '', '' (sd_allowed d) @ '']''))
                   | None \<Rightarrow> Inl (SchemaDomainViolation (''entity targets schema '' @ effective
                              @ '' which is outside the declared domain ['' @ join '', '' (sd_allowed d) @ '']''))))"

section \<open>Facts\<close>

lemma resolve_InrD:
  assumes "resolveEntitySchema (Some d) ts tn fb = Inr s"
  shows "s \<in> set (sd_allowed d) \<or> (\<exists>t. tn = Some t \<and> t \<in> set (sd_sharedTables d))"
  using assms by (auto simp: resolveEntitySchema_def Let_def split: if_splits option.splits)

lemma resolve_effective:
  "resolveEntitySchema domain ts tn fb = Inr s \<Longrightarrow>
     s = (case ts of Some s \<Rightarrow> s | None \<Rightarrow> (case domain of Some d \<Rightarrow> sd_primary d | None \<Rightarrow> fb))"
  by (auto simp: resolveEntitySchema_def Let_def split: if_splits option.splits)

lemma configure_InrD:
  assumes "configureSchemaDomain schemas shared = Inr d"
  shows "sd_allowed d = schemas \<and> sd_primary d \<in> set schemas
    \<and> set (sd_sharedTables d) = set PLATFORM_SHARED_TABLES \<union> set shared
    \<and> list_all (re_test lower_ident_re) (schemas @ shared)"
  using assms
  by (auto simp: configureSchemaDomain_def Let_def filter_empty_conv list_all_iff split: list.splits if_splits)

end
