(* ===== verification/EntityMeta.thy ===== *)
theory EntityMeta
  imports EntityTypes SchemaDomain "HOL-Library.AList" "HOL-Library.Product_Lexorder"
begin

text \<open>
  \<open>src/meta/entity-decorators.ts\<close>: the decorators, the metadata they register per class, and the
  persistence metadata read back from it.

  A class is a number; its declaration (name, prototype chain from itself upwards, data properties of an
  instance) is an argument.  \<open>META\<close> is the map \<open>meta_store\<close>.  A JavaScript \<open>Map\<close> is an association list in
  insertion order (\<open>AList.update\<close> is \<open>set\<close>).  \<open>localeCompare\<close> is comparison of the keys \<open>collate\<close> gives.
\<close>

section \<open>What the decorators record\<close>

datatype auditable_type = CREATED_AT | CREATED_BY | UPDATED_AT | UPDATED_BY | VERSION
datatype deletable_type = DELETED_AT | DELETED_BY
datatype synchronizable_type = LAST_SYNCED_AT
datatype index_method = Btree | Hash | Gin | Gist | Spgist | Brin | Hnsw
datatype fk_action = Restrict | Cascade | SetNull | SetDefault | NoAction
datatype key_generated = Identity | Manual
datatype js_type = Instant | JsDecimal | JsVector

record index_options =
  io_name :: "string option"
  io_order :: "int option"
  io_using :: "index_method option"
  io_opclass :: "string option"
  io_where :: "string option"

record foreign_key_options =
  fo_column :: "string option"
  fo_onDelete :: "fk_action option"
  fo_onUpdate :: "fk_action option"
  fo_name :: "string option"

record partition_options =
  po_interval :: "string option"
  po_retention :: "string option"
  po_keepTable :: "bool option"
  po_premake :: "int option"

record partition_child_options =
  pc_parent :: nat
  pc_ref :: string
  pc_parentRef :: "string option"

record column_registration =
  cr_sqlName :: string
  cr_isKey :: bool
  cr_isUnique :: bool
  cr_indexOpts :: "index_options option"
  cr_foreignKey :: "(nat \<times> foreign_key_options) option"
  cr_isPartition :: bool
  cr_partitionOpts :: "partition_options option"
  cr_uniqueIndexName :: "string option"
  cr_uniqueIndexOrder :: "int option"
  cr_nullable :: "bool option"
  cr_pgType :: "string option"
  cr_length :: "int option"
  cr_precision :: "int option"
  cr_scale :: "int option"
  cr_defaultSql :: "string option"
  cr_keyGenerated :: "key_generated option"
  cr_jsType :: "js_type option"
  cr_auditableType :: "auditable_type option"
  cr_deletableType :: "deletable_type option"
  cr_synchronizableType :: "synchronizable_type option"
  cr_isClone :: bool
  cr_castInJoin :: "string option"

record column_options =
  co_sqlName :: "string option"
  co_pgType :: "string option"
  co_length :: "int option"
  co_precision :: "int option"
  co_scale :: "int option"
  co_nullable :: "bool option"
  co_defaultSql :: "string option"
  co_jsType :: "js_type option"
  co_castInJoin :: "string option"

record class_meta =
  m_tableName :: "string option"
  m_tableSchema :: "string option"
  m_columns :: "(string \<times> column_registration) list"
  m_notColumnKeys :: "string list"
  m_isAuditable :: "bool option"
  m_isAuditTrailEntity :: "bool option"
  m_auditTrailChangedByColumn :: "string option"
  m_partitionChildOf :: "partition_child_options option"

type_synonym meta_store = "nat \<Rightarrow> class_meta option"

record class_decl =
  cd_name :: string
  cd_chain :: "nat list"
  cd_props :: "string list"

type_synonym program = "nat \<Rightarrow> class_decl"

datatype meta_error = TypeError string | Domain domain_error | ColumnError string

definition empty_meta :: class_meta where
  "empty_meta = \<lparr>m_tableName = None, m_tableSchema = None, m_columns = [], m_notColumnKeys = [],
     m_isAuditable = None, m_isAuditTrailEntity = None, m_auditTrailChangedByColumn = None, m_partitionChildOf = None\<rparr>"

definition new_column :: "string \<Rightarrow> column_registration" where
  "new_column key = \<lparr>cr_sqlName = key, cr_isKey = False, cr_isUnique = False, cr_indexOpts = None,
     cr_foreignKey = None, cr_isPartition = False, cr_partitionOpts = None, cr_uniqueIndexName = None,
     cr_uniqueIndexOrder = None, cr_nullable = None, cr_pgType = None, cr_length = None, cr_precision = None,
     cr_scale = None, cr_defaultSql = None, cr_keyGenerated = None, cr_jsType = None, cr_auditableType = None,
     cr_deletableType = None, cr_synchronizableType = None, cr_isClone = False, cr_castInJoin = None\<rparr>"

definition ensureMeta :: "meta_store \<Rightarrow> nat \<Rightarrow> class_meta" where
  "ensureMeta M ctor = (case M ctor of Some m \<Rightarrow> m | None \<Rightarrow> empty_meta)"

text \<open>A class decorator changes the metadata of the class, a property decorator one registration,
  which \<open>touchColumn\<close> creates when it is not there.\<close>

definition update_meta :: "(class_meta \<Rightarrow> class_meta) \<Rightarrow> nat \<Rightarrow> meta_store \<Rightarrow> meta_store" where
  "update_meta f ctor M = M(ctor := Some (f (ensureMeta M ctor)))"

definition touchColumn :: "string \<Rightarrow> (column_registration \<Rightarrow> column_registration) \<Rightarrow> class_meta \<Rightarrow> class_meta" where
  "touchColumn key f m =
     m\<lparr>m_columns := AList.update key
         (f (case map_of (m_columns m) key of Some c \<Rightarrow> c | None \<Rightarrow> new_column key)) (m_columns m)\<rparr>"

definition decorate :: "(column_registration \<Rightarrow> column_registration) \<Rightarrow> nat \<Rightarrow> string \<Rightarrow> meta_store \<Rightarrow> meta_store" where
  "decorate f ctor key M = update_meta (touchColumn key f) ctor M"

section \<open>The decorators\<close>

definition Entity :: "program \<Rightarrow> string option \<Rightarrow> string option \<Rightarrow> nat \<Rightarrow> meta_store \<Rightarrow> meta_store" where
  "Entity P tableName schema ctor M =
     update_meta (\<lambda>m. m\<lparr>m_tableName := Some (case tableName of Some t \<Rightarrow> t | None \<Rightarrow> cd_name (P ctor)),
                        m_tableSchema := (case schema of Some s \<Rightarrow> if s \<noteq> [] then Some s else m_tableSchema m
                                          | None \<Rightarrow> m_tableSchema m)\<rparr>) ctor M"

definition set_if :: "'a option \<Rightarrow> 'a option \<Rightarrow> 'a option" where
  "set_if new old = (case new of Some _ \<Rightarrow> new | None \<Rightarrow> old)"

definition assertNonEmptyColumnOptions :: "column_options \<Rightarrow> (meta_error, unit) res" where
  "assertNonEmptyColumnOptions co =
     (if co_sqlName co = None \<and> co_pgType co = None \<and> co_length co = None \<and> co_precision co = None \<and> co_scale co = None
         \<and> co_nullable co = None \<and> co_defaultSql co = None \<and> co_jsType co = None \<and> co_castInJoin co = None
      then Inl (TypeError ''@Column requires at least one option'') else Inr ())"

definition ColumnName :: "string \<Rightarrow> nat \<Rightarrow> string \<Rightarrow> meta_store \<Rightarrow> meta_store" where
  "ColumnName sqlName = decorate (\<lambda>c. c\<lparr>cr_sqlName := sqlName\<rparr>)"

definition apply_column_options :: "column_options \<Rightarrow> column_registration \<Rightarrow> column_registration" where
  "apply_column_options co c =
     c\<lparr>cr_sqlName := (case co_sqlName co of Some s \<Rightarrow> s | None \<Rightarrow> cr_sqlName c),
       cr_pgType := set_if (co_pgType co) (cr_pgType c), cr_length := set_if (co_length co) (cr_length c),
       cr_precision := set_if (co_precision co) (cr_precision c), cr_scale := set_if (co_scale co) (cr_scale c),
       cr_nullable := set_if (co_nullable co) (cr_nullable c), cr_defaultSql := set_if (co_defaultSql co) (cr_defaultSql c),
       cr_jsType := set_if (co_jsType co) (cr_jsType c), cr_castInJoin := set_if (co_castInJoin co) (cr_castInJoin c)\<rparr>"

text \<open>The registration is touched before the options are checked.\<close>

definition Column :: "column_options \<Rightarrow> nat \<Rightarrow> string \<Rightarrow> meta_store \<Rightarrow> (meta_error, unit) res \<times> meta_store" where
  "Column co ctor key M =
     (case assertNonEmptyColumnOptions co of
        Inl err \<Rightarrow> (Inl err, decorate (\<lambda>c. c) ctor key M)
      | Inr u \<Rightarrow> (Inr u, decorate (apply_column_options co) ctor key M))"

definition IsNotColumn :: "nat \<Rightarrow> string \<Rightarrow> meta_store \<Rightarrow> meta_store" where
  "IsNotColumn ctor key M =
     update_meta (\<lambda>m. m\<lparr>m_notColumnKeys := List.insert key (m_notColumnKeys m),
                        m_columns := filter (\<lambda>(k, _). k \<noteq> key) (m_columns m)\<rparr>) ctor M"

definition Unique :: "(string \<times> int option) option \<Rightarrow> nat \<Rightarrow> string \<Rightarrow> meta_store \<Rightarrow> meta_store" where
  "Unique index = decorate (\<lambda>c.
     let c1 = c\<lparr>cr_isUnique := True, cr_nullable := set_if (cr_nullable c) (Some False)\<rparr>
     in case index of
          None \<Rightarrow> c1
        | Some (n, ord) \<Rightarrow> c1\<lparr>cr_uniqueIndexName := Some n,
                              cr_uniqueIndexOrder := Some (case ord of Some i \<Rightarrow> i | None \<Rightarrow> 0)\<rparr>)"

definition Key :: "key_generated option \<Rightarrow> string option \<Rightarrow> nat \<Rightarrow> string \<Rightarrow> meta_store \<Rightarrow> meta_store" where
  "Key generated defaultSql = decorate (\<lambda>c.
     c\<lparr>cr_isKey := True, cr_nullable := Some False,
       cr_keyGenerated := Some (case generated of Some g \<Rightarrow> g
                                | None \<Rightarrow> (case cr_keyGenerated c of Some g \<Rightarrow> g | None \<Rightarrow> Identity)),
       cr_defaultSql := set_if defaultSql (cr_defaultSql c)\<rparr>)"

definition AuditableField :: "auditable_type \<Rightarrow> nat \<Rightarrow> string \<Rightarrow> meta_store \<Rightarrow> meta_store" where
  "AuditableField what = decorate (\<lambda>c. c\<lparr>cr_auditableType := Some what\<rparr>)"

definition DeletableField :: "deletable_type option \<Rightarrow> nat \<Rightarrow> string \<Rightarrow> meta_store \<Rightarrow> meta_store" where
  "DeletableField what = decorate (\<lambda>c. c\<lparr>cr_deletableType := Some (case what of Some w \<Rightarrow> w | None \<Rightarrow> DELETED_AT),
     cr_nullable := Some True\<rparr>)"

definition SynchronizableField :: "synchronizable_type \<Rightarrow> nat \<Rightarrow> string \<Rightarrow> meta_store \<Rightarrow> meta_store" where
  "SynchronizableField what = decorate (\<lambda>c. c\<lparr>cr_synchronizableType := Some what\<rparr>)"

definition CloneField :: "nat \<Rightarrow> string \<Rightarrow> meta_store \<Rightarrow> meta_store" where
  "CloneField = decorate (\<lambda>c. c\<lparr>cr_isClone := True, cr_nullable := Some True\<rparr>)"

definition AuditTrail :: "nat \<Rightarrow> meta_store \<Rightarrow> meta_store" where
  "AuditTrail = update_meta (\<lambda>m. m\<lparr>m_isAuditable := Some True\<rparr>)"

definition AuditTrailEntity :: "string option \<Rightarrow> nat \<Rightarrow> meta_store \<Rightarrow> meta_store" where
  "AuditTrailEntity changedBy = update_meta (\<lambda>m. m\<lparr>m_isAuditTrailEntity := Some True,
     m_auditTrailChangedByColumn := Some (case changedBy of Some c \<Rightarrow> c | None \<Rightarrow> ''changed_by'')\<rparr>)"

definition no_partition_options :: partition_options where
  "no_partition_options = \<lparr>po_interval = None, po_retention = None, po_keepTable = None, po_premake = None\<rparr>"

definition PartitionField :: "partition_options option \<Rightarrow> nat \<Rightarrow> string \<Rightarrow> meta_store \<Rightarrow> meta_store" where
  "PartitionField opts = decorate (\<lambda>c. c\<lparr>cr_isPartition := True,
     cr_partitionOpts := Some (case opts of Some p \<Rightarrow> p | None \<Rightarrow> no_partition_options),
     cr_nullable := Some False\<rparr>)"

definition no_index_options :: index_options where
  "no_index_options = \<lparr>io_name = None, io_order = None, io_using = None, io_opclass = None, io_where = None\<rparr>"

definition Index :: "index_options option \<Rightarrow> nat \<Rightarrow> string \<Rightarrow> meta_store \<Rightarrow> meta_store" where
  "Index opts = decorate (\<lambda>c. c\<lparr>cr_indexOpts := Some (case opts of Some i \<Rightarrow> i | None \<Rightarrow> no_index_options)\<rparr>)"

definition no_fk_options :: foreign_key_options where
  "no_fk_options = \<lparr>fo_column = None, fo_onDelete = None, fo_onUpdate = None, fo_name = None\<rparr>"

definition ForeignKey :: "nat \<Rightarrow> foreign_key_options option \<Rightarrow> nat \<Rightarrow> string \<Rightarrow> meta_store \<Rightarrow> meta_store" where
  "ForeignKey target opts = decorate (\<lambda>c. c\<lparr>cr_foreignKey :=
     Some (target, case opts of Some fo \<Rightarrow> fo | None \<Rightarrow> no_fk_options)\<rparr>)"

definition PartitionChildOf :: "partition_child_options \<Rightarrow> nat \<Rightarrow> meta_store \<Rightarrow> meta_store" where
  "PartitionChildOf opts = update_meta (\<lambda>m. m\<lparr>m_partitionChildOf := Some opts\<rparr>)"

section \<open>Inheritance\<close>

text \<open>\<open>hasInheritedColumnRegistration\<close>: a proper ancestor has a registration for the key.\<close>

definition hasInheritedColumnRegistration :: "program \<Rightarrow> meta_store \<Rightarrow> nat \<Rightarrow> string \<Rightarrow> bool" where
  "hasInheritedColumnRegistration P M ctor key \<longleftrightarrow>
     list_ex (\<lambda>p. case M p of Some m \<Rightarrow> map_of (m_columns m) key \<noteq> None | None \<Rightarrow> False) (tl (cd_chain (P ctor)))"

text \<open>The keys \<open>syncImplicitEntityColumns\<close> looks at: \<open>[...new Set([...discovered, ...decorated])]\<close>.\<close>

definition sync_keys :: "program \<Rightarrow> nat \<Rightarrow> class_meta \<Rightarrow> string list" where
  "sync_keys P ctor m =
     (let ks = cd_props (P ctor) @ map fst (m_columns m) in rev (remdups (rev ks)))"

definition syncImplicitEntityColumns :: "program \<Rightarrow> nat \<Rightarrow> meta_store \<Rightarrow> meta_store" where
  "syncImplicitEntityColumns P ctor M =
     (case M ctor of
        None \<Rightarrow> M
      | Some m \<Rightarrow>
          if m_tableName m = None then M
          else fold (\<lambda>key M'.
                 if key \<in> set (m_notColumnKeys m) then M'
                 else if hasInheritedColumnRegistration P M' ctor key then M'
                 else decorate (\<lambda>c. c) ctor key M') (sync_keys P ctor m) M)"

text \<open>Reading metadata syncs the class and then its ancestors.\<close>

definition synced :: "program \<Rightarrow> nat \<Rightarrow> meta_store \<Rightarrow> meta_store" where
  "synced P ctor M = fold (\<lambda>p M'. if M' p = None then M' else syncImplicitEntityColumns P p M')
     (cd_chain (P ctor)) (syncImplicitEntityColumns P ctor M)"

text \<open>\<open>collectMetaChain\<close> on a synced store: the registered metadata, root first.\<close>

definition collectMetaChain :: "program \<Rightarrow> meta_store \<Rightarrow> nat \<Rightarrow> class_meta list" where
  "collectMetaChain P M ctor = rev (List.map_filter M (cd_chain (P ctor)))"

definition collectEntityColumnRegistrations :: "program \<Rightarrow> meta_store \<Rightarrow> nat \<Rightarrow> (string \<times> column_registration) list" where
  "collectEntityColumnRegistrations P M ctor =
     fold (\<lambda>m merged. fold (\<lambda>(k, r). AList.update k r) (m_columns m) merged) (collectMetaChain P M ctor) []"

definition inherited :: "(class_meta \<Rightarrow> 'a option) \<Rightarrow> class_meta list \<Rightarrow> 'a option" where
  "inherited pick chain = (case List.map_filter pick (rev chain) of [] \<Rightarrow> None | v # _ \<Rightarrow> Some v)"

section \<open>Names\<close>

definition isEntityClass :: "meta_store \<Rightarrow> nat \<Rightarrow> bool" where
  "isEntityClass M c \<longleftrightarrow> (case M c of None \<Rightarrow> False | Some m \<Rightarrow> m_tableName m \<noteq> None)"

definition not_entity :: meta_error where
  "not_entity = TypeError ''Expected a class decorated with @Entity(...) or @Entity()''"

definition getTableName :: "meta_store \<Rightarrow> nat \<Rightarrow> (meta_error, string) res" where
  "getTableName M c =
     (case M c of
        Some m \<Rightarrow> (case m_tableName m of Some t \<Rightarrow> Inr t | None \<Rightarrow> Inl not_entity)
      | None \<Rightarrow> Inl not_entity)"

definition quoted_table :: "string option \<Rightarrow> string \<Rightarrow> string" where
  "quoted_table s t = (case s of None \<Rightarrow> ''\"'' @ t @ ''\"'' | Some s \<Rightarrow> ''\"'' @ s @ ''\".\"'' @ t @ ''\"'')"

definition getQualifiedTableName :: "schema_domain option \<Rightarrow> meta_store \<Rightarrow> nat \<Rightarrow> (meta_error, string) res" where
  "getQualifiedTableName domain M c =
     (case getTableName M c of
        Inl err \<Rightarrow> Inl err
      | Inr table \<Rightarrow>
          (let m = ensureMeta M c
           in case domain of
                Some d \<Rightarrow>
                  (case resolveEntitySchema domain (m_tableSchema m) (m_tableName m) ''public'' of
                     Inl err \<Rightarrow> Inl (Domain err)
                   | Inr s \<Rightarrow> Inr (quoted_table (Some s) table))
              | None \<Rightarrow>
                  (case m_tableSchema m of
                     Some s \<Rightarrow> Inr (quoted_table (if s \<noteq> [] then Some s else None) table)
                   | None \<Rightarrow> Inr (quoted_table None table))))"

definition getEntityName :: "program \<Rightarrow> meta_store \<Rightarrow> nat \<Rightarrow> (meta_error, string) res" where
  "getEntityName P M c = (if isEntityClass M c then Inr (cd_name (P c)) else Inl not_entity)"

definition getColumnName :: "program \<Rightarrow> meta_store \<Rightarrow> nat \<Rightarrow> string \<Rightarrow> (meta_error, string) res" where
  "getColumnName P M c key =
     (if isEntityClass M c then
        Inr (case map_of (collectEntityColumnRegistrations P (synced P c M) c) key of
               Some r \<Rightarrow> cr_sqlName r | None \<Rightarrow> key)
      else Inl not_entity)"

definition getPrimaryKeyColumn :: "program \<Rightarrow> meta_store \<Rightarrow> nat \<Rightarrow> (meta_error, string) res" where
  "getPrimaryKeyColumn P M c =
     (if isEntityClass M c then
        (case map (\<lambda>(_, r). cr_sqlName r)
                (filter (\<lambda>(_, r). cr_isKey r) (collectEntityColumnRegistrations P (synced P c M) c)) of
           [] \<Rightarrow> Inl (TypeError ''Entity is missing @Key() on exactly one property'')
         | [k] \<Rightarrow> Inr k
         | _ \<Rightarrow> Inl (TypeError ''Entity has multiple @Key() columns; only one is supported''))
      else Inl not_entity)"

definition listEntityPersistencePropertyKeys :: "program \<Rightarrow> meta_store \<Rightarrow> nat \<Rightarrow> (meta_error, string list) res" where
  "listEntityPersistencePropertyKeys P M c =
     (if isEntityClass M c then Inr (map fst (collectEntityColumnRegistrations P (synced P c M) c))
      else Inl not_entity)"

end
