(* ===== verification/EntityPersistence.thy ===== *)
theory EntityPersistence
  imports EntityMeta
begin

text \<open>
  \<open>getEntityPersistenceMeta\<close> of \<open>src/meta/entity-decorators.ts\<close>: the resolved metadata of an entity, with
  the validation of partition keys, index groups and foreign keys, and the boot check of
  \<open>src/meta/schema-domain-assert.ts\<close>.
\<close>

section \<open>Columns\<close>

record column_meta =
  cm_propertyKey :: string
  cm_sqlName :: string
  cm_isKey :: bool
  cm_isUnique :: bool
  cm_uniqueIndexName :: "string option"
  cm_uniqueIndexOrder :: "int option"
  cm_nullable :: bool
  cm_pgType :: "string option"
  cm_jsType :: "js_type option"
  cm_defaultSql :: "string option"
  cm_length :: "int option"
  cm_precision :: "int option"
  cm_scale :: "int option"
  cm_inferredPgType :: string
  cm_usePostgresIdentity :: bool
  cm_auditableType :: "auditable_type option"
  cm_deletableType :: "deletable_type option"
  cm_synchronizableType :: "synchronizable_type option"
  cm_isClone :: bool
  cm_castInJoin :: "string option"
  cm_isPartition :: bool
  cm_partitionOpts :: "partition_options option"

record partition_meta =
  pm_column :: string
  pm_interval :: string
  pm_retention :: "string option"
  pm_keepTable :: bool
  pm_premake :: "int option"

record child_of_meta =
  ch_parentTable :: string
  ch_parentSchema :: string
  ch_refColumn :: string
  ch_parentRefColumn :: string

record index_meta =
  ix_name :: string
  ix_columns :: "string list"
  ix_using :: index_method
  ix_opclass :: "string option"
  ix_where :: "string option"

record foreign_key_meta =
  fk_column :: string
  fk_refSchema :: string
  fk_refTable :: string
  fk_refColumn :: string
  fk_onDelete :: fk_action
  fk_onUpdate :: fk_action
  fk_name :: string

record entity_meta =
  em_entityClassName :: string
  em_tableSchema :: string
  em_tableName :: string
  em_isAuditable :: "bool option"
  em_isAuditTrailEntity :: "bool option"
  em_auditTrailChangedByColumn :: "string option"
  em_columns :: "(string \<times> column_meta) list"
  em_partition :: "partition_meta option"
  em_partitionChildOf :: "child_of_meta option"
  em_indexes :: "index_meta list"
  em_foreignKeys :: "foreign_key_meta list"

definition auditable_name :: "auditable_type \<Rightarrow> string" where
  "auditable_name a = (case a of CREATED_AT \<Rightarrow> ''CREATED_AT'' | CREATED_BY \<Rightarrow> ''CREATED_BY''
     | UPDATED_AT \<Rightarrow> ''UPDATED_AT'' | UPDATED_BY \<Rightarrow> ''UPDATED_BY'' | VERSION \<Rightarrow> ''VERSION'')"

definition deletable_name :: "deletable_type \<Rightarrow> string" where
  "deletable_name d = (case d of DELETED_AT \<Rightarrow> ''DELETED_AT'' | DELETED_BY \<Rightarrow> ''DELETED_BY'')"

definition registration_hints :: "string \<Rightarrow> column_registration \<Rightarrow> type_hints" where
  "registration_hints key r =
     \<lparr>h_sqlName = cr_sqlName r, h_propertyKey = key, h_isKey = cr_isKey r, h_explicitPgType = cr_pgType r,
      h_length = cr_length r, h_precision = cr_precision r, h_scale = cr_scale r,
      h_auditableType = map_option auditable_name (cr_auditableType r),
      h_deletableType = map_option deletable_name (cr_deletableType r),
      h_synchronizableType = None, h_annotation = None\<rparr>"

text \<open>The default of a column; the code stores it in the registration, where later reads find it.\<close>

definition semantic_default :: "column_registration \<Rightarrow> string option" where
  "semantic_default r =
     (case cr_defaultSql r of
        Some d \<Rightarrow> Some d
      | None \<Rightarrow>
          if cr_auditableType r = Some CREATED_AT \<or> cr_auditableType r = Some UPDATED_AT then Some ''now()''
          else if cr_auditableType r = Some VERSION then Some ''1'' else None)"

definition column_default :: "column_registration \<Rightarrow> string \<Rightarrow> string option" where
  "column_default r inferred =
     (case semantic_default r of
        Some d \<Rightarrow> Some d
      | None \<Rightarrow> if inferred = ''uuid'' \<and> (cr_isKey r \<or> cr_isUnique r) then Some ''gen_random_uuid()'' else None)"

definition column_entry :: "string \<Rightarrow> column_registration \<Rightarrow> (meta_error, column_meta) res" where
  "column_entry key r =
     (case inferPgTypeFromEntityColumn (registration_hints key r) of
        Inl err \<Rightarrow> Inl (ColumnError err)
      | Inr inferred \<Rightarrow> Inr
          \<lparr>cm_propertyKey = key, cm_sqlName = cr_sqlName r, cm_isKey = cr_isKey r, cm_isUnique = cr_isUnique r,
           cm_uniqueIndexName = cr_uniqueIndexName r, cm_uniqueIndexOrder = cr_uniqueIndexOrder r,
           cm_nullable = (case cr_nullable r of Some b \<Rightarrow> b | None \<Rightarrow> False),
           cm_pgType = cr_pgType r, cm_jsType = cr_jsType r, cm_defaultSql = column_default r inferred,
           cm_length = cr_length r, cm_precision = cr_precision r, cm_scale = cr_scale r,
           cm_inferredPgType = inferred,
           cm_usePostgresIdentity = (cr_isKey r \<and> (case cr_keyGenerated r of Some g \<Rightarrow> g | None \<Rightarrow> Identity) = Identity),
           cm_auditableType = cr_auditableType r, cm_deletableType = cr_deletableType r,
           cm_synchronizableType = cr_synchronizableType r, cm_isClone = cr_isClone r,
           cm_castInJoin = cr_castInJoin r, cm_isPartition = cr_isPartition r, cm_partitionOpts = cr_partitionOpts r\<rparr>)"

fun column_entries :: "(string \<times> column_registration) list \<Rightarrow> (string \<times> column_meta) list
    \<Rightarrow> (meta_error, (string \<times> column_meta) list) res" where
  "column_entries [] cols = Inr cols"
| "column_entries ((key, r) # rs) cols =
     (case column_entry key r of
        Inl err \<Rightarrow> Inl err
      | Inr c \<Rightarrow> column_entries rs (AList.update (cm_sqlName c) c cols))"

section \<open>Partition\<close>

text \<open>\<open>/^(date|timestamp|timestamptz)/\<close>.\<close>

definition time_axis_re :: re where
  "time_axis_re = re_seq [Bol, re_alt [lit ''date'', lit ''timestamp'', lit ''timestamptz'']]"

definition unique_group :: "column_meta \<Rightarrow> string" where
  "unique_group c = (case cm_uniqueIndexName c of Some n \<Rightarrow> n | None \<Rightarrow> ''__single__:'' @ cm_sqlName c)"

definition unique_group_map :: "column_meta list \<Rightarrow> (string \<times> string list) list" where
  "unique_group_map cs =
     fold (\<lambda>c gs. AList.update (unique_group c)
             (List.insert (cm_sqlName c) (case map_of gs (unique_group c) of Some s \<Rightarrow> s | None \<Rightarrow> [])) gs)
          (filter cm_isUnique cs) []"

definition resolve_partition :: "string \<Rightarrow> column_meta list \<Rightarrow> (meta_error, partition_meta option) res" where
  "resolve_partition className cs =
     (case filter cm_isPartition cs of
        [] \<Rightarrow> Inr None
      | [pc] \<Rightarrow>
          (let t = to_lower (case cm_pgType pc of Some t \<Rightarrow> t | None \<Rightarrow> []);
               po = (case cm_partitionOpts pc of Some p \<Rightarrow> p | None \<Rightarrow> no_partition_options)
           in if cm_nullable pc then
                Inl (TypeError (className @ ''.'' @ cm_propertyKey pc @ '': @PartitionField column must be NOT NULL''))
              else if t \<noteq> [] \<and> \<not> re_test time_axis_re t then
                Inl (TypeError (className @ ''.'' @ cm_propertyKey pc @ '': @PartitionField column must be date/timestamp/timestamptz''))
              else (case List.find (\<lambda>(g, cols). cm_sqlName pc \<notin> set cols) (unique_group_map cs) of
                      Some (g, cols) \<Rightarrow> Inl (TypeError (className @ '': unique constraint '' @ g @ '' ('' @ join '', '' cols
                          @ '') does not include the partition key '' @ cm_sqlName pc))
                    | None \<Rightarrow> Inr (Some
                        \<lparr>pm_column = cm_sqlName pc,
                         pm_interval = (case po_interval po of Some i \<Rightarrow> i | None \<Rightarrow> ''1 month''),
                         pm_retention = po_retention po,
                         pm_keepTable = (case po_keepTable po of Some b \<Rightarrow> b | None \<Rightarrow> False),
                         pm_premake = po_premake po\<rparr>)))
      | _ \<Rightarrow> Inl (TypeError (className @ '': multiple @PartitionField columns - exactly one is allowed'')))"

definition resolve_child_of :: "program \<Rightarrow> meta_store \<Rightarrow> string \<Rightarrow> string \<Rightarrow> (string \<times> column_registration) list
    \<Rightarrow> partition_child_options option \<Rightarrow> (meta_error, child_of_meta option) res" where
  "resolve_child_of P M className effectiveSchema colMap childOf =
     (case childOf of
        None \<Rightarrow> Inr None
      | Some co \<Rightarrow>
          (case map_of colMap (pc_ref co) of
             None \<Rightarrow> Inl (TypeError (className @ '': @PartitionChildOf ref '' @ pc_ref co @ '' is not a column of this entity''))
           | Some refReg \<Rightarrow>
               (case getTableName M (pc_parent co) of
                  Inl _ \<Rightarrow> Inl (TypeError (className @ '': @PartitionChildOf parent must be an @Entity class''))
                | Inr parentTable \<Rightarrow>
                    (let parentCols = collectEntityColumnRegistrations P (synced P (pc_parent co) M) (pc_parent co);
                         parentRefKey = (case pc_parentRef co of Some k \<Rightarrow> k | None \<Rightarrow> ''uuid'')
                     in case map_of parentCols parentRefKey of
                          None \<Rightarrow> Inl (TypeError (className @ '': @PartitionChildOf parentRef '' @ parentRefKey
                                    @ '' is not a column of the parent entity''))
                        | Some parentRefReg \<Rightarrow> Inr (Some
                            \<lparr>ch_parentTable = parentTable,
                             ch_parentSchema = (case m_tableSchema (ensureMeta M (pc_parent co)) of
                                                  Some s \<Rightarrow> s | None \<Rightarrow> effectiveSchema),
                             ch_refColumn = cr_sqlName refReg,
                             ch_parentRefColumn = cr_sqlName parentRefReg\<rparr>)))))"

section \<open>Indexes\<close>

record index_group =
  ig_cols :: "(int \<times> string) list"
  ig_using :: index_method
  ig_opclass :: "string option"
  ig_where :: "string option"

definition index_name :: "string \<Rightarrow> column_registration \<Rightarrow> index_options \<Rightarrow> string" where
  "index_name tableName r io = (case io_name io of Some n \<Rightarrow> n | None \<Rightarrow> tableName @ ''_'' @ cr_sqlName r @ ''_idx'')"

definition new_index_group :: "index_options \<Rightarrow> index_group" where
  "new_index_group io = \<lparr>ig_cols = [], ig_using = (case io_using io of Some u \<Rightarrow> u | None \<Rightarrow> Btree),
     ig_opclass = io_opclass io, ig_where = io_where io\<rparr>"

definition index_conflict :: "index_options \<Rightarrow> index_group \<Rightarrow> bool" where
  "index_conflict io g \<longleftrightarrow>
     (io_using io \<noteq> None \<and> io_using io \<noteq> Some (ig_using g))
     \<or> (io_where io \<noteq> None \<and> io_where io \<noteq> ig_where g)
     \<or> (io_opclass io \<noteq> None \<and> io_opclass io \<noteq> ig_opclass g)"

definition add_index_column :: "column_registration \<Rightarrow> index_options \<Rightarrow> index_group \<Rightarrow> index_group" where
  "add_index_column r io g =
     g\<lparr>ig_using := (case io_using io of Some u \<Rightarrow> u | None \<Rightarrow> ig_using g),
       ig_opclass := set_if (io_opclass io) (ig_opclass g), ig_where := set_if (io_where io) (ig_where g),
       ig_cols := ig_cols g @ [(case io_order io of Some i \<Rightarrow> i | None \<Rightarrow> 0, cr_sqlName r)]\<rparr>"

fun index_groups :: "string \<Rightarrow> string \<Rightarrow> column_registration list \<Rightarrow> (string \<times> index_group) list
    \<Rightarrow> (meta_error, (string \<times> index_group) list) res" where
  "index_groups className tableName [] gs = Inr gs"
| "index_groups className tableName (r # rs) gs =
     (case cr_indexOpts r of
        None \<Rightarrow> index_groups className tableName rs gs
      | Some io \<Rightarrow>
          (let name = index_name tableName r io;
               g = (case map_of gs name of Some g \<Rightarrow> g | None \<Rightarrow> new_index_group io)
           in if index_conflict io g then
                Inl (TypeError (className @ ''.'' @ cr_sqlName r @ '': @Index group '' @ name @ '' has inconsistent using/opclass/where''))
              else index_groups className tableName rs (AList.update name (add_index_column r io g) gs)))"

definition index_metas :: "(string \<Rightarrow> string) \<Rightarrow> (string \<times> index_group) list \<Rightarrow> index_meta list" where
  "index_metas collate gs =
     map (\<lambda>(name, g). \<lparr>ix_name = name, ix_columns = map snd (sort_key (\<lambda>(i, c). (i, collate c)) (ig_cols g)),
            ix_using = ig_using g, ix_opclass = ig_opclass g, ix_where = ig_where g\<rparr>) gs"

section \<open>Foreign keys and the whole\<close>

definition make_fk :: "string \<Rightarrow> column_registration \<Rightarrow> entity_meta \<Rightarrow> column_registration \<Rightarrow> foreign_key_options
    \<Rightarrow> foreign_key_meta" where
  "make_fk tableName r tm t fo =
     \<lparr>fk_column = cr_sqlName r, fk_refSchema = em_tableSchema tm, fk_refTable = em_tableName tm,
      fk_refColumn = cr_sqlName t,
      fk_onDelete = (case fo_onDelete fo of Some a \<Rightarrow> a | None \<Rightarrow> Restrict),
      fk_onUpdate = (case fo_onUpdate fo of Some a \<Rightarrow> a | None \<Rightarrow> NoAction),
      fk_name = (case fo_name fo of Some n \<Rightarrow> n | None \<Rightarrow> tableName @ ''_'' @ cr_sqlName r @ ''_fkey'')\<rparr>"

text \<open>\<open>target_meta\<close> is the recursive call; its \<open>None\<close> is a call that has not come back.\<close>

fun resolve_fks :: "(nat \<Rightarrow> string \<Rightarrow> (meta_error, entity_meta) res option) \<Rightarrow> program \<Rightarrow> meta_store \<Rightarrow> string \<Rightarrow> string
    \<Rightarrow> string \<Rightarrow> (string \<times> column_registration) list \<Rightarrow> (meta_error, foreign_key_meta list) res option" where
  "resolve_fks target_meta P M className tableName effectiveSchema [] = Some (Inr [])"
| "resolve_fks target_meta P M className tableName effectiveSchema ((key, r) # rs) =
     (case cr_foreignKey r of
        None \<Rightarrow> resolve_fks target_meta P M className tableName effectiveSchema rs
      | Some (target, fo) \<Rightarrow>
          if \<not> isEntityClass M target then
            Some (Inl (TypeError (className @ ''.'' @ key @ '': @ForeignKey target must be an @Entity class'')))
          else (case target_meta target effectiveSchema of
                  None \<Rightarrow> None
                | Some (Inl err) \<Rightarrow> Some (Inl err)
                | Some (Inr tm) \<Rightarrow>
                    if em_partition tm \<noteq> None then
                      Some (Inl (TypeError (className @ ''.'' @ key @ '': @ForeignKey target is a partitioned table'')))
                    else (case List.find (\<lambda>(_, t). (case fo_column fo of Some c \<Rightarrow> cr_sqlName t = c | None \<Rightarrow> cr_isKey t))
                                  (collectEntityColumnRegistrations P (synced P target M) target) of
                            None \<Rightarrow> Some (Inl (TypeError (className @ ''.'' @ key @ '': @ForeignKey - target has no such column'')))
                          | Some (_, t) \<Rightarrow>
                              (case resolve_fks target_meta P M className tableName effectiveSchema rs of
                                 None \<Rightarrow> None
                               | Some (Inl err) \<Rightarrow> Some (Inl err)
                               | Some (Inr fks) \<Rightarrow> Some (Inr
                                   (make_fk tableName r tm t fo # fks))))))"

text \<open>Everything before the foreign keys.\<close>

definition local_meta :: "(string \<Rightarrow> string) \<Rightarrow> program \<Rightarrow> schema_domain option \<Rightarrow> meta_store \<Rightarrow> nat \<Rightarrow> string
    \<Rightarrow> (meta_error, entity_meta) res" where
  "local_meta collate P domain M0 c tableSchema =
     (let M = synced P c M0; m = ensureMeta M c
      in case getTableName M0 c of
           Inl err \<Rightarrow> Inl err
         | Inr tableName \<Rightarrow>
             (case resolveEntitySchema domain (m_tableSchema m) (m_tableName m) tableSchema of
                Inl err \<Rightarrow> Inl (Domain err)
              | Inr effectiveSchema \<Rightarrow>
                  (let className = cd_name (P c); chain = collectMetaChain P M c;
                       colMap = collectEntityColumnRegistrations P M c
                   in res_bind (column_entries colMap []) (\<lambda>columns.
                      res_bind (resolve_partition className (map snd columns)) (\<lambda>partition.
                      res_bind (resolve_child_of P M className effectiveSchema colMap (inherited m_partitionChildOf chain)) (\<lambda>childOf.
                      res_bind (index_groups className tableName (map snd colMap) []) (\<lambda>gs.
                        Inr \<lparr>em_entityClassName = className, em_tableSchema = effectiveSchema, em_tableName = tableName,
                             em_isAuditable = inherited m_isAuditable chain,
                             em_isAuditTrailEntity = inherited m_isAuditTrailEntity chain,
                             em_auditTrailChangedByColumn = inherited m_auditTrailChangedByColumn chain,
                             em_columns = columns, em_partition = partition, em_partitionChildOf = childOf,
                             em_indexes = index_metas collate gs, em_foreignKeys = []\<rparr>)))))))"

text \<open>The recursion follows the foreign keys; the first argument bounds its depth.\<close>

fun getEntityPersistenceMeta :: "nat \<Rightarrow> (string \<Rightarrow> string) \<Rightarrow> program \<Rightarrow> schema_domain option \<Rightarrow> meta_store
    \<Rightarrow> nat \<Rightarrow> string \<Rightarrow> (meta_error, entity_meta) res option" where
  "getEntityPersistenceMeta 0 collate P domain M c tableSchema = None"
| "getEntityPersistenceMeta (Suc n) collate P domain M c tableSchema =
     (case local_meta collate P domain M c tableSchema of
        Inl err \<Rightarrow> Some (Inl err)
      | Inr em \<Rightarrow>
          (case resolve_fks (getEntityPersistenceMeta n collate P domain M) P M (em_entityClassName em) (em_tableName em)
                  (em_tableSchema em) (collectEntityColumnRegistrations P (synced P c M) c) of
             None \<Rightarrow> None
           | Some (Inl err) \<Rightarrow> Some (Inl err)
           | Some (Inr fks) \<Rightarrow> Some (Inr (em\<lparr>em_foreignKeys := fks\<rparr>))))"

section \<open>The boot check\<close>

text \<open>\<open>assertEntitySchemaDomain\<close>; \<open>meta_of\<close> is \<open>getEntityPersistenceMeta(e, primary)\<close>, and any error of it
  skips the entity.\<close>

definition domain_violation :: "string list \<Rightarrow> string list \<Rightarrow> entity_meta \<Rightarrow> bool" where
  "domain_violation schemas sharedTables em \<longleftrightarrow>
     em_tableSchema em \<notin> set schemas \<and> \<not> (em_tableName em \<noteq> [] \<and> em_tableName em \<in> set sharedTables)"

definition assertEntitySchemaDomain :: "(nat \<Rightarrow> (meta_error, entity_meta) res) \<Rightarrow> nat list \<Rightarrow> string list \<Rightarrow> string list
    \<Rightarrow> (domain_error, unit) res" where
  "assertEntitySchemaDomain meta_of entities schemas sharedTables =
     (let violations = concat (map (\<lambda>e. case meta_of e of
            Inl _ \<Rightarrow> []
          | Inr em \<Rightarrow> if domain_violation schemas sharedTables em
                       then [em_entityClassName em @ '' -> '' @ quoted_table (Some (em_tableSchema em)) (em_tableName em)] else []) entities)
      in if violations = [] then Inr ()
         else Inl (SchemaDomainViolation (''entities declared outside the service schema domain ['' @ join '', '' schemas @ '']: ''
                @ join '', '' violations)))"

end
