(* ===== verification/EntityFacts.thy ===== *)
theory EntityFacts
  imports EntityPersistence
begin

text \<open>
  What \<open>getEntityPersistenceMeta\<close> guarantees: valid partition keys, the schema domain, termination and
  cycles of foreign keys, implicit columns, and what the boot check can see.
\<close>

section \<open>What a resolved entity guarantees\<close>

lemma local_meta_InrD:
  assumes "local_meta collate P domain M c ts = Inr em"
  obtains m tableName columns childOf gs where
    "getTableName M c = Inr tableName" "m = ensureMeta (synced P c M) c"
    "resolveEntitySchema domain (m_tableSchema m) (m_tableName m) ts = Inr (em_tableSchema em)"
    "em_tableName em = tableName"
    "column_entries (collectEntityColumnRegistrations P (synced P c M) c) [] = Inr (em_columns em)"
    "resolve_partition (cd_name (P c)) (map snd (em_columns em)) = Inr (em_partition em)"
    "index_groups (cd_name (P c)) tableName (map snd (collectEntityColumnRegistrations P (synced P c M) c)) [] = Inr gs"
    "em_indexes em = index_metas collate gs"
  using assms
  by (auto simp: local_meta_def Let_def res_bind_def split: sum.splits)

lemma epm_InrD:
  assumes "getEntityPersistenceMeta n collate P domain M c ts = Some (Inr em)"
  obtains k em0 fks where "n = Suc k" "local_meta collate P domain M c ts = Inr em0"
    "resolve_fks (getEntityPersistenceMeta k collate P domain M) P M (em_entityClassName em0) (em_tableName em0)
       (em_tableSchema em0) (collectEntityColumnRegistrations P (synced P c M) c) = Some (Inr fks)"
    "em = em0\<lparr>em_foreignKeys := fks\<rparr>"
  using assms by (cases n) (auto split: sum.splits option.splits)

lemma resolve_partition_SomeD:
  assumes "resolve_partition cls cs = Inr (Some pm)"
  shows "\<exists>pc. filter cm_isPartition cs = [pc] \<and> pm_column pm = cm_sqlName pc \<and> \<not> cm_nullable pc
    \<and> (\<forall>(g, cols)\<in>set (unique_group_map cs). cm_sqlName pc \<in> set cols)"
  using assms
  by (auto simp: resolve_partition_def Let_def find_None_iff split: list.splits if_splits option.splits)

definition members :: "(string \<times> string list) list \<Rightarrow> string \<Rightarrow> string set" where
  "members gs h = (case map_of gs h of Some s \<Rightarrow> set s | None \<Rightarrow> {})"

lemma members_fold:
  "members (fold (\<lambda>c gs. AList.update (unique_group c)
       (List.insert (cm_sqlName c) (case map_of gs (unique_group c) of Some s \<Rightarrow> s | None \<Rightarrow> [])) gs) cs gs) h
   = members gs h \<union> cm_sqlName ` {c \<in> set cs. unique_group c = h}"
proof (induction cs arbitrary: gs)
  case Nil
  show ?case by simp
next
  case (Cons c cs)
  have step: "members (AList.update (unique_group c)
       (List.insert (cm_sqlName c) (case map_of gs (unique_group c) of Some s \<Rightarrow> s | None \<Rightarrow> [])) gs) h
     = members gs h \<union> (if unique_group c = h then {cm_sqlName c} else {})"
    by (auto simp: members_def update_conv' split: option.splits)
  show ?case unfolding fold_simps o_apply Cons.IH step by auto
qed

lemma members_unique_groups: "members (unique_group_map cs) h = cm_sqlName ` {c \<in> set cs. cm_isUnique c \<and> unique_group c = h}"
  by (simp add: unique_group_map_def members_fold) (auto simp: members_def)

lemma unique_group_has_key:
  assumes p: "resolve_partition cls cs = Inr (Some pm)" and u: "u \<in> set cs" "cm_isUnique u"
  shows "\<exists>v\<in>set cs. cm_isUnique v \<and> unique_group v = unique_group u \<and> cm_sqlName v = pm_column pm"
proof -
  obtain pc :: column_meta where pc: "pm_column pm = cm_sqlName pc"
      "\<forall>(g, cols)\<in>set (unique_group_map cs). cm_sqlName pc \<in> set cols"
    using resolve_partition_SomeD [OF p] by fast
  have "cm_sqlName u \<in> members (unique_group_map cs) (unique_group u)"
    using u by (auto simp: members_unique_groups)
  then obtain s where s: "map_of (unique_group_map cs) (unique_group u) = Some s"
    by (auto simp: members_def split: option.splits)
  then have "cm_sqlName pc \<in> set s" using pc(2) map_of_SomeD by fastforce
  then have "cm_sqlName pc \<in> members (unique_group_map cs) (unique_group u)" using s by (simp add: members_def)
  then show ?thesis unfolding members_unique_groups pc(1) by auto
qed

text \<open>C36: a partitioned entity has exactly one partition column, which is not nullable, and every unique
  group of its columns contains it (PostgreSQL would refuse the table otherwise).\<close>

theorem partitioned_meta_valid:
  assumes "getEntityPersistenceMeta n collate P domain M c ts = Some (Inr em)" and "em_partition em = Some pm"
  shows "(\<exists>pc. filter cm_isPartition (map snd (em_columns em)) = [pc] \<and> cm_sqlName pc = pm_column pm \<and> \<not> cm_nullable pc)
    \<and> (\<forall>u\<in>snd ` set (em_columns em). cm_isUnique u \<longrightarrow>
         (\<exists>v\<in>snd ` set (em_columns em). cm_isUnique v \<and> unique_group v = unique_group u \<and> cm_sqlName v = pm_column pm))"
proof -
  obtain k em0 fks where e: "local_meta collate P domain M c ts = Inr em0" "em = em0\<lparr>em_foreignKeys := fks\<rparr>"
    using assms(1) by (blast elim: epm_InrD)
  then have rp: "resolve_partition (cd_name (P c)) (map snd (em_columns em)) = Inr (Some pm)"
    using assms(2) by (auto elim: local_meta_InrD)
  have "\<exists>pc. filter cm_isPartition (map snd (em_columns em)) = [pc] \<and> cm_sqlName pc = pm_column pm \<and> \<not> cm_nullable pc"
    using resolve_partition_SomeD [OF rp] by fastforce
  moreover have "\<exists>v\<in>snd ` set (em_columns em). cm_isUnique v \<and> unique_group v = unique_group u \<and> cm_sqlName v = pm_column pm"
    if "u \<in> snd ` set (em_columns em)" "cm_isUnique u" for u
    using unique_group_has_key [OF rp, of u] that by simp
  ultimately show ?thesis by blast
qed

section \<open>The schema domain\<close>

lemma touch_tableName [simp]: "m_tableName (touchColumn k f m) = m_tableName m"
    "m_tableSchema (touchColumn k f m) = m_tableSchema m" "m_notColumnKeys (touchColumn k f m) = m_notColumnKeys m"
  by (simp_all add: touchColumn_def)

definition same_tables :: "meta_store \<Rightarrow> meta_store \<Rightarrow> bool" where
  "same_tables M M' \<longleftrightarrow> (\<forall>c. m_tableName (ensureMeta M' c) = m_tableName (ensureMeta M c)
     \<and> m_tableSchema (ensureMeta M' c) = m_tableSchema (ensureMeta M c)
     \<and> m_notColumnKeys (ensureMeta M' c) = m_notColumnKeys (ensureMeta M c))"

lemma same_tables_refl [simp]: "same_tables M M"
  by (simp add: same_tables_def)

lemma same_tables_trans: "same_tables M1 M2 \<Longrightarrow> same_tables M2 M3 \<Longrightarrow> same_tables M1 M3"
  by (simp add: same_tables_def)

lemma same_tables_decorate: "same_tables M (decorate f c k M)"
  by (simp add: same_tables_def decorate_def update_meta_def ensureMeta_def)

lemma same_tables_fold: "(\<And>x M. same_tables M (f x M)) \<Longrightarrow> same_tables M (fold f xs M)"
  by (induction xs arbitrary: M) (auto intro: same_tables_trans)

lemma same_tables_sync: "same_tables M (syncImplicitEntityColumns P c M)"
  by (auto simp: syncImplicitEntityColumns_def intro!: same_tables_fold same_tables_decorate split: option.splits)

lemma same_tables_synced: "same_tables M (synced P c M)"
  unfolding synced_def
  by (rule same_tables_trans [OF same_tables_sync same_tables_fold]) (simp add: same_tables_sync)

lemma getTableName_Inr: "getTableName M c = Inr t \<Longrightarrow> m_tableName (ensureMeta M c) = Some t"
  by (auto simp: getTableName_def ensureMeta_def split: option.splits)

lemma synced_tableName: "getTableName M c = Inr t \<Longrightarrow> m_tableName (ensureMeta (synced P c M) c) = Some t"
  using getTableName_Inr same_tables_synced by (simp add: same_tables_def)

definition in_domain :: "schema_domain \<Rightarrow> string \<Rightarrow> string \<Rightarrow> bool" where
  "in_domain d s t \<longleftrightarrow> s \<in> set (sd_allowed d) \<or> t \<in> set (sd_sharedTables d)"

lemma local_meta_domain:
  assumes "local_meta collate P (Some d) M c ts = Inr em"
  shows "in_domain d (em_tableSchema em) (em_tableName em)"
proof -
  obtain t m where t: "getTableName M c = Inr t" "m = ensureMeta (synced P c M) c"
      "resolveEntitySchema (Some d) (m_tableSchema m) (m_tableName m) ts = Inr (em_tableSchema em)" "em_tableName em = t"
    using assms by (blast elim: local_meta_InrD)
  then show ?thesis using resolve_InrD [OF t(3)] synced_tableName [OF t(1), of P] by (auto simp: in_domain_def)
qed

lemma epm_domain:
  "getEntityPersistenceMeta n collate P (Some d) M c ts = Some (Inr em) \<Longrightarrow> in_domain d (em_tableSchema em) (em_tableName em)"
  by (erule epm_InrD) (simp add: local_meta_domain)

lemma make_fk_ref: "fk_refSchema (make_fk t r tm c fo) = em_tableSchema tm"
    "fk_refTable (make_fk t r tm c fo) = em_tableName tm"
  by (simp_all add: make_fk_def)

lemma resolve_fks_step:
  assumes "resolve_fks target P M cls t s ((key, r) # regs) = Some (Inr fks)" and "cr_foreignKey r = Some (c, fo)"
  obtains tm tr fks' where "isEntityClass M c" "target c s = Some (Inr tm)" "em_partition tm = None"
    "fks = make_fk t r tm tr fo # fks'" "resolve_fks target P M cls t s regs = Some (Inr fks')"
  using assms by (auto split: if_splits sum.splits option.splits prod.splits)

lemma resolve_fks_refs:
  assumes "resolve_fks target P M cls t s regs = Some (Inr fks)" and "fk \<in> set fks"
  shows "\<exists>c tm. target c s = Some (Inr tm) \<and> fk_refSchema fk = em_tableSchema tm \<and> fk_refTable fk = em_tableName tm
    \<and> em_partition tm = None"
  using assms
proof (induction regs arbitrary: fks)
  case Nil
  then show ?case by simp
next
  case (Cons kr regs)
  obtain key r where kr: "kr = (key, r)" by fastforce
  show ?case
  proof (cases "cr_foreignKey r")
    case None
    then show ?thesis using Cons kr by simp
  next
    case (Some tf)
    obtain c fo where tf: "tf = (c, fo)" by fastforce
    obtain tm tr fks' where st: "target c s = Some (Inr tm)" "em_partition tm = None"
        "fks = make_fk t r tm tr fo # fks'" "resolve_fks target P M cls t s regs = Some (Inr fks')"
      by (rule resolve_fks_step [OF Cons.prems(1) [unfolded kr] Some [unfolded tf]]) (rule that)
    show ?thesis
    proof (cases "fk \<in> set fks'")
      case True
      then show ?thesis using Cons.IH [OF st(4)] by blast
    next
      case False
      then have "fk = make_fk t r tm tr fo" using Cons.prems(2) st(3) by simp
      then show ?thesis using st(1,2) by (intro exI [of _ c] exI [of _ tm]) (simp add: make_fk_ref)
    qed
  qed
qed

lemma in_configured:
  assumes "configureSchemaDomain schemas shared = Inr d"
  shows "in_domain d s t \<longleftrightarrow> s \<in> set schemas \<or> t \<in> set (PLATFORM_SHARED_TABLES @ shared)"
  using configure_InrD [OF assms] by (simp add: in_domain_def)

lemma configured_entity:
  assumes "configureSchemaDomain schemas shared = Inr d"
    and "getEntityPersistenceMeta n collate P (Some d) M c ts = Some (Inr em)"
  shows "em_tableSchema em \<in> set schemas \<or> em_tableName em \<in> set (PLATFORM_SHARED_TABLES @ shared)"
  using epm_domain [OF assms(2)] by (simp only: in_configured [OF assms(1)])

text \<open>With a schema domain configured, a resolved entity and every table its foreign keys refer to lie in
  the configured schemas or are shared tables; no foreign key refers to a partitioned table.\<close>

theorem resolved_entity_in_domain:
  assumes "configureSchemaDomain schemas shared = Inr d"
    and "getEntityPersistenceMeta n collate P (Some d) M c ts = Some (Inr em)"
  shows "(em_tableSchema em \<in> set schemas \<or> em_tableName em \<in> set (PLATFORM_SHARED_TABLES @ shared))
    \<and> (\<forall>fk\<in>set (em_foreignKeys em).
         fk_refSchema fk \<in> set schemas \<or> fk_refTable fk \<in> set (PLATFORM_SHARED_TABLES @ shared))"
proof -
  obtain k em0 fks where e: "resolve_fks (getEntityPersistenceMeta k collate P (Some d) M) P M (em_entityClassName em0)
        (em_tableName em0) (em_tableSchema em0) (collectEntityColumnRegistrations P (synced P c M) c) = Some (Inr fks)"
      "em = em0\<lparr>em_foreignKeys := fks\<rparr>"
    using assms(2) by (blast elim: epm_InrD)
  have "in_domain d (fk_refSchema fk) (fk_refTable fk)" if "fk \<in> set (em_foreignKeys em)" for fk
    using resolve_fks_refs [OF e(1), of fk] that e(2) epm_domain by fastforce
  then show ?thesis using configured_entity [OF assms] by (simp only: in_configured [OF assms(1)]) blast
qed

section \<open>Foreign keys and termination\<close>

definition fk_edge :: "program \<Rightarrow> meta_store \<Rightarrow> nat \<Rightarrow> nat \<Rightarrow> bool" where
  "fk_edge P M c c' \<longleftrightarrow> (\<exists>(_, r)\<in>set (collectEntityColumnRegistrations P (synced P c M) c). \<exists>fo. cr_foreignKey r = Some (c', fo))"

lemma resolve_fks_targets:
  assumes "resolve_fks target P M cls t s regs = Some (Inr fks)" and "(key, r) \<in> set regs" "cr_foreignKey r = Some (c, fo)"
  shows "\<exists>tm. target c s = Some (Inr tm)"
  using assms
proof (induction regs arbitrary: fks)
  case Nil
  then show ?case by simp
next
  case (Cons kr regs)
  obtain key' r' where kr: "kr = (key', r')" by fastforce
  show ?case
  proof (cases "cr_foreignKey r'")
    case None
    then show ?thesis using Cons kr by auto
  next
    case (Some tf)
    obtain c' fo' where tf: "tf = (c', fo')" by fastforce
    show ?thesis
      by (rule resolve_fks_step [OF Cons.prems(1) [unfolded kr] Some [unfolded tf]])
        (use Cons.prems Cons.IH kr Some tf in auto)
  qed
qed

lemma epm_targets:
  assumes "getEntityPersistenceMeta (Suc n) collate P domain M c ts = Some (Inr em)" and "fk_edge P M c c'"
  shows "\<exists>ts' tm. getEntityPersistenceMeta n collate P domain M c' ts' = Some (Inr tm)"
proof -
  obtain em0 :: entity_meta and fks where e: "resolve_fks (getEntityPersistenceMeta n collate P domain M) P M (em_entityClassName em0)
        (em_tableName em0) (em_tableSchema em0) (collectEntityColumnRegistrations P (synced P c M) c) = Some (Inr fks)"
    using assms(1) by (auto split: sum.splits option.splits)
  obtain key r fo where "(key, r) \<in> set (collectEntityColumnRegistrations P (synced P c M) c)" "cr_foreignKey r = Some (c', fo)"
    using assms(2) by (auto simp: fk_edge_def)
  then show ?thesis using resolve_fks_targets [OF e] by blast
qed

text \<open>Metadata is only ever produced for an entity whose foreign keys do not lead back to it; on a cycle
  (a table that refers to itself is one) the function never returns metadata, at any depth.\<close>

theorem metadata_implies_acyclic:
  assumes "getEntityPersistenceMeta n collate P domain M c ts = Some (Inr em)"
  shows "\<not> (fk_edge P M)\<^sup>+\<^sup>+ c c"
  using assms
proof (induction n arbitrary: c ts em)
  case 0
  then show ?case by simp
next
  case (Suc n)
  show ?case
  proof
    assume "(fk_edge P M)\<^sup>+\<^sup>+ c c"
    then obtain c' where c': "fk_edge P M c c'" "(fk_edge P M)\<^sup>*\<^sup>* c' c" by (blast dest: tranclpD)
    then have "(fk_edge P M)\<^sup>+\<^sup>+ c' c'" by (rule rtranclp_into_tranclp1 [rotated])
    then show False using epm_targets [OF Suc.prems c'(1)] Suc.IH by blast
  qed
qed

lemma resolve_fks_returns:
  assumes "\<And>key r c' fo. (key, r) \<in> set regs \<Longrightarrow> cr_foreignKey r = Some (c', fo) \<Longrightarrow> target c' s \<noteq> None"
  shows "resolve_fks target P M cls t s regs \<noteq> None"
  using assms
proof (induction regs)
  case Nil
  then show ?case by simp
next
  case (Cons kr regs)
  obtain key r where kr: "kr = (key, r)" by fastforce
  have ih: "resolve_fks target P M cls t s regs \<noteq> None" using Cons by (meson list.set_intros(2))
  show ?case
  proof (cases "cr_foreignKey r")
    case None
    then show ?thesis using ih kr by simp
  next
    case (Some tf)
    obtain c fo where tf: "tf = (c, fo)" by fastforce
    have "target c s \<noteq> None" using Cons.prems [of key r c fo] kr Some tf by simp
    then show ?thesis using ih kr Some tf by (auto split: sum.splits option.splits)
  qed
qed

text \<open>When the foreign keys are acyclic (a rank decreases along each), resolving an entity ends, and a
  depth of its rank plus one is enough.\<close>

theorem acyclic_metadata_terminates:
  assumes "\<And>a b. fk_edge P M a b \<Longrightarrow> rank b < (rank a :: nat)"
  shows "\<exists>r. getEntityPersistenceMeta (Suc (rank c)) collate P domain M c ts = Some r"
proof -
  have "getEntityPersistenceMeta n collate P domain M c ts \<noteq> None" if "rank c < n" for n c ts
    using that
  proof (induction n arbitrary: c ts)
    case 0
    then show ?case by simp
  next
    case (Suc n)
    show ?case
    proof (cases "local_meta collate P domain M c ts")
      case (Inl err)
      then show ?thesis by simp
    next
      case (Inr em)
      have "resolve_fks (getEntityPersistenceMeta n collate P domain M) P M (em_entityClassName em) (em_tableName em)
          (em_tableSchema em) (collectEntityColumnRegistrations P (synced P c M) c) \<noteq> None"
      proof (rule resolve_fks_returns)
        fix key r c' fo
        assume "(key, r) \<in> set (collectEntityColumnRegistrations P (synced P c M) c)" "cr_foreignKey r = Some (c', fo)"
        then have "fk_edge P M c c'" by (auto simp: fk_edge_def)
        then show "getEntityPersistenceMeta n collate P domain M c' (em_tableSchema em) \<noteq> None"
          using assms [of c c'] Suc by simp
      qed
      then show ?thesis using Inr by (auto split: sum.splits option.splits)
    qed
  qed
  then show ?thesis by blast
qed

section \<open>Implicit columns\<close>

definition has_reg :: "meta_store \<Rightarrow> nat \<Rightarrow> string \<Rightarrow> bool" where
  "has_reg M p key \<longleftrightarrow> (case M p of Some m \<Rightarrow> map_of (m_columns m) key \<noteq> None | None \<Rightarrow> False)"

definition reg_le :: "meta_store \<Rightarrow> meta_store \<Rightarrow> bool" where
  "reg_le M M' \<longleftrightarrow> (\<forall>p key. has_reg M p key \<longrightarrow> has_reg M' p key)"

lemma reg_le_refl [simp]: "reg_le M M"
  by (simp add: reg_le_def)

lemma reg_le_trans: "reg_le M1 M2 \<Longrightarrow> reg_le M2 M3 \<Longrightarrow> reg_le M1 M3"
  by (simp add: reg_le_def)

lemma has_reg_decorate: "has_reg (decorate f c k M) p key \<longleftrightarrow> has_reg M p key \<or> (p = c \<and> key = k)"
  by (auto simp: has_reg_def decorate_def update_meta_def touchColumn_def ensureMeta_def empty_meta_def update_conv'
      split: option.splits)

lemma reg_le_decorate: "reg_le M (decorate f c k M)"
  by (simp add: reg_le_def has_reg_decorate)

lemma reg_le_fold: "(\<And>x M. reg_le M (f x M)) \<Longrightarrow> reg_le M (fold f xs M)"
  by (induction xs arbitrary: M) (auto intro: reg_le_trans)

lemma reg_le_sync: "reg_le M (syncImplicitEntityColumns P c M)"
  by (auto simp: syncImplicitEntityColumns_def intro!: reg_le_fold reg_le_decorate split: option.splits)

lemma reg_le_synced: "reg_le (syncImplicitEntityColumns P c M) (synced P c M)"
  unfolding synced_def by (rule reg_le_fold) (simp add: reg_le_sync)

lemma inherited_has_reg: "hasInheritedColumnRegistration P M c key \<longleftrightarrow> (\<exists>p\<in>set (tl (cd_chain (P c))). has_reg M p key)"
  by (auto simp: hasInheritedColumnRegistration_def has_reg_def list_ex_iff)

lemma fold_reaches:
  assumes "\<And>k M. reg_le M (f k M)" and "\<And>M M'. reg_le M M' \<Longrightarrow> Q M \<Longrightarrow> Q M'" and "\<And>M. Q (f key M)"
    and "key \<in> set ks"
  shows "Q (fold f ks M)"
  using assms(4)
proof (induction ks arbitrary: M)
  case Nil
  then show ?case by simp
next
  case (Cons k ks)
  show ?case
  proof (cases "k = key")
    case True
    have "reg_le (f key M) (fold f ks (f key M))" by (rule reg_le_fold) (rule assms(1))
    then show ?thesis using True assms(2,3) by simp
  next
    case False
    then show ?thesis using Cons by simp
  qed
qed

lemma sync_registers:
  assumes "M c = Some m" "m_tableName m \<noteq> None" "key \<in> set (sync_keys P c m)" "key \<notin> set (m_notColumnKeys m)"
  shows "\<exists>p\<in>insert c (set (tl (cd_chain (P c)))). has_reg (syncImplicitEntityColumns P c M) p key"
proof -
  let ?Q = "\<lambda>M. \<exists>p\<in>insert c (set (tl (cd_chain (P c)))). has_reg M p key"
  have "?Q (fold (\<lambda>key M'. if key \<in> set (m_notColumnKeys m) then M'
      else if hasInheritedColumnRegistration P M' c key then M' else decorate (\<lambda>c. c) c key M') (sync_keys P c m) M)"
    by (rule fold_reaches [OF _ _ _ assms(3)])
      (use assms(4) in \<open>auto simp: inherited_has_reg has_reg_decorate reg_le_decorate reg_le_def\<close>)
  then show ?thesis using assms(1,2) by (cases "m_tableName m") (simp_all add: syncImplicitEntityColumns_def)
qed

lemma keys_merge: "fst ` set (fold (\<lambda>(k, r). AList.update k r) kvs m) = fst ` set m \<union> fst ` set kvs"
proof (induction kvs arbitrary: m)
  case Nil
  show ?case by simp
next
  case (Cons kv kvs)
  obtain k r where "kv = (k, r)" by fastforce
  then show ?case by (simp add: Cons.IH dom_update)
qed

lemma keys_merge_all: "fst ` set (fold (\<lambda>m merged. fold (\<lambda>(k, r). AList.update k r) (m_columns m) merged) ms acc)
    = fst ` set acc \<union> (\<Union>m\<in>set ms. fst ` set (m_columns m))"
  by (induction ms arbitrary: acc) (simp_all add: keys_merge Un_assoc)

lemma collected_keys: "fst ` set (collectEntityColumnRegistrations P M c) = {key. \<exists>p\<in>set (cd_chain (P c)). has_reg M p key}"
  unfolding collectEntityColumnRegistrations_def keys_merge_all
  by (auto simp: collectMetaChain_def List.map_filter_def has_reg_def map_of_eq_None_iff split: option.splits) force+

text \<open>Every data property of an entity class is a column unless the class itself excludes it with
  \<open>@IsNotColumn\<close>; an exclusion on a base class is not inherited.\<close>

theorem implicit_columns_complete:
  assumes "isEntityClass M c" "cd_chain (P c) = c # ancestors" "key \<in> set (cd_props (P c))"
    "key \<notin> set (m_notColumnKeys (ensureMeta M c))"
  shows "\<exists>keys. listEntityPersistencePropertyKeys P M c = Inr keys \<and> key \<in> set keys"
proof -
  obtain m where m: "M c = Some m" "m_tableName m \<noteq> None"
    using assms(1) by (auto simp: isEntityClass_def split: option.splits)
  have "key \<in> set (sync_keys P c m)" using assms(3) by (simp add: sync_keys_def)
  then obtain p where "p \<in> set (cd_chain (P c))" "has_reg (syncImplicitEntityColumns P c M) p key"
    using sync_registers [where M = M and c = c and m = m and key = key and P = P] assms(2,4) m by (auto simp: ensureMeta_def)
  then have "key \<in> fst ` set (collectEntityColumnRegistrations P (synced P c M) c)"
    using reg_le_synced [of P c M] by (auto simp: collected_keys reg_le_def)
  then show ?thesis using assms(1) by (simp add: listEntityPersistencePropertyKeys_def)
qed

section \<open>The boot check\<close>

text \<open>With the schema domain configured from the same lists, the boot check can only complain about
  a platform table: an entity outside the domain makes the metadata fail, and the check skips it.\<close>

theorem boot_check_skips_violations:
  assumes "configureSchemaDomain schemas shared = Inr d"
    and "\<And>e. e \<in> set entities \<Longrightarrow> getEntityPersistenceMeta n collate P (Some d) M e (sd_primary d) = Some (meta_of e)"
    and "assertEntitySchemaDomain meta_of entities schemas shared = Inl v"
  shows "\<exists>e\<in>set entities. \<exists>em. meta_of e = Inr em \<and> em_tableName em \<in> set PLATFORM_SHARED_TABLES"
proof -
  have "\<exists>e\<in>set entities. \<exists>em. meta_of e = Inr em \<and> domain_violation schemas shared em"
  proof (rule ccontr)
    assume no: "\<not> ?thesis"
    have "concat (map (\<lambda>e. case meta_of e of Inl _ \<Rightarrow> [] | Inr em \<Rightarrow> if domain_violation schemas shared em
        then [em_entityClassName em @ '' -> '' @ quoted_table (Some (em_tableSchema em)) (em_tableName em)] else []) entities) = []"
      using no by (force split: sum.splits)
    then show False using assms(3) by (simp add: assertEntitySchemaDomain_def)
  qed
  then obtain e em where e: "e \<in> set entities" "meta_of e = Inr em" "domain_violation schemas shared em" by blast
  then have "em_tableSchema em \<in> set schemas \<or> em_tableName em \<in> set (PLATFORM_SHARED_TABLES @ shared)"
    using configured_entity [OF assms(1)] assms(2) by fastforce
  moreover have "em_tableName em \<noteq> []" if "em_tableName em \<in> set shared"
    using configure_InrD [OF assms(1)] that by (auto simp: list_all_iff lower_ident_re_def ident_shape_test)
  ultimately show ?thesis using e by (auto simp: domain_violation_def)
qed

section \<open>Examples\<close>

text \<open>Class 0 is an order with a foreign key to class 1, a customer in another schema.\<close>

definition demo_decl :: "nat \<Rightarrow> class_decl" where
  "demo_decl c = \<lparr>cd_name = (if c = 0 then ''Order'' else ''Customer''), cd_chain = [c], cd_props = []\<rparr>"

definition demo_meta :: meta_store where
  "demo_meta =
     (Entity demo_decl (Some ''orders'') None 0 \<circ> ForeignKey 1 None 0 ''customer''
      \<circ> Entity demo_decl (Some ''customers'') (Some ''crm'') 1 \<circ> Key None None 1 ''id'') (\<lambda>_. None)"

text \<open>Class 2 is a tree node that refers to its parent.\<close>

definition tree_meta :: meta_store where
  "tree_meta = (Entity demo_decl (Some ''nodes'') None 2 \<circ> Key None None 2 ''id'' \<circ> ForeignKey 2 None 2 ''parent'') (\<lambda>_. None)"

definition log_meta :: meta_store where
  "log_meta = (Entity demo_decl (Some ''logs'') None 0 \<circ> PartitionField None 0 ''at'' \<circ> Unique None 0 ''at'') (\<lambda>_. None)"

definition demo_domain :: schema_domain where
  "demo_domain = \<lparr>sd_allowed = [''sales'', ''crm''], sd_primary = ''sales'', sd_sharedTables = PLATFORM_SHARED_TABLES\<rparr>"

definition resolved :: "(meta_error, entity_meta) res option \<Rightarrow> entity_meta" where
  "resolved r = (case r of Some (Inr em) \<Rightarrow> em | _ \<Rightarrow> undefined)"

lemma demo_configured: "configureSchemaDomain [''sales'', ''crm''] [] = Inr demo_domain"
  by code_simp

definition returns :: "(meta_error, entity_meta) res option \<Rightarrow> bool" where
  "returns r \<longleftrightarrow> (case r of Some (Inr em) \<Rightarrow> True | _ \<Rightarrow> False)"

lemma returnsD: "returns r \<Longrightarrow> r = Some (Inr (resolved r))"
  by (auto simp: returns_def resolved_def split: option.splits sum.splits)

lemma demo_returns: "returns (getEntityPersistenceMeta 2 (\<lambda>s. s) demo_decl (Some demo_domain) demo_meta 0 ''sales'')"
  by code_simp

definition log_partition :: "string option" where
  "log_partition = (case getEntityPersistenceMeta 1 (\<lambda>s. s) demo_decl None log_meta 0 ''public'' of
     Some (Inr em) \<Rightarrow> map_option pm_column (em_partition em) | _ \<Rightarrow> None)"

lemma log_partition_at: "log_partition = Some ''at''"
  by code_simp

lemma log_resolved:
  obtains em :: entity_meta and pm :: partition_meta where "getEntityPersistenceMeta 1 (\<lambda>s. s) demo_decl None log_meta 0 ''public'' = Some (Inr em)"
    "em_partition em = Some pm" "pm_column pm = ''at''"
  using log_partition_at by (auto simp: log_partition_def split: option.splits sum.splits)

abbreviation demo_entity :: entity_meta where
  "demo_entity \<equiv> resolved (getEntityPersistenceMeta 2 (\<lambda>s. s) demo_decl (Some demo_domain) demo_meta 0 ''sales'')"

theorem partitioned_meta_valid_witness:
  "\<exists>(em :: entity_meta) (pm :: partition_meta). em_partition em = Some pm
     \<and> (\<exists>pc. filter cm_isPartition (map snd (em_columns em)) = [pc] \<and> cm_sqlName pc = pm_column pm \<and> \<not> cm_nullable pc)"
  by (rule log_resolved) (use partitioned_meta_valid in blast)

theorem resolved_entity_in_domain_witness:
  "em_tableSchema demo_entity \<in> {''sales'', ''crm''} \<or> em_tableName demo_entity \<in> set (PLATFORM_SHARED_TABLES @ [])"
  using resolved_entity_in_domain [OF demo_configured returnsD [OF demo_returns]] by simp

theorem metadata_implies_acyclic_witness: "\<not> (fk_edge demo_decl demo_meta)\<^sup>+\<^sup>+ 0 0"
  using metadata_implies_acyclic [OF returnsD [OF demo_returns]] .

lemma demo_columns: "collectEntityColumnRegistrations demo_decl (synced demo_decl 0 demo_meta) 0
      = [(''customer'', (new_column ''customer'')\<lparr>cr_foreignKey := Some (1, no_fk_options)\<rparr>)]"
    "collectEntityColumnRegistrations demo_decl (synced demo_decl 1 demo_meta) 1
      = [(''id'', (new_column ''id'')\<lparr>cr_isKey := True, cr_nullable := Some False, cr_keyGenerated := Some Identity\<rparr>)]"
  by code_simp+

lemma demo_other: "a \<noteq> 0 \<Longrightarrow> a \<noteq> 1 \<Longrightarrow> collectEntityColumnRegistrations demo_decl (synced demo_decl a demo_meta) a = []"
  by (simp add: collectEntityColumnRegistrations_def collectMetaChain_def synced_def demo_decl_def demo_meta_def
      syncImplicitEntityColumns_def Entity_def ForeignKey_def Key_def decorate_def update_meta_def List.map_filter_def)

lemma demo_edges: "fk_edge demo_decl demo_meta a b \<Longrightarrow> a = 0 \<and> b = 1"
  using demo_columns demo_other [of a]
  by (cases "a = 0"; cases "a = 1") (auto simp: fk_edge_def new_column_def)

theorem acyclic_metadata_terminates_witness:
  "\<exists>r. getEntityPersistenceMeta (Suc (if (0::nat) = 0 then 1 else 0)) (\<lambda>s. s) demo_decl None demo_meta 0 ''public'' = Some r"
  by (rule acyclic_metadata_terminates [where rank = "\<lambda>c::nat. if c = 0 then 1 else 0"]) (auto dest: demo_edges)

text \<open>Resolving a table that refers to itself never ends, although the declaration is an ordinary one.\<close>

lemma tree_columns: "map snd (collectEntityColumnRegistrations demo_decl (synced demo_decl 2 tree_meta) 2)
    = [(new_column ''parent'')\<lparr>cr_foreignKey := Some (2, no_fk_options)\<rparr>,
       (new_column ''id'')\<lparr>cr_isKey := True, cr_nullable := Some False, cr_keyGenerated := Some Identity\<rparr>]"
  by code_simp

lemma tree_local: "map_option em_tableSchema (case local_meta (\<lambda>s. s) demo_decl None tree_meta 2 ''public'' of
    Inr em \<Rightarrow> Some em | Inl _ \<Rightarrow> None) = Some ''public''"
  by code_simp

lemma tree_entity: "isEntityClass tree_meta 2"
  by code_simp

lemma self_reference_diverges: "getEntityPersistenceMeta n (\<lambda>s. s) demo_decl None tree_meta 2 ''public'' = None"
proof (induction n)
  case 0
  show ?case by simp
next
  case (Suc n)
  obtain em :: entity_meta where em: "local_meta (\<lambda>s. s) demo_decl None tree_meta 2 ''public'' = Inr em" "em_tableSchema em = ''public''"
    using tree_local by (auto split: sum.splits)
  obtain k1 k2 where cols: "collectEntityColumnRegistrations demo_decl (synced demo_decl 2 tree_meta) 2
     = [(k1, (new_column ''parent'')\<lparr>cr_foreignKey := Some (2, no_fk_options)\<rparr>),
        (k2, (new_column ''id'')\<lparr>cr_isKey := True, cr_nullable := Some False, cr_keyGenerated := Some Identity\<rparr>)]"
    using tree_columns by auto
  show ?case by (simp add: em cols tree_entity Suc)
qed

theorem implicit_columns_complete_witness:
  "\<exists>keys. listEntityPersistencePropertyKeys (\<lambda>_. \<lparr>cd_name = ''T'', cd_chain = [2, 3], cd_props = [''note'']\<rparr>)
     (IsNotColumn 3 ''note'' tree_meta) 2 = Inr keys \<and> ''note'' \<in> set keys"
proof (rule implicit_columns_complete [where ancestors = "[3]"])
  show "isEntityClass (IsNotColumn 3 ''note'' tree_meta) 2" by code_simp
  show "''note'' \<notin> set (m_notColumnKeys (ensureMeta (IsNotColumn 3 ''note'' tree_meta) 2))" by code_simp
qed simp_all

text \<open>A platform table pinned outside the domain is what the boot check reports.\<close>

definition profile_meta :: meta_store where
  "profile_meta = (Entity demo_decl (Some ''user_profiles'') (Some ''auth'') 0) (\<lambda>_. None)"

definition profile_result :: "nat \<Rightarrow> (meta_error, entity_meta) res" where
  "profile_result e = (case getEntityPersistenceMeta 1 (\<lambda>s. s) demo_decl (Some demo_domain) profile_meta 0 ''sales'' of
     Some r \<Rightarrow> r | None \<Rightarrow> Inl not_entity)"

lemma profile_returns: "isr (profile_result 0)" "getEntityPersistenceMeta 1 (\<lambda>s. s) demo_decl (Some demo_domain) profile_meta 0 ''sales'' \<noteq> None"
  by code_simp+

lemma profile_violation: "\<not> isr (assertEntitySchemaDomain profile_result [0] [''sales'', ''crm''] [])"
  by code_simp

theorem boot_check_skips_violations_witness:
  "\<exists>e\<in>set [0]. \<exists>em. profile_result e = Inr em \<and> em_tableName em \<in> set PLATFORM_SHARED_TABLES"
proof -
  obtain v where v: "assertEntitySchemaDomain profile_result [0] [''sales'', ''crm''] [] = Inl v"
    using profile_violation by (auto simp: isl_def)
  show ?thesis
  proof (rule boot_check_skips_violations [OF demo_configured _ v])
    fix e :: nat assume "e \<in> set [0]"
    then show "getEntityPersistenceMeta 1 (\<lambda>s. s) demo_decl (Some demo_domain) profile_meta e (sd_primary demo_domain)
        = Some (profile_result e)"
      using profile_returns(2) by (auto simp: profile_result_def demo_domain_def split: option.splits)
  qed
qed

end
