(* ===== verification/QueryDsl.thy ===== *)
theory QueryDsl
  imports EntityPersistence
begin

text \<open>
  \<open>src/query/dsl.ts\<close> and \<open>src/query/list-filters.ts\<close>: the query language of the repositories (filters, joins,
  sorting, grouping, projections), its constructors, and the translation of list filters that come from HTTP.

  An entity class is its number.  A JavaScript value is a \<open>js_value\<close>; a number is its decimal text, and a
  value of another class (\<open>Date\<close>, \<open>Decimal\<close>, \<open>Vector\<close>) is its \<open>String(v)\<close>.
\<close>

section \<open>JavaScript values\<close>

datatype js_value =
    JNull
  | JUndefined
  | JBool bool
  | JNum string
  | JStr string
  | JArr "js_value list"
  | JObj "(string \<times> js_value) list"
  | JOther string

text \<open>\<open>String(v)\<close>; the elements of an array are joined with commas, null and undefined ones as empty.\<close>

fun js_string :: "js_value \<Rightarrow> string" and js_elem :: "js_value \<Rightarrow> string" and js_strings :: "js_value list \<Rightarrow> string list" where
  "js_string JNull = ''null''"
| "js_string JUndefined = ''undefined''"
| "js_string (JBool b) = (if b then ''true'' else ''false'')"
| "js_string (JNum s) = s"
| "js_string (JStr s) = s"
| "js_string (JArr vs) = join '','' (js_strings vs)"
| "js_string (JObj _) = ''[object Object]''"
| "js_string (JOther s) = s"
| "js_elem JNull = []"
| "js_elem JUndefined = []"
| "js_elem v = js_string v"
| "js_strings [] = []"
| "js_strings (v # vs) = js_elem v # js_strings vs"

section \<open>The query language\<close>

type_synonym sql_operator = string

definition SQL_OPERATORS :: "sql_operator list" where
  "SQL_OPERATORS = [''='', ''!='', ''<>'', ''<'', ''<='', ''>'', ''>='', ''ILIKE'', ''LIKE'', ''IN'', ''NOT IN'',
     ''BETWEEN'', ''IS'', ''IS NOT'', ''<=>'', ''<->'', ''<#>'', ''<+>'', ''<~>'', ''<%>'', ''@@'']"

datatype sql_sort_direction = ASC | DESC
datatype sql_join_type = INNER | LEFT | RIGHT
datatype expression_operand = AND_OP | OR_OP

definition operand_text :: "expression_operand \<Rightarrow> string" where
  "operand_text x = (case x of AND_OP \<Rightarrow> ''AND'' | OR_OP \<Rightarrow> ''OR'')"

definition dir_text :: "sql_sort_direction \<Rightarrow> string" where
  "dir_text d = (case d of ASC \<Rightarrow> ''ASC'' | DESC \<Rightarrow> ''DESC'')"

definition join_text :: "sql_join_type \<Rightarrow> string" where
  "join_text t = (case t of INNER \<Rightarrow> ''INNER'' | LEFT \<Rightarrow> ''LEFT'' | RIGHT \<Rightarrow> ''RIGHT'')"

record expr_operand =
  eo_sql :: string
  eo_params :: "js_value list option"

record field_ref =
  fr_entity :: nat
  fr_key :: string

definition field :: "nat \<Rightarrow> string \<Rightarrow> field_ref" where
  "field entity key = \<lparr>fr_entity = entity, fr_key = key\<rparr>"

datatype filter_expr =
    FieldValue field_ref sql_operator js_value expression_operand
  | FieldField field_ref sql_operator field_ref expression_operand
  | Raw string sql_operator string expression_operand
  | Expr expr_operand sql_operator expr_operand expression_operand
  | Group "filter_expr list" expression_operand "expression_operand option"

definition filter_operand :: "filter_expr \<Rightarrow> expression_operand" where
  "filter_operand f = (case f of FieldValue _ _ _ x \<Rightarrow> x | FieldField _ _ _ x \<Rightarrow> x | Raw _ _ _ x \<Rightarrow> x
     | Expr _ _ _ x \<Rightarrow> x | Group _ x _ \<Rightarrow> x)"

text \<open>\<open>Filter\<close>; a \<open>None\<close> is an argument left out.\<close>

definition or_and :: "expression_operand option \<Rightarrow> expression_operand" where
  "or_and x = (case x of Some y \<Rightarrow> y | None \<Rightarrow> AND_OP)"

definition Filter_fieldValue :: "field_ref \<Rightarrow> sql_operator \<Rightarrow> js_value \<Rightarrow> expression_operand option \<Rightarrow> filter_expr" where
  "Filter_fieldValue left op right operand = FieldValue left op right (or_and operand)"

definition Filter_fieldField :: "field_ref \<Rightarrow> sql_operator \<Rightarrow> field_ref \<Rightarrow> expression_operand option \<Rightarrow> filter_expr" where
  "Filter_fieldField left op right operand = FieldField left op right (or_and operand)"

definition Filter_raw :: "string \<Rightarrow> sql_operator \<Rightarrow> string \<Rightarrow> expression_operand option \<Rightarrow> filter_expr" where
  "Filter_raw left op right operand = Raw left op right (or_and operand)"

definition Filter_expr :: "expr_operand \<Rightarrow> sql_operator \<Rightarrow> expr_operand \<Rightarrow> expression_operand option \<Rightarrow> filter_expr" where
  "Filter_expr left op right operand = Expr left op right (or_and operand)"

definition Filter_group :: "filter_expr list \<Rightarrow> expression_operand option \<Rightarrow> expression_operand option \<Rightarrow> filter_expr" where
  "Filter_group filters connector operand = Group filters (or_and operand) (Some (or_and connector))"

datatype sorting_expr =
    SortField field_ref sql_sort_direction
  | SortAlias string sql_sort_direction
  | SortExpr expr_operand sql_sort_direction

definition or_asc :: "sql_sort_direction option \<Rightarrow> sql_sort_direction" where
  "or_asc d = (case d of Some x \<Rightarrow> x | None \<Rightarrow> ASC)"

definition Sort_by :: "field_ref \<Rightarrow> sql_sort_direction option \<Rightarrow> sorting_expr" where
  "Sort_by f dir = SortField f (or_asc dir)"

definition Sort_byAlias :: "string \<Rightarrow> sql_sort_direction option \<Rightarrow> sorting_expr" where
  "Sort_byAlias alias dir = SortAlias alias (or_asc dir)"

definition Sort_byExpr :: "string \<Rightarrow> js_value list option \<Rightarrow> sql_sort_direction option \<Rightarrow> sorting_expr" where
  "Sort_byExpr sql params dir = SortExpr \<lparr>eo_sql = sql, eo_params = params\<rparr> (or_asc dir)"

datatype group_by_operand = GroupField field_ref | GroupExpr expr_operand

definition GroupBy_expr :: "string \<Rightarrow> js_value list option \<Rightarrow> group_by_operand" where
  "GroupBy_expr sql params = GroupExpr \<lparr>eo_sql = sql, eo_params = params\<rparr>"

record join_expr =
  jn_right :: field_ref
  jn_left :: field_ref
  jn_type :: sql_join_type
  jn_alias :: "string option"
  jn_castRightTo :: "string option"
  jn_castLeftTo :: "string option"

definition Join_on :: "field_ref \<Rightarrow> field_ref \<Rightarrow> sql_join_type option \<Rightarrow> string option \<Rightarrow> string option \<Rightarrow> string option
    \<Rightarrow> join_expr" where
  "Join_on left right type castRightTo castLeftTo alias =
     \<lparr>jn_right = right, jn_left = left, jn_type = (case type of Some t \<Rightarrow> t | None \<Rightarrow> INNER), jn_alias = alias,
      jn_castRightTo = castRightTo, jn_castLeftTo = castLeftTo\<rparr>"

datatype field_projector =
    ProjField field_ref "string option"
  | ProjExpr expr_operand string

definition Project_field :: "field_ref \<Rightarrow> string option \<Rightarrow> field_projector" where
  "Project_field f alias = ProjField f alias"

definition Project_expr :: "string \<Rightarrow> string \<Rightarrow> js_value list option \<Rightarrow> field_projector" where
  "Project_expr expr alias params = ProjExpr \<lparr>eo_sql = expr, eo_params = params\<rparr> alias"

section \<open>List filters\<close>

record list_filter_condition =
  lc_field :: string
  lc_op :: string
  lc_value :: js_value

record list_filter_options =
  lo_allowedFields :: "string list"
  lo_connector :: "expression_operand option"
  lo_validOps :: "string list option"
  lo_escapeIlike :: "(string \<Rightarrow> string) option"

definition DEFAULT_VALID_OPS :: "string list" where
  "DEFAULT_VALID_OPS = [''='', ''!='', ''<>'', ''<'', ''<='', ''>'', ''>='', ''ILIKE'', ''LIKE'', ''IN'', ''NOT IN'',
     ''BETWEEN'', ''IS'', ''IS NOT'']"

text \<open>A \<open>LIKE\<close> value without a wildcard is wrapped.\<close>

definition like_value :: "list_filter_options \<Rightarrow> string \<Rightarrow> js_value \<Rightarrow> js_value" where
  "like_value opts op v =
     (case v of
        JStr s \<Rightarrow>
          if (op = ''ILIKE'' \<or> op = ''LIKE'') \<and> \<not> str_includes s ''%'' then
            JStr (case lo_escapeIlike opts of Some f \<Rightarrow> f s | None \<Rightarrow> ''%'' @ s @ ''%'')
          else v
      | _ \<Rightarrow> v)"

definition nullish :: "js_value \<Rightarrow> bool" where
  "nullish v \<longleftrightarrow> v = JNull \<or> v = JUndefined"

text \<open>The value of a \<open>BETWEEN\<close>; \<open>None\<close> skips the condition.\<close>

definition between_value :: "js_value \<Rightarrow> js_value option" where
  "between_value v =
     (case v of
        JObj kvs \<Rightarrow>
          (case (map_of kvs ''start'', map_of kvs ''end'') of
             (Some s, Some e) \<Rightarrow> if nullish s \<or> nullish e then None else Some (JArr [s, e])
           | _ \<Rightarrow> None)
      | JArr _ \<Rightarrow> Some v
      | _ \<Rightarrow> None)"

definition condition_value :: "list_filter_options \<Rightarrow> list_filter_condition \<Rightarrow> js_value option" where
  "condition_value opts c =
     (let value = like_value opts (lc_op c) (lc_value c)
      in if lc_op c = ''BETWEEN'' then between_value value else Some value)"

definition condition_expr :: "nat \<Rightarrow> list_filter_options \<Rightarrow> list_filter_condition \<Rightarrow> filter_expr option" where
  "condition_expr entity opts c =
     (if lc_op c \<notin> set (case lo_validOps opts of Some ops \<Rightarrow> ops | None \<Rightarrow> DEFAULT_VALID_OPS) then None
      else if lc_field c \<notin> set (lo_allowedFields opts) then None
      else map_option (\<lambda>v. Filter_fieldValue (field entity (lc_field c)) (lc_op c) v (Some (or_and (lo_connector opts))))
             (condition_value opts c))"

definition translateFilterConditions :: "nat \<Rightarrow> list_filter_condition list option \<Rightarrow> list_filter_options
    \<Rightarrow> filter_expr list option" where
  "translateFilterConditions entity conditions opts =
     (case conditions of
        None \<Rightarrow> None
      | Some conds \<Rightarrow>
          (let exprs = List.map_filter (condition_expr entity opts) conds
           in case exprs of
                [] \<Rightarrow> None
              | [_] \<Rightarrow> Some [Filter_group exprs (Some AND_OP) None]
              | _ \<Rightarrow> Some [Filter_group [Filter_group exprs (Some (or_and (lo_connector opts))) None] (Some AND_OP) None]))"

end
