(* ===== verification/QueryBuilder.thy ===== *)
theory QueryBuilder
  imports QueryDsl
begin

text \<open>
  \<open>src/query/query-builder.ts\<close>: \<open>SELECT\<close> statements and the hybrid vector search from the query language.

  The readers of entity metadata are a record of functions (\<open>env_of\<close> gives those of the model).
  \<open>ParamWriter\<close> is the list of values bound so far, threaded through the rendering; an exception is
  \<open>Inl\<close> its message.
\<close>

section \<open>Metadata readers and the parameter writer\<close>

record entity_env =
  ee_qualified :: "nat \<Rightarrow> (string, string) res"
  ee_column :: "nat \<Rightarrow> string \<Rightarrow> (string, string) res"
  ee_meta :: "nat \<Rightarrow> (string, entity_meta) res"

definition meta_message :: "meta_error \<Rightarrow> string" where
  "meta_message e = (case e of TypeError s \<Rightarrow> s | Domain (SchemaDomainViolation s) \<Rightarrow> s | ColumnError s \<Rightarrow> s)"

definition with_message :: "(meta_error, 'a) res \<Rightarrow> (string, 'a) res" where
  "with_message r = (case r of Inl e \<Rightarrow> Inl (meta_message e) | Inr a \<Rightarrow> Inr a)"

definition env_of :: "nat \<Rightarrow> (string \<Rightarrow> string) \<Rightarrow> program \<Rightarrow> schema_domain option \<Rightarrow> meta_store \<Rightarrow> entity_env" where
  "env_of n collate P domain M =
     \<lparr>ee_qualified = (\<lambda>c. with_message (getQualifiedTableName domain M c)),
      ee_column = (\<lambda>c key. with_message (getColumnName P M c key)),
      ee_meta = (\<lambda>c. case getEntityPersistenceMeta n collate P domain M c ''public'' of
                      Some r \<Rightarrow> with_message r | None \<Rightarrow> Inl ''Maximum call stack size exceeded'')\<rparr>"

type_synonym 'a writer = "js_value list \<Rightarrow> (string, 'a \<times> js_value list) res"

definition wret :: "'a \<Rightarrow> 'a writer" where
  "wret a = (\<lambda>ws. Inr (a, ws))"

definition wbind :: "'a writer \<Rightarrow> ('a \<Rightarrow> 'b writer) \<Rightarrow> 'b writer" where
  "wbind m f = (\<lambda>ws. res_bind (m ws) (\<lambda>(a, ws'). f a ws'))"

definition wlift :: "(string, 'a) res \<Rightarrow> 'a writer" where
  "wlift r = (\<lambda>ws. res_bind r (\<lambda>a. Inr (a, ws)))"

fun wmap :: "('a \<Rightarrow> 'b writer) \<Rightarrow> 'a list \<Rightarrow> 'b list writer" where
  "wmap f [] = wret []"
| "wmap f (x # xs) = wbind (f x) (\<lambda>y. wbind (wmap f xs) (\<lambda>ys. wret (y # ys)))"

definition param_text :: "nat \<Rightarrow> string" where
  "param_text n = ''$'' @ nat_str n"

definition wadd :: "js_value \<Rightarrow> string writer" where
  "wadd v = (\<lambda>ws. Inr (param_text (Suc (length ws)), ws @ [v]))"

section \<open>Names\<close>

definition truthy :: "string option \<Rightarrow> bool" where
  "truthy s \<longleftrightarrow> s \<noteq> None \<and> s \<noteq> Some []"

definition qTable :: "entity_env \<Rightarrow> nat \<Rightarrow> string option \<Rightarrow> (string, string) res" where
  "qTable env entity override =
     (if truthy override then
        res_bind (ee_meta env entity) (\<lambda>meta.
        res_bind (quoteIdent (em_tableSchema meta)) (\<lambda>s.
        res_bind (quoteIdent (the override)) (\<lambda>t. Inr (s @ ''.'' @ t))))
      else ee_qualified env entity)"

definition qCol :: "entity_env \<Rightarrow> nat \<Rightarrow> string \<Rightarrow> (string, string) res" where
  "qCol env entity key =
     res_bind (ee_column env entity key) (\<lambda>sql.
     res_bind (assertValidIdentPart sql ''columnName'') (\<lambda>_. quoteIdent sql))"

definition qQualifiedField :: "entity_env \<Rightarrow> nat \<Rightarrow> string \<Rightarrow> string option \<Rightarrow> (string, string) res" where
  "qQualifiedField env entity key override =
     res_bind (qTable env entity override) (\<lambda>t. res_bind (qCol env entity key) (\<lambda>c. Inr (t @ ''.'' @ c)))"

definition hasDeletedAtColumn :: "entity_env \<Rightarrow> nat \<Rightarrow> (string, bool) res" where
  "hasDeletedAtColumn env entity =
     res_bind (ee_meta env entity) (\<lambda>meta. Inr (map_of (em_columns meta) ''deleted_at'' \<noteq> None))"

text \<open>The override applies to the base entity of the query only.\<close>

definition override_for :: "nat \<Rightarrow> string option \<Rightarrow> nat \<Rightarrow> string option" where
  "override_for base override entity = (if truthy override \<and> entity = base then override else None)"

definition qRef :: "entity_env \<Rightarrow> nat \<Rightarrow> string option \<Rightarrow> field_ref \<Rightarrow> (string, string) res" where
  "qRef env base override f = qQualifiedField env (fr_entity f) (fr_key f) (override_for base override (fr_entity f))"

section \<open>Expressions\<close>

definition VECTOR_OPS :: "string list" where
  "VECTOR_OPS = [''<=>'', ''<->'', ''<#>'', ''<+>'', ''<~>'', ''<%>'']"

definition toVectorLiteral :: "js_value \<Rightarrow> string" where
  "toVectorLiteral v = (case v of JArr vs \<Rightarrow> ''['' @ join '','' (js_strings vs) @ '']'' | _ \<Rightarrow> js_string v)"

fun subst_markers :: "string \<Rightarrow> string \<Rightarrow> js_value list \<Rightarrow> string writer" where
  "subst_markers sql [] ps = wret []"
| "subst_markers sql (c # s) ps =
     (if c = CHR ''?'' then
        (case ps of
           [] \<Rightarrow> wlift (Inl (''expr operand has more '' @ [CHR 0x27] @ ''?'' @ [CHR 0x27] @ '' markers than params: '' @ sql))
         | p # ps' \<Rightarrow> wbind (wadd p) (\<lambda>t. wbind (subst_markers sql s ps') (\<lambda>r. wret (t @ r))))
      else wbind (subst_markers sql s ps) (\<lambda>r. wret (c # r)))"

definition renderExprOperand :: "expr_operand \<Rightarrow> string writer" where
  "renderExprOperand e = subst_markers (eo_sql e) (eo_sql e) (case eo_params e of Some ps \<Rightarrow> ps | None \<Rightarrow> [])"

section \<open>Projection\<close>

definition render_projector :: "entity_env \<Rightarrow> nat \<Rightarrow> string option \<Rightarrow> field_projector \<Rightarrow> string writer" where
  "render_projector env base override p =
     (case p of
        ProjExpr e alias \<Rightarrow>
          wbind (renderExprOperand e) (\<lambda>t. wbind (wlift (quoteIdent alias)) (\<lambda>a. wret (t @ '' AS '' @ a)))
      | ProjField f alias \<Rightarrow>
          wlift (res_bind (qTable env (fr_entity f) (override_for base override (fr_entity f))) (\<lambda>t.
            res_bind (qCol env (fr_entity f) (fr_key f)) (\<lambda>c.
            res_bind (case alias of Some a \<Rightarrow> Inr a | None \<Rightarrow> ee_column env (fr_entity f) (fr_key f)) (\<lambda>a.
            res_bind (assertValidIdentPart a ''projectionAlias'') (\<lambda>_.
            res_bind (quoteIdent a) (\<lambda>qa. Inr (t @ ''.'' @ c @ '' AS '' @ qa))))))))"

definition default_projection :: "entity_env \<Rightarrow> nat \<Rightarrow> string option \<Rightarrow> (string, string list) res" where
  "default_projection env entity override =
     res_bind (ee_meta env entity) (\<lambda>meta.
       map_res (\<lambda>(_, c).
         res_bind (assertValidIdentPart (cm_propertyKey c) ''propertyKey'') (\<lambda>_.
         res_bind (qTable env entity override) (\<lambda>t.
         res_bind (quoteIdent (cm_sqlName c)) (\<lambda>s.
         res_bind (quoteIdent (cm_propertyKey c)) (\<lambda>k. Inr (t @ ''.'' @ s @ '' AS '' @ k)))))) (em_columns meta))"

definition ACTOR_NAMES :: "(string \<times> string) list" where
  "ACTOR_NAMES = [(''creator'', ''created_by_name''), (''updater'', ''updated_by_name''), (''deleter'', ''deleted_by_name'')]"

definition join_projection :: "entity_env \<Rightarrow> nat \<Rightarrow> string option \<Rightarrow> join_expr \<Rightarrow> (string, string list) res" where
  "join_projection env entity override j =
     (case Option.bind (jn_alias j) (map_of ACTOR_NAMES) of
        None \<Rightarrow> Inr []
      | Some fieldName \<Rightarrow>
          res_bind (ee_column env (fr_entity (jn_right j)) (fr_key (jn_right j))) (\<lambda>actorCol.
          res_bind (qTable env (fr_entity (jn_right j)) (if fr_entity (jn_right j) = entity then override else None)) (\<lambda>t.
          res_bind (quoteIdent actorCol) (\<lambda>qa.
          res_bind (quoteIdent (the (jn_alias j))) (\<lambda>al.
          res_bind (quoteIdent fieldName) (\<lambda>fn.
            Inr [''COALESCE('' @ al @ ''.display_name, '' @ t @ ''.'' @ qa @ '') AS '' @ fn]))))))"

definition renderProjection :: "entity_env \<Rightarrow> nat \<Rightarrow> field_projector list \<Rightarrow> join_expr list \<Rightarrow> string option
    \<Rightarrow> string list writer" where
  "renderProjection env entity flds joins override =
     wbind (if flds \<noteq> [] then wmap (render_projector env entity override) flds
            else wlift (default_projection env entity override)) (\<lambda>ps.
     wbind (wlift (map_res (join_projection env entity override) joins)) (\<lambda>js.
       wret (ps @ concat js)))"

section \<open>Joins\<close>

definition UUID_GUARD :: string where
  "UUID_GUARD = '' ~ '' @ [CHR 0x27] @ ''^[0-9a-fA-F-]{36}$'' @ [CHR 0x27] @ '' THEN ''"

definition render_join :: "entity_env \<Rightarrow> nat \<Rightarrow> string option \<Rightarrow> join_expr \<Rightarrow> (string, string) res" where
  "render_join env base override j =
     (let r = jn_right j; l = jn_left j in
      res_bind (qTable env (fr_entity l) None) (\<lambda>joinTable.
      res_bind (if truthy (jn_alias j) then map_sum id Some (quoteIdent (the (jn_alias j))) else Inr None) (\<lambda>alias.
      res_bind (ee_column env (fr_entity r) (fr_key r)) (\<lambda>rightColName.
      res_bind (assertValidIdentPart rightColName ''columnName'') (\<lambda>_.
      res_bind (if fr_entity r = base then qTable env (fr_entity r) (override_for base override (fr_entity r))
                else (case alias of Some a \<Rightarrow> Inr a | None \<Rightarrow> qTable env (fr_entity r) None)) (\<lambda>rightTableRef.
      res_bind (quoteIdent rightColName) (\<lambda>qr.
      (let rightExprRaw = rightTableRef @ ''.'' @ qr in
      res_bind (if truthy (jn_castRightTo j) then Inr (jn_castRightTo j)
                else res_bind (ee_meta env (fr_entity r)) (\<lambda>meta.
                       Inr (case map_of (em_columns meta) rightColName of Some c \<Rightarrow> cm_castInJoin c | None \<Rightarrow> None))) (\<lambda>cast.
      res_bind (case alias of Some a \<Rightarrow> Inr a | None \<Rightarrow> qTable env (fr_entity l) None) (\<lambda>leftTableRef.
      res_bind (ee_column env (fr_entity l) (fr_key l)) (\<lambda>leftCol.
      res_bind (quoteIdent leftCol) (\<lambda>ql.
      (let rightExpr = rightExprRaw @ (if truthy cast then ''::'' @ the cast else []);
           leftExpr = leftTableRef @ ''.'' @ ql @ (if truthy (jn_castLeftTo j) then ''::'' @ the (jn_castLeftTo j) else []);
           onExpr = (if cast = Some ''uuid''
                     then ''CASE WHEN '' @ rightExprRaw @ UUID_GUARD @ rightExpr @ '' = '' @ leftExpr @ '' ELSE FALSE END''
                     else rightExpr @ '' = '' @ leftExpr)
       in Inr (join_text (jn_type j) @ '' JOIN '' @ joinTable @ (case alias of Some a \<Rightarrow> '' AS '' @ a | None \<Rightarrow> [])
               @ '' ON '' @ onExpr))))))))))))))"

definition renderJoins :: "entity_env \<Rightarrow> join_expr list \<Rightarrow> nat \<Rightarrow> string option \<Rightarrow> (string, string list) res" where
  "renderJoins env joins base override = map_res (render_join env base override) joins"

section \<open>Filters\<close>

definition values_of :: "js_value \<Rightarrow> js_value list" where
  "values_of v = (case v of JArr vs \<Rightarrow> vs | _ \<Rightarrow> [v])"

definition like_op :: "sql_operator \<Rightarrow> bool" where
  "like_op p \<longleftrightarrow> p = ''ILIKE'' \<or> p = ''LIKE''"

definition js_typeof :: "js_value \<Rightarrow> string" where
  "js_typeof v = (case v of JUndefined \<Rightarrow> ''undefined'' | JBool _ \<Rightarrow> ''boolean'' | JNum _ \<Rightarrow> ''number''
     | JStr _ \<Rightarrow> ''string'' | _ \<Rightarrow> ''object'')"

definition render_field_value :: "string \<Rightarrow> sql_operator \<Rightarrow> js_value \<Rightarrow> string writer" where
  "render_field_value left p v =
     (if p = ''IN'' \<or> p = ''NOT IN'' then
        wbind (wmap wadd (values_of v)) (\<lambda>ps. wret (left @ '' '' @ p @ '' ('' @ join '', '' ps @ '')''))
      else if p = ''BETWEEN'' then
        (case values_of v of
           [a, b] \<Rightarrow> wbind (wadd a) (\<lambda>x. wbind (wadd b) (\<lambda>y. wret (left @ '' BETWEEN '' @ x @ '' AND '' @ y)))
         | vs \<Rightarrow> wlift (Inl (''BETWEEN operator requires exactly 2 values, got '' @ nat_str (length vs))))
      else if p = ''IS'' \<or> p = ''IS NOT'' then
        (case v of
           JNull \<Rightarrow> wret (left @ '' '' @ p @ '' NULL'')
         | JBool b \<Rightarrow> wret (left @ '' '' @ p @ (if b then '' TRUE'' else '' FALSE''))
         | _ \<Rightarrow> wlift (Inl (''IS/IS NOT only supports null/boolean (got '' @ js_typeof v @ '')'')))
      else if like_op p then
        wbind (wadd v) (\<lambda>x. wret (left @ '' '' @ p @ '' '' @ x @ '' ESCAPE '' @ [CHR 0x27] @ ''#'' @ [CHR 0x27]))
      else if p \<in> set VECTOR_OPS then
        wbind (wadd (JStr (toVectorLiteral v))) (\<lambda>x. wret (left @ '' '' @ p @ '' '' @ x @ ''::vector''))
      else if p = ''!='' \<or> p = ''<>'' then
        wbind (wadd v) (\<lambda>x. wret (''('' @ left @ '' IS NULL OR '' @ left @ '' '' @ p @ '' '' @ x @ '')''))
      else wbind (wadd v) (\<lambda>x. wret (left @ '' '' @ p @ '' '' @ x)))"

fun renderFilterExpr :: "entity_env \<Rightarrow> nat \<Rightarrow> string option \<Rightarrow> filter_expr \<Rightarrow> string writer"
and renderFilterExprs :: "entity_env \<Rightarrow> nat \<Rightarrow> string option \<Rightarrow> filter_expr list \<Rightarrow> string list writer" where
  "renderFilterExpr env base override (FieldValue l p v _) =
     wbind (wlift (qRef env base override l)) (\<lambda>baseLeft.
       render_field_value (if like_op p \<and> fr_key l = ''uuid'' then ''CAST('' @ baseLeft @ '' AS text)'' else baseLeft) p v)"
| "renderFilterExpr env base override (FieldField l p r _) =
     wlift (res_bind (qRef env base override l) (\<lambda>x. res_bind (qRef env base override r) (\<lambda>y.
       Inr (x @ '' '' @ p @ '' '' @ y))))"
| "renderFilterExpr env base override (Raw l p r _) = wret (l @ '' '' @ p @ '' '' @ r)"
| "renderFilterExpr env base override (Expr l p r _) =
     wbind (renderExprOperand l) (\<lambda>x. wbind (renderExprOperand r) (\<lambda>y. wret (x @ '' '' @ p @ '' '' @ y)))"
| "renderFilterExpr env base override (Group fs x c) =
     wbind (renderFilterExprs env base override fs) (\<lambda>ts.
       wret (''('' @ join ('' '' @ operand_text (case c of Some y \<Rightarrow> y | None \<Rightarrow> x) @ '' '') ts @ '')''))"
| "renderFilterExprs env base override [] = wret []"
| "renderFilterExprs env base override (f # fs) =
     wbind (renderFilterExpr env base override f) (\<lambda>t.
     wbind (renderFilterExprs env base override fs) (\<lambda>ts. wret (t # ts)))"

datatype deleted_records = EXCLUDED | ONLY | INCLUDED

text \<open>The loop over the filters: each is joined to the text before it by its own operand.\<close>

fun chain_text :: "string \<Rightarrow> (expression_operand \<times> string) list \<Rightarrow> string" where
  "chain_text acc [] = acc"
| "chain_text acc ((x, t) # ts) = chain_text (acc @ '' '' @ operand_text x @ '' '' @ t) ts"

definition filter_chain :: "filter_expr list \<Rightarrow> string list \<Rightarrow> string" where
  "filter_chain fs ts = (case zip (map filter_operand fs) ts of [] \<Rightarrow> [] | (_, t) # rest \<Rightarrow> chain_text t rest)"

definition deleted_clause :: "entity_env \<Rightarrow> nat \<Rightarrow> deleted_records option \<Rightarrow> string option \<Rightarrow> (string, string list) res" where
  "deleted_clause env entity deletedRecords override =
     res_bind (hasDeletedAtColumn env entity) (\<lambda>has.
       if \<not> has then Inr []
       else res_bind (qTable env entity override) (\<lambda>t.
            res_bind (quoteIdent ''deleted_at'') (\<lambda>d.
              Inr (case (case deletedRecords of Some m \<Rightarrow> m | None \<Rightarrow> EXCLUDED) of
                     ONLY \<Rightarrow> [t @ ''.'' @ d @ '' IS NOT NULL'']
                   | EXCLUDED \<Rightarrow> [t @ ''.'' @ d @ '' IS NULL'']
                   | INCLUDED \<Rightarrow> []))))"

definition renderWhere :: "entity_env \<Rightarrow> nat \<Rightarrow> deleted_records option \<Rightarrow> filter_expr list \<Rightarrow> string option
    \<Rightarrow> string list writer" where
  "renderWhere env entity deletedRecords filters override =
     wbind (wlift (deleted_clause env entity deletedRecords override)) (\<lambda>del.
     wbind (renderFilterExprs env entity override filters) (\<lambda>ts.
       (let expr = filter_chain filters ts
        in wret (del @ (if trim expr \<noteq> [] then [expr] else [])))))"

section \<open>Sorting, grouping and having\<close>

definition render_sort :: "entity_env \<Rightarrow> nat \<Rightarrow> string option \<Rightarrow> sorting_expr \<Rightarrow> string writer" where
  "render_sort env base override s =
     (case s of
        SortAlias alias dir \<Rightarrow>
          wlift (res_bind (assertValidIdentPart alias ''sortAlias'') (\<lambda>_.
            res_bind (quoteIdent alias) (\<lambda>a. Inr (a @ '' '' @ dir_text dir))))
      | SortExpr e dir \<Rightarrow> wbind (renderExprOperand e) (\<lambda>t. wret (t @ '' '' @ dir_text dir))
      | SortField f dir \<Rightarrow> wlift (res_bind (qRef env base override f) (\<lambda>t. Inr (t @ '' '' @ dir_text dir))))"

definition renderOrderBy :: "entity_env \<Rightarrow> nat \<Rightarrow> sorting_expr list \<Rightarrow> string option \<Rightarrow> string option writer" where
  "renderOrderBy env entity sorting override =
     (if sorting = [] then wret None
      else wbind (wmap (render_sort env entity override) sorting) (\<lambda>ts. wret (Some (join '', '' ts))))"

record vector_order =
  vo_field :: field_ref
  vo_op :: sql_operator
  vo_vectorLiteral :: string
  vo_scoreAlias :: "string option"

record select_query_input =
  si_entity :: nat
  si_fields :: "field_projector list"
  si_joins :: "join_expr list"
  si_filters :: "filter_expr list"
  si_sorting :: "sorting_expr list"
  si_deletedRecords :: "deleted_records option"
  si_limit :: "js_value option"
  si_offset :: "js_value option"
  si_includeTotal :: bool
  si_tableName :: "string option"
  si_groupBy :: "group_by_operand list"
  si_vectorOrder :: "vector_order option"
  si_having :: "filter_expr list"

definition render_group :: "entity_env \<Rightarrow> select_query_input \<Rightarrow> group_by_operand \<Rightarrow> string writer" where
  "render_group env inp g =
     (case g of
        GroupExpr e \<Rightarrow> renderExprOperand e
      | GroupField f \<Rightarrow> wlift (qRef env (si_entity inp) (si_tableName inp) f))"

definition grouped_fields :: "entity_env \<Rightarrow> select_query_input \<Rightarrow> (string, string list) res" where
  "grouped_fields env inp =
     (if si_fields inp \<noteq> [] then
        map_res (qRef env (si_entity inp) (si_tableName inp))
          (List.map_filter (\<lambda>p. case p of ProjField f _ \<Rightarrow> Some f | ProjExpr _ _ \<Rightarrow> None) (si_fields inp))
      else res_bind (ee_meta env (si_entity inp)) (\<lambda>meta.
             map_res (\<lambda>(_, c). res_bind (qTable env (si_entity inp) (si_tableName inp)) (\<lambda>t.
                        res_bind (quoteIdent (cm_sqlName c)) (\<lambda>s. Inr (t @ ''.'' @ s)))) (em_columns meta)))"

definition grouped_actors :: "select_query_input \<Rightarrow> (string, string list) res" where
  "grouped_actors inp =
     map_res (\<lambda>a. res_bind (quoteIdent a) (\<lambda>q. Inr (q @ ''.display_name'')))
       (List.map_filter (\<lambda>j. case jn_alias j of
            Some a \<Rightarrow> if a \<in> set (map fst ACTOR_NAMES) then Some a else None | None \<Rightarrow> None) (si_joins inp))"

text \<open>The columns are a set in insertion order.\<close>

definition insertion_set :: "string list \<Rightarrow> string list" where
  "insertion_set xs = rev (remdups (rev xs))"

definition renderGroupBy :: "entity_env \<Rightarrow> select_query_input \<Rightarrow> string list writer" where
  "renderGroupBy env inp =
     (if si_groupBy inp = [] then wret []
      else wbind (wmap (render_group env inp) (si_groupBy inp)) (\<lambda>gs.
           wbind (wlift (grouped_fields env inp)) (\<lambda>fs.
           wbind (wlift (grouped_actors inp)) (\<lambda>as. wret (insertion_set (gs @ fs @ as))))))"

definition renderHaving :: "entity_env \<Rightarrow> select_query_input \<Rightarrow> string option writer" where
  "renderHaving env inp =
     wbind (renderFilterExprs env (si_entity inp) (si_tableName inp) (si_having inp)) (\<lambda>ts.
       (let expr = filter_chain (si_having inp) ts
        in wret (if trim expr \<noteq> [] then Some expr else None)))"

section \<open>The \<open>SELECT\<close> statement\<close>

definition vector_ref :: "entity_env \<Rightarrow> string option \<Rightarrow> field_ref \<Rightarrow> (string, string) res" where
  "vector_ref env override f = qQualifiedField env (fr_entity f) (fr_key f) override"

definition similarity_text :: "string \<Rightarrow> sql_operator \<Rightarrow> string \<Rightarrow> string" where
  "similarity_text vf p vec =
     (if p = ''<=>'' then ''1 - ('' @ vf @ '' <=> '' @ vec @ ''::vector)''
      else ''('' @ vf @ '' '' @ p @ '' '' @ vec @ ''::vector)'')"

definition score_projection :: "entity_env \<Rightarrow> select_query_input \<Rightarrow> string \<Rightarrow> (string, string list) res" where
  "score_projection env inp vec =
     (case si_vectorOrder inp of
        None \<Rightarrow> Inr []
      | Some vo \<Rightarrow>
          if truthy (vo_scoreAlias vo) then
            res_bind (vector_ref env (si_tableName inp) (vo_field vo)) (\<lambda>vf.
            res_bind (quoteIdent (the (vo_scoreAlias vo))) (\<lambda>a. Inr [similarity_text vf (vo_op vo) vec @ '' AS '' @ a]))
          else Inr [])"

definition order_clause :: "entity_env \<Rightarrow> select_query_input \<Rightarrow> string \<Rightarrow> string option writer" where
  "order_clause env inp vec =
     (case si_vectorOrder inp of
        Some vo \<Rightarrow> wlift (res_bind (vector_ref env (si_tableName inp) (vo_field vo)) (\<lambda>vf.
                     Inr (Some (vf @ '' '' @ vo_op vo @ '' '' @ vec @ ''::vector''))))
      | None \<Rightarrow> renderOrderBy env (si_entity inp) (si_sorting inp) (si_tableName inp))"

definition opt_param :: "string \<Rightarrow> js_value option \<Rightarrow> string list writer" where
  "opt_param word v =
     (case v of None \<Rightarrow> wret [] | Some x \<Rightarrow> wbind (wadd x) (\<lambda>p. wret [word @ '' '' @ p @ ''::int'']))"

definition clause :: "string \<Rightarrow> string \<Rightarrow> string list \<Rightarrow> string list" where
  "clause word sep xs = (if xs = [] then [] else [word @ join sep xs])"

definition opt_clause :: "string \<Rightarrow> string option \<Rightarrow> string list" where
  "opt_clause word x = (if truthy x then [word @ the x] else [])"

definition select_text :: "entity_env \<Rightarrow> select_query_input \<Rightarrow> string writer" where
  "select_text env inp =
     wbind (wlift (qTable env (si_entity inp) (si_tableName inp))) (\<lambda>baseTable.
     wbind (case si_vectorOrder inp of Some vo \<Rightarrow> wadd (JStr (vo_vectorLiteral vo)) | None \<Rightarrow> wret []) (\<lambda>vec.
     wbind (renderProjection env (si_entity inp) (si_fields inp) (si_joins inp) (si_tableName inp)) (\<lambda>projection.
     wbind (wlift (score_projection env inp vec)) (\<lambda>score.
     wbind (wlift (if si_includeTotal inp then res_bind (quoteIdent ''_total_records'') (\<lambda>q. Inr [''COUNT(*) OVER() AS '' @ q])
                   else Inr [])) (\<lambda>total.
     wbind (wlift (renderJoins env (si_joins inp) (si_entity inp) (si_tableName inp))) (\<lambda>joins.
     wbind (renderWhere env (si_entity inp) (si_deletedRecords inp) (si_filters inp) (si_tableName inp)) (\<lambda>whr.
     wbind (renderGroupBy env inp) (\<lambda>groupBy.
     wbind (renderHaving env inp) (\<lambda>having.
     wbind (order_clause env inp vec) (\<lambda>orderBy.
     wbind (opt_param ''LIMIT'' (si_limit inp)) (\<lambda>lim.
     wbind (opt_param ''OFFSET'' (si_offset inp)) (\<lambda>off.
       wret (join '' '' ([''SELECT '' @ join '', '' (projection @ score @ total) @ '' FROM '' @ baseTable]
         @ clause [] '' '' joins @ clause ''WHERE '' '' AND '' whr @ clause ''GROUP BY '' '', '' groupBy
         @ opt_clause ''HAVING '' having @ opt_clause ''ORDER BY '' orderBy @ lim @ off))))))))))))))"

definition buildSelectQuery :: "entity_env \<Rightarrow> select_query_input \<Rightarrow> (string, string \<times> js_value list) res" where
  "buildSelectQuery env inp = select_text env inp []"

end
