(* ===== verification/VectorSearch.thy ===== *)
theory VectorSearch
  imports QueryBuilder
begin

text \<open>
  \<open>buildVectorSearchQuery\<close> of \<open>src/query/query-builder.ts\<close>: the hybrid vector search with its optional
  lexical, keyword and adjustment channels.  Numbers are their decimal text, the oversampling factor is an integer.
\<close>

record lexical_channel =
  lx_field :: field_ref
  lx_query :: string
  lx_config :: "string option"
  lx_boost :: "string option"
  lx_minScore :: "string option"

record keyword_channel =
  kb_terms :: "string list"
  kb_fields :: "field_ref list"
  kb_boost :: "string option"

record score_adjust =
  sa_expr :: string
  sa_map :: "(string \<times> string) list"
  sa_fallback :: "string option"

record vector_hybrid_input =
  vh_entity :: nat
  vh_field :: field_ref
  vh_op :: sql_operator
  vh_vectorLiteral :: string
  vh_topK :: int
  vh_oversample :: "int option"
  vh_filters :: "filter_expr list"
  vh_fields :: "field_projector list"
  vh_deletedRecords :: "deleted_records option"
  vh_tableName :: "string option"
  vh_lexical :: "lexical_channel option"
  vh_keywordBoost :: "keyword_channel option"
  vh_scoreAdjust :: "score_adjust option"

definition jint :: "int \<Rightarrow> js_value" where
  "jint i = JNum (int_str i)"

text \<open>\<open>b && b !== 0\<close>.\<close>

definition nonzero :: "string option \<Rightarrow> bool" where
  "nonzero b \<longleftrightarrow> (case b of None \<Rightarrow> False | Some s \<Rightarrow> s \<noteq> ''0'' \<and> s \<noteq> ''NaN'')"

text \<open>The names every part of the statement uses, all quoted.\<close>

record vector_names =
  vn_base :: string
  vn_pk :: string
  vn_field :: string
  vn_vec :: string
  vn_topK :: string
  vn_over :: string
  vn_where :: string

definition budget :: "vector_names \<Rightarrow> string" where
  "budget n = '' LIMIT '' @ vn_topK n @ ''::int * '' @ vn_over n @ ''::int''"

definition vec_cte :: "vector_names \<Rightarrow> sql_operator \<Rightarrow> string" where
  "vec_cte n p =
     ''vec AS (SELECT '' @ vn_base n @ ''.'' @ vn_pk n @ '', '' @ similarity_text (vn_field n) p (vn_vec n)
     @ '' AS similarity FROM '' @ vn_base n @ '' '' @ vn_where n @ '' ORDER BY '' @ vn_field n @ '' '' @ p @ '' ''
     @ vn_vec n @ ''::vector'' @ budget n @ '')''"

definition lex_cte :: "vector_names \<Rightarrow> string \<Rightarrow> string \<Rightarrow> string \<Rightarrow> string" where
  "lex_cte n cfg lq lexCol =
     ''lex AS (SELECT '' @ vn_base n @ ''.'' @ vn_pk n @ '', ts_rank_cd(to_tsvector('' @ cfg @ '', '' @ lexCol
     @ ''), websearch_to_tsquery('' @ cfg @ '', '' @ lq @ '')) AS lexical_score FROM '' @ vn_base n @ '' ''
     @ (if vn_where n \<noteq> [] then vn_where n @ '' AND'' else ''WHERE'') @ '' to_tsvector('' @ cfg @ '', '' @ lexCol
     @ '') @@ websearch_to_tsquery('' @ cfg @ '', '' @ lq @ '') ORDER BY lexical_score DESC'' @ budget n @ '')''"

definition lexical_ctes :: "entity_env \<Rightarrow> vector_hybrid_input \<Rightarrow> vector_names \<Rightarrow> string list writer" where
  "lexical_ctes env inp n =
     (case vh_lexical inp of
        None \<Rightarrow> wret []
      | Some lx \<Rightarrow>
          wbind (wadd (JStr (case lx_config lx of Some c \<Rightarrow> c | None \<Rightarrow> ''simple''))) (\<lambda>cfg.
          wbind (wadd (JStr (lx_query lx))) (\<lambda>lq.
          wbind (wlift (vector_ref env (vh_tableName inp) (lx_field lx))) (\<lambda>lexCol.
            wret [lex_cte n cfg lq lexCol,
                  ''candidates AS (SELECT '' @ vn_pk n @ '' FROM vec UNION SELECT '' @ vn_pk n @ '' FROM lex)'']))))"

definition vector_from :: "vector_hybrid_input \<Rightarrow> vector_names \<Rightarrow> string" where
  "vector_from inp n =
     (let eq = (\<lambda>a b. a @ ''.'' @ vn_pk n @ '' = '' @ b @ ''.'' @ vn_pk n)
      in if vh_lexical inp \<noteq> None then
           ''FROM candidates c JOIN '' @ vn_base n @ '' ON '' @ eq (vn_base n) ''c'' @ '' LEFT JOIN vec v ON ''
           @ eq ''v'' (vn_base n) @ '' LEFT JOIN lex l ON '' @ eq ''l'' (vn_base n)
         else ''FROM vec v JOIN '' @ vn_base n @ '' ON '' @ eq (vn_base n) ''v'')"

definition vector_projection :: "entity_env \<Rightarrow> vector_hybrid_input \<Rightarrow> entity_meta \<Rightarrow> string \<Rightarrow> string list writer" where
  "vector_projection env inp meta base =
     (if vh_fields inp \<noteq> [] then
        wmap (\<lambda>p. case p of
            ProjExpr e alias \<Rightarrow>
              wbind (renderExprOperand e) (\<lambda>t. wbind (wlift (quoteIdent alias)) (\<lambda>a. wret (t @ '' AS '' @ a)))
          | ProjField f alias \<Rightarrow>
              wlift (res_bind (qTable env (fr_entity f) (if fr_entity f = vh_entity inp then vh_tableName inp else None)) (\<lambda>t.
                res_bind (case alias of Some a \<Rightarrow> Inr a | None \<Rightarrow> ee_column env (fr_entity f) (fr_key f)) (\<lambda>a.
                res_bind (assertValidIdentPart a ''projectionAlias'') (\<lambda>_.
                res_bind (qCol env (fr_entity f) (fr_key f)) (\<lambda>c.
                res_bind (quoteIdent a) (\<lambda>qa. Inr (t @ ''.'' @ c @ '' AS '' @ qa)))))))) (vh_fields inp)
      else wlift (map_res (\<lambda>(_, c). res_bind (quoteIdent (cm_sqlName c)) (\<lambda>s. res_bind (quoteIdent (cm_propertyKey c)) (\<lambda>k.
             Inr (base @ ''.'' @ s @ '' AS '' @ k)))) (em_columns meta)))"

definition sim_select :: "vector_hybrid_input \<Rightarrow> vector_names \<Rightarrow> string" where
  "sim_select inp n =
     (if vh_lexical inp \<noteq> None then ''COALESCE(v.similarity, '' @ similarity_text (vn_field n) (vh_op inp) (vn_vec n) @ '')''
      else ''v.similarity'')"

text \<open>The projections and the score terms of the channels.\<close>

definition boost_term :: "string option \<Rightarrow> string \<Rightarrow> string list writer" where
  "boost_term b what =
     (if nonzero b then wbind (wadd (JNum (the b))) (\<lambda>p. wret [p @ ''::float8 * COALESCE('' @ what @ '', 0)'']) else wret [])"

definition lexical_scores :: "vector_hybrid_input \<Rightarrow> vector_names \<Rightarrow> (string list \<times> string list) writer" where
  "lexical_scores inp n =
     (case vh_lexical inp of
        None \<Rightarrow> wret ([], [])
      | Some lx \<Rightarrow>
          wbind (wadd (JNum (case lx_minScore lx of Some m \<Rightarrow> m | None \<Rightarrow> ''0.05''))) (\<lambda>minScore.
          wbind (boost_term (lx_boost lx) ''l.lexical_score'') (\<lambda>ts.
            wret ([''COALESCE(l.lexical_score, 0)::float8 AS \"lexical_score\"'',
                   ''(v.'' @ vn_pk n @ '' IS NULL AND COALESCE(l.lexical_score, 0) >= '' @ minScore @ '') AS \"lexical_match\"''], ts))))"

text \<open>\<open>t.c ILIKE '%' || kw || '%'\<close>.\<close>

definition WILDCARD :: string where
  "WILDCARD = [CHR 0x27] @ ''%'' @ [CHR 0x27]"

definition keyword_lateral :: "string \<Rightarrow> string list \<Rightarrow> string" where
  "keyword_lateral terms ilikes =
     ''CROSS JOIN LATERAL (SELECT COUNT(*)::int AS keyword_hits FROM unnest('' @ terms @ ''::text[]) AS kw WHERE ''
     @ join '' OR '' ilikes @ '') k''"

definition keyword_scores :: "entity_env \<Rightarrow> vector_hybrid_input \<Rightarrow> (string list \<times> string list \<times> string) writer" where
  "keyword_scores env inp =
     (case vh_keywordBoost inp of
        None \<Rightarrow> wret ([], [], [])
      | Some kw \<Rightarrow>
          if kb_terms kw = [] then wret ([], [], [])
          else wbind (wadd (JArr (map JStr (kb_terms kw)))) (\<lambda>terms.
               wbind (wlift (map_res (\<lambda>f.
                   res_bind (qTable env (fr_entity f) (if fr_entity f = vh_entity inp then vh_tableName inp else None)) (\<lambda>t.
                   res_bind (qCol env (fr_entity f) (fr_key f)) (\<lambda>c.
                     Inr (t @ ''.'' @ c @ '' ILIKE '' @ WILDCARD @ '' || kw || '' @ WILDCARD)))) (kb_fields kw))) (\<lambda>ilikes.
               wbind (boost_term (kb_boost kw) ''k.keyword_hits'') (\<lambda>ts.
                 wret ([''k.keyword_hits''], ts, keyword_lateral terms ilikes)))))"

definition adjust_scores :: "vector_hybrid_input \<Rightarrow> string list writer" where
  "adjust_scores inp =
     (case vh_scoreAdjust inp of
        None \<Rightarrow> wret []
      | Some adj \<Rightarrow>
          if sa_map adj = [] then wret []
          else wbind (wmap (\<lambda>(k, v). wbind (wadd (JStr k)) (\<lambda>x. wbind (wadd (JNum v)) (\<lambda>y.
                   wret (''WHEN '' @ x @ ''::text THEN '' @ y @ ''::float8'')))) (sa_map adj)) (\<lambda>whens.
               wbind (wadd (JNum (case sa_fallback adj of Some f \<Rightarrow> f | None \<Rightarrow> ''0''))) (\<lambda>fb.
                 wret [''(CASE '' @ sa_expr adj @ '' '' @ join '' '' whens @ '' ELSE '' @ fb @ ''::float8 END)::float8''])))"

definition ORDER_BY_SCORE :: string where
  "ORDER_BY_SCORE = ''ORDER BY \"score\" DESC''"

definition key_column :: "entity_meta \<Rightarrow> (string, string) res" where
  "key_column meta =
     (case List.find (\<lambda>(_, c). cm_isKey c) (em_columns meta) of
        Some (_, c) \<Rightarrow> Inr (cm_sqlName c) | None \<Rightarrow> Inl ''vectorSearch hybrid: entity has no @Key column'')"

text \<open>The names and the first three parameters: the vector, \<open>topK\<close> and the oversampling factor.\<close>

definition vector_setup :: "entity_env \<Rightarrow> vector_hybrid_input \<Rightarrow> (entity_meta \<times> vector_names) writer" where
  "vector_setup env inp =
     wbind (wlift (ee_meta env (vh_entity inp))) (\<lambda>meta.
     wbind (wlift (res_bind (key_column meta) quoteIdent)) (\<lambda>pk.
     wbind (wlift (qTable env (vh_entity inp) (vh_tableName inp))) (\<lambda>base.
     wbind (wlift (vector_ref env (vh_tableName inp) (vh_field inp))) (\<lambda>vf.
     wbind (wadd (JStr (vh_vectorLiteral inp))) (\<lambda>vec.
     wbind (wadd (jint (vh_topK inp))) (\<lambda>topK.
     wbind (wadd (jint (max 1 (case vh_oversample inp of Some i \<Rightarrow> i | None \<Rightarrow> 1)))) (\<lambda>over.
     wbind (renderWhere env (vh_entity inp) (vh_deletedRecords inp) (vh_filters inp) (vh_tableName inp)) (\<lambda>whr.
       wret (meta, \<lparr>vn_base = base, vn_pk = pk, vn_field = vf, vn_vec = vec, vn_topK = topK, vn_over = over,
                    vn_where = concat (clause ''WHERE '' '' AND '' whr)\<rparr>)))))))))"

definition vector_statement :: "entity_env \<Rightarrow> vector_hybrid_input \<Rightarrow> entity_meta \<Rightarrow> vector_names \<Rightarrow> string writer" where
  "vector_statement env inp meta n =
     wbind (lexical_ctes env inp n) (\<lambda>lexCtes.
     wbind (vector_projection env inp meta (vn_base n)) (\<lambda>projection.
     wbind (lexical_scores inp n) (\<lambda>(lexProj, lexTerms).
     wbind (keyword_scores env inp) (\<lambda>(kwProj, kwTerms, kwFrom).
     wbind (adjust_scores inp) (\<lambda>adjTerms.
       wret (join '' '' [''WITH '' @ join '', '' (vec_cte n (vh_op inp) # lexCtes),
         ''SELECT '' @ join '', '' (projection
            @ [sim_select inp n @ '' AS '' @ (if vh_op inp = ''<=>'' then ''\"similarity\"'' else ''\"distance\"'')]
            @ lexProj @ kwProj @ [join '' + '' (sim_select inp n # lexTerms @ kwTerms @ adjTerms) @ '' AS \"score\"'']),
         vector_from inp n @ (if kwFrom \<noteq> [] then '' '' @ kwFrom else []),
         ORDER_BY_SCORE,
         ''LIMIT '' @ vn_topK n @ ''::int'']))))))"

definition vector_text :: "entity_env \<Rightarrow> vector_hybrid_input \<Rightarrow> string writer" where
  "vector_text env inp = wbind (vector_setup env inp) (\<lambda>(meta, n). vector_statement env inp meta n)"

definition buildVectorSearchQuery :: "entity_env \<Rightarrow> vector_hybrid_input \<Rightarrow> (string, string \<times> js_value list) res" where
  "buildVectorSearchQuery env inp = vector_text env inp []"

end
