(* ===== verification/QueryFacts.thy ===== *)
theory QueryFacts
  imports VectorSearch
begin

text \<open>
  What the query builder guarantees: the text is independent of the bound values, the values are those of the
  input in order, deleted rows, grouping, and the list filters.
\<close>

section \<open>The text does not depend on the values\<close>

text \<open>Two renderings give the same text and bind the same number of values.\<close>

definition same_out :: "'a writer \<Rightarrow> 'a writer \<Rightarrow> bool" where
  "same_out m m' \<longleftrightarrow> (\<forall>ws ws'. length ws = length ws' \<longrightarrow>
     map_sum id (map_prod id length) (m ws) = map_sum id (map_prod id length) (m' ws'))"

named_theorems same_intros

lemma same_wret [same_intros]: "same_out (wret a) (wret a)"
  by (simp add: same_out_def wret_def)

lemma same_wlift [same_intros]: "same_out (wlift r) (wlift r)"
  by (cases r) (simp_all add: same_out_def wlift_def)

lemma same_wadd [same_intros]: "same_out (wadd v) (wadd v')"
  by (simp add: same_out_def wadd_def)

lemma same_wbind [same_intros]:
  assumes m: "same_out m m'" and f: "\<And>a. same_out (f a) (f' a)"
  shows "same_out (wbind m f) (wbind m' f')"
  unfolding same_out_def
proof (intro allI impI)
  fix ws ws' :: "js_value list" assume len: "length ws = length ws'"
  have *: "map_sum id (map_prod id length) (m ws) = map_sum id (map_prod id length) (m' ws')"
    using m len by (simp add: same_out_def)
  show "map_sum id (map_prod id length) (wbind m f ws) = map_sum id (map_prod id length) (wbind m' f' ws')"
  proof (cases "m ws")
    case (Inl e)
    then show ?thesis using * by (cases "m' ws'") (auto simp: wbind_def)
  next
    case (Inr p)
    obtain a u where p: "p = (a, u)" by fastforce
    obtain u' where "m' ws' = Inr (a, u')" "length u = length u'"
      using * Inr p by (cases "m' ws'") auto
    then show ?thesis using f [of a] Inr p by (simp add: wbind_def same_out_def)
  qed
qed

lemma same_wmap:
  assumes "list_all2 (\<lambda>x y. same_out (f x) (g y)) xs ys"
  shows "same_out (wmap f xs) (wmap g ys)"
  using assms by (induction xs ys rule: list_all2_induct) (auto intro!: same_intros)

lemma same_wmap_length:
  assumes "length xs = length ys" shows "same_out (wmap wadd xs) (wmap wadd ys)"
  by (rule same_wmap) (auto simp: list_all2_conv_all_nth assms intro: same_intros)

definition op_params :: "expr_operand \<Rightarrow> js_value list" where
  "op_params e = (case eo_params e of Some ps \<Rightarrow> ps | None \<Rightarrow> [])"

definition shape_operand :: "expr_operand \<Rightarrow> expr_operand \<Rightarrow> bool" where
  "shape_operand e e' \<longleftrightarrow> eo_sql e = eo_sql e' \<and> length (op_params e) = length (op_params e')"

lemma same_markers: "length ps = length ps' \<Longrightarrow> same_out (subst_markers sql s ps) (subst_markers sql s ps')"
proof (induction sql s ps arbitrary: ps' rule: subst_markers.induct)
  case (1 sql ps)
  then show ?case by (auto intro: same_intros)
next
  case (2 sql c s ps)
  show ?case
  proof (cases ps)
    case Nil
    then show ?thesis using 2 by (auto intro!: same_intros)
  next
    case (Cons p ps0)
    then obtain p' ps0' where "ps' = p' # ps0'" "length ps0 = length ps0'" using "2.prems" by (cases ps') auto
    then show ?thesis using 2 Cons by (auto intro!: same_intros)
  qed
qed

lemma same_operand: "shape_operand e e' \<Longrightarrow> same_out (renderExprOperand e) (renderExprOperand e')"
  unfolding renderExprOperand_def shape_operand_def op_params_def by (metis same_markers)

definition shape_value :: "sql_operator \<Rightarrow> js_value \<Rightarrow> js_value \<Rightarrow> bool" where
  "shape_value p v v' \<longleftrightarrow>
     (if p = ''IN'' \<or> p = ''NOT IN'' \<or> p = ''BETWEEN'' then length (values_of v) = length (values_of v')
      else if p = ''IS'' \<or> p = ''IS NOT'' then v = v' else True)"

lemma same_if [same_intros]: "same_out a a' \<Longrightarrow> same_out b b' \<Longrightarrow> same_out (if P then a else b) (if P then a' else b')"
  by simp

lemma same_field_value:
  assumes sh: "shape_value p v v'"
  shows "same_out (render_field_value l p v) (render_field_value l p v')"
proof -
  consider (list) "p = ''IN'' \<or> p = ''NOT IN''" | (btw) "\<not> (p = ''IN'' \<or> p = ''NOT IN'')" "p = ''BETWEEN''"
    | (truth) "\<not> (p = ''IN'' \<or> p = ''NOT IN'')" "p \<noteq> ''BETWEEN''" "p = ''IS'' \<or> p = ''IS NOT''"
    | (other) "\<not> (p = ''IN'' \<or> p = ''NOT IN'')" "p \<noteq> ''BETWEEN''" "\<not> (p = ''IS'' \<or> p = ''IS NOT'')"
    by argo
  then show ?thesis
  proof cases
    case list
    then have "length (values_of v) = length (values_of v')" using sh by (simp only: shape_value_def) (simp split: if_splits)
    then show ?thesis unfolding render_field_value_def if_P [OF list] by (intro same_intros same_wmap_length)
  next
    case btw
    then have len: "length (values_of v) = length (values_of v')" using sh by (simp only: shape_value_def) (simp split: if_splits)
    show ?thesis unfolding render_field_value_def if_not_P [OF btw(1)] if_P [OF btw(2)]
      using len by (auto split: list.splits intro!: same_intros)
  next
    case truth
    then have "v = v'" using sh by (simp only: shape_value_def) (simp split: if_splits)
    then show ?thesis unfolding render_field_value_def if_not_P [OF truth(1)] if_not_P [OF truth(2)] if_P [OF truth(3)]
      by (auto split: js_value.splits intro!: same_intros)
  next
    case other
    show ?thesis unfolding render_field_value_def if_not_P [OF other(1)] if_not_P [OF other(2)] if_not_P [OF other(3)]
      by (intro same_intros)
  qed
qed

fun shape_filter :: "filter_expr \<Rightarrow> filter_expr \<Rightarrow> bool" and shape_filters :: "filter_expr list \<Rightarrow> filter_expr list \<Rightarrow> bool" where
  "shape_filter (FieldValue l p v x) f' = (case f' of FieldValue l' p' v' x' \<Rightarrow> l' = l \<and> p' = p \<and> x' = x \<and> shape_value p v v' | _ \<Rightarrow> False)"
| "shape_filter (Expr l p r x) f' = (case f' of Expr l' p' r' x' \<Rightarrow> p' = p \<and> x' = x \<and> shape_operand l l' \<and> shape_operand r r' | _ \<Rightarrow> False)"
| "shape_filter (Group fs x c) f' = (case f' of Group fs' x' c' \<Rightarrow> x' = x \<and> c' = c \<and> shape_filters fs fs' | _ \<Rightarrow> False)"
| "shape_filter f f' = (f = f')"
| "shape_filters [] fs' = (fs' = [])"
| "shape_filters (f # fs) fs' = (case fs' of [] \<Rightarrow> False | g # gs \<Rightarrow> shape_filter f g \<and> shape_filters fs gs)"

lemma same_filter:
  "shape_filter f f' \<Longrightarrow> same_out (renderFilterExpr env base ov f) (renderFilterExpr env base ov f')"
  "shape_filters fs fs' \<Longrightarrow> same_out (renderFilterExprs env base ov fs) (renderFilterExprs env base ov fs')"
proof (induction f f' and fs fs' rule: shape_filter_shape_filters.induct)
  case (1 l p v x f')
  then show ?case by (cases f') (auto intro!: same_intros same_field_value)
next
  case (2 l p r x f')
  then show ?case by (cases f') (auto intro!: same_intros same_operand)
next
  case (3 fs x c f')
  then show ?case by (cases f') (auto intro!: same_intros)
next
  case (5 fs')
  then show ?case by (auto intro!: same_intros)
next
  case (6 f fs fs')
  then show ?case by (cases fs') (auto intro!: same_intros)
qed (auto intro!: same_intros)

lemma shape_operands: "shape_filter f f' \<Longrightarrow> filter_operand f' = filter_operand f"
    "shape_filters fs fs' \<Longrightarrow> map filter_operand fs' = map filter_operand fs"
  by (induction f f' and fs fs' rule: shape_filter_shape_filters.induct)
    (auto simp: filter_operand_def split: filter_expr.splits list.splits)

lemma same_where:
  assumes "shape_filters fs fs'"
  shows "same_out (renderWhere env e d fs ov) (renderWhere env e d fs' ov)"
  unfolding renderWhere_def filter_chain_def shape_operands(2) [OF assms]
  by (intro same_intros same_filter(2) [OF assms]) (simp add: Let_def same_intros)

section \<open>Whole statements\<close>

definition shape_projector :: "field_projector \<Rightarrow> field_projector \<Rightarrow> bool" where
  "shape_projector p p' \<longleftrightarrow> (case (p, p') of
     (ProjExpr e a, ProjExpr e' a') \<Rightarrow> shape_operand e e' \<and> a = a' | _ \<Rightarrow> p = p')"

definition shape_sort :: "sorting_expr \<Rightarrow> sorting_expr \<Rightarrow> bool" where
  "shape_sort s s' \<longleftrightarrow> (case (s, s') of
     (SortExpr e d, SortExpr e' d') \<Rightarrow> shape_operand e e' \<and> d = d' | _ \<Rightarrow> s = s')"

definition shape_group :: "group_by_operand \<Rightarrow> group_by_operand \<Rightarrow> bool" where
  "shape_group g g' \<longleftrightarrow> (case (g, g') of (GroupExpr e, GroupExpr e') \<Rightarrow> shape_operand e e' | _ \<Rightarrow> g = g')"

definition same_option :: "'a option \<Rightarrow> 'b option \<Rightarrow> bool" where
  "same_option x y \<longleftrightarrow> (x = None \<longleftrightarrow> y = None)"

definition shape_vector :: "vector_order option \<Rightarrow> vector_order option \<Rightarrow> bool" where
  "shape_vector v v' \<longleftrightarrow> (case (v, v') of
     (Some x, Some y) \<Rightarrow> vo_field x = vo_field y \<and> vo_op x = vo_op y \<and> vo_scoreAlias x = vo_scoreAlias y
   | (None, None) \<Rightarrow> True | _ \<Rightarrow> False)"

definition shape_input :: "select_query_input \<Rightarrow> select_query_input \<Rightarrow> bool" where
  "shape_input a b \<longleftrightarrow>
     si_entity a = si_entity b \<and> list_all2 shape_projector (si_fields a) (si_fields b) \<and> si_joins a = si_joins b
     \<and> shape_filters (si_filters a) (si_filters b) \<and> list_all2 shape_sort (si_sorting a) (si_sorting b)
     \<and> si_deletedRecords a = si_deletedRecords b \<and> same_option (si_limit a) (si_limit b)
     \<and> same_option (si_offset a) (si_offset b) \<and> si_includeTotal a = si_includeTotal b
     \<and> si_tableName a = si_tableName b \<and> list_all2 shape_group (si_groupBy a) (si_groupBy b)
     \<and> shape_vector (si_vectorOrder a) (si_vectorOrder b) \<and> shape_filters (si_having a) (si_having b)"

lemma list_all2_mono': "list_all2 P xs ys \<Longrightarrow> (\<And>x y. P x y \<Longrightarrow> Q x y) \<Longrightarrow> list_all2 Q xs ys"
  by (rule list_all2_mono)

lemma same_projector: "shape_projector p p' \<Longrightarrow> same_out (render_projector env b ov p) (render_projector env b ov p')"
  by (cases p; cases p') (auto simp: shape_projector_def render_projector_def intro!: same_intros same_operand)

lemma same_projection:
  assumes "list_all2 shape_projector ps ps'"
  shows "same_out (renderProjection env e ps js ov) (renderProjection env e ps' js ov)"
proof (cases ps)
  case Nil
  then show ?thesis using assms by (auto simp: renderProjection_def intro!: same_intros)
next
  case (Cons p qs)
  then have ne: "ps \<noteq> []" "ps' \<noteq> []" using assms by auto
  show ?thesis unfolding renderProjection_def if_P [OF ne(1)] if_P [OF ne(2)]
    by (intro same_intros same_wmap list_all2_mono' [OF assms] same_projector)
qed

lemma same_sort: "shape_sort s s' \<Longrightarrow> same_out (render_sort env b ov s) (render_sort env b ov s')"
  by (cases s; cases s') (auto simp: shape_sort_def render_sort_def intro!: same_intros same_operand)

lemma same_order:
  assumes "list_all2 shape_sort ss ss'"
  shows "same_out (renderOrderBy env e ss ov) (renderOrderBy env e ss' ov)"
proof (cases ss)
  case Nil
  then show ?thesis using assms by (auto simp: renderOrderBy_def intro!: same_intros)
next
  case (Cons p qs)
  then have ne: "ss \<noteq> []" "ss' \<noteq> []" using assms by auto
  show ?thesis unfolding renderOrderBy_def if_not_P [OF ne(1)] if_not_P [OF ne(2)]
    by (intro same_intros same_wmap list_all2_mono' [OF assms] same_sort)
qed

lemma same_opt_param: "same_option x y \<Longrightarrow> same_out (opt_param w x) (opt_param w y)"
  by (cases x; cases y) (auto simp: same_option_def opt_param_def intro!: same_intros)


lemma same_grouped: "shape_input a b \<Longrightarrow> grouped_fields env a = grouped_fields env b"
proof -
  assume sh: "shape_input a b"
  have "List.map_filter (\<lambda>p. case p of ProjField f _ \<Rightarrow> Some f | ProjExpr _ _ \<Rightarrow> None) ps
      = List.map_filter (\<lambda>p. case p of ProjField f _ \<Rightarrow> Some f | ProjExpr _ _ \<Rightarrow> None) ps'" if "list_all2 shape_projector ps ps'" for ps ps'
    using that by (induction ps ps' rule: list_all2_induct)
      (auto simp: List.map_filter_def shape_projector_def split: field_projector.splits)
  then show ?thesis using sh unfolding grouped_fields_def shape_input_def by (metis list_all2_Nil list_all2_Nil2)
qed

lemma same_group: "shape_input a b \<Longrightarrow> same_out (renderGroupBy env a) (renderGroupBy env b)"
proof -
  assume sh: "shape_input a b"
  then have g: "list_all2 shape_group (si_groupBy a) (si_groupBy b)" "grouped_actors a = grouped_actors b"
    by (simp_all add: shape_input_def grouped_actors_def)
  have r: "same_out (render_group env a x) (render_group env b y)" if "shape_group x y" for x y
    using that sh by (cases x; cases y) (auto simp: shape_group_def render_group_def shape_input_def intro!: same_intros same_operand)
  show ?thesis
  proof (cases "si_groupBy a")
    case Nil
    then show ?thesis using g by (auto simp: renderGroupBy_def intro!: same_intros)
  next
    case (Cons h t)
    then have ne: "si_groupBy a \<noteq> []" "si_groupBy b \<noteq> []" using g by auto
    show ?thesis unfolding renderGroupBy_def if_not_P [OF ne(1)] if_not_P [OF ne(2)] same_grouped [OF sh] g(2)
      by (intro same_intros same_wmap list_all2_mono' [OF g(1)] r)
  qed
qed

lemma same_having: "shape_filters (si_having a) (si_having b) \<Longrightarrow> si_entity a = si_entity b \<Longrightarrow> si_tableName a = si_tableName b \<Longrightarrow>
    same_out (renderHaving env a) (renderHaving env b)"
  unfolding renderHaving_def filter_chain_def
  by (simp only: shape_operands(2)) (auto intro!: same_intros same_filter(2) simp: Let_def)

lemma same_select: "shape_input a b \<Longrightarrow> same_out (select_text env a) (select_text env b)"
proof -
  assume sh: "shape_input a b"
  then have eqs: "si_entity a = si_entity b" "si_joins a = si_joins b" "si_deletedRecords a = si_deletedRecords b"
      "si_includeTotal a = si_includeTotal b" "si_tableName a = si_tableName b"
    and rel: "list_all2 shape_projector (si_fields a) (si_fields b)" "shape_filters (si_filters a) (si_filters b)"
      "list_all2 shape_sort (si_sorting a) (si_sorting b)" "same_option (si_limit a) (si_limit b)"
      "same_option (si_offset a) (si_offset b)" "shape_vector (si_vectorOrder a) (si_vectorOrder b)"
      "shape_filters (si_having a) (si_having b)"
    by (simp_all add: shape_input_def)
  have v: "same_out (case si_vectorOrder a of Some vo \<Rightarrow> wadd (JStr (vo_vectorLiteral vo)) | None \<Rightarrow> wret [])
      (case si_vectorOrder b of Some vo \<Rightarrow> wadd (JStr (vo_vectorLiteral vo)) | None \<Rightarrow> wret [])"
    using rel(6) by (auto simp: shape_vector_def intro!: same_intros split: option.splits)
  have sc: "score_projection env a vec = score_projection env b vec" for vec
    using rel(6) eqs by (auto simp: shape_vector_def score_projection_def split: option.splits)
  have oc: "same_out (order_clause env a vec) (order_clause env b vec)" for vec
    using rel(6) eqs(1,5) same_order [OF rel(3)]
    by (auto simp: shape_vector_def order_clause_def intro!: same_intros split: option.splits)
  show ?thesis unfolding select_text_def sc eqs
    by (intro same_intros v oc same_projection [OF rel(1)] same_where [OF rel(2)] same_group [OF sh]
        same_having [OF rel(7) eqs(1,5)] same_opt_param [OF rel(4)] same_opt_param [OF rel(5)])
qed

text \<open>C27: the text of a \<open>SELECT\<close> does not depend on the values of its filters, expressions, limits and vectors:
  two inputs of the same shape give the same text (or the same error) with as many bound values.\<close>

theorem select_text_value_free:
  assumes "shape_input a b"
  shows "map_sum id (map_prod id length) (buildSelectQuery env a) = map_sum id (map_prod id length) (buildSelectQuery env b)"
  using same_select [OF assms, of env] by (simp add: same_out_def buildSelectQuery_def)

section \<open>The values\<close>

text \<open>\<open>writes m vs\<close>: when the rendering succeeds it appends exactly these values.\<close>

definition writes :: "'a writer \<Rightarrow> js_value list \<Rightarrow> bool" where
  "writes m vs \<longleftrightarrow> (\<forall>ws a ws'. m ws = Inr (a, ws') \<longrightarrow> ws' = ws @ vs)"

named_theorems writes_intros

lemma writes_wret [writes_intros]: "writes (wret a) []"
  by (simp add: writes_def wret_def)

lemma writes_wlift [writes_intros]: "writes (wlift r) []"
  by (cases r) (simp_all add: writes_def wlift_def)

lemma writes_wadd [writes_intros]: "writes (wadd v) [v]"
  by (simp add: writes_def wadd_def)

lemma writes_wbind: "writes m us \<Longrightarrow> (\<And>a. writes (f a) vs) \<Longrightarrow> writes (wbind m f) (us @ vs)"
  by (force simp: writes_def wbind_def res_bind_Inr)

lemma writes_then: "writes m us \<Longrightarrow> (\<And>a. writes (f a) []) \<Longrightarrow> writes (wbind m f) us"
  using writes_wbind [of m us f "[]"] by simp

lemma writes_skip: "writes m [] \<Longrightarrow> (\<And>a. writes (f a) vs) \<Longrightarrow> writes (wbind m f) vs"
  using writes_wbind [of m "[]" f vs] by simp

lemma writes_wmap: "(\<And>x. x \<in> set xs \<Longrightarrow> writes (f x) (g x)) \<Longrightarrow> writes (wmap f xs) (concat (map g xs))"
proof (induction xs)
  case Nil
  show ?case by (simp add: writes_wret)
next
  case (Cons x xs)
  have "writes (wbind (f x) (\<lambda>y. wbind (wmap f xs) (\<lambda>ys. wret (y # ys)))) (g x @ concat (map g xs))"
    using Cons by (intro writes_wbind writes_then writes_wret) simp_all
  then show ?case by simp
qed

text \<open>An operand binds as many of its parameters as it has markers.\<close>

definition markers :: "string \<Rightarrow> nat" where
  "markers s = length (filter (\<lambda>c. c = CHR ''?'') s)"

definition operand_values :: "expr_operand \<Rightarrow> js_value list" where
  "operand_values e = take (markers (eo_sql e)) (op_params e)"

lemma writes_fail: "(\<And>ws. \<exists>e. m ws = Inl e) \<Longrightarrow> writes m vs"
  unfolding writes_def by (metis Inl_Inr_False)

lemma writes_markers: "writes (subst_markers sql s ps) (take (markers s) ps)"
proof (induction sql s ps rule: subst_markers.induct)
  case (1 sql ps)
  then show ?case by (simp add: markers_def writes_wret)
next
  case (2 sql c s ps)
  show ?case
  proof (cases ps)
    case Nil
    then show ?thesis using 2
      by (auto intro!: writes_then writes_wret writes_wlift simp: markers_def)
  next
    case (Cons p ps0)
    have "writes (wbind (wadd p) (\<lambda>t. wbind (subst_markers sql s ps0) (\<lambda>r. wret (t @ r)))) ([p] @ take (markers s) ps0)"
      if "c = CHR ''?''" using 2(1) [OF that Cons] by (intro writes_wbind writes_wadd writes_then writes_wret)
    moreover have "writes (wbind (subst_markers sql s ps) (\<lambda>r. wret (c # r))) (take (markers s) ps)"
      if "c \<noteq> CHR ''?''" using 2(2) [OF that] by (intro writes_then writes_wret)
    ultimately show ?thesis using Cons by (auto simp: markers_def)
  qed
qed

lemma writes_operand [writes_intros]: "writes (renderExprOperand e) (operand_values e)"
  unfolding renderExprOperand_def operand_values_def op_params_def by (rule writes_markers)

definition field_values :: "sql_operator \<Rightarrow> js_value \<Rightarrow> js_value list" where
  "field_values p v =
     (if p = ''IN'' \<or> p = ''NOT IN'' \<or> p = ''BETWEEN'' then values_of v
      else if p = ''IS'' \<or> p = ''IS NOT'' then []
      else if p \<in> set VECTOR_OPS then [JStr (toVectorLiteral v)] else [v])"

lemma like_not_vector: "like_op p \<Longrightarrow> p \<notin> set VECTOR_OPS"
  by (auto simp: like_op_def VECTOR_OPS_def)

lemma writes_if: "(P \<Longrightarrow> writes a vs) \<Longrightarrow> (\<not> P \<Longrightarrow> writes b vs) \<Longrightarrow> writes (if P then a else b) vs"
  by simp

fun pair_list :: "'a list \<Rightarrow> bool" where
  "pair_list [] = False"
| "pair_list [a] = False"
| "pair_list [a, b] = True"
| "pair_list (a # b # c # r) = False"

lemma writes_field_value: "writes (render_field_value l p v) (field_values p v)"
proof -
  consider (list) "p = ''IN'' \<or> p = ''NOT IN''" | (btw) "\<not> (p = ''IN'' \<or> p = ''NOT IN'')" "p = ''BETWEEN''"
    | (truth) "\<not> (p = ''IN'' \<or> p = ''NOT IN'')" "p \<noteq> ''BETWEEN''" "p = ''IS'' \<or> p = ''IS NOT''"
    | (other) "\<not> (p = ''IN'' \<or> p = ''NOT IN'')" "p \<noteq> ''BETWEEN''" "\<not> (p = ''IS'' \<or> p = ''IS NOT'')"
    by argo
  then show ?thesis
  proof cases
    case list
    then have c: "p = ''IN'' \<or> p = ''NOT IN'' \<or> p = ''BETWEEN''" by blast
    have fv: "field_values p v = concat (map (\<lambda>x. [x]) (values_of v))" unfolding field_values_def if_P [OF c] by simp
    show ?thesis unfolding render_field_value_def if_P [OF list] fv
      by (intro writes_then writes_wmap writes_wadd writes_wret)
  next
    case btw
    then have fv: "field_values p v = values_of v" by (simp only: field_values_def) simp
    have pair: "writes (wbind (wadd a) (\<lambda>x. wbind (wadd b) (\<lambda>y. wret (l @ '' BETWEEN '' @ x @ '' AND '' @ y)))) [a, b]" for a b
    proof -
      have "writes (wbind (wadd a) (\<lambda>x. wbind (wadd b) (\<lambda>y. wret (l @ '' BETWEEN '' @ x @ '' AND '' @ y)))) ([a] @ [b])"
        by (intro writes_wbind writes_wadd writes_then writes_wret)
      then show ?thesis by simp
    qed
    show ?thesis unfolding render_field_value_def if_not_P [OF btw(1)] if_P [OF btw(2)] fv
      by (cases "values_of v" rule: pair_list.cases) (auto intro!: writes_fail pair [simplified] simp: wlift_def)
  next
    case truth
    then have fv: "field_values p v = []" by (simp only: field_values_def) simp
    show ?thesis unfolding render_field_value_def if_not_P [OF truth(1)] if_not_P [OF truth(2)] if_P [OF truth(3)] fv
      by (auto split: js_value.splits intro!: writes_intros)
  next
    case other
    then have fv: "field_values p v = (if p \<in> set VECTOR_OPS then [JStr (toVectorLiteral v)] else [v])"
      by (simp only: field_values_def) simp
    show ?thesis unfolding render_field_value_def if_not_P [OF other(1)] if_not_P [OF other(2)] if_not_P [OF other(3)] fv
    proof (intro writes_if)
      assume "like_op p"
      then show "writes (wbind (wadd v) (\<lambda>x. wret (l @ '' '' @ p @ '' '' @ x @ '' ESCAPE '' @ [CHR 0x27] @ ''#'' @ [CHR 0x27])))
          (if p \<in> set VECTOR_OPS then [JStr (toVectorLiteral v)] else [v])"
        using like_not_vector by (simp only: if_False simp_thms) (intro writes_then writes_wadd writes_wret)
    qed (auto simp del: append.simps intro!: writes_then writes_wadd writes_wret)
  qed
qed

fun filter_values :: "filter_expr \<Rightarrow> js_value list" and filters_values :: "filter_expr list \<Rightarrow> js_value list" where
  "filter_values (FieldValue _ p v _) = field_values p v"
| "filter_values (FieldField _ _ _ _) = []"
| "filter_values (Raw _ _ _ _) = []"
| "filter_values (Expr l _ r _) = operand_values l @ operand_values r"
| "filter_values (Group fs _ _) = filters_values fs"
| "filters_values [] = []"
| "filters_values (f # fs) = filter_values f @ filters_values fs"

lemma writes_filters:
  "writes (renderFilterExpr env b ov f) (filter_values f)"
  "writes (renderFilterExprs env b ov fs) (filters_values fs)"
proof (induction f and fs rule: filter_values_filters_values.induct)
  case (1 l p v x)
  show ?case unfolding renderFilterExpr.simps filter_values.simps
    by (intro writes_skip writes_wlift writes_field_value)
next
  case (2 l p r x)
  show ?case unfolding renderFilterExpr.simps filter_values.simps by (rule writes_wlift)
next
  case (3 l p r x)
  show ?case unfolding renderFilterExpr.simps filter_values.simps by (rule writes_wret)
next
  case (4 l p r x)
  show ?case unfolding renderFilterExpr.simps filter_values.simps
    by (intro writes_wbind writes_operand writes_then writes_wret)
next
  case (5 fs x c)
  then show ?case unfolding renderFilterExpr.simps filter_values.simps by (intro writes_then writes_wret)
next
  case 6
  show ?case unfolding renderFilterExprs.simps filters_values.simps by (rule writes_wret)
next
  case (7 f fs)
  then show ?case unfolding renderFilterExprs.simps filters_values.simps
    by (intro writes_wbind writes_then writes_wret)
qed

definition option_values :: "js_value option \<Rightarrow> js_value list" where
  "option_values v = (case v of None \<Rightarrow> [] | Some x \<Rightarrow> [x])"

text \<open>The values of a statement, clause by clause in the order the builder visits them.\<close>

definition select_values :: "select_query_input \<Rightarrow> js_value list" where
  "select_values inp =
     option_values (map_option (\<lambda>vo. JStr (vo_vectorLiteral vo)) (si_vectorOrder inp))
     @ concat (map (\<lambda>p. case p of ProjExpr e _ \<Rightarrow> operand_values e | ProjField _ _ \<Rightarrow> []) (si_fields inp))
     @ filters_values (si_filters inp)
     @ concat (map (\<lambda>g. case g of GroupExpr e \<Rightarrow> operand_values e | GroupField _ \<Rightarrow> []) (si_groupBy inp))
     @ filters_values (si_having inp)
     @ (if si_vectorOrder inp = None
        then concat (map (\<lambda>s. case s of SortExpr e _ \<Rightarrow> operand_values e | _ \<Rightarrow> []) (si_sorting inp)) else [])
     @ option_values (si_limit inp) @ option_values (si_offset inp)"

lemma writes_projector: "writes (render_projector env b ov p) (case p of ProjExpr e _ \<Rightarrow> operand_values e | ProjField _ _ \<Rightarrow> [])"
  unfolding render_projector_def
  by (cases p) (auto intro!: writes_then writes_operand writes_wlift writes_wret)

lemma writes_projection:
  "writes (renderProjection env e ps js ov) (concat (map (\<lambda>p. case p of ProjExpr e _ \<Rightarrow> operand_values e | ProjField _ _ \<Rightarrow> []) ps))"
proof (cases "ps = []")
  case True
  then show ?thesis unfolding renderProjection_def by (simp add: writes_then writes_wlift writes_wret)
next
  case False
  show ?thesis unfolding renderProjection_def if_P [OF False]
    by (intro writes_then writes_wmap writes_projector writes_wlift writes_wret)
qed

lemma writes_where: "writes (renderWhere env e d fs ov) (filters_values fs)"
  unfolding renderWhere_def Let_def by (intro writes_skip writes_wlift writes_then writes_filters writes_wret)

lemma writes_group_by:
  "writes (renderGroupBy env inp) (concat (map (\<lambda>g. case g of GroupExpr e \<Rightarrow> operand_values e | GroupField _ \<Rightarrow> []) (si_groupBy inp)))"
proof (cases "si_groupBy inp = []")
  case True
  then show ?thesis by (simp add: renderGroupBy_def writes_wret)
next
  case False
  have "writes (render_group env inp g) (case g of GroupExpr e \<Rightarrow> operand_values e | GroupField _ \<Rightarrow> [])" for g
    by (cases g) (auto simp: render_group_def intro!: writes_operand writes_wlift)
  then show ?thesis unfolding renderGroupBy_def if_not_P [OF False]
    by (intro writes_then writes_wmap writes_wlift writes_wret)
qed

lemma writes_having: "writes (renderHaving env inp) (filters_values (si_having inp))"
  unfolding renderHaving_def Let_def by (intro writes_then writes_filters writes_wret)

lemma writes_order:
  "writes (order_clause env inp vec) (if si_vectorOrder inp = None
     then concat (map (\<lambda>s. case s of SortExpr e _ \<Rightarrow> operand_values e | _ \<Rightarrow> []) (si_sorting inp)) else [])"
proof (cases "si_vectorOrder inp")
  case None
  have "writes (render_sort env b ov s) (case s of SortExpr e _ \<Rightarrow> operand_values e | _ \<Rightarrow> [])" for b ov s
    by (cases s) (auto simp: render_sort_def intro!: writes_then writes_operand writes_wlift writes_wret)
  then show ?thesis using None
    by (auto simp: order_clause_def renderOrderBy_def intro!: writes_then writes_wmap writes_wret)
next
  case (Some vo)
  then show ?thesis by (simp add: order_clause_def writes_wlift)
qed

lemma writes_opt_param: "writes (opt_param w v) (option_values v)"
  by (cases v) (auto simp: opt_param_def option_values_def intro!: writes_then writes_wadd writes_wret)

lemma writes_vector_param:
  "writes (case v of Some vo \<Rightarrow> wadd (JStr (vo_vectorLiteral vo)) | None \<Rightarrow> wret [])
     (option_values (map_option (\<lambda>vo. JStr (vo_vectorLiteral vo)) v))"
  by (cases v) (auto simp: option_values_def intro!: writes_wadd writes_wret)

text \<open>C28: the values a \<open>SELECT\<close> binds are those of its clauses, in the order the builder visits them, and no others.\<close>

theorem select_binds_exactly:
  assumes "buildSelectQuery env inp = Inr (t, vs)"
  shows "vs = select_values inp"
proof -
  have "writes (select_text env inp) (select_values inp)"
    unfolding select_text_def select_values_def
    by (rule writes_skip [OF writes_wlift], rule writes_wbind [OF writes_vector_param], rule writes_wbind [OF writes_projection],
        rule writes_skip [OF writes_wlift], rule writes_skip [OF writes_wlift], rule writes_skip [OF writes_wlift],
        rule writes_wbind [OF writes_where], rule writes_wbind [OF writes_group_by], rule writes_wbind [OF writes_having],
        rule writes_wbind [OF writes_order], rule writes_wbind [OF writes_opt_param], rule writes_then [OF writes_opt_param],
        rule writes_wret)
  then show ?thesis using assms by (auto simp: writes_def buildSelectQuery_def)
qed

section \<open>Deleted rows\<close>

text \<open>The condition of a \<open>WHERE\<close> text as PostgreSQL reads it: \<open>AND\<close> binds tighter than \<open>OR\<close>.  \<open>holds\<close> is the
  truth of the parts.\<close>

fun sql_condition :: "(string \<Rightarrow> bool) \<Rightarrow> bool \<Rightarrow> (expression_operand \<times> string) list \<Rightarrow> bool" where
  "sql_condition holds b [] = b"
| "sql_condition holds b ((AND_OP, t) # ts) = sql_condition holds (b \<and> holds t) ts"
| "sql_condition holds b ((OR_OP, t) # ts) = (b \<or> sql_condition holds (holds t) ts)"

lemma and_chain: "list_all (\<lambda>(x, _). x = AND_OP) ts \<Longrightarrow> sql_condition holds b ts \<Longrightarrow> b"
  by (induction holds b ts rule: sql_condition.induct) auto

lemma chain_text_append: "d @ '' AND '' @ chain_text t ts = chain_text (d @ '' AND '' @ t) ts"
  by (induction t ts rule: chain_text.induct) simp_all


lemma exprs_length: "renderFilterExprs env b ov fs ws = Inr (ts, ws') \<Longrightarrow> length ts = length fs"
  by (induction fs arbitrary: ts ws ws') (auto simp: wret_def wbind_def res_bind_Inr)

lemma where_chain:
  assumes "renderWhere env e mode fs ov ws = Inr (whr, ws')" and "deleted_clause env e mode ov = Inr [d]"
  shows "join '' AND '' whr = chain_text d []
    \<or> (\<exists>t ts f gs. fs = f # gs \<and> length ts = length gs
         \<and> whr = [d, filter_chain fs (t # ts)]
         \<and> join '' AND '' whr = chain_text d ((AND_OP, t) # zip (map filter_operand gs) ts)
         \<and> (\<exists>ws0. renderFilterExprs env e ov fs ws = Inr (t # ts, ws0)))"
proof -
  obtain ts where ts: "renderFilterExprs env e ov fs ws = Inr (ts, ws')"
      "whr = d # (if trim (filter_chain fs ts) \<noteq> [] then [filter_chain fs ts] else [])"
    using assms by (auto simp: renderWhere_def wbind_def wlift_def wret_def res_bind_Inr Let_def)
  show ?thesis
  proof (cases "trim (filter_chain fs ts) = []")
    case True
    then show ?thesis using ts(2) by simp
  next
    case False
    then have ne: "fs \<noteq> []" using ts(1) by (auto simp: filter_chain_def wret_def trim_def trim_start_def trim_end_def)
    then obtain f gs t us where fs: "fs = f # gs" "ts = t # us" "length us = length gs"
      using exprs_length [OF ts(1)] by (cases fs; cases ts) auto
    then have "filter_chain fs ts = chain_text t (zip (map filter_operand gs) us)" by (simp add: filter_chain_def)
    moreover have "whr = [d, filter_chain fs ts]" using ts(2) False by simp
    ultimately have "join '' AND '' whr = chain_text d ((AND_OP, t) # zip (map filter_operand gs) us)"
        "whr = [d, filter_chain fs (t # us)]"
      using fs(2) chain_text_append [of d t] by (simp_all add: operand_text_def)
    then show ?thesis using fs(1,3) ts(1) unfolding fs(2) by blast
  qed
qed


lemma trim_nonempty: "c \<in> set s \<Longrightarrow> \<not> js_ws c \<Longrightarrow> trim s \<noteq> []"
proof
  assume c: "c \<in> set s" "\<not> js_ws c" and e: "trim s = []"
  obtain u w where "s = u @ trim s @ w" "list_all js_ws u" "list_all js_ws w" using trim_split by blast
  then show False using c e by (auto simp: list_all_iff)
qed

text \<open>A second top-level filter joined with \<open>OR\<close> escapes the condition on deleted rows: a deleted row that
  satisfies it satisfies the \<open>WHERE\<close> condition.\<close>

theorem or_filter_exposes_deleted:
  assumes "renderWhere env e mode [f, g] ov ws = Inr (whr, ws')" and "deleted_clause env e mode ov = Inr [d]"
    and "filter_operand g = OR_OP"
  shows "\<exists>t u. join '' AND '' whr = chain_text d [(AND_OP, t), (OR_OP, u)]
    \<and> (u \<noteq> d \<longrightarrow> (\<exists>holds. \<not> holds d \<and> sql_condition holds (holds d) [(AND_OP, t), (OR_OP, u)]))"
proof -
  obtain t u where r: "renderFilterExprs env e ov [f, g] ws = Inr ([t, u], ws')"
      "whr = d # (if trim (filter_chain [f, g] [t, u]) \<noteq> [] then [filter_chain [f, g] [t, u]] else [])"
    using assms(1,2) by (auto simp: renderWhere_def wbind_def wlift_def wret_def res_bind_Inr Let_def)
  have fc: "filter_chain [f, g] [t, u] = t @ '' OR '' @ u"
    by (simp add: filter_chain_def assms(3) operand_text_def)
  have "trim (filter_chain [f, g] [t, u]) \<noteq> []"
    by (rule trim_nonempty [of "CHR ''O''"]) (simp_all add: fc js_ws_def code_unit_def)
  then have "join '' AND '' whr = chain_text d [(AND_OP, t), (OR_OP, u)]"
    using r(2) by (simp add: fc operand_text_def)
  moreover have "\<exists>holds. \<not> holds d \<and> sql_condition holds (holds d) [(AND_OP, t), (OR_OP, u)]" if "u \<noteq> d"
    using that by (intro exI [of _ "\<lambda>x. x = u"]) simp
  ultimately show ?thesis by blast
qed

section \<open>Grouping\<close>

lemma set_insertion_set [simp]: "set (insertion_set xs) = set xs"
  by (simp add: insertion_set_def)

lemma map_res_set: "map_res f xs = Inr ys \<Longrightarrow> x \<in> set xs \<Longrightarrow> \<exists>y. f x = Inr y \<and> y \<in> set ys"
  by (induction xs arbitrary: ys) (auto simp: res_bind_Inr)

lemma qRef_parts: "qRef env b ov f = Inr t \<longleftrightarrow>
    (\<exists>x c. qTable env (fr_entity f) (override_for b ov (fr_entity f)) = Inr x \<and> qCol env (fr_entity f) (fr_key f) = Inr c \<and> t = x @ ''.'' @ c)"
  by (auto simp: qRef_def qQualifiedField_def res_bind_Inr)

lemma projected_field:
  assumes "render_projector env b ov (ProjField f a) ws = Inr (p, ws')"
  shows "\<exists>t q. qRef env b ov f = Inr t \<and> p = t @ '' AS '' @ q"
  using assms unfolding render_projector_def
  by (auto simp: wlift_def res_bind_Inr qRef_parts)

lemma wmap_set: "wmap f xs ws = Inr (ys, ws') \<Longrightarrow> x \<in> set xs \<Longrightarrow> \<exists>y us us'. f x us = Inr (y, us') \<and> y \<in> set ys"
  by (induction xs arbitrary: ys ws) (auto simp: wbind_def wret_def res_bind_Inr, blast+)

text \<open>With a \<open>GROUP BY\<close>, every field the statement projects is one of the grouped expressions, and no
  expression is listed twice.\<close>

theorem grouped_covers_projection:
  assumes "si_groupBy inp \<noteq> []" and "renderGroupBy env inp ws = Inr (gs, wa)"
    and "renderProjection env (si_entity inp) (si_fields inp) (si_joins inp) (si_tableName inp) us = Inr (ps, wb)"
    and "ProjField f a \<in> set (si_fields inp)"
  shows "distinct gs \<and> (\<exists>t q. t \<in> set gs \<and> t @ '' AS '' @ q \<in> set ps)"
proof -
  have ne: "si_fields inp \<noteq> []" using assms(4) by auto
  obtain xs fs as where gs: "grouped_fields env inp = Inr fs" "gs = insertion_set (xs @ fs @ as)"
    using assms(1,2) by (auto simp: renderGroupBy_def wbind_def wlift_def wret_def res_bind_Inr)
  have "f \<in> set (List.map_filter (\<lambda>p. case p of ProjField f _ \<Rightarrow> Some f | ProjExpr _ _ \<Rightarrow> None) (si_fields inp))"
    using assms(4) by (force simp: List.map_filter_def)
  then obtain t where t: "qRef env (si_entity inp) (si_tableName inp) f = Inr t" "t \<in> set fs"
    using map_res_set [OF gs(1) [unfolded grouped_fields_def if_P [OF ne]]] by blast
  obtain pps where "wmap (render_projector env (si_entity inp) (si_tableName inp)) (si_fields inp) us = Inr (pps, wb)"
      "set pps \<subseteq> set ps"
    using assms(3) ne by (auto simp: renderProjection_def wbind_def wlift_def wret_def res_bind_Inr)
  then obtain p vs vs' where "render_projector env (si_entity inp) (si_tableName inp) (ProjField f a) vs = Inr (p, vs')" "p \<in> set ps"
    using wmap_set [OF _ assms(4)] by blast
  then obtain q where "t @ '' AS '' @ q \<in> set ps" using projected_field t(1) by fastforce
  then show ?thesis using t(2) gs(2) by (auto simp: insertion_set_def)
qed

section \<open>List filters\<close>

fun filter_leaves :: "filter_expr \<Rightarrow> filter_expr list" and filters_leaves :: "filter_expr list \<Rightarrow> filter_expr list" where
  "filter_leaves (Group fs x c) = filters_leaves fs"
| "filter_leaves f = [f]"
| "filters_leaves [] = []"
| "filters_leaves (f # fs) = filter_leaves f @ filters_leaves fs"

lemma filters_leaves_concat: "filters_leaves fs = concat (map filter_leaves fs)"
  by (induction fs) simp_all

lemma condition_leaf:
  assumes "condition_expr e opts c = Some x"
  shows "\<exists>v. x = FieldValue (field e (lc_field c)) (lc_op c) v (or_and (lo_connector opts)) \<and> condition_value opts c = Some v
    \<and> lc_field c \<in> set (lo_allowedFields opts)
    \<and> lc_op c \<in> set (case lo_validOps opts of Some ops \<Rightarrow> ops | None \<Rightarrow> DEFAULT_VALID_OPS)"
  using assms by (auto simp: condition_expr_def Filter_fieldValue_def or_and_def split: if_splits option.splits)

lemma leaves_of_conditions:
  assumes "\<And>x. x \<in> set xs \<Longrightarrow> \<exists>l p v y. x = FieldValue l p v y"
  shows "filters_leaves xs = xs"
  using assms by (induction xs) fastforce+

text \<open>Filters from the wire become one \<open>AND\<close>-joined group whose comparisons all use an allowed field of the
  entity and a valid operator; conditions outside the allowlists are dropped and the others keep their order.\<close>

theorem list_filters_allowlisted:
  assumes "translateFilterConditions e (Some conds) opts = Some fs"
  shows "\<exists>g. fs = [g] \<and> filter_operand g = AND_OP
    \<and> filter_leaves g = List.map_filter (condition_expr e opts) conds \<and> filter_leaves g \<noteq> []
    \<and> (\<forall>x\<in>set (filter_leaves g). \<exists>f p v y. x = FieldValue f p v y \<and> fr_entity f = e \<and> fr_key f \<in> set (lo_allowedFields opts)
         \<and> p \<in> set (case lo_validOps opts of Some ops \<Rightarrow> ops | None \<Rightarrow> DEFAULT_VALID_OPS))"
proof -
  let ?xs = "List.map_filter (condition_expr e opts) conds"
  have leaf: "\<exists>f p v y. x = FieldValue f p v y \<and> fr_entity f = e \<and> fr_key f \<in> set (lo_allowedFields opts)
      \<and> p \<in> set (case lo_validOps opts of Some ops \<Rightarrow> ops | None \<Rightarrow> DEFAULT_VALID_OPS)" if x: "x \<in> set ?xs" for x
  proof -
    obtain c where "condition_expr e opts c = Some x" using x by (auto simp: List.map_filter_def)
    then show ?thesis using condition_leaf by (fastforce simp: field_def)
  qed
  have lv: "filters_leaves ?xs = ?xs" using leaf by (intro leaves_of_conditions) blast
  have "\<exists>g. fs = [g] \<and> filter_operand g = AND_OP \<and> filter_leaves g = ?xs \<and> ?xs \<noteq> []"
  proof (cases ?xs rule: pair_list.cases)
    case 1
    then show ?thesis using assms by (simp add: translateFilterConditions_def)
  next
    case (2 a)
    then show ?thesis using assms lv
      by (intro exI [of _ "Filter_group ?xs (Some AND_OP) None"])
        (simp add: translateFilterConditions_def Filter_group_def or_and_def filter_operand_def)
  next
    case (3 a b)
    then show ?thesis using assms lv
      by (intro exI [of _ "Filter_group [Filter_group ?xs (Some (or_and (lo_connector opts))) None] (Some AND_OP) None"])
        (simp add: translateFilterConditions_def Filter_group_def or_and_def filter_operand_def)
  next
    case (4 a b c r)
    then show ?thesis using assms lv
      by (intro exI [of _ "Filter_group [Filter_group ?xs (Some (or_and (lo_connector opts))) None] (Some AND_OP) None"])
        (simp add: translateFilterConditions_def Filter_group_def or_and_def filter_operand_def)
  qed
  then show ?thesis using leaf by metis
qed

section \<open>Vector search\<close>

lemma wbind_Inr: "wbind m f ws = Inr (b, ws') \<longleftrightarrow> (\<exists>a u. m ws = Inr (a, u) \<and> f a u = Inr (b, ws'))"
  by (auto simp: wbind_def res_bind_Inr)

lemma wlift_Inr: "wlift r ws = Inr (a, ws') \<longleftrightarrow> r = Inr a \<and> ws' = ws"
  by (auto simp: wlift_def res_bind_Inr)

lemma wadd_Inr: "wadd v ws = Inr (a, ws') \<longleftrightarrow> a = param_text (Suc (length ws)) \<and> ws' = ws @ [v]"
  by (auto simp: wadd_def)

lemma wret_Inr: "wret x ws = Inr (a, ws') \<longleftrightarrow> a = x \<and> ws' = ws"
  by (auto simp: wret_def)

lemma vector_setup_names:
  "vector_setup env inp [] = Inr ((meta, n), ws) \<Longrightarrow> vn_vec n = ''$1'' \<and> vn_topK n = ''$2''"
proof -
  have p: "param_text (Suc 0) = ''$1''" "param_text (Suc (Suc 0)) = ''$2''"
    by code_simp+
  show "vector_setup env inp [] = Inr ((meta, n), ws) \<Longrightarrow> ?thesis"
    unfolding vector_setup_def by (auto simp only: wbind_Inr wlift_Inr wadd_Inr wret_Inr p list.size add_0_right add_0 append_Nil prod.inject vector_names.simps)
qed

text \<open>A hybrid search orders by \<open>score\<close> descending.  With every channel off the score is the similarity of the
  \<open>vec\<close> channel, which for every operator except cosine is the raw distance: the farthest of the candidates
  come first.\<close>

theorem vector_search_ranks_descending:
  assumes "buildVectorSearchQuery env inp = Inr (t, vs)"
  shows "(\<exists>pre. t = pre @ '' '' @ ORDER_BY_SCORE @ '' LIMIT $2::int'')
    \<and> (vh_lexical inp = None \<and> vh_keywordBoost inp = None \<and> vh_scoreAdjust inp = None \<longrightarrow>
       (\<exists>n ps a. vn_vec n = ''$1'' \<and> t = join '' '' [''WITH '' @ vec_cte n (vh_op inp),
          ''SELECT '' @ join '', '' (ps @ [''v.similarity AS '' @ a, ''v.similarity AS \"score\"'']),
          vector_from inp n, ORDER_BY_SCORE, ''LIMIT $2::int'']))"
proof -
  obtain meta n ws where su: "vector_setup env inp [] = Inr ((meta, n), ws)" "vector_statement env inp meta n ws = Inr (t, vs)"
    using assms by (auto simp: buildVectorSearchQuery_def vector_text_def wbind_Inr)
  have n: "vn_vec n = ''$1''" "vn_topK n = ''$2''" using vector_setup_names [OF su(1)] by simp_all
  obtain lexCtes wb projection wc lexProj lexTerms wd kwProj kwTerms kwFrom we adjTerms where
      l: "lexical_ctes env inp n ws = Inr (lexCtes, wb)" "lexical_scores inp n wc = Inr ((lexProj, lexTerms), wd)"
        "keyword_scores env inp wd = Inr ((kwProj, kwTerms, kwFrom), we)" "adjust_scores inp we = Inr (adjTerms, vs)" and
      t: "t = join '' '' [''WITH '' @ join '', '' (vec_cte n (vh_op inp) # lexCtes),
         ''SELECT '' @ join '', '' (projection
            @ [sim_select inp n @ '' AS '' @ (if vh_op inp = ''<=>'' then ''\"similarity\"'' else ''\"distance\"'')]
            @ lexProj @ kwProj @ [join '' + '' (sim_select inp n # lexTerms @ kwTerms @ adjTerms) @ '' AS \"score\"'']),
         vector_from inp n @ (if kwFrom \<noteq> [] then '' '' @ kwFrom else []),
         ORDER_BY_SCORE,
         ''LIMIT '' @ vn_topK n @ ''::int'']"
    using su(2) unfolding vector_statement_def wbind_Inr wret_Inr prod.case split_paired_Ex
    by (elim exE conjE) blast
  have "\<exists>pre. join '' '' [a, b, c, ORDER_BY_SCORE, ''LIMIT '' @ vn_topK n @ ''::int''] = pre @ '' '' @ ORDER_BY_SCORE @ '' LIMIT $2::int''" for a b c
    by (rule exI [of _ "a @ '' '' @ b @ '' '' @ c"]) (simp add: n)
  then have first: "\<exists>pre. t = pre @ '' '' @ ORDER_BY_SCORE @ '' LIMIT $2::int''" unfolding t by blast
  have "\<exists>n ps a. vn_vec n = ''$1'' \<and> t = join '' '' [''WITH '' @ vec_cte n (vh_op inp),
          ''SELECT '' @ join '', '' (ps @ [''v.similarity AS '' @ a, ''v.similarity AS \"score\"'']),
          vector_from inp n, ORDER_BY_SCORE, ''LIMIT $2::int'']"
    if off: "vh_lexical inp = None" "vh_keywordBoost inp = None" "vh_scoreAdjust inp = None"
  proof -
    have "lexCtes = []" "lexProj = []" "lexTerms = []" "kwProj = []" "kwTerms = []" "kwFrom = []" "adjTerms = []"
      using l off by (simp_all add: lexical_ctes_def lexical_scores_def keyword_scores_def adjust_scores_def wret_Inr)
    then show ?thesis using off n(1)
      by (intro exI [of _ n] exI [of _ projection] exI [of _ "if vh_op inp = ''<=>'' then ''\"similarity\"'' else ''\"distance\"''"])
        (simp only: t n sim_select_def join.simps append_Nil append_Nil2 append.simps if_False simp_thms list.simps)
  qed
  then show ?thesis using first by blast
qed

section \<open>Examples\<close>

definition demo_column :: "string \<Rightarrow> bool \<Rightarrow> column_meta" where
  "demo_column name key =
     \<lparr>cm_propertyKey = name, cm_sqlName = name, cm_isKey = key, cm_isUnique = False, cm_uniqueIndexName = None,
      cm_uniqueIndexOrder = None, cm_nullable = False, cm_pgType = None, cm_jsType = None, cm_defaultSql = None,
      cm_length = None, cm_precision = None, cm_scale = None, cm_inferredPgType = ''text'', cm_usePostgresIdentity = key,
      cm_auditableType = None, cm_deletableType = None, cm_synchronizableType = None, cm_isClone = False,
      cm_castInJoin = None, cm_isPartition = False, cm_partitionOpts = None\<rparr>"

definition docs_meta :: entity_meta where
  "docs_meta = \<lparr>em_entityClassName = ''Doc'', em_tableSchema = ''public'', em_tableName = ''docs'', em_isAuditable = None,
     em_isAuditTrailEntity = None, em_auditTrailChangedByColumn = None,
     em_columns = map (\<lambda>(n, k). (n, demo_column n k)) [(''id'', True), (''vec'', False), (''deleted_at'', False)],
     em_partition = None, em_partitionChildOf = None, em_indexes = [], em_foreignKeys = []\<rparr>"

definition docs_env :: entity_env where
  "docs_env = \<lparr>ee_qualified = (\<lambda>_. Inr ''\"docs\"''), ee_column = (\<lambda>_ k. Inr k), ee_meta = (\<lambda>_. Inr docs_meta)\<rparr>"

definition docs_query :: "js_value \<Rightarrow> expression_operand \<Rightarrow> select_query_input" where
  "docs_query v x = \<lparr>si_entity = 0, si_fields = [ProjField (field 0 ''id'') None], si_joins = [],
     si_filters = [Filter_fieldValue (field 0 ''id'') ''='' v None, Filter_fieldValue (field 0 ''id'') ''>'' v (Some x)],
     si_sorting = [], si_deletedRecords = None, si_limit = Some v, si_offset = None, si_includeTotal = False,
     si_tableName = None, si_groupBy = [GroupField (field 0 ''id'')], si_vectorOrder = None, si_having = []\<rparr>"

theorem select_text_value_free_witness:
  "map_sum id (map_prod id length) (buildSelectQuery docs_env (docs_query (JNum ''1'') AND_OP))
   = map_sum id (map_prod id length) (buildSelectQuery docs_env (docs_query (JStr ''1; DROP TABLE docs'') AND_OP))"
  by (rule select_text_value_free) code_simp

definition out_text :: "(string, string \<times> js_value list) res \<Rightarrow> string" where
  "out_text r = (case r of Inr (t, _) \<Rightarrow> t | Inl _ \<Rightarrow> [])"

definition out_values :: "(string, string \<times> js_value list) res \<Rightarrow> js_value list" where
  "out_values r = (case r of Inr (_, vs) \<Rightarrow> vs | Inl _ \<Rightarrow> [])"

lemma outI: "isr r \<Longrightarrow> r = Inr (out_text r, out_values r)"
  by (cases r) (auto simp: out_text_def out_values_def)

lemma docs_runs: "isr (buildSelectQuery docs_env (docs_query (JNum ''1'') AND_OP))"
  by code_simp

theorem select_binds_exactly_witness:
  "out_values (buildSelectQuery docs_env (docs_query (JNum ''1'') AND_OP)) = select_values (docs_query (JNum ''1'') AND_OP)"
  by (rule select_binds_exactly [OF outI [OF docs_runs]])

definition docs_where :: "expression_operand \<Rightarrow> (string, string list \<times> js_value list) res" where
  "docs_where x = renderWhere docs_env 0 None (si_filters (docs_query (JNum ''1'') x)) None []"

lemma docs_where_and: "docs_where AND_OP = Inr ([''\"docs\".\"deleted_at\" IS NULL'',
    ''\"docs\".\"id\" = $1 AND \"docs\".\"id\" > $2''], [JNum ''1'', JNum ''1''])"
  by code_simp

lemma docs_where_or: "docs_where OR_OP = Inr ([''\"docs\".\"deleted_at\" IS NULL'',
    ''\"docs\".\"id\" = $1 OR \"docs\".\"id\" > $2''], [JNum ''1'', JNum ''1''])"
  by code_simp

lemma docs_deleted: "deleted_clause docs_env 0 None None = Inr [''\"docs\".\"deleted_at\" IS NULL'']"
  by code_simp


theorem or_filter_exposes_deleted_witness:
  "\<exists>t u. join '' AND '' [''\"docs\".\"deleted_at\" IS NULL'', ''\"docs\".\"id\" = $1 OR \"docs\".\"id\" > $2'']
       = chain_text ''\"docs\".\"deleted_at\" IS NULL'' [(AND_OP, t), (OR_OP, u)]"
proof -
  have f: "si_filters (docs_query (JNum ''1'') OR_OP) = [Filter_fieldValue (field 0 ''id'') ''='' (JNum ''1'') None,
      Filter_fieldValue (field 0 ''id'') ''>'' (JNum ''1'') (Some OR_OP)]"
    by (simp add: docs_query_def)
  show ?thesis
    using or_filter_exposes_deleted [OF docs_where_or [unfolded docs_where_def f] docs_deleted]
    by (simp only: filter_operand_def Filter_fieldValue_def or_and_def filter_expr.case option.case) blast
qed

definition res_out :: "(string, 'a \<times> js_value list) res \<Rightarrow> 'a" where
  "res_out r = fst (projr r)"

lemma res_outI: "isr r \<Longrightarrow> r = Inr (res_out r, snd (projr r))"
  by (cases r) (auto simp: res_out_def)

lemma docs_groups:
  "isr (renderGroupBy docs_env (docs_query (JNum ''1'') AND_OP) [])"
  "isr (renderProjection docs_env 0 [ProjField (field 0 ''id'') None] [] None [])"
  by code_simp+

theorem grouped_covers_projection_witness:
  "\<exists>t q. t \<in> set (res_out (renderGroupBy docs_env (docs_query (JNum ''1'') AND_OP) []))
     \<and> t @ '' AS '' @ q \<in> set (res_out (renderProjection docs_env 0 [ProjField (field 0 ''id'') None] [] None []))"
  using grouped_covers_projection [where inp = "docs_query (JNum ''1'') AND_OP" and f = "field 0 ''id''" and a = None,
      OF _ res_outI [OF docs_groups(1)]] res_outI [OF docs_groups(2)]
  by (simp add: docs_query_def)

definition wire_conditions :: "list_filter_condition list" where
  "wire_conditions = [\<lparr>lc_field = ''name'', lc_op = ''ILIKE'', lc_value = JStr ''x''\<rparr>,
     \<lparr>lc_field = ''password'', lc_op = ''='', lc_value = JStr ''x''\<rparr>]"

definition wire_options :: list_filter_options where
  "wire_options = \<lparr>lo_allowedFields = [''name''], lo_connector = None, lo_validOps = None, lo_escapeIlike = None\<rparr>"

theorem list_filters_allowlisted_witness:
  "\<exists>g. [Group [FieldValue (field 0 ''name'') ''ILIKE'' (JStr ''%x%'') AND_OP] AND_OP (Some AND_OP)] = [g] \<and> filter_operand g = AND_OP"
proof -
  have "translateFilterConditions 0 (Some wire_conditions) wire_options
      = Some [Group [FieldValue (field 0 ''name'') ''ILIKE'' (JStr ''%x%'') AND_OP] AND_OP (Some AND_OP)]"
    by code_simp
  from list_filters_allowlisted [OF this] show ?thesis by blast
qed

definition docs_search :: vector_hybrid_input where
  "docs_search = \<lparr>vh_entity = 0, vh_field = field 0 ''vec'', vh_op = ''<->'', vh_vectorLiteral = ''[1,2]'', vh_topK = 3,
     vh_oversample = None, vh_filters = [], vh_fields = [], vh_deletedRecords = None, vh_tableName = None,
     vh_lexical = None, vh_keywordBoost = None, vh_scoreAdjust = None\<rparr>"

lemma docs_search_runs: "isr (buildVectorSearchQuery docs_env docs_search)"
  by code_simp

theorem vector_search_ranks_descending_witness:
  "\<exists>pre. out_text (buildVectorSearchQuery docs_env docs_search) = pre @ '' '' @ ORDER_BY_SCORE @ '' LIMIT $2::int''"
  using vector_search_ranks_descending [OF outI [OF docs_search_runs]] by blast

end
