(* ===== verification/SchemaTypes.thy ===== *)
theory SchemaTypes
  imports JsRegex "HOL-Library.AList" "HOL-Library.Product_Lexorder" "HOL-Library.List_Lexorder" "HOL-Library.Char_ord"
begin

text \<open>
  \<open>src/schema-diff/schema-types.ts\<close>, \<open>schema-type-normalize.ts\<close> and \<open>schema-rename-heuristics.ts\<close>: the shape of a
  schema snapshot, the comparable form of a PostgreSQL type, and the pairing of columns that look renamed.

  A JavaScript object used as a map is an association list in insertion order; \<open>localeCompare\<close> compares the keys
  that \<open>collate\<close> gives.
\<close>

section \<open>Snapshots\<close>

record schema_column =
  sc_name :: string
  sc_ordinalPosition :: "int option"
  sc_dataType :: "string option"
  sc_typname :: "string option"
  sc_typeOid :: "int option"
  sc_typcategory :: "string option"
  sc_formatType :: "string option"
  sc_numericPrecision :: "int option"
  sc_numericScale :: "int option"
  sc_isNullable :: "bool option"
  sc_isPrimaryKey :: bool
  sc_isUnique :: bool
  sc_isPostgresIdentity :: bool
  sc_defaultSql :: "string option"
  sc_propertyKey :: "string option"
  sc_uniqueIndexName :: "string option"
  sc_uniqueIndexOrder :: "int option"

record schema_index =
  si_name :: string
  si_columns :: "string list"
  si_using :: string
  si_opclass :: "string option"
  si_where :: "string option"
  si_isUnique :: bool

record schema_fk =
  sf_name :: string
  sf_column :: string
  sf_refSchema :: string
  sf_refTable :: string
  sf_refColumn :: string
  sf_onDelete :: string
  sf_onUpdate :: string

record schema_partition =
  sp_column :: string
  sp_interval :: string
  sp_retention :: "string option"
  sp_keepTable :: bool
  sp_premake :: "int option"

record schema_child_of =
  so_parentTable :: string
  so_parentSchema :: string
  so_refColumn :: string
  so_parentRefColumn :: string

record schema_table =
  st_schema :: string
  st_name :: string
  st_entityClassName :: "string option"
  st_isAuditable :: bool
  st_partition :: "schema_partition option"
  st_partitionChildOf :: "schema_child_of option"
  st_indexes :: "schema_index list"
  st_foreignKeys :: "schema_fk list"
  st_columns :: "(string \<times> schema_column) list"

record schema_snapshot =
  ss_generatedAt :: string
  ss_tables :: "(string \<times> schema_table) list"

definition tableKey :: "string \<Rightarrow> string \<Rightarrow> string" where
  "tableKey schema name = schema @ ''.'' @ name"

section \<open>Comparable types\<close>

definition TIMESTAMP_ALIASES :: "string list" where
  "TIMESTAMP_ALIASES = [''timestamp'', ''timestamptz'', ''timestamp without time zone'', ''timestamp with time zone'']"

definition spatialBucket :: "string \<Rightarrow> string \<Rightarrow> string option" where
  "spatialBucket typname typcategory =
     (let n = to_lower typname
      in if typcategory = ''G'' \<or> n = ''geometry'' \<or> n = ''geography'' \<or> n = ''box2d'' \<or> n = ''box3d''
         then Some (''spatial:'' @ (if n \<noteq> [] then n else ''geometry'')) else None)"

text \<open>\<open>/vector\((\d+)\)/\<close>.\<close>

definition vector_dim_re :: re where
  "vector_dim_re = re_seq [lit ''vector('', Grp 1 (plus1 (Cls is_digit)), chr (CHR '')'')]"

definition vector_dim :: "string \<Rightarrow> string option" where
  "vector_dim s = (case re_exec vector_dim_re s of None \<Rightarrow> None | Some (l, t) \<Rightarrow> capture 1 t)"

text \<open>The names with a canonical spelling, tested in this order before the families below.\<close>

definition COMPARABLE_NAMES :: "(string \<times> string) list" where
  "COMPARABLE_NAMES = [(''int4'', ''int4''), (''integer'', ''int4''), (''int8'', ''int8''), (''bigint'', ''int8''),
     (''int2'', ''int2''), (''smallint'', ''int2''), (''bool'', ''bool''), (''boolean'', ''bool''), (''float4'', ''float4''),
     (''real'', ''float4''), (''float8'', ''float8''), (''double precision'', ''float8''), (''numeric'', ''numeric''),
     (''varchar'', ''varchar''), (''character varying'', ''varchar''), (''bpchar'', ''char''), (''char'', ''char''),
     (''character'', ''char''), (''text'', ''text''), (''uuid'', ''uuid''), (''json'', ''json''), (''jsonb'', ''jsonb'')]"

definition family_type :: "string \<Rightarrow> string \<Rightarrow> string \<Rightarrow> string" where
  "family_type typname dt fmt =
     (if typname \<in> set TIMESTAMP_ALIASES \<or> dt \<in> set TIMESTAMP_ALIASES then
        (if str_includes typname ''tz'' \<or> str_includes dt ''time zone'' \<or> str_includes fmt ''tz''
         then ''timestamptz'' else ''timestamp'')
      else if typname = ''date'' then ''date''
      else if typname = ''time'' \<or> typname = ''timetz'' then typname
      else if typname = ''vector'' \<or> starts_with typname ''vector('' \<or> fmt = ''vector'' \<or> starts_with fmt ''vector('' then
        (case (case vector_dim typname of Some d \<Rightarrow> Some d | None \<Rightarrow> vector_dim fmt) of
           Some d \<Rightarrow> ''vector('' @ d @ '')'' | None \<Rightarrow> ''vector'')
      else if typname \<noteq> [] then ''raw:'' @ typname
      else if dt \<noteq> [] then ''ischema:'' @ dt
      else if fmt \<noteq> [] then ''format:'' @ fmt
      else ''unknown'')"

definition scalar_type :: "string \<Rightarrow> string \<Rightarrow> string \<Rightarrow> string" where
  "scalar_type typname dt fmt =
     (case map_of COMPARABLE_NAMES typname of
        Some c \<Rightarrow> c
      | None \<Rightarrow> if starts_with typname ''varchar('' then ''varchar'' else family_type typname dt fmt)"

definition drop_brackets :: "string \<Rightarrow> string" where
  "drop_brackets s = take (length s - 2) s"

text \<open>\<open>s.replace(/^_/, "")\<close>.\<close>

definition drop_underscore :: "string \<Rightarrow> string" where
  "drop_underscore s = (case s of [] \<Rightarrow> [] | c # r \<Rightarrow> if c = CHR ''_'' then r else s)"

lemma ends_brackets: "ends_with s ''[]'' \<Longrightarrow> length (drop_brackets s) < length s"
  by (auto simp: ends_with_def suffix_def drop_brackets_def)

lemma length_to_lower [simp]: "length (to_lower s) = length s"
  by (simp add: to_lower_def)

function comparable :: "string \<Rightarrow> string \<Rightarrow> string \<Rightarrow> string \<Rightarrow> string" where
  "comparable rawTypname typcat rawDt rawFmt =
     (let typname = to_lower rawTypname; dt = to_lower rawDt; fmt = to_lower rawFmt
      in case spatialBucket typname typcat of
           Some s \<Rightarrow> s
         | None \<Rightarrow>
             if ends_with fmt ''[]'' then ''array:'' @ comparable (drop_brackets fmt) [] [] []
             else if ends_with typname ''[]'' then ''array:'' @ comparable (drop_brackets typname) [] [] []
             else if dt = ''array'' \<and> starts_with typname ''_'' then ''array:'' @ comparable (drop_underscore typname) [] [] []
             else scalar_type typname dt fmt)"
  by pat_completeness auto
termination
proof (relation "measure (\<lambda>(t, _, _, f). length t + length f)", goal_cases)
  case 1
  show ?case by simp
next
  case (2 t c d f)
  then show ?case using ends_brackets [of "to_lower f"] by simp
next
  case (3 t c d f)
  then show ?case using ends_brackets [of "to_lower t"] by simp
next
  case (4 t c d f)
  then have "length (drop_underscore (to_lower t)) < length (to_lower t)"
    by (cases "to_lower t") (auto simp: starts_with_def drop_underscore_def)
  then show ?case using 4 by simp
qed

declare comparable.simps [simp del]

definition opt_str :: "string option \<Rightarrow> string" where
  "opt_str x = (case x of Some s \<Rightarrow> s | None \<Rightarrow> [])"

definition comparablePgType :: "schema_column \<Rightarrow> string" where
  "comparablePgType m =
     comparable (opt_str (sc_typname m)) (opt_str (sc_typcategory m)) (opt_str (sc_dataType m)) (opt_str (sc_formatType m))"

definition typesCompatibleForRename :: "schema_column \<Rightarrow> schema_column \<Rightarrow> bool" where
  "typesCompatibleForRename a b \<longleftrightarrow>
     (comparablePgType a \<noteq> ''unknown'' \<and> comparablePgType b \<noteq> ''unknown'' \<and> comparablePgType a = comparablePgType b)
     \<or> (opt_str (sc_dataType a) \<noteq> [] \<and> opt_str (sc_typname b) \<noteq> []
        \<and> comparablePgType (a\<lparr>sc_typname := sc_dataType a\<rparr>) = comparablePgType b)
     \<or> (opt_str (sc_dataType b) \<noteq> [] \<and> opt_str (sc_typname a) \<noteq> []
        \<and> comparablePgType a = comparablePgType (b\<lparr>sc_typname := sc_dataType b\<rparr>))"

section \<open>Renames\<close>

record likely_rename =
  lr_databaseColumn :: string
  lr_entityColumn :: string
  lr_matchTier :: nat
  lr_matchRule :: string
  lr_reasons :: "string list"
  lr_suggestedSql :: string

record rename_ambiguity =
  ra_matchTier :: nat
  ra_matchRule :: string
  ra_competingEntityColumns :: "string list"
  ra_competingDatabaseColumns :: "string list"
  ra_pairs :: "(string \<times> string) list"

record rename_result =
  rr_likelyRenames :: "likely_rename list"
  rr_ambiguities :: "rename_ambiguity list"
  rr_userReviewRequired :: bool

definition RENAME_MATCH_RULE_LABELS :: "string list" where
  "RENAME_MATCH_RULE_LABELS = [''compatible_type_same_ordinal'', ''compatible_type_adjacent_ordinal'',
     ''compatible_type_ordinal_delta_2'', ''weak_untyped_entity_same_ordinal_same_nullability'',
     ''weak_untyped_entity_adjacent_ordinal_same_nullability'', ''compatible_type_ordinal_metadata_unavailable'']"

definition ordinalDelta :: "schema_column \<Rightarrow> schema_column \<Rightarrow> int option" where
  "ordinalDelta e d =
     (case (sc_ordinalPosition e, sc_ordinalPosition d) of (Some a, Some b) \<Rightarrow> Some (abs (a - b)) | _ \<Rightarrow> None)"

definition weakUntypedEntity :: "schema_column \<Rightarrow> bool" where
  "weakUntypedEntity e \<longleftrightarrow> opt_str (sc_typname e) = [] \<and> opt_str (sc_dataType e) = []"

definition sameNullability :: "schema_column \<Rightarrow> schema_column \<Rightarrow> bool" where
  "sameNullability e d \<longleftrightarrow> sc_isNullable e \<noteq> None \<and> sc_isNullable d \<noteq> None \<and> sc_isNullable e = sc_isNullable d"

definition bothPrimaryKey :: "schema_column \<Rightarrow> schema_column \<Rightarrow> bool" where
  "bothPrimaryKey e d \<longleftrightarrow> sc_isPrimaryKey e \<and> sc_isPrimaryKey d"

definition classifyRenamePair :: "schema_column \<Rightarrow> schema_column \<Rightarrow> (nat \<times> string list) option" where
  "classifyRenamePair e d =
     (let delta = ordinalDelta e d; typ = typesCompatibleForRename e d;
          ty = ''compatible_type:'' @ comparablePgType e
      in if typ \<and> delta = Some 0 then Some (0, [ty, ''same_ordinal_position''])
         else if typ \<and> delta = Some 1 then Some (1, [ty, ''adjacent_ordinal_position''])
         else if typ \<and> delta = Some 2 then Some (2, [ty, ''ordinal_delta_2''])
         else if \<not> typ \<and> weakUntypedEntity e \<and> sameNullability e d \<and> delta = Some 0 then
           Some (3, [''weak_no_entity_type_hint'', ''same_ordinal_position'', ''same_nullability''])
         else if \<not> typ \<and> weakUntypedEntity e \<and> sameNullability e d \<and> delta = Some 1 then
           Some (4, [''weak_no_entity_type_hint'', ''adjacent_ordinal_position'', ''same_nullability''])
         else if typ \<and> delta = None then Some (5, [ty, ''ordinal_metadata_unavailable''])
         else None)"

record candidate =
  ca_e :: string
  ca_d :: string
  ca_tier :: nat
  ca_reasons :: "string list"

definition col_of :: "(string \<times> schema_column) list \<Rightarrow> string \<Rightarrow> schema_column" where
  "col_of cols n = the (map_of cols n)"

definition buildOrdinalIndex :: "string list \<Rightarrow> (string \<times> schema_column) list \<Rightarrow> (int \<times> string list) list" where
  "buildOrdinalIndex onlyNames columns =
     fold (\<lambda>name m. case sc_ordinalPosition (col_of columns name) of
         None \<Rightarrow> m
       | Some i \<Rightarrow> AList.update i ((case map_of m i of Some l \<Rightarrow> l | None \<Rightarrow> []) @ [name]) m) onlyNames []"

definition collectNamesAtOrds :: "(int \<times> string list) list \<Rightarrow> int list \<Rightarrow> string list" where
  "collectNamesAtOrds idx ords = concat (map (\<lambda>i. case map_of idx i of Some l \<Rightarrow> l | None \<Rightarrow> []) ords)"

text \<open>The columns to try for an entity column: those near its ordinal and those without an ordinal.\<close>

definition insertion_order :: "'a list \<Rightarrow> 'a list" where
  "insertion_order xs = rev (remdups (rev xs))"

definition candidateDatabaseColumnsForEntity ::
  "schema_column \<Rightarrow> (string \<times> schema_column) list \<Rightarrow> (int \<times> string list) list \<Rightarrow> string list \<Rightarrow> string list" where
  "candidateDatabaseColumnsForEntity em databaseColumns dbOrdinalIndex databaseOnly =
     insertion_order
       (case sc_ordinalPosition em of
          None \<Rightarrow> databaseOnly
        | Some eo \<Rightarrow> collectNamesAtOrds dbOrdinalIndex [eo, eo - 1, eo + 1, eo - 2, eo + 2]
            @ filter (\<lambda>d. sc_ordinalPosition (col_of databaseColumns d) = None) databaseOnly)"

definition rename_candidates :: "string list \<Rightarrow> string list \<Rightarrow> (string \<times> schema_column) list \<Rightarrow> (string \<times> schema_column) list
    \<Rightarrow> candidate list" where
  "rename_candidates entityOnly databaseOnly entityColumns databaseColumns =
     insertion_order (concat (map (\<lambda>e.
       List.map_filter (\<lambda>d.
           map_option (\<lambda>(tier, rs). \<lparr>ca_e = e, ca_d = d, ca_tier = tier, ca_reasons = rs\<rparr>)
             (classifyRenamePair (col_of entityColumns e) (col_of databaseColumns d)))
         (candidateDatabaseColumnsForEntity (col_of entityColumns e) databaseColumns
            (buildOrdinalIndex databaseOnly databaseColumns) databaseOnly)) entityOnly))"

definition sortCandidatesInTier :: "(string \<Rightarrow> string) \<Rightarrow> (string \<times> schema_column) list \<Rightarrow> (string \<times> schema_column) list
    \<Rightarrow> candidate list \<Rightarrow> candidate list" where
  "sortCandidatesInTier collate entityColumns databaseColumns =
     sort_key (\<lambda>c. (if bothPrimaryKey (col_of entityColumns (ca_e c)) (col_of databaseColumns (ca_d c)) then 0 else 1 :: nat,
                    collate (ca_e c), collate (ca_d c)))"

definition competing :: "string list \<Rightarrow> string list" where
  "competing names = sort (remdups (filter (\<lambda>n. 1 < length (filter (\<lambda>m. m = n) names)) names))"

definition findAmbiguityInTier :: "(string \<Rightarrow> string) \<Rightarrow> nat \<Rightarrow> candidate list \<Rightarrow> rename_ambiguity option" where
  "findAmbiguityInTier collate tier cs =
     (let es = competing (map ca_e cs); ds = competing (map ca_d cs)
      in if es = [] \<and> ds = [] then None
         else Some \<lparr>ra_matchTier = tier, ra_matchRule = RENAME_MATCH_RULE_LABELS ! tier, ra_competingEntityColumns = es,
                    ra_competingDatabaseColumns = ds,
                    ra_pairs = sort_key (\<lambda>(e, d). (collate e, collate d)) (map (\<lambda>c. (ca_e c, ca_d c)) cs)\<rparr>)"

text \<open>The greedy pass over the sorted candidates of all tiers.\<close>

fun greedy :: "string list \<Rightarrow> string list \<Rightarrow> candidate list \<Rightarrow> candidate list" where
  "greedy usedE usedD [] = []"
| "greedy usedE usedD (c # cs) =
     (if ca_e c \<in> set usedE \<or> ca_d c \<in> set usedD then greedy usedE usedD cs
      else c # greedy (ca_e c # usedE) (ca_d c # usedD) cs)"

definition rename_of :: "string \<Rightarrow> string \<Rightarrow> candidate \<Rightarrow> likely_rename" where
  "rename_of schema table c =
     \<lparr>lr_databaseColumn = ca_d c, lr_entityColumn = ca_e c, lr_matchTier = ca_tier c,
      lr_matchRule = RENAME_MATCH_RULE_LABELS ! ca_tier c, lr_reasons = ca_reasons c,
      lr_suggestedSql = ''ALTER TABLE \"'' @ schema @ ''\".\"'' @ table @ ''\" RENAME COLUMN \"'' @ ca_d c
        @ ''\" TO \"'' @ ca_e c @ ''\";''\<rparr>"

definition findLikelyRenames :: "(string \<Rightarrow> string) \<Rightarrow> string \<Rightarrow> string \<Rightarrow> string list \<Rightarrow> string list
    \<Rightarrow> (string \<times> schema_column) list \<Rightarrow> (string \<times> schema_column) list \<Rightarrow> rename_result" where
  "findLikelyRenames collate schema table entityOnly databaseOnly entityColumns databaseColumns =
     (let cands = rename_candidates entityOnly databaseOnly entityColumns databaseColumns;
          bucket = (\<lambda>tier. filter (\<lambda>c. ca_tier c = tier) cands);
          tiers = [0..<length RENAME_MATCH_RULE_LABELS];
          ambiguities = List.map_filter (\<lambda>tier. findAmbiguityInTier collate tier (bucket tier)) tiers;
          sorted = concat (map (\<lambda>tier. sortCandidatesInTier collate entityColumns databaseColumns (bucket tier)) tiers)
      in \<lparr>rr_likelyRenames = sort_key (\<lambda>r. (lr_matchTier r, collate (lr_entityColumn r), collate (lr_databaseColumn r)))
              (map (rename_of schema table) (greedy [] [] sorted)),
          rr_ambiguities = ambiguities,
          rr_userReviewRequired = ambiguities \<noteq> []\<rparr>)"

end
