(* ===== verification/EntityAnnotations.thy ===== *)
theory EntityAnnotations
  imports EntityTypes
begin

text \<open>
  The lookup of \<open>src/meta/entity-annotation-extract.ts\<close>: the annotation of a property, searched from a class along
  its \<open>extends\<close> clauses.  The extraction of the map from TypeScript sources is the compiler's and is not modelled.
\<close>

record class_annotations =
  ca_props :: "(string \<times> annotation) list"
  ca_extendsNames :: "string list"

type_synonym annotation_map = "(string \<times> class_annotations) list"

definition unseen :: "annotation_map \<Rightarrow> string list \<Rightarrow> nat" where
  "unseen m seen = card (set (map fst m) - set seen)"

lemma unseen_less: "map_of m c = Some e \<Longrightarrow> c \<notin> set seen \<Longrightarrow> unseen m (c # seen) < unseen m seen"
proof -
  assume "map_of m c = Some e" "c \<notin> set seen"
  then have "c \<in> set (map fst m) - set seen" by (force dest: map_of_SomeD)
  moreover have "set (map fst m) - set (c # seen) = (set (map fst m) - set seen) - {c}" by auto
  ultimately show ?thesis unfolding unseen_def by (simp only:) (rule card_Diff1_less, simp_all)
qed

lemma unseen_le: "map_of m c = None \<Longrightarrow> unseen m (c # seen) = unseen m seen"
  by (auto simp: unseen_def map_of_eq_None_iff intro!: arg_cong [where f = card])

function lookup_loop :: "annotation_map \<Rightarrow> string \<Rightarrow> string list \<Rightarrow> string list \<Rightarrow> annotation option" where
  "lookup_loop m pk seen [] = None"
| "lookup_loop m pk seen (cursor # queue) =
     (if cursor \<in> set seen then lookup_loop m pk seen queue
      else case map_of m cursor of
             None \<Rightarrow> lookup_loop m pk (cursor # seen) queue
           | Some entry \<Rightarrow>
               (case map_of (ca_props entry) pk of
                  Some hit \<Rightarrow> Some hit
                | None \<Rightarrow> lookup_loop m pk (cursor # seen) (queue @ ca_extendsNames entry)))"
  by pat_completeness auto
termination
  by (relation "measures [\<lambda>(m, p, s, q). unseen m s, \<lambda>(m, p, s, q). length q]")
    (auto simp: unseen_less unseen_le)

definition lookupEntityAnnotation :: "annotation_map \<Rightarrow> string \<Rightarrow> string \<Rightarrow> annotation option" where
  "lookupEntityAnnotation m className pk = lookup_loop m pk [] [className]"

text \<open>The classes reachable along \<open>extends\<close>.\<close>

definition extends_step :: "annotation_map \<Rightarrow> string \<Rightarrow> string \<Rightarrow> bool" where
  "extends_step m c d \<longleftrightarrow> (case map_of m c of None \<Rightarrow> False | Some e \<Rightarrow> d \<in> set (ca_extendsNames e))"

definition declares :: "annotation_map \<Rightarrow> string \<Rightarrow> string \<Rightarrow> annotation \<Rightarrow> bool" where
  "declares m pk c a \<longleftrightarrow> (case map_of m c of None \<Rightarrow> False | Some e \<Rightarrow> map_of (ca_props e) pk = Some a)"

lemma lookup_sound:
  "lookup_loop m pk seen queue = Some a \<Longrightarrow> \<exists>c\<in>set queue. \<exists>d. (extends_step m)\<^sup>*\<^sup>* c d \<and> declares m pk d a"
proof (induction m pk seen queue rule: lookup_loop.induct)
  case (1 m pk seen)
  then show ?case by simp
next
  case (2 m pk seen cursor queue)
  show ?case
  proof (cases "cursor \<in> set seen")
    case True
    then show ?thesis using 2 by auto
  next
    case new: False
    show ?thesis
    proof (cases "map_of m cursor")
      case None
      then show ?thesis using 2 new by auto
    next
      case (Some e)
      show ?thesis
      proof (cases "map_of (ca_props e) pk")
        case hit: (Some b)
        then have "declares m pk cursor a" using 2(4) new Some by (simp add: declares_def)
        then show ?thesis by auto
      next
        case None
        then obtain c d where cd: "c \<in> set (queue @ ca_extendsNames e)" "(extends_step m)\<^sup>*\<^sup>* c d" "declares m pk d a"
          using 2 new Some by auto
        show ?thesis
        proof (cases "c \<in> set queue")
          case True
          then show ?thesis using cd by auto
        next
          case False
          then have "extends_step m cursor c" using cd(1) Some by (simp add: extends_step_def)
          then have "(extends_step m)\<^sup>*\<^sup>* cursor d" using cd(2) by (rule converse_rtranclp_into_rtranclp)
          then show ?thesis using cd(3) by auto
        qed
      qed
    qed
  qed
qed

text \<open>A class that the search has left behind declares nothing, and its parents are seen or queued.\<close>

definition explored :: "annotation_map \<Rightarrow> string \<Rightarrow> string list \<Rightarrow> string list \<Rightarrow> bool" where
  "explored m pk seen queue \<longleftrightarrow> (\<forall>c\<in>set seen. (\<forall>a. \<not> declares m pk c a)
     \<and> (\<forall>d. extends_step m c d \<longrightarrow> d \<in> set seen \<union> set queue))"

lemma lookup_complete:
  "lookup_loop m pk seen queue = None \<Longrightarrow> explored m pk seen queue
     \<Longrightarrow> \<exists>seen'. set seen \<union> set queue \<subseteq> set seen' \<and> explored m pk seen' []"
proof (induction m pk seen queue rule: lookup_loop.induct)
  case (1 m pk seen)
  then show ?case by auto
next
  case (2 m pk seen cursor queue)
  show ?case
  proof (cases "cursor \<in> set seen")
    case True
    then have "explored m pk seen queue" using 2(5) by (auto simp: explored_def)
    then obtain s where "set seen \<union> set queue \<subseteq> set s" "explored m pk s []" using 2(1) [OF True] 2(4) True by auto
    then show ?thesis using True by (intro exI [of _ s]) auto
  next
    case new: False
    show ?thesis
    proof (cases "map_of m cursor")
      case None
      then have "explored m pk (cursor # seen) queue"
        using 2(5) by (auto simp: explored_def declares_def extends_step_def)
      then obtain s where "set (cursor # seen) \<union> set queue \<subseteq> set s" "explored m pk s []"
        using 2(2) [OF new None] 2(4) new None by auto
      then show ?thesis by (intro exI [of _ s]) auto
    next
      case (Some e)
      then have no: "map_of (ca_props e) pk = None" using 2(4) new by (auto split: option.splits)
      then have "explored m pk (cursor # seen) (queue @ ca_extendsNames e)"
        using 2(5) Some by (auto simp: explored_def declares_def extends_step_def)
      then obtain s where "set (cursor # seen) \<union> set (queue @ ca_extendsNames e) \<subseteq> set s" "explored m pk s []"
        using 2(3) [OF new Some no] 2(4) new Some no by auto
      then show ?thesis by (intro exI [of _ s]) auto
    qed
  qed
qed

lemma explored_closed: "(extends_step m)\<^sup>*\<^sup>* c d \<Longrightarrow> explored m pk s [] \<Longrightarrow> c \<in> set s \<Longrightarrow> d \<in> set s"
  by (induction rule: rtranclp_induct) (auto simp: explored_def)

text \<open>The annotation of a property is found exactly when the class or one it extends declares the property, the
  class's own declaration wins, and the search ends even when the \<open>extends\<close> clauses are cyclic.\<close>

theorem annotation_lookup_exact:
  "(lookupEntityAnnotation m className pk \<noteq> None \<longleftrightarrow> (\<exists>d a. (extends_step m)\<^sup>*\<^sup>* className d \<and> declares m pk d a))
   \<and> {a. declares m pk className a} \<subseteq> set_option (lookupEntityAnnotation m className pk)
   \<and> set_option (lookupEntityAnnotation m className pk) \<subseteq> {a. \<exists>d. (extends_step m)\<^sup>*\<^sup>* className d \<and> declares m pk d a}"
proof (intro conjI)
  show "{a. declares m pk className a} \<subseteq> set_option (lookupEntityAnnotation m className pk)"
    by (auto simp: lookupEntityAnnotation_def declares_def split: option.splits)
  show sound: "set_option (lookupEntityAnnotation m className pk)
      \<subseteq> {a. \<exists>d. (extends_step m)\<^sup>*\<^sup>* className d \<and> declares m pk d a}"
    using lookup_sound [of m pk "[]" "[className]"] by (auto simp: lookupEntityAnnotation_def)
  show "lookupEntityAnnotation m className pk \<noteq> None \<longleftrightarrow> (\<exists>d a. (extends_step m)\<^sup>*\<^sup>* className d \<and> declares m pk d a)"
  proof
    assume "lookupEntityAnnotation m className pk \<noteq> None"
    then show "\<exists>d a. (extends_step m)\<^sup>*\<^sup>* className d \<and> declares m pk d a" using sound by fastforce
  next
    assume "\<exists>d a. (extends_step m)\<^sup>*\<^sup>* className d \<and> declares m pk d a"
    then obtain d a where d: "(extends_step m)\<^sup>*\<^sup>* className d" "declares m pk d a" by blast
    show "lookupEntityAnnotation m className pk \<noteq> None"
    proof
      assume "lookupEntityAnnotation m className pk = None"
      then obtain s where s: "className \<in> set s" "explored m pk s []"
        using lookup_complete [of m pk "[]" "[className]"] by (auto simp: lookupEntityAnnotation_def explored_def)
      then have "d \<in> set s" using explored_closed [OF d(1)] by blast
      then show False using s(2) d(2) by (auto simp: explored_def)
    qed
  qed
qed

end
