(* ===== verification/SchemaSnapshots.thy ===== *)
theory SchemaSnapshots
  imports SchemaTypes EntityAnnotations EntityPersistence
begin

text \<open>
  \<open>src/schema-diff/build-entity-snapshot.ts\<close> and \<open>build-database-snapshot.ts\<close>: the snapshot of the entities and
  the snapshot of the database.  The catalog of the database is a record of the answers to the queries of the
  code; the time of a snapshot is an argument.
\<close>

section \<open>The snapshot of the entities\<close>

definition index_method_text :: "index_method \<Rightarrow> string" where
  "index_method_text u = (case u of Btree \<Rightarrow> ''btree'' | Hash \<Rightarrow> ''hash'' | Gin \<Rightarrow> ''gin'' | Gist \<Rightarrow> ''gist''
     | Spgist \<Rightarrow> ''spgist'' | Brin \<Rightarrow> ''brin'' | Hnsw \<Rightarrow> ''hnsw'')"

definition fk_action_text :: "fk_action \<Rightarrow> string" where
  "fk_action_text a = (case a of Restrict \<Rightarrow> ''restrict'' | Cascade \<Rightarrow> ''cascade'' | SetNull \<Rightarrow> ''set_null''
     | SetDefault \<Rightarrow> ''set_default'' | NoAction \<Rightarrow> ''no_action'')"

definition unique_index_name :: "string \<Rightarrow> column_meta \<Rightarrow> string" where
  "unique_index_name table c =
     (case cm_uniqueIndexName c of Some n \<Rightarrow> n | None \<Rightarrow> table @ ''_'' @ cm_sqlName c @ ''_uq'')"

definition uniqueGroups :: "entity_meta \<Rightarrow> schema_index list" where
  "uniqueGroups meta =
     (let add = (\<lambda>c gs. let name = unique_index_name (em_tableName meta) c
                        in AList.update name ((case map_of gs name of Some g \<Rightarrow> g | None \<Rightarrow> [])
                             @ [(cm_sqlName c, case cm_uniqueIndexOrder c of Some i \<Rightarrow> i | None \<Rightarrow> 0)]) gs);
          groups = fold add (filter cm_isUnique (map snd (em_columns meta))) []
      in map (\<lambda>(name, cols). \<lparr>si_name = name, si_columns = map fst (sort_key snd cols), si_using = ''btree'',
                si_opclass = None, si_where = None, si_isUnique = True\<rparr>) groups)"

definition synchronizable_name :: "synchronizable_type \<Rightarrow> string" where
  "synchronizable_name s = (case s of LAST_SYNCED_AT \<Rightarrow> ''LAST_SYNCED_AT'')"

definition snapshot_hints :: "annotation_map \<Rightarrow> entity_meta \<Rightarrow> string \<Rightarrow> column_meta \<Rightarrow> type_hints" where
  "snapshot_hints annots meta sqlName c =
     \<lparr>h_sqlName = sqlName, h_propertyKey = cm_propertyKey c, h_isKey = cm_isKey c, h_explicitPgType = cm_pgType c,
      h_length = cm_length c, h_precision = cm_precision c, h_scale = cm_scale c,
      h_auditableType = map_option auditable_name (cm_auditableType c),
      h_deletableType = map_option deletable_name (cm_deletableType c),
      h_synchronizableType = map_option synchronizable_name (cm_synchronizableType c),
      h_annotation = lookupEntityAnnotation annots (em_entityClassName meta) (cm_propertyKey c)\<rparr>"

text \<open>\<open>collectEntityTypeWarnings\<close>, with the metadata of the registry read already.\<close>

definition collectEntityTypeWarnings :: "entity_meta list \<Rightarrow> annotation_map \<Rightarrow> (string, warning_kind list) res" where
  "collectEntityTypeWarnings metas annots =
     res_bind (map_res (\<lambda>meta. map_res (\<lambda>(sqlName, c).
         let hints = snapshot_hints annots meta sqlName c
         in res_bind (resolvePgTypeForSchema hints) (columnTypeWarnings hints)) (em_columns meta)) metas)
       (\<lambda>ws. Inr (concat (concat ws)))"

definition column_hint :: "annotation_map option \<Rightarrow> entity_meta \<Rightarrow> string \<Rightarrow> column_meta \<Rightarrow> (string, string) res" where
  "column_hint annotations meta sqlName c =
     (case annotations of
        Some annots \<Rightarrow> resolvePgTypeForSchema (snapshot_hints annots meta sqlName c)
      | None \<Rightarrow> Inr (case cm_pgType c of Some t \<Rightarrow> t | None \<Rightarrow> cm_inferredPgType c))"

definition snapshot_column :: "nat \<Rightarrow> string \<Rightarrow> string \<Rightarrow> column_meta \<Rightarrow> schema_column" where
  "snapshot_column ord hint sqlName c =
     \<lparr>sc_name = sqlName, sc_ordinalPosition = Some (int ord), sc_dataType = Some hint, sc_typname = Some hint,
      sc_typeOid = None, sc_typcategory = None, sc_formatType = None, sc_numericPrecision = None,
      sc_numericScale = None, sc_isNullable = Some (cm_nullable c), sc_isPrimaryKey = cm_isKey c,
      sc_isUnique = cm_isUnique c, sc_isPostgresIdentity = cm_usePostgresIdentity c,
      sc_defaultSql = cm_defaultSql c, sc_propertyKey = Some (cm_propertyKey c),
      sc_uniqueIndexName = None, sc_uniqueIndexOrder = None\<rparr>"

fun snapshot_columns :: "annotation_map option \<Rightarrow> entity_meta \<Rightarrow> nat \<Rightarrow> (string \<times> column_meta) list
    \<Rightarrow> (string, (string \<times> schema_column) list) res" where
  "snapshot_columns annotations meta ord [] = Inr []"
| "snapshot_columns annotations meta ord ((sqlName, c) # cs) =
     res_bind (column_hint annotations meta sqlName c) (\<lambda>hint.
     res_bind (snapshot_columns annotations meta (Suc ord) cs) (\<lambda>rest.
       Inr ((sqlName, snapshot_column ord hint sqlName c) # rest)))"

definition snapshot_index :: "index_meta \<Rightarrow> schema_index" where
  "snapshot_index ix = \<lparr>si_name = ix_name ix, si_columns = ix_columns ix, si_using = index_method_text (ix_using ix),
     si_opclass = ix_opclass ix, si_where = ix_where ix, si_isUnique = False\<rparr>"

definition snapshot_fk :: "foreign_key_meta \<Rightarrow> schema_fk" where
  "snapshot_fk f = \<lparr>sf_name = fk_name f, sf_column = fk_column f, sf_refSchema = fk_refSchema f,
     sf_refTable = fk_refTable f, sf_refColumn = fk_refColumn f, sf_onDelete = fk_action_text (fk_onDelete f),
     sf_onUpdate = fk_action_text (fk_onUpdate f)\<rparr>"

definition snapshot_table :: "annotation_map option \<Rightarrow> entity_meta \<Rightarrow> (string, schema_table) res" where
  "snapshot_table annotations meta =
     res_bind (snapshot_columns annotations meta 1 (em_columns meta)) (\<lambda>columns.
       Inr \<lparr>st_schema = em_tableSchema meta, st_name = em_tableName meta, st_entityClassName = Some (em_entityClassName meta),
            st_isAuditable = (em_isAuditable meta = Some True),
            st_partition = map_option (\<lambda>p. \<lparr>sp_column = pm_column p, sp_interval = pm_interval p,
                sp_retention = pm_retention p, sp_keepTable = pm_keepTable p, sp_premake = pm_premake p\<rparr>) (em_partition meta),
            st_partitionChildOf = map_option (\<lambda>p. \<lparr>so_parentTable = ch_parentTable p, so_parentSchema = ch_parentSchema p,
                so_refColumn = ch_refColumn p, so_parentRefColumn = ch_parentRefColumn p\<rparr>) (em_partitionChildOf meta),
            st_indexes = map snapshot_index (em_indexes meta) @ uniqueGroups meta,
            st_foreignKeys = map snapshot_fk (em_foreignKeys meta), st_columns = columns\<rparr>)"

fun snapshot_tables :: "annotation_map option \<Rightarrow> entity_meta list \<Rightarrow> (string \<times> schema_table) list
    \<Rightarrow> (string, (string \<times> schema_table) list) res" where
  "snapshot_tables annotations [] tables = Inr tables"
| "snapshot_tables annotations (m # ms) tables =
     res_bind (snapshot_table annotations m) (\<lambda>t.
       snapshot_tables annotations ms (AList.update (tableKey (em_tableSchema m) (em_tableName m)) t tables))"

definition buildEntitySnapshot :: "entity_meta list \<Rightarrow> annotation_map option \<Rightarrow> string \<Rightarrow> (string, schema_snapshot) res" where
  "buildEntitySnapshot metas annotations generatedAt =
     res_bind (snapshot_tables annotations metas []) (\<lambda>tables.
       Inr \<lparr>ss_generatedAt = generatedAt, ss_tables = tables\<rparr>)"

section \<open>The snapshot of the database\<close>

record pg_col_row =
  pg_column_name :: string
  pg_ordinal_position :: int
  pg_is_nullable :: bool
  pg_typname :: string
  pg_type_oid :: int
  pg_typcategory :: string
  pg_format_type :: string
  pg_numeric_precision :: "int option"
  pg_numeric_scale :: "int option"

record pg_index_row =
  pi_name :: string
  pi_using :: string
  pi_is_unique :: bool
  pi_def :: string

record pg_fk_row =
  pf_name :: string
  pf_column :: string
  pf_ref_schema :: string
  pf_ref_table :: string
  pf_ref_column :: string
  pf_on_delete :: string
  pf_on_update :: string

text \<open>The answers of the catalog, by schema and table.\<close>

record catalog =
  cat_pks :: "string \<Rightarrow> string list \<Rightarrow> (string \<times> string \<times> string) list"
  cat_exists :: "string \<Rightarrow> string \<Rightarrow> bool"
  cat_columns :: "string \<Rightarrow> string \<Rightarrow> pg_col_row list"
  cat_indexes :: "string \<Rightarrow> string \<Rightarrow> pg_index_row list"
  cat_fks :: "string \<Rightarrow> string \<Rightarrow> pg_fk_row list"

definition loadPrimaryKeyColumns :: "catalog \<Rightarrow> string \<Rightarrow> string list \<Rightarrow> string list" where
  "loadPrimaryKeyColumns db schema tableNames =
     (if tableNames = [] then []
      else map (\<lambda>(s, t, c). s @ ''.'' @ t @ ''.'' @ c) (cat_pks db schema tableNames))"

text \<open>\<open>/\(([^)]*)\)/\<close>, \<open>/^"|"$/g\<close>, \<open>/\s+(asc|desc|nulls\s+\w+|opclass.*)$/i\<close>, \<open>/\bWHERE\s+(.+)$/is\<close>.\<close>

definition column_list_re :: re where
  "column_list_re = re_seq [chr (CHR ''(''), Grp 1 (Star (Cls (\<lambda>c. c \<noteq> CHR '')''))), chr (CHR '')'')]"

definition edge_quotes_re :: re where
  "edge_quotes_re = re_alt [re_seq [Bol, chr (CHR ''\"'')], re_seq [chr (CHR ''\"''), Eol]]"

definition index_suffix_re :: re where
  "index_suffix_re = re_seq [ws1, re_alt [lit_ci ''asc'', lit_ci ''desc'',
     re_seq [lit_ci ''nulls'', ws1, plus1 (Cls is_word)], re_seq [lit_ci ''opclass'', Star dot]], Eol]"

definition where_re :: re where
  "where_re = re_seq [WordB, lit_ci ''WHERE'', ws1, Grp 1 (plus1 any_char), Eol]"

definition index_column :: "string \<Rightarrow> string" where
  "index_column s = re_replace_first index_suffix_re [] (re_remove_all edge_quotes_re (trim s))"

definition parseIndexColumns :: "string \<Rightarrow> string list" where
  "parseIndexColumns def =
     (case re_exec column_list_re def of
        None \<Rightarrow> []
      | Some (l, t) \<Rightarrow> filter (\<lambda>s. s \<noteq> []) (map index_column (split_on (CHR '','') (the (capture 1 t)))))"

definition parseIndexPredicate :: "string \<Rightarrow> string option" where
  "parseIndexPredicate def =
     (case re_exec where_re def of None \<Rightarrow> None | Some (l, t) \<Rightarrow> map_option trim (capture 1 t))"

definition FK_ACTIONS :: "(string \<times> string) list" where
  "FK_ACTIONS = [(''a'', ''no_action''), (''r'', ''restrict''), (''c'', ''cascade''), (''n'', ''set_null''), (''d'', ''set_default'')]"

definition fkAction :: "string \<Rightarrow> string" where
  "fkAction code = (case map_of FK_ACTIONS code of Some a \<Rightarrow> a | None \<Rightarrow> code)"

definition database_column :: "string list \<Rightarrow> string \<Rightarrow> string \<Rightarrow> pg_col_row \<Rightarrow> schema_column" where
  "database_column pkQualified schema name row =
     \<lparr>sc_name = pg_column_name row, sc_ordinalPosition = Some (pg_ordinal_position row), sc_dataType = Some (pg_typname row),
      sc_typname = Some (pg_typname row), sc_typeOid = Some (pg_type_oid row), sc_typcategory = Some (pg_typcategory row),
      sc_formatType = Some (pg_format_type row), sc_numericPrecision = pg_numeric_precision row,
      sc_numericScale = pg_numeric_scale row, sc_isNullable = Some (pg_is_nullable row),
      sc_isPrimaryKey = (schema @ ''.'' @ name @ ''.'' @ pg_column_name row \<in> set pkQualified),
      sc_isUnique = False, sc_isPostgresIdentity = False, sc_defaultSql = None, sc_propertyKey = None,
      sc_uniqueIndexName = None, sc_uniqueIndexOrder = None\<rparr>"

definition database_table :: "catalog \<Rightarrow> string list \<Rightarrow> string \<Rightarrow> string \<Rightarrow> schema_table" where
  "database_table db pkQualified schema name =
     \<lparr>st_schema = schema, st_name = name, st_entityClassName = None, st_isAuditable = False, st_partition = None,
      st_partitionChildOf = None,
      st_indexes = map (\<lambda>r. \<lparr>si_name = pi_name r, si_columns = parseIndexColumns (pi_def r), si_using = pi_using r,
          si_opclass = None, si_where = parseIndexPredicate (pi_def r), si_isUnique = pi_is_unique r\<rparr>) (cat_indexes db schema name),
      st_foreignKeys = map (\<lambda>r. \<lparr>sf_name = pf_name r, sf_column = pf_column r, sf_refSchema = pf_ref_schema r,
          sf_refTable = pf_ref_table r, sf_refColumn = pf_ref_column r, sf_onDelete = fkAction (pf_on_delete r),
          sf_onUpdate = fkAction (pf_on_update r)\<rparr>) (cat_fks db schema name),
      st_columns = fold (\<lambda>r. AList.update (pg_column_name r) (database_column pkQualified schema name r))
          (cat_columns db schema name) []\<rparr>"

definition tables_by_schema :: "(string \<times> string) list \<Rightarrow> (string \<times> string list) list" where
  "tables_by_schema tables =
     fold (\<lambda>(schema, name) m. AList.update schema ((case map_of m schema of Some l \<Rightarrow> l | None \<Rightarrow> []) @ [name]) m) tables []"

definition buildDatabaseSnapshot :: "catalog \<Rightarrow> (string \<times> string) list \<Rightarrow> string \<Rightarrow> schema_snapshot" where
  "buildDatabaseSnapshot db tables generatedAt =
     (let pkQualified = concat (map (\<lambda>(schema, names). loadPrimaryKeyColumns db schema (insertion_order names))
                                    (tables_by_schema tables))
      in \<lparr>ss_generatedAt = generatedAt,
          ss_tables = fold (\<lambda>(schema, name). AList.update (tableKey schema name) (database_table db pkQualified schema name))
            (filter (\<lambda>(schema, name). cat_exists db schema name) tables) []\<rparr>)"

end
