(* ===== verification/SchemaDiff.thy ===== *)
theory SchemaDiff
  imports SchemaSnapshots PatchNaming
begin

text \<open>
  \<open>src/schema-diff/schema-snapshot.ts\<close>, \<open>src/migrations/drift.ts\<close> and the diff functions of \<open>patch-naming.ts\<close>: the
  comparison of the entities with the database, the drift check, and the name of a patch.
\<close>

record type_mismatch =
  tm_column :: string
  tm_entityComparable :: string
  tm_databaseComparable :: string
  tm_entityType :: "string option"
  tm_databaseType :: "string option"
  tm_entityTypname :: "string option"
  tm_databaseTypname :: "string option"

record null_mismatch =
  nm_column :: string
  nm_entityNullable :: bool
  nm_databaseNullable :: bool

record index_mismatch =
  im_name :: string
  im_entityUsing :: string
  im_databaseUsing :: string
  im_entityColumns :: "string list"
  im_databaseColumns :: "string list"

record fk_mismatch =
  fm_name :: string
  fm_entityRef :: string
  fm_databaseRef :: string
  fm_entityOnDelete :: string
  fm_databaseOnDelete :: string

record table_diff =
  td_onlyInEntityColumns :: "string list"
  td_onlyInDatabaseColumns :: "string list"
  td_likelyRenames :: "likely_rename list"
  td_userReviewRequired :: bool
  td_ambiguities :: "rename_ambiguity list"
  td_typeMismatches :: "type_mismatch list"
  td_nullabilityMismatches :: "null_mismatch list"
  td_onlyInEntityIndexes :: "string list"
  td_onlyInDatabaseIndexes :: "string list"
  td_indexMismatches :: "index_mismatch list"
  td_onlyInEntityForeignKeys :: "string list"
  td_onlyInDatabaseForeignKeys :: "string list"
  td_foreignKeyMismatches :: "fk_mismatch list"

record schema_diff =
  sd_generatedAt :: string
  sd_onlyInEntityTables :: "string list"
  sd_onlyInDatabaseTables :: "string list"
  sd_userReviewRequired :: bool
  sd_tables :: "(string \<times> table_diff) list"

section \<open>Comparison\<close>

definition only_in :: "(string \<times> 'a) list \<Rightarrow> (string \<times> 'b) list \<Rightarrow> string list" where
  "only_in xs ys = filter (\<lambda>k. k \<notin> set (map fst ys)) (map fst xs)"

definition type_mismatch_of :: "string \<Rightarrow> schema_column \<Rightarrow> schema_column \<Rightarrow> type_mismatch list" where
  "type_mismatch_of col ec dc =
     (let eComp = comparablePgType ec; dComp = comparablePgType dc
      in if eComp \<noteq> ''unknown'' \<and> eComp \<noteq> dComp then
           [\<lparr>tm_column = col, tm_entityComparable = eComp, tm_databaseComparable = dComp, tm_entityType = sc_dataType ec,
             tm_databaseType = (case sc_dataType dc of Some t \<Rightarrow> Some t | None \<Rightarrow> sc_formatType dc),
             tm_entityTypname = sc_typname ec, tm_databaseTypname = sc_typname dc\<rparr>]
         else [])"

definition null_mismatch_of :: "string \<Rightarrow> schema_column \<Rightarrow> schema_column \<Rightarrow> null_mismatch list" where
  "null_mismatch_of col ec dc =
     (case (sc_isNullable ec, sc_isNullable dc) of
        (Some a, Some b) \<Rightarrow> if a \<noteq> b then [\<lparr>nm_column = col, nm_entityNullable = a, nm_databaseNullable = b\<rparr>] else []
      | _ \<Rightarrow> [])"

text \<open>\<open>w.replace(/[\s()]+/g, "").toLowerCase()\<close>.\<close>

definition pred_noise_re :: re where
  "pred_noise_re = plus1 (Cls (\<lambda>c. js_ws c \<or> c = CHR ''('' \<or> c = CHR '')''))"

definition normWhere :: "string option \<Rightarrow> string" where
  "normWhere w = to_lower (re_remove_all pred_noise_re (opt_str w))"

definition equivIndex :: "schema_index \<Rightarrow> schema_index \<Rightarrow> bool" where
  "equivIndex ei di \<longleftrightarrow> si_isUnique ei = si_isUnique di \<and> si_using ei = si_using di \<and> si_columns ei = si_columns di
     \<and> normWhere (si_where ei) = normWhere (si_where di)"

text \<open>\<open>new Map(list.map(x => [x.name, x]))\<close>.\<close>

definition by_key :: "('a \<Rightarrow> string) \<Rightarrow> 'a list \<Rightarrow> (string \<times> 'a) list" where
  "by_key key xs = fold (\<lambda>x. AList.update (key x) x) xs []"

definition missing_indexes :: "(string \<times> schema_index) list \<Rightarrow> (string \<times> schema_index) list \<Rightarrow> string list" where
  "missing_indexes eIdx dIdx =
     map fst (filter (\<lambda>(k, ei). k \<notin> set (map fst dIdx) \<and> \<not> list_ex (\<lambda>(_, di). equivIndex ei di) dIdx) eIdx)"

definition index_mismatch_of :: "(string \<times> schema_index) list \<Rightarrow> string \<times> schema_index \<Rightarrow> index_mismatch option" where
  "index_mismatch_of dIdx p =
     (case p of (nm, ei) \<Rightarrow>
        (case map_of dIdx nm of
           None \<Rightarrow> None
         | Some di \<Rightarrow>
             if si_using ei \<noteq> si_using di \<or> si_columns ei \<noteq> si_columns di \<or> opt_str (si_where ei) \<noteq> opt_str (si_where di) then
               Some \<lparr>im_name = nm, im_entityUsing = si_using ei, im_databaseUsing = si_using di,
                     im_entityColumns = si_columns ei, im_databaseColumns = si_columns di\<rparr>
             else None))"

definition fk_ref :: "schema_fk \<Rightarrow> string" where
  "fk_ref f = sf_refSchema f @ ''.'' @ sf_refTable f @ ''.'' @ sf_refColumn f"

definition fk_mismatch_of :: "(string \<times> schema_fk) list \<Rightarrow> string \<times> schema_fk \<Rightarrow> fk_mismatch option" where
  "fk_mismatch_of dFk p =
     (case p of (nm, ef) \<Rightarrow>
        (case map_of dFk nm of
           None \<Rightarrow> None
         | Some df \<Rightarrow>
             if fk_ref ef \<noteq> fk_ref df \<or> sf_onDelete ef \<noteq> sf_onDelete df \<or> sf_onUpdate ef \<noteq> sf_onUpdate df then
               Some \<lparr>fm_name = nm, fm_entityRef = fk_ref ef, fm_databaseRef = fk_ref df,
                     fm_entityOnDelete = sf_onDelete ef, fm_databaseOnDelete = sf_onDelete df\<rparr>
             else None))"

definition table_renames :: "(string \<Rightarrow> string) \<Rightarrow> schema_table \<Rightarrow> schema_table \<Rightarrow> rename_result" where
  "table_renames collate et dt =
     findLikelyRenames collate (st_schema et) (st_name et) (only_in (st_columns et) (st_columns dt))
       (only_in (st_columns dt) (st_columns et)) (st_columns et) (st_columns dt)"

definition compare_tables :: "(string \<Rightarrow> string) \<Rightarrow> schema_table \<Rightarrow> schema_table \<Rightarrow> table_diff" where
  "compare_tables collate et dt =
     (let rh = table_renames collate et dt;
          renamed = (if rr_userReviewRequired rh then [] else rr_likelyRenames rh);
          shared = filter (\<lambda>(c, _). c \<in> set (map fst (st_columns dt))) (st_columns et);
          eIdx = by_key si_name (st_indexes et); dIdx = by_key si_name (st_indexes dt);
          eFk = by_key sf_name (st_foreignKeys et); dFk = by_key sf_name (st_foreignKeys dt)
      in \<lparr>td_onlyInEntityColumns = filter (\<lambda>c. c \<notin> set (map lr_entityColumn renamed)) (only_in (st_columns et) (st_columns dt)),
          td_onlyInDatabaseColumns = filter (\<lambda>c. c \<notin> set (map lr_databaseColumn renamed)) (only_in (st_columns dt) (st_columns et)),
          td_likelyRenames = rr_likelyRenames rh, td_userReviewRequired = rr_userReviewRequired rh,
          td_ambiguities = rr_ambiguities rh,
          td_typeMismatches = concat (map (\<lambda>(c, ec). type_mismatch_of c ec (col_of (st_columns dt) c)) shared),
          td_nullabilityMismatches = concat (map (\<lambda>(c, ec). null_mismatch_of c ec (col_of (st_columns dt) c)) shared),
          td_onlyInEntityIndexes = missing_indexes eIdx dIdx,
          td_onlyInDatabaseIndexes = only_in dIdx eIdx,
          td_indexMismatches = List.map_filter (index_mismatch_of dIdx) eIdx,
          td_onlyInEntityForeignKeys = only_in eFk dFk,
          td_onlyInDatabaseForeignKeys = only_in dFk eFk,
          td_foreignKeyMismatches = List.map_filter (fk_mismatch_of dFk) eFk\<rparr>)"

text \<open>Whether a table gets an entry; objects that only the database has do not count, except columns.\<close>

definition has_diff :: "table_diff \<Rightarrow> bool" where
  "has_diff t \<longleftrightarrow> td_onlyInEntityColumns t \<noteq> [] \<or> td_onlyInDatabaseColumns t \<noteq> [] \<or> td_likelyRenames t \<noteq> []
     \<or> td_ambiguities t \<noteq> [] \<or> td_typeMismatches t \<noteq> [] \<or> td_nullabilityMismatches t \<noteq> []
     \<or> td_onlyInEntityIndexes t \<noteq> [] \<or> td_indexMismatches t \<noteq> [] \<or> td_onlyInEntityForeignKeys t \<noteq> []
     \<or> td_foreignKeyMismatches t \<noteq> []"

definition shared_tables :: "schema_snapshot \<Rightarrow> schema_snapshot \<Rightarrow> (string \<times> schema_table \<times> schema_table) list" where
  "shared_tables e d = List.map_filter (\<lambda>(k, et). map_option (\<lambda>dt. (k, et, dt)) (map_of (ss_tables d) k)) (ss_tables e)"

definition compareSnapshots :: "(string \<Rightarrow> string) \<Rightarrow> string \<Rightarrow> schema_snapshot \<Rightarrow> schema_snapshot \<Rightarrow> schema_diff" where
  "compareSnapshots collate now e d =
     (let diffs = map (\<lambda>(k, et, dt). (k, compare_tables collate et dt)) (shared_tables e d)
      in \<lparr>sd_generatedAt = now,
          sd_onlyInEntityTables = only_in (ss_tables e) (ss_tables d),
          sd_onlyInDatabaseTables = only_in (ss_tables d) (ss_tables e),
          sd_userReviewRequired = list_ex (\<lambda>(_, t). td_userReviewRequired t) diffs,
          sd_tables = filter (\<lambda>(_, t). has_diff t) diffs\<rparr>)"

section \<open>Drift\<close>

definition isDriftClean :: "schema_diff \<Rightarrow> bool" where
  "isDriftClean diff \<longleftrightarrow> sd_onlyInEntityTables diff = []
     \<and> list_all (\<lambda>(_, t). td_onlyInEntityColumns t = [] \<and> td_likelyRenames t = [] \<and> td_typeMismatches t = []
          \<and> td_nullabilityMismatches t = [] \<and> td_onlyInEntityIndexes t = [] \<and> td_indexMismatches t = []
          \<and> td_onlyInEntityForeignKeys t = [] \<and> td_foreignKeyMismatches t = []) (sd_tables diff)"

definition checkDrift :: "(string \<Rightarrow> string) \<Rightarrow> string \<Rightarrow> entity_meta list \<Rightarrow> catalog \<Rightarrow> annotation_map option
    \<Rightarrow> (string, schema_diff) res" where
  "checkDrift collate now metas db annotations =
     res_bind (buildEntitySnapshot metas annotations now) (\<lambda>e.
       Inr (compareSnapshots collate now e
              (buildDatabaseSnapshot db (map (\<lambda>m. (em_tableSchema m, em_tableName m)) metas) now)))"

section \<open>The name of a patch\<close>

definition tables_with :: "(table_diff \<Rightarrow> bool) \<Rightarrow> schema_diff \<Rightarrow> string list" where
  "tables_with p diff = map fst (filter (\<lambda>(_, t). p t) (sd_tables diff))"

definition patchSlugFromDiff :: "schema_diff \<Rightarrow> string" where
  "patchSlugFromDiff diff =
     (let alter = tables_with (\<lambda>t. td_onlyInEntityColumns t \<noteq> []) diff;
          renames = tables_with (\<lambda>t. td_likelyRenames t \<noteq> []) diff;
          drift = tables_with (\<lambda>t. td_typeMismatches t \<noteq> [] \<or> td_nullabilityMismatches t \<noteq> []) diff
      in if sd_onlyInEntityTables diff \<noteq> [] then
           slugifyPatchSegment (''create_'' @ join ''__'' (sd_onlyInEntityTables diff))
         else if alter \<noteq> [] then slugifyPatchSegment (''addcols_'' @ join ''__'' alter)
         else if renames \<noteq> [] then slugifyPatchSegment (''rename_'' @ join ''__'' renames)
         else if drift \<noteq> [] then slugifyPatchSegment (''drift_'' @ join ''__'' drift)
         else ''noop'')"

definition buildPatchFilename :: "schema_diff \<Rightarrow> utc_date \<Rightarrow> string" where
  "buildPatchFilename diff d = utcTimestampForFilename d @ ''_'' @ patchSlugFromDiff diff @ ''.sql''"

end
