(* ===== verification/EmitPatch.thy ===== *)
theory EmitPatch
  imports SchemaDiff
begin

text \<open>
  \<open>src/schema-diff/emit-sql-patch.ts\<close>: the SQL patch for a diff.  The patch is built as four lists of lines (safe,
  no-transaction, review, warnings) that are put together under the pragmas that the engine reads.

  The three characters of the templates outside Latin-1 are their UTF-8 bytes, as in the file that is written.
\<close>

definition q_ident :: "string \<Rightarrow> string" where
  "q_ident s = ''\"'' @ replace_char (CHR ''\"'') ''\"\"'' s @ ''\"''"

definition nonempty_or :: "string \<Rightarrow> string \<Rightarrow> string" where
  "nonempty_or s d = (if s \<noteq> [] then s else d)"

definition coalesce :: "'a option list \<Rightarrow> 'a option" where
  "coalesce xs = (case filter (\<lambda>x. x \<noteq> None) xs of [] \<Rightarrow> None | x # _ \<Rightarrow> x)"

definition entityPgType :: "schema_column \<Rightarrow> string" where
  "entityPgType col =
     nonempty_or (case coalesce [sc_formatType col, sc_typname col, sc_dataType col] of None \<Rightarrow> [] | Some t \<Rightarrow> trim t) ''text''"

definition columnTypeDdl :: "schema_column \<Rightarrow> string" where
  "columnTypeDdl col = (if sc_isPostgresIdentity col then ''bigint generated always as identity'' else entityPgType col)"

definition defaultClause :: "schema_column \<Rightarrow> string" where
  "defaultClause col =
     (if opt_str (sc_defaultSql col) = [] then []
      else if sc_isPostgresIdentity col then []
      else '' DEFAULT '' @ opt_str (sc_defaultSql col))"

definition nullClause :: "schema_column \<Rightarrow> string" where
  "nullClause col =
     (if sc_isNullable col = Some True then []
      else if sc_isNullable col = Some False then '' NOT NULL''
      else if sc_isPrimaryKey col \<or> sc_isUnique col then '' NOT NULL''
      else [])"

text \<open>\<open>/[^a-zA-Z0-9_]/g\<close>; the runs of underscores are those of the patch names.\<close>

definition non_word_re :: re where
  "non_word_re = Cls (\<lambda>c. \<not> is_word c)"

definition slugifyIdent :: "string \<Rightarrow> string" where
  "slugifyIdent s =
     nonempty_or (take 63 (re_replace_all us_run_re (\<lambda>_ _. ''_'') (re_replace_all non_word_re (\<lambda>_ _. ''_'') s))) ''uq''"

definition fq_name :: "schema_table \<Rightarrow> string" where
  "fq_name t = q_ident (st_schema t) @ ''.'' @ q_ident (st_name t)"

definition indexDdl :: "schema_index \<Rightarrow> schema_table \<Rightarrow> bool \<Rightarrow> string" where
  "indexDdl ix t concurrently =
     (let cols = join '', '' (map (\<lambda>c. if opt_str (si_opclass ix) \<noteq> [] then q_ident c @ '' '' @ opt_str (si_opclass ix) else q_ident c)
                                (si_columns ix));
          unique = (if si_isUnique ix then ''UNIQUE '' else []);
          using_clause = (if si_using ix = ''btree'' then [] else '' USING '' @ si_using ix);
          where_clause = (if opt_str (si_where ix) \<noteq> [] then '' WHERE '' @ opt_str (si_where ix) else []);
          conc = (if concurrently then '' CONCURRENTLY'' else [])
      in ''CREATE '' @ unique @ ''INDEX'' @ conc @ '' IF NOT EXISTS '' @ q_ident (slugifyIdent (si_name ix)) @ '' ON ''
         @ fq_name t @ using_clause @ '' ('' @ cols @ '')'' @ where_clause @ '';'')"

definition FK_ACTION_SQL :: "(string \<times> string) list" where
  "FK_ACTION_SQL = [(''restrict'', ''RESTRICT''), (''cascade'', ''CASCADE''), (''set_null'', ''SET NULL''),
     (''set_default'', ''SET DEFAULT''), (''no_action'', ''NO ACTION'')]"

definition fkActionSql :: "string \<Rightarrow> string" where
  "fkActionSql action = (case map_of FK_ACTION_SQL action of Some a \<Rightarrow> a | None \<Rightarrow> to_upper action)"

definition bool_str :: "bool \<Rightarrow> string" where
  "bool_str b = (if b then ''true'' else ''false'')"

text \<open>A single quote of the emitted SQL.\<close>

definition sq :: string where
  "sq = [CHR 0x27]"

definition partitionSetupSql :: "schema_table \<Rightarrow> schema_partition \<Rightarrow> string list" where
  "partitionSetupSql t p =
     (let fq = st_schema t @ ''.'' @ st_name t;
          sets = (case sp_retention p of None \<Rightarrow> [] | Some r \<Rightarrow> [''retention = '' @ sq @ r @ sq])
            @ [''retention_keep_table = '' @ bool_str (sp_keepTable p)]
      in [''SELECT partman.create_parent('' @ sq @ fq @ sq @ '', '' @ sq @ sp_column p @ sq @ '', '' @ sq @ ''native'' @ sq @ '', ''
            @ sq @ sp_interval p @ sq @ (case sp_premake p of None \<Rightarrow> [] | Some n \<Rightarrow> '', '' @ int_str n) @ '');'',
          ''UPDATE partman.part_config SET '' @ join '', '' sets @ '' WHERE parent_table = '' @ sq @ fq @ sq @ '';''])"

definition cols_sorted :: "schema_table \<Rightarrow> schema_column list" where
  "cols_sorted t = sort_key (\<lambda>c. case sc_ordinalPosition c of Some i \<Rightarrow> i | None \<Rightarrow> 9999) (map snd (st_columns t))"

definition column_line :: "schema_column \<Rightarrow> string" where
  "column_line c = ''  '' @ q_ident (sc_name c) @ '' '' @ columnTypeDdl c @ defaultClause c @ nullClause c"

definition pk_columns :: "schema_table \<Rightarrow> string list" where
  "pk_columns t =
     (let pk = map sc_name (filter sc_isPrimaryKey (cols_sorted t))
      in case st_partition t of
           Some p \<Rightarrow> if sp_column p \<notin> set pk then pk @ [sp_column p] else pk
         | None \<Rightarrow> pk)"

text \<open>The groups of unique columns, in the order of their first column.\<close>

definition unique_key :: "schema_table \<Rightarrow> schema_column \<Rightarrow> string" where
  "unique_key t c = (case sc_uniqueIndexName c of Some n \<Rightarrow> n | None \<Rightarrow> st_name t @ ''_uq'' @ ''_'' @ sc_name c)"

definition unique_groups :: "schema_table \<Rightarrow> (string \<times> (string \<times> int) list) list" where
  "unique_groups t =
     fold (\<lambda>c gs. AList.update (unique_key t c)
         ((case map_of gs (unique_key t c) of Some g \<Rightarrow> g | None \<Rightarrow> [])
          @ [(sc_name c, case sc_uniqueIndexOrder c of Some i \<Rightarrow> i | None \<Rightarrow> 0)]) gs)
       (filter (\<lambda>c. sc_isUnique c \<and> \<not> sc_isPrimaryKey c) (cols_sorted t)) []"

definition unique_constraints :: "schema_table \<Rightarrow> string list" where
  "unique_constraints t =
     List.map_filter (\<lambda>(gname, gcols).
       if 1 < length gcols then
         Some (''  CONSTRAINT '' @ q_ident (slugifyIdent gname) @ '' UNIQUE (''
           @ join '', '' (map (\<lambda>c. q_ident (fst c)) (sort_key snd gcols)) @ '')'')
       else None) (unique_groups t)"

definition fk_body :: "schema_fk \<Rightarrow> string" where
  "fk_body f = ''CONSTRAINT '' @ q_ident (slugifyIdent (sf_name f)) @ '' FOREIGN KEY ('' @ q_ident (sf_column f) @ '')''
     @ '' REFERENCES '' @ q_ident (sf_refSchema f) @ ''.'' @ q_ident (sf_refTable f) @ '' ('' @ q_ident (sf_refColumn f) @ '')''
     @ '' ON DELETE '' @ fkActionSql (sf_onDelete f) @ '' ON UPDATE '' @ fkActionSql (sf_onUpdate f)"

definition nl :: string where
  "nl = [CHR 0x0A]"

definition createTableSql :: "schema_table \<Rightarrow> string list" where
  "createTableSql t =
     (let parts = map column_line (cols_sorted t)
            @ (if pk_columns t \<noteq> [] then [''  PRIMARY KEY ('' @ join '', '' (map q_ident (pk_columns t)) @ '')''] else [])
            @ unique_constraints t
            @ map (\<lambda>f. ''  '' @ fk_body f) (st_foreignKeys t)
      in [''CREATE TABLE IF NOT EXISTS '' @ fq_name t @ '' ('',
          join ('','' @ nl) parts,
          '')'' @ (case st_partition t of None \<Rightarrow> [] | Some p \<Rightarrow> '' PARTITION BY RANGE ('' @ q_ident (sp_column p) @ '')'') @ '';''])"

section \<open>New tables\<close>

definition extension_sql :: "schema_snapshot \<Rightarrow> string list" where
  "extension_sql e =
     (let needs = (\<lambda>fn. list_ex (\<lambda>(_, t). list_ex (\<lambda>(_, c). str_includes (opt_str (sc_defaultSql c)) fn) (st_columns t)) (ss_tables e))
      in if needs ''gen_random_uuid()'' then [''CREATE EXTENSION IF NOT EXISTS \"pgcrypto\";'', []]
         else if needs ''uuid_generate_v4()'' then [''CREATE EXTENSION IF NOT EXISTS \"uuid-ossp\";'', []]
         else [])"

definition grouped_columns :: "schema_table \<Rightarrow> string list" where
  "grouped_columns t = concat (map (\<lambda>ix. if si_isUnique ix \<and> 1 < length (si_columns ix) then si_columns ix else []) (st_indexes t))"

definition single_unique_sql :: "schema_table \<Rightarrow> string list" where
  "single_unique_sql t =
     map (\<lambda>c. ''CREATE UNIQUE INDEX IF NOT EXISTS '' @ q_ident (slugifyIdent (st_name t @ ''_'' @ sc_name c @ ''_uq''))
            @ '' ON '' @ fq_name t @ '' ('' @ q_ident (sc_name c) @ '');'')
       (filter (\<lambda>c. sc_isUnique c \<and> \<not> sc_isPrimaryKey c \<and> sc_name c \<notin> set (grouped_columns t)) (cols_sorted t))"

definition audit_table_sql :: "schema_table \<Rightarrow> string list" where
  "audit_table_sql t =
     (let auditTableName = st_name t @ ''_audit''; fqAudit = q_ident (st_schema t) @ ''.'' @ q_ident auditTableName
      in [''CREATE TABLE IF NOT EXISTS '' @ fqAudit @ '' ('',
          ''  \"id\" bigint generated always as identity NOT NULL,'',
          ''  \"entity_id\" bigint NOT NULL,'',
          ''  \"entity_uuid\" uuid NOT NULL,'',
          ''  \"action\" text NOT NULL,'',
          ''  \"changed_at\" timestamptz NOT NULL,'',
          ''  \"changed_by\" text NOT NULL DEFAULT '' @ sq @ ''system'' @ sq @ '','',
          ''  \"version\" integer NOT NULL,'',
          ''  \"delta\" jsonb NOT NULL,'',
          ''  PRIMARY KEY (\"id\")'',
          '');'',
          [],
          ''SELECT partman.create_parent('' @ sq @ fqAudit @ sq @ '', '' @ sq @ ''changed_at'' @ sq @ '', '' @ sq @ ''native'' @ sq
            @ '', '' @ sq @ ''monthly'' @ sq @ '');'',
          [],
          ''CREATE INDEX IF NOT EXISTS '' @ q_ident (auditTableName @ ''_entity_uuid_idx'') @ '' ON '' @ fqAudit @ '' (\"entity_uuid\");'',
          ''CREATE INDEX IF NOT EXISTS '' @ q_ident (auditTableName @ ''_action_idx'') @ '' ON '' @ fqAudit @ '' (\"action\");'',
          []])"

definition new_table_sql :: "schema_table \<Rightarrow> string list" where
  "new_table_sql t =
     (if st_schema t \<noteq> ''public'' then [''CREATE SCHEMA IF NOT EXISTS '' @ q_ident (st_schema t) @ '';'', []] else [])
     @ createTableSql t @ [[]]
     @ (case st_partition t of None \<Rightarrow> [] | Some p \<Rightarrow> partitionSetupSql t p @ [[]])
     @ map (\<lambda>ix. indexDdl ix t False) (filter (\<lambda>ix. \<not> si_isUnique ix) (st_indexes t))
     @ single_unique_sql t @ [[]]
     @ (if st_isAuditable t then audit_table_sql t else [])"

section \<open>Existing tables\<close>

definition added_columns :: "schema_table \<Rightarrow> table_diff \<Rightarrow> (string \<times> schema_column) list" where
  "added_columns t tab = List.map_filter (\<lambda>c. map_option (\<lambda>m. (c, m)) (map_of (st_columns t) c)) (td_onlyInEntityColumns tab)"

definition add_column_sql :: "schema_table \<Rightarrow> table_diff \<Rightarrow> string list" where
  "add_column_sql t tab =
     map (\<lambda>(c, m). ''ALTER TABLE '' @ fq_name t @ '' ADD COLUMN IF NOT EXISTS '' @ q_ident c @ '' '' @ columnTypeDdl m
                    @ defaultClause m @ nullClause m @ '';'')
       (added_columns t tab)"

definition index_named :: "schema_table \<Rightarrow> string \<Rightarrow> schema_index option" where
  "index_named t n = List.find (\<lambda>i. si_name i = n) (st_indexes t)"

definition notx_sql :: "schema_table \<Rightarrow> table_diff \<Rightarrow> string list" where
  "notx_sql t tab =
     List.map_filter (\<lambda>n. map_option (\<lambda>ix. indexDdl ix t True) (index_named t n)) (td_onlyInEntityIndexes tab)"

definition rename_sql :: "bool \<Rightarrow> table_diff \<Rightarrow> string list" where
  "rename_sql ambiguous tab =
     (if td_likelyRenames tab = [] then []
      else [[]]
        @ (if ambiguous then
             [''/* Heuristic RENAME '' @ [CHR 0xE2, CHR 0x80, CHR 0x94] @ '' ambiguity detected; uncomment after choice:'']
             @ map (\<lambda>r. ''-- '' @ lr_suggestedSql r) (td_likelyRenames tab) @ [''*/'']
           else [''-- Heuristic renames (no ambiguity flag on this table):''] @ map lr_suggestedSql (td_likelyRenames tab))
        @ [[]])"

definition approx :: string where
  "approx = [CHR 0xE2, CHR 0x89, CHR 0x88]"

definition retype_sql :: "schema_table \<Rightarrow> type_mismatch \<Rightarrow> string list" where
  "retype_sql t m =
     [''-- REVIEW type change \"'' @ tm_column m @ ''\" entity'' @ approx @ tm_entityComparable m @ '' db'' @ approx
        @ tm_databaseComparable m @ '' (may rewrite the table)'',
      ''ALTER TABLE '' @ fq_name t @ '' ALTER COLUMN '' @ q_ident (tm_column m) @ '' TYPE ''
        @ (case map_of (st_columns t) (tm_column m) of Some c \<Rightarrow> entityPgType c | None \<Rightarrow> ''text'') @ '';'']"

definition nullability_sql :: "schema_table \<Rightarrow> null_mismatch \<Rightarrow> string list" where
  "nullability_sql t m =
     [''-- REVIEW nullability \"'' @ nm_column m @ ''\" entity='' @ bool_str (nm_entityNullable m) @ '' db=''
        @ bool_str (nm_databaseNullable m) @ '' (SET NOT NULL fails on existing NULLs)'',
      ''ALTER TABLE '' @ fq_name t @ '' ALTER COLUMN '' @ q_ident (nm_column m) @ '' ''
        @ (if \<not> nm_entityNullable m then ''SET NOT NULL'' else ''DROP NOT NULL'') @ '';'']"

definition reindex_sql :: "schema_table \<Rightarrow> index_mismatch \<Rightarrow> string list" where
  "reindex_sql t m =
     (case index_named t (im_name m) of
        None \<Rightarrow> []
      | Some ix \<Rightarrow>
         [''-- REVIEW index \"'' @ im_name m @ ''\" redefined (entity using='' @ im_entityUsing m @ '' cols='' @ join '','' (im_entityColumns m)
            @ '' vs db using='' @ im_databaseUsing m @ '' cols='' @ join '','' (im_databaseColumns m) @ '')'',
          ''DROP INDEX IF EXISTS '' @ q_ident (st_schema t) @ ''.'' @ q_ident (im_name m) @ '';'',
          indexDdl ix t False])"

definition add_fk_sql :: "schema_table \<Rightarrow> string \<Rightarrow> string list" where
  "add_fk_sql t n =
     (case List.find (\<lambda>f. sf_name f = n) (st_foreignKeys t) of
        None \<Rightarrow> []
      | Some f \<Rightarrow> [''-- REVIEW new foreign key \"'' @ n @ ''\" on existing table'',
                   ''ALTER TABLE '' @ fq_name t @ '' ADD '' @ fk_body f @ '';''])"

definition review_sql :: "bool \<Rightarrow> schema_table \<Rightarrow> table_diff \<Rightarrow> string list" where
  "review_sql ambiguous t tab =
     rename_sql (td_userReviewRequired tab \<or> ambiguous) tab
     @ concat (map (retype_sql t) (td_typeMismatches tab))
     @ concat (map (nullability_sql t) (td_nullabilityMismatches tab))
     @ concat (map (reindex_sql t) (td_indexMismatches tab))
     @ concat (map (add_fk_sql t) (td_onlyInEntityForeignKeys tab))"

definition not_dropped :: string where
  "not_dropped = '' '' @ [CHR 0xE2, CHR 0x80, CHR 0x94] @ '' not dropped''"

definition table_warns :: "string \<Rightarrow> schema_table \<Rightarrow> table_diff \<Rightarrow> string list" where
  "table_warns key t tab =
     map (\<lambda>(c, _). ''-- WARN: PK column \"'' @ c @ ''\" added; ensure table/backfill before relying on NOT NULL + PK'')
       (filter (\<lambda>(_, m). sc_isPrimaryKey m) (added_columns t tab))
     @ map (\<lambda>c. ''-- WARN: DB-only column \"'' @ c @ ''\" on '' @ key @ not_dropped) (td_onlyInDatabaseColumns tab)
     @ map (\<lambda>n. ''-- WARN: DB-only index \"'' @ n @ ''\" on '' @ key @ not_dropped) (td_onlyInDatabaseIndexes tab)
     @ map (\<lambda>n. ''-- WARN: DB-only foreign key \"'' @ n @ ''\" on '' @ key @ not_dropped) (td_onlyInDatabaseForeignKeys tab)"

text \<open>The tables of a diff that the snapshot knows.\<close>

definition new_tables :: "schema_snapshot \<Rightarrow> schema_diff \<Rightarrow> schema_table list" where
  "new_tables e diff = List.map_filter (map_of (ss_tables e)) (sd_onlyInEntityTables diff)"

definition changed_tables :: "schema_snapshot \<Rightarrow> schema_diff \<Rightarrow> (string \<times> schema_table \<times> table_diff) list" where
  "changed_tables e diff =
     List.map_filter (\<lambda>(k, tab). map_option (\<lambda>t. (k, t, tab)) (map_of (ss_tables e) k)) (sd_tables diff)"

section \<open>The patch\<close>

definition patch_safe :: "schema_snapshot \<Rightarrow> schema_diff \<Rightarrow> string list" where
  "patch_safe e diff =
     extension_sql e @ concat (map new_table_sql (new_tables e diff))
     @ concat (map (\<lambda>(_, t, tab). add_column_sql t tab) (changed_tables e diff))"

definition patch_notx :: "schema_snapshot \<Rightarrow> schema_diff \<Rightarrow> string list" where
  "patch_notx e diff = concat (map (\<lambda>(_, t, tab). notx_sql t tab) (changed_tables e diff))"

definition patch_review :: "schema_snapshot \<Rightarrow> schema_diff \<Rightarrow> string list" where
  "patch_review e diff = concat (map (\<lambda>(_, t, tab). review_sql (sd_userReviewRequired diff) t tab) (changed_tables e diff))"

definition patch_warns :: "schema_snapshot \<Rightarrow> schema_diff \<Rightarrow> string list" where
  "patch_warns e diff =
     concat (map (\<lambda>(k, t, tab). table_warns k t tab) (changed_tables e diff))
     @ map (\<lambda>k. ''-- WARN: table only in database: '' @ k @ not_dropped) (sd_onlyInDatabaseTables diff)"

text \<open>\<open>/\n{3,}/g\<close>.\<close>

definition blank_run_re :: re where
  "blank_run_re = re_seq [chr (CHR 0x0A), chr (CHR 0x0A), chr (CHR 0x0A), Star (chr (CHR 0x0A))]"

definition patch_header :: "schema_snapshot \<Rightarrow> schema_diff \<Rightarrow> string list" where
  "patch_header e diff =
     [''-- Primebrick: entity '' @ [CHR 0xE2, CHR 0x86, CHR 0x92] @ '' database patch'']
     @ (if patch_review e diff \<noteq> [] \<or> sd_userReviewRequired diff then [''-- pb:requires-review''] else [])
     @ (if patch_notx e diff \<noteq> [] then [''-- pb:segments''] else [])
     @ [''-- generatedAt: '' @ sd_generatedAt diff, []]
     @ (if sd_userReviewRequired diff then
          [''-- WARN: renameHeuristicUserReviewRequired '' @ [CHR 0xE2, CHR 0x80, CHR 0x94]
             @ '' ambiguous renames commented below; resolve before approval.'', []]
        else [])"

definition patch_lines :: "schema_snapshot \<Rightarrow> schema_diff \<Rightarrow> string list" where
  "patch_lines e diff =
     patch_header e diff @ patch_safe e diff
     @ (if patch_notx e diff \<noteq> [] then
          [''-- pb:begin-no-transaction''] @ patch_notx e diff @ [''-- pb:end-no-transaction'', []] else [])
     @ (if patch_review e diff \<noteq> [] then
          [''-- '' @ [CHR 0xE2, CHR 0x94, CHR 0x80, CHR 0xE2, CHR 0x94, CHR 0x80] @ '' review section (runs only after approval) ''
             @ [CHR 0xE2, CHR 0x94, CHR 0x80, CHR 0xE2, CHR 0x94, CHR 0x80]] @ patch_review e diff @ [[]] else [])
     @ patch_warns e diff"

definition buildSqlPatchFromMetaDiff :: "schema_snapshot \<Rightarrow> schema_diff \<Rightarrow> string" where
  "buildSqlPatchFromMetaDiff e diff =
     trim_end (re_replace_all blank_run_re (\<lambda>_ _. nl @ nl) (join nl (patch_lines e diff))) @ nl"

end
