(* ===== verification/SchemaDiffFacts.thy ===== *)
theory SchemaDiffFacts
  imports SchemaDiff "HOL-Library.Multiset"
begin

text \<open>
  Facts about the schema diff: the renames form a matching, no column disappears from a diff, a clean drift check means
  that the database realises the entities; and two ways in which an index that is right is reported for ever.
\<close>

section \<open>Renames\<close>

lemma set_insertion_order [simp]: "set (insertion_order xs) = set xs"
  by (simp add: insertion_order_def)

lemma set_greedy: "set (greedy ue ud cs) \<subseteq> set cs"
  by (induction ue ud cs rule: greedy.induct) auto

lemma greedy_distinct:
  "distinct (map ca_e (greedy ue ud cs)) \<and> distinct (map ca_d (greedy ue ud cs))
   \<and> set ue \<inter> ca_e ` set (greedy ue ud cs) = {} \<and> set ud \<inter> ca_d ` set (greedy ue ud cs) = {}"
  by (induction ue ud cs rule: greedy.induct) auto

lemma set_update_cases: "kl \<in> set (AList.update k v m) \<Longrightarrow> kl \<in> set m \<or> kl = (k, v)"
  by (induction m) (auto split: if_splits)

lemma ordinal_index_fold:
  assumes "set ns \<subseteq> S" and "\<And>i l. map_of m i = Some l \<Longrightarrow> set l \<subseteq> S"
    and "map_of (fold (\<lambda>name m. case sc_ordinalPosition (col_of cols name) of None \<Rightarrow> m
        | Some i \<Rightarrow> AList.update i ((case map_of m i of Some l \<Rightarrow> l | None \<Rightarrow> []) @ [name]) m) ns m) k = Some l"
  shows "set l \<subseteq> S"
  using assms
proof (induction ns arbitrary: m)
  case Nil
  then show ?case by simp
next
  case (Cons n ns)
  let ?m = "case sc_ordinalPosition (col_of cols n) of None \<Rightarrow> m
        | Some i \<Rightarrow> AList.update i ((case map_of m i of Some l \<Rightarrow> l | None \<Rightarrow> []) @ [n]) m"
  have m: "set l \<subseteq> S" if "map_of ?m i = Some l" for i l
  proof (cases "sc_ordinalPosition (col_of cols n)")
    case None
    then show ?thesis using that Cons.prems(2) by simp
  next
    case (Some j)
    obtain old where old: "(case map_of m j of Some l \<Rightarrow> l | None \<Rightarrow> []) = old" "set old \<subseteq> S"
      using Cons.prems(2) [of j] by (cases "map_of m j") auto
    have "map_of (AList.update j (old @ [n]) m) i = Some l" using that unfolding Some option.case old(1) .
    then show ?thesis using old(2) Cons.prems(1) Cons.prems(2) [of i]
      by (auto simp: update_conv' split: if_splits)
  qed
  have "set ns \<subseteq> S" using Cons.prems(1) by simp
  moreover have "map_of (fold (\<lambda>name m. case sc_ordinalPosition (col_of cols name) of None \<Rightarrow> m
        | Some i \<Rightarrow> AList.update i ((case map_of m i of Some l \<Rightarrow> l | None \<Rightarrow> []) @ [name]) m) ns ?m) k = Some l"
    using Cons.prems(3) by simp
  ultimately show ?case by (intro Cons.IH [where m = ?m]) (assumption, rule m)
qed

lemma ordinal_index_members: "map_of (buildOrdinalIndex names cols) i = Some l \<Longrightarrow> set l \<subseteq> set names"
  unfolding buildOrdinalIndex_def by (rule ordinal_index_fold [OF subset_refl, of "[]"]) auto

lemma candidates_members: "set (candidateDatabaseColumnsForEntity em cols (buildOrdinalIndex names cols) names) \<subseteq> set names"
proof -
  have "set (collectNamesAtOrds (buildOrdinalIndex names cols) is') \<subseteq> set names" for is'
  proof (induction is')
    case Nil
    then show ?case by (simp add: collectNamesAtOrds_def)
  next
    case (Cons i is')
    then show ?case using ordinal_index_members [of names cols i]
      by (cases "map_of (buildOrdinalIndex names cols) i") (auto simp: collectNamesAtOrds_def)
  qed
  then show ?thesis by (auto simp: candidateDatabaseColumnsForEntity_def split: option.splits)
qed

lemma rename_candidate:
  assumes "c \<in> set (rename_candidates es ds ecols dcols)"
  shows "ca_e c \<in> set es \<and> ca_d c \<in> set ds
    \<and> classifyRenamePair (col_of ecols (ca_e c)) (col_of dcols (ca_d c)) = Some (ca_tier c, ca_reasons c)"
  using assms candidates_members [of _ dcols ds]
  by (auto simp: rename_candidates_def List.map_filter_def) blast+

lemma classify_tier: "classifyRenamePair e d = Some (tier, rs) \<Longrightarrow> tier < length RENAME_MATCH_RULE_LABELS"
  by (auto simp: classifyRenamePair_def Let_def RENAME_MATCH_RULE_LABELS_def split: if_splits)

definition rename_pairs :: "(string \<Rightarrow> string) \<Rightarrow> string list \<Rightarrow> string list \<Rightarrow> (string \<times> schema_column) list
    \<Rightarrow> (string \<times> schema_column) list \<Rightarrow> candidate list" where
  "rename_pairs collate es ds ecols dcols =
     greedy [] [] (concat (map (\<lambda>tier. sortCandidatesInTier collate ecols dcols
       (filter (\<lambda>c. ca_tier c = tier) (rename_candidates es ds ecols dcols))) [0..<length RENAME_MATCH_RULE_LABELS]))"

lemma renames_of_pairs:
  "mset (rr_likelyRenames (findLikelyRenames collate schema table es ds ecols dcols))
   = mset (map (rename_of schema table) (rename_pairs collate es ds ecols dcols))"
  by (simp add: findLikelyRenames_def Let_def rename_pairs_def)

lemma pairs_ok:
  assumes "c \<in> set (rename_pairs collate es ds ecols dcols)"
  shows "ca_e c \<in> set es \<and> ca_d c \<in> set ds
    \<and> classifyRenamePair (col_of ecols (ca_e c)) (col_of dcols (ca_d c)) = Some (ca_tier c, ca_reasons c)"
proof -
  have "c \<in> set (rename_candidates es ds ecols dcols)"
    using assms set_greedy unfolding rename_pairs_def by (fastforce simp: sortCandidatesInTier_def)
  then show ?thesis by (rule rename_candidate)
qed

lemma renames_matching:
  assumes rs_def: "rs = rr_likelyRenames (findLikelyRenames collate schema table es ds ecols dcols)"
  shows "distinct (map lr_entityColumn rs) \<and> distinct (map lr_databaseColumn rs)
    \<and> list_all (\<lambda>r. lr_entityColumn r \<in> set es \<and> lr_databaseColumn r \<in> set ds
         \<and> classifyRenamePair (col_of ecols (lr_entityColumn r)) (col_of dcols (lr_databaseColumn r))
             = Some (lr_matchTier r, lr_reasons r)
         \<and> lr_matchRule r = RENAME_MATCH_RULE_LABELS ! lr_matchTier r) rs"
proof -
  have e: "mset (map f rs) = mset (map (f \<circ> rename_of schema table) (rename_pairs collate es ds ecols dcols))" for f :: "likely_rename \<Rightarrow> string"
    using renames_of_pairs [of collate schema table es ds ecols dcols] unfolding rs_def
    by (metis (no_types, lifting) map_map mset_map)
  have "distinct (map f rs)" if "distinct (map (f \<circ> rename_of schema table) (rename_pairs collate es ds ecols dcols))"
    for f :: "likely_rename \<Rightarrow> string"
    using mset_eq_imp_distinct_iff [OF e] that by blast
  then have "distinct (map lr_entityColumn rs)" "distinct (map lr_databaseColumn rs)"
    using greedy_distinct by (simp_all add: rename_of_def comp_def rename_pairs_def)
  moreover have "set rs = rename_of schema table ` set (rename_pairs collate es ds ecols dcols)"
    using renames_of_pairs [of collate schema table es ds ecols dcols] unfolding rs_def
    by (metis set_map set_mset_mset)
  ultimately show ?thesis using pairs_ok by (auto simp: list_all_iff rename_of_def)
qed

text \<open>C33: the rename heuristic pairs each column at most once on either side, only pairs a column that only the
  entity has with one that only the database has, and each pair satisfies the rule of its tier.\<close>

theorem renames_are_matching:
  "let rs = rr_likelyRenames (findLikelyRenames collate schema table es ds ecols dcols)
   in distinct (map lr_entityColumn rs) \<and> distinct (map lr_databaseColumn rs)
    \<and> list_all (\<lambda>r. lr_entityColumn r \<in> set es \<and> lr_databaseColumn r \<in> set ds
         \<and> classifyRenamePair (col_of ecols (lr_entityColumn r)) (col_of dcols (lr_databaseColumn r))
             = Some (lr_matchTier r, lr_reasons r)
         \<and> lr_matchRule r = RENAME_MATCH_RULE_LABELS ! lr_matchTier r) rs"
  unfolding Let_def by (rule renames_matching) (rule refl)

section \<open>What a diff says\<close>

lemma only_in_set: "set (only_in xs ys) = fst ` set xs - fst ` set ys"
  by (auto simp: only_in_def)


section \<open>The drift check\<close>

definition nulls_agree :: "schema_column \<Rightarrow> schema_column \<Rightarrow> bool" where
  "nulls_agree e d \<longleftrightarrow> sc_isNullable e = None \<or> sc_isNullable d = None \<or> sc_isNullable e = sc_isNullable d"

definition types_agree :: "schema_column \<Rightarrow> schema_column \<Rightarrow> bool" where
  "types_agree e d \<longleftrightarrow> comparablePgType e = ''unknown'' \<or> comparablePgType e = comparablePgType d"

definition index_covered :: "schema_table \<Rightarrow> string \<times> schema_index \<Rightarrow> bool" where
  "index_covered dt p \<longleftrightarrow> (case p of (nm, ei) \<Rightarrow>
     (\<exists>di. map_of (by_key si_name (st_indexes dt)) nm = Some di \<and> si_using ei = si_using di \<and> si_columns ei = si_columns di
        \<and> opt_str (si_where ei) = opt_str (si_where di))
     \<or> (\<exists>di\<in>snd ` set (by_key si_name (st_indexes dt)). equivIndex ei di))"

definition fk_covered :: "schema_table \<Rightarrow> string \<times> schema_fk \<Rightarrow> bool" where
  "fk_covered dt p \<longleftrightarrow> (case p of (nm, ef) \<Rightarrow>
     (\<exists>df. map_of (by_key sf_name (st_foreignKeys dt)) nm = Some df \<and> fk_ref ef = fk_ref df
        \<and> sf_onDelete ef = sf_onDelete df \<and> sf_onUpdate ef = sf_onUpdate df))"

definition table_realised :: "schema_table \<Rightarrow> schema_table \<Rightarrow> bool" where
  "table_realised et dt \<longleftrightarrow>
     (\<forall>(c, ec)\<in>set (st_columns et). \<exists>dc. map_of (st_columns dt) c = Some dc \<and> types_agree ec dc \<and> nulls_agree ec dc)
     \<and> (\<forall>p\<in>set (by_key si_name (st_indexes et)). index_covered dt p)
     \<and> (\<forall>p\<in>set (by_key sf_name (st_foreignKeys et)). fk_covered dt p)"

definition clean_table :: "table_diff \<Rightarrow> bool" where
  "clean_table t \<longleftrightarrow> td_onlyInEntityColumns t = [] \<and> td_likelyRenames t = [] \<and> td_typeMismatches t = []
     \<and> td_nullabilityMismatches t = [] \<and> td_onlyInEntityIndexes t = [] \<and> td_indexMismatches t = []
     \<and> td_onlyInEntityForeignKeys t = [] \<and> td_foreignKeyMismatches t = []"

lemma clean_realised:
  assumes "clean_table (compare_tables collate et dt)"
  shows "table_realised et dt"
proof -
  let ?t = "compare_tables collate et dt"
  have cols: "fst ` set (st_columns et) \<subseteq> fst ` set (st_columns dt)"
    using assms only_in_set [of "st_columns et" "st_columns dt"]
    by (auto simp: clean_table_def compare_tables_def Let_def filter_empty_conv split: if_splits)
  have c: "\<exists>dc. map_of (st_columns dt) c = Some dc \<and> types_agree ec dc \<and> nulls_agree ec dc" if cc: "(c, ec) \<in> set (st_columns et)" for c ec
  proof -
    have mem: "c \<in> fst ` set (st_columns dt)" using cc cols by force
    then obtain dc where dc: "map_of (st_columns dt) c = Some dc" by (metis map_of_eq_None_iff not_None_eq)
    have col: "col_of (st_columns dt) c = dc" using dc by (simp add: col_of_def)
    have "td_typeMismatches ?t = []" "td_nullabilityMismatches ?t = []" using assms by (simp_all add: clean_table_def)
    then have "\<forall>c ec. (c, ec) \<in> set (st_columns et) \<longrightarrow> c \<in> fst ` set (st_columns dt) \<longrightarrow>
        type_mismatch_of c ec (col_of (st_columns dt) c) = []"
      "\<forall>c ec. (c, ec) \<in> set (st_columns et) \<longrightarrow> c \<in> fst ` set (st_columns dt) \<longrightarrow>
        null_mismatch_of c ec (col_of (st_columns dt) c) = []"
      by (simp_all add: compare_tables_def Let_def split_def)
    then have "type_mismatch_of c ec dc = [] \<and> null_mismatch_of c ec dc = []" using cc mem col by metis
    then show ?thesis using dc
      by (auto simp: type_mismatch_of_def null_mismatch_of_def types_agree_def nulls_agree_def Let_def split: if_splits option.splits)
  qed
  have i: "index_covered dt p" if "p \<in> set (by_key si_name (st_indexes et))" for p
  proof -
    obtain nm ei where p: "p = (nm, ei)" by fastforce
    let ?d = "by_key si_name (st_indexes dt)"
    have a: "missing_indexes (by_key si_name (st_indexes et)) ?d = []" "index_mismatch_of ?d p = None"
      using assms that by (auto simp: clean_table_def compare_tables_def Let_def List.map_filter_def filter_empty_conv)
    show ?thesis
    proof (cases "map_of ?d nm")
      case None
      then have "nm \<notin> set (map fst ?d)" by (simp add: map_of_eq_None_iff)
      then have "list_ex (\<lambda>(_, di). equivIndex ei di) ?d"
        using a(1) that p by (force simp: missing_indexes_def filter_empty_conv)
      then show ?thesis unfolding p by (force simp: index_covered_def list_ex_iff)
    next
      case (Some di)
      then show ?thesis using a(2) by (auto simp: p index_covered_def index_mismatch_of_def split: if_splits)
    qed
  qed
  have f: "fk_covered dt p" if "p \<in> set (by_key sf_name (st_foreignKeys et))" for p
  proof -
    obtain nm ef where p: "p = (nm, ef)" by fastforce
    let ?d = "by_key sf_name (st_foreignKeys dt)"
    have a: "only_in (by_key sf_name (st_foreignKeys et)) ?d = []" "fk_mismatch_of ?d p = None"
      using assms that by (auto simp: clean_table_def compare_tables_def Let_def List.map_filter_def filter_empty_conv)
    have "nm \<in> fst ` set ?d" using a(1) that p only_in_set [of "by_key sf_name (st_foreignKeys et)" ?d] by force
    then obtain df where "map_of ?d nm = Some df" by (metis map_of_eq_None_iff not_None_eq)
    then show ?thesis using a(2) by (auto simp: p fk_covered_def fk_mismatch_of_def split: if_splits)
  qed
  show ?thesis using c i f by (auto simp: table_realised_def)
qed


definition demo_column :: "string \<Rightarrow> schema_column" where
  "demo_column t = \<lparr>sc_name = ''id'', sc_ordinalPosition = Some 1, sc_dataType = Some t, sc_typname = Some t, sc_typeOid = None,
     sc_typcategory = None, sc_formatType = None, sc_numericPrecision = None, sc_numericScale = None, sc_isNullable = Some False,
     sc_isPrimaryKey = True, sc_isUnique = False, sc_isPostgresIdentity = False, sc_defaultSql = None, sc_propertyKey = None,
     sc_uniqueIndexName = None, sc_uniqueIndexOrder = None\<rparr>"

definition demo_table :: "string \<Rightarrow> schema_index list \<Rightarrow> schema_table" where
  "demo_table t ixs = \<lparr>st_schema = ''s'', st_name = ''t'', st_entityClassName = None, st_isAuditable = False, st_partition = None,
     st_partitionChildOf = None, st_indexes = ixs, st_foreignKeys = [], st_columns = [(''id'', demo_column t)]\<rparr>"

definition demo_snapshot :: "string \<Rightarrow> schema_index list \<Rightarrow> schema_snapshot" where
  "demo_snapshot t ixs = \<lparr>ss_generatedAt = [], ss_tables = [(''s.t'', demo_table t ixs)]\<rparr>"

definition demo_index :: "string option \<Rightarrow> schema_index" where
  "demo_index w = \<lparr>si_name = ''i'', si_columns = [''id''], si_using = ''btree'', si_opclass = None, si_where = w, si_isUnique = False\<rparr>"

lemma demo_types: "comparablePgType (demo_column ''bigint'') = ''int8''" "comparablePgType (demo_column ''int8'') = ''int8''"
  by code_simp+

lemma no_candidates: "rename_candidates [] ds ec dc = []"
  by (simp add: rename_candidates_def insertion_order_def)

lemma no_ambiguity: "findAmbiguityInTier collate tier [] = None"
  by (simp add: findAmbiguityInTier_def competing_def)

lemma no_renames: "findLikelyRenames collate schema table [] ds ec dc = \<lparr>rr_likelyRenames = [], rr_ambiguities = [], rr_userReviewRequired = False\<rparr>"
proof -
  have c: "concat (map (\<lambda>_. []) xs) = ([] :: candidate list)" for xs :: "nat list" by (induction xs) auto
  have m: "List.map_filter (\<lambda>_. None) xs = ([] :: rename_ambiguity list)" for xs :: "nat list" by (simp add: List.map_filter_def)
  show ?thesis
    by (simp add: findLikelyRenames_def Let_def no_candidates no_ambiguity sortCandidatesInTier_def c m del: upt_Suc)
qed

text \<open>The entity says \<open>bigint\<close>, the database \<open>int8\<close>: no drift.\<close>

lemma demo_clean: "isDriftClean (compareSnapshots id [] (demo_snapshot ''bigint'' []) (demo_snapshot ''int8'' []))"
  by (simp add: compareSnapshots_def demo_snapshot_def shared_tables_def List.map_filter_def isDriftClean_def only_in_def demo_table_def compare_tables_def Let_def table_renames_def no_renames by_key_def missing_indexes_def
    type_mismatch_of_def null_mismatch_of_def col_of_def demo_types demo_column_def [of "''bigint''", THEN arg_cong [where f = sc_isNullable]] demo_column_def [of "''int8''", THEN arg_cong [where f = sc_isNullable]])


lemma partial_norm: "normWhere (Some ''a > 1'') = ''a>1''" "normWhere (Some ''(a > 1)'') = ''a>1''"
  by code_simp+

text \<open>A partial index never passes: the catalog prints its predicate in parentheses, and indexes of the same name are
  compared by the raw text, although \<open>equivIndex\<close> ignores the parentheses.\<close>

lemma partial_index_drifts:
  "equivIndex (demo_index (Some ''a > 1'')) (demo_index (Some ''(a > 1)''))
   \<and> \<not> isDriftClean (compareSnapshots id [] (demo_snapshot ''int8'' [demo_index (Some ''a > 1'')])
                                          (demo_snapshot ''int8'' [demo_index (Some ''(a > 1)'')]))"
  by (simp add: equivIndex_def demo_index_def partial_norm compareSnapshots_def demo_snapshot_def shared_tables_def List.map_filter_def isDriftClean_def only_in_def demo_table_def compare_tables_def Let_def table_renames_def no_renames by_key_def missing_indexes_def index_mismatch_of_def has_diff_def opt_str_def
    type_mismatch_of_def null_mismatch_of_def col_of_def demo_types)
text \<open>The operator class of a column stays in its name: the expression removes a suffix \<open>opclass\<close> literally.\<close>

lemma opclass_not_stripped:
  "parseIndexColumns ''CREATE INDEX i ON s.t USING hnsw (v vector_cosine_ops)'' = [''v vector_cosine_ops'']"
  by code_simp

end
