(* ===== verification/EmitFacts.thy ===== *)
theory EmitFacts
  imports EmitPatch SchemaDiffFacts EngineFacts
begin

text \<open>
  Facts about generated patches: which ones wait for an approval in the engine, when a patch has statements, and
  the names it gives to what it creates.
\<close>

section \<open>The text of a patch\<close>

lemma blank_run_no_match: "\<not> prefix [CHR 0x0A, CHR 0x0A, CHR 0x0A] r \<Longrightarrow> re_match blank_run_re (l, r, cs) = []"
proof -
  assume np: "\<not> prefix [CHR 0x0A, CHR 0x0A, CHR 0x0A] r"
  consider "r = []" | a where "r = [a]" | a b where "r = [a, b]" | a b c r' where "r = a # b # c # r'" by (metis list.exhaust)
  then show ?thesis using np by cases (auto simp: blank_run_re_def re_defs)
qed

lemma blank_run_copy_char:
  "\<not> prefix [CHR 0x0A, CHR 0x0A, CHR 0x0A] (c # s) \<Longrightarrow>
     re_replace_at blank_run_re f l (c # s) = c # re_replace_at blank_run_re f (c # l) s"
  by (subst re_replace_at.simps) (simp add: blank_run_no_match)

lemma blank_run_copy:
  "CHR 0x0A \<notin> set w \<Longrightarrow> re_replace_at blank_run_re f l (w @ s) = w @ re_replace_at blank_run_re f (rev w @ l) s"
  by (induction w arbitrary: l) (simp_all add: blank_run_copy_char)

lemma trim_end_append: "w \<noteq> [] \<Longrightarrow> \<not> js_ws (last w) \<Longrightarrow> trim_end (w @ x) = w @ trim_end x"
proof -
  assume w: "w \<noteq> []" "\<not> js_ws (last w)"
  have "dropWhile js_ws (rev w) = rev w" using w by (intro dropWhile_id) (simp add: hd_rev)
  then show ?thesis by (cases "list_all js_ws x") (simp_all add: trim_end_def dropWhile_append list_all_iff)
qed

definition assemble :: "string list \<Rightarrow> string" where
  "assemble ls = trim_end (re_replace_all blank_run_re (\<lambda>_ _. nl @ nl) (join nl ls)) @ nl"

lemma assemble_two_lines:
  assumes "CHR 0x0A \<notin> set a" "CHR 0x0A \<notin> set b" "b \<noteq> []" "c \<noteq> CHR 0x0A" "\<not> js_ws c"
  shows "\<exists>z. assemble (a # b # (c # x) # ls) = a @ CHR 0x0A # b @ CHR 0x0A # c # z"
proof -
  define y where "y = join nl ((c # x) # ls)"
  obtain y' where y': "y = c # y'" unfolding y_def by (cases ls) simp_all
  let ?f = "\<lambda>(_::string) (_::mstate). nl @ nl"
  have j: "join nl (a # b # (c # x) # ls) = a @ (CHR 0x0A # (b @ (CHR 0x0A # y)))" by (simp add: y_def nl_def)
  obtain d b' where b': "b = d # b'" using assms(3) by (cases b) auto
  have d: "d \<noteq> CHR 0x0A" using assms(2) b' by auto
  have r2: "\<exists>q. re_replace_at blank_run_re ?f l (CHR 0x0A # y) = CHR 0x0A # c # q" for l
    using assms(4) by (simp add: y' blank_run_copy_char)
  have "\<exists>q. re_replace_at blank_run_re ?f l (CHR 0x0A # (b @ (CHR 0x0A # y))) = CHR 0x0A # (b @ (CHR 0x0A # c # q))" for l
  proof -
    have "re_replace_at blank_run_re ?f l (CHR 0x0A # (b @ (CHR 0x0A # y)))
        = CHR 0x0A # re_replace_at blank_run_re ?f (CHR 0x0A # l) (b @ (CHR 0x0A # y))"
      using d by (intro blank_run_copy_char) (simp add: b')
    then show ?thesis using r2 by (simp only: blank_run_copy [OF assms(2)]) metis
  qed
  then obtain q where q: "re_replace_all blank_run_re ?f (join nl (a # b # (c # x) # ls)) = (a @ CHR 0x0A # b @ [CHR 0x0A, c]) @ q"
    unfolding re_replace_all_def j by (simp only: blank_run_copy [OF assms(1)]) (metis append.assoc append_Cons append_Nil)
  have "assemble (a # b # (c # x) # ls) = (a @ CHR 0x0A # b @ [CHR 0x0A, c]) @ trim_end q @ nl"
    unfolding assemble_def q using assms(5) by (subst trim_end_append) simp_all
  then show ?thesis by (intro exI [of _ "trim_end q @ nl"]) simp
qed

lemma assemble_second_line:
  assumes "CHR 0x0A \<notin> set a" "CHR 0x0A \<notin> set b" "b \<noteq> []" "c \<noteq> CHR 0x0A" "\<not> js_ws c"
  shows "\<exists>r. split_on (CHR 0x0A) (assemble (a # b # (c # x) # ls)) = a # b # r"
  using assemble_two_lines [OF assms, of x ls] split_on_append_sep assms(1,2) by metis

definition needs_review :: "schema_snapshot \<Rightarrow> schema_diff \<Rightarrow> bool" where
  "needs_review e diff \<longleftrightarrow> patch_review e diff \<noteq> [] \<or> sd_userReviewRequired diff"

lemma review_pragma_line: "pragma_of ''-- pb:requires-review'' = Some ''requires-review''"
  by code_simp

lemma dash_not_ws: "\<not> js_ws (CHR ''-'')"
  by code_simp

lemma review_header:
  assumes "needs_review e diff"
  shows "fst (parsePatchPragmas (buildSqlPatchFromMetaDiff e diff))"
proof -
  have "\<exists>x ls. patch_lines e diff
      = (''-- Primebrick: entity '' @ [CHR 0xE2, CHR 0x86, CHR 0x92] @ '' database patch'')
        # ''-- pb:requires-review'' # (CHR ''-'' # x) # ls"
    using assms by (auto simp: patch_lines_def patch_header_def needs_review_def)
  then obtain x ls where l: "patch_lines e diff
      = (''-- Primebrick: entity '' @ [CHR 0xE2, CHR 0x86, CHR 0x92] @ '' database patch'')
        # ''-- pb:requires-review'' # (CHR ''-'' # x) # ls" by blast
  have "\<exists>a r. split_on (CHR 0x0A) (buildSqlPatchFromMetaDiff e diff) = a # ''-- pb:requires-review'' # r"
    unfolding buildSqlPatchFromMetaDiff_def assemble_def [symmetric] l
    using assemble_second_line [of "''-- Primebrick: entity '' @ [CHR 0xE2, CHR 0x86, CHR 0x92] @ '' database patch''"
        "''-- pb:requires-review''" "CHR ''-''" x ls] dash_not_ws by auto
  then obtain a r where "split_on (CHR 0x0A) (buildSqlPatchFromMetaDiff e diff) = a # ''-- pb:requires-review'' # r" by blast
  then show ?thesis by (simp add: parsePatchPragmas_def Let_def review_pragma_line numeral_eq_Suc)
qed

text \<open>C20: a generated patch with review statements, or for ambiguous renames, never runs unapproved: the engine that
  loads it registers it as pending, stops there and sends none of its SQL.\<close>

theorem emitted_review_is_gated:
  assumes "needs_review e diff"
    and "check_file env opts manifest fn = Inr f" and "f_raw f = buildSqlPatchFromMetaDiff e diff"
    and "\<not> row_done (byName (f_patchName f))" and "map_option status (byName (f_patchName f)) \<noteq> Some Approved"
    and "f_patchName f \<notin> set (case o_approvedReviews opts of None \<Rightarrow> [] | Some ps \<Rightarrow> ps)"
  shows "apply_loop env opts key byName (f # fs) res =
    andThen (query env (Upsert (upsert_row opts key f PendingReview None None None)))
      (\<lambda>_. ret (res\<lparr>r_pendingReview := r_pendingReview res @ [f_patchName f], r_degraded := True\<rparr>))"
proof -
  have "f_requiresReview f" using review_header [OF assms(1)] check_file_InrD [OF assms(2)] assms(3) by simp
  then have "review_gate opts (byName (f_patchName f)) f" using assms(5,6) unfolding review_gate_def by blast
  then show ?thesis using assms(4) by (simp add: Let_def)
qed

section \<open>Statements and drift\<close>

lemma map_filter_Nil: "List.map_filter f xs = [] \<longleftrightarrow> (\<forall>x\<in>set xs. f x = None)"
  by (induction xs) (auto simp: List.map_filter_def split: option.splits)

lemma map_filter_all_Nil: "(\<And>x. x \<in> set xs \<Longrightarrow> f x \<noteq> None) \<Longrightarrow> List.map_filter f xs = [] \<longleftrightarrow> xs = []"
  unfolding map_filter_Nil by (cases xs) auto

lemma by_key_known: "set (map fst (by_key key xs)) \<subseteq> key ` set xs"
proof -
  have "set (map fst (fold (\<lambda>x. AList.update (key x) x) xs m)) \<subseteq> key ` set xs \<union> set (map fst m)" for m
  proof (induction xs arbitrary: m)
    case Nil
    then show ?case by simp
  next
    case (Cons x xs)
    have "set (map fst (AList.update (key x) x m)) \<subseteq> insert (key x) (set (map fst m))" by (simp add: dom_update)
    then show ?case using Cons.IH [of "AList.update (key x) x m"]
      by (simp only: fold_simps list.set(2) image_insert) blast
  qed
  from this [of "[]"] show ?thesis by (simp add: by_key_def)
qed

lemma find_known: "k \<in> key ` set xs \<Longrightarrow> List.find (\<lambda>x. key x = k) xs \<noteq> None"
  by (auto simp: find_None_iff)

definition known :: "schema_table \<Rightarrow> table_diff \<Rightarrow> bool" where
  "known t tab \<longleftrightarrow> set (td_onlyInEntityColumns tab) \<subseteq> fst ` set (st_columns t)
     \<and> set (td_onlyInEntityIndexes tab) \<subseteq> si_name ` set (st_indexes t)
     \<and> im_name ` set (td_indexMismatches tab) \<subseteq> si_name ` set (st_indexes t)
     \<and> set (td_onlyInEntityForeignKeys tab) \<subseteq> sf_name ` set (st_foreignKeys t)"

lemma index_mismatch_name: "index_mismatch_of d p = Some m \<Longrightarrow> im_name m = fst p"
  by (auto simp: index_mismatch_of_def split: prod.splits option.splits if_splits)

lemma compare_known: "known et (compare_tables collate et dt)"
proof -
  let ?eIdx = "by_key si_name (st_indexes et)" and ?eFk = "by_key sf_name (st_foreignKeys et)"
  have i: "fst ` set ?eIdx \<subseteq> si_name ` set (st_indexes et)" using by_key_known [of si_name "st_indexes et"] by simp
  have f: "fst ` set ?eFk \<subseteq> sf_name ` set (st_foreignKeys et)" using by_key_known [of sf_name "st_foreignKeys et"] by simp
  let ?t = "compare_tables collate et dt"
  have "set (td_onlyInEntityColumns ?t) \<subseteq> set (only_in (st_columns et) (st_columns dt))"
    unfolding compare_tables_def Let_def table_diff.select_convs by (rule filter_is_subset)
  then have c: "set (td_onlyInEntityColumns ?t) \<subseteq> fst ` set (st_columns et)" unfolding only_in_set by blast
  have x: "set (td_onlyInEntityIndexes ?t) \<subseteq> fst ` set ?eIdx"
    unfolding compare_tables_def Let_def table_diff.select_convs missing_indexes_def by auto
  have m: "im_name ` set (td_indexMismatches (compare_tables collate et dt)) \<subseteq> fst ` set ?eIdx"
  proof -
    have "\<exists>p\<in>set ps. index_mismatch_of dd p = Some m" if "m \<in> set (List.map_filter (index_mismatch_of dd) ps)" for m dd ps
      using that by (auto simp: List.map_filter_def)
    then have "im_name ` set (List.map_filter (index_mismatch_of dd) ps) \<subseteq> fst ` set ps" for dd ps
      using index_mismatch_name by fast
    then show ?thesis unfolding compare_tables_def Let_def table_diff.select_convs .
  qed
  have k: "set (td_onlyInEntityForeignKeys ?t) \<subseteq> fst ` set ?eFk"
    unfolding compare_tables_def Let_def table_diff.select_convs only_in_set by blast
  show ?thesis unfolding known_def using c subset_trans [OF x i] subset_trans [OF m i] subset_trans [OF k f] by (intro conjI)
qed

lemma add_column_none: "known t tab \<Longrightarrow> add_column_sql t tab = [] \<longleftrightarrow> td_onlyInEntityColumns tab = []"
  unfolding add_column_sql_def added_columns_def map_is_Nil_conv
proof (rule map_filter_all_Nil)
  fix c assume "known t tab" "c \<in> set (td_onlyInEntityColumns tab)"
  then have "map_of (st_columns t) c \<noteq> None" unfolding known_def map_of_eq_None_iff by blast
  then show "map_option (\<lambda>m. (c, m)) (map_of (st_columns t) c) \<noteq> None" by simp
qed

lemma notx_none: "known t tab \<Longrightarrow> notx_sql t tab = [] \<longleftrightarrow> td_onlyInEntityIndexes tab = []"
  unfolding notx_sql_def index_named_def
proof (rule map_filter_all_Nil)
  fix n assume "known t tab" "n \<in> set (td_onlyInEntityIndexes tab)"
  then have "List.find (\<lambda>i. si_name i = n) (st_indexes t) \<noteq> None" unfolding known_def by (intro find_known) blast
  then show "map_option (\<lambda>ix. indexDdl ix t True) (List.find (\<lambda>i. si_name i = n) (st_indexes t)) \<noteq> None" by simp
qed

lemma concat_map_Nil: "(\<And>x. x \<in> set xs \<Longrightarrow> f x \<noteq> []) \<Longrightarrow> concat (map f xs) = [] \<longleftrightarrow> xs = []"
  by (cases xs) auto

lemma review_none:
  assumes "known t tab"
  shows "review_sql b t tab = [] \<longleftrightarrow> td_likelyRenames tab = [] \<and> td_typeMismatches tab = [] \<and> td_nullabilityMismatches tab = []
    \<and> td_indexMismatches tab = [] \<and> td_onlyInEntityForeignKeys tab = []"
proof -
  have "concat (map (reindex_sql t) (td_indexMismatches tab)) = [] \<longleftrightarrow> td_indexMismatches tab = []"
  proof (rule concat_map_Nil)
    fix m assume "m \<in> set (td_indexMismatches tab)"
    then have "List.find (\<lambda>i. si_name i = im_name m) (st_indexes t) \<noteq> None"
      using assms unfolding known_def by (intro find_known) blast
    then show "reindex_sql t m \<noteq> []" by (auto simp: reindex_sql_def index_named_def)
  qed
  moreover have "concat (map (add_fk_sql t) (td_onlyInEntityForeignKeys tab)) = [] \<longleftrightarrow> td_onlyInEntityForeignKeys tab = []"
  proof (rule concat_map_Nil)
    fix n assume "n \<in> set (td_onlyInEntityForeignKeys tab)"
    then have "List.find (\<lambda>f. sf_name f = n) (st_foreignKeys t) \<noteq> None"
      using assms unfolding known_def by (intro find_known) blast
    then show "add_fk_sql t n \<noteq> []" by (auto simp: add_fk_sql_def)
  qed
  moreover have "concat (map (retype_sql t) (td_typeMismatches tab)) = [] \<longleftrightarrow> td_typeMismatches tab = []"
    by (intro concat_map_Nil) (simp add: retype_sql_def)
  moreover have "concat (map (nullability_sql t) (td_nullabilityMismatches tab)) = [] \<longleftrightarrow> td_nullabilityMismatches tab = []"
    by (intro concat_map_Nil) (simp add: nullability_sql_def)
  moreover have "rename_sql b' tab = [] \<longleftrightarrow> td_likelyRenames tab = []" for b' by (simp add: rename_sql_def)
  ultimately show ?thesis unfolding review_sql_def by simp
qed

definition no_statements :: "schema_snapshot \<Rightarrow> schema_diff \<Rightarrow> bool" where
  "no_statements e diff \<longleftrightarrow>
     patch_safe e diff = extension_sql e \<and> patch_notx e diff = [] \<and> patch_review e diff = []"

definition drift_but_fk_changes :: "schema_diff \<Rightarrow> bool" where
  "drift_but_fk_changes diff \<longleftrightarrow> \<not> isDriftClean (diff\<lparr>sd_tables := map (\<lambda>(k, t). (k, t\<lparr>td_foreignKeyMismatches := []\<rparr>)) (sd_tables diff)\<rparr>)"

lemma changed_table:
  assumes "distinct (map fst (ss_tables e))" "(k, tab) \<in> set (sd_tables (compareSnapshots collate now e d))"
  shows "\<exists>et dt. map_of (ss_tables e) k = Some et \<and> tab = compare_tables collate et dt"
proof -
  obtain et dt where "(k, et) \<in> set (ss_tables e)" "tab = compare_tables collate et dt"
    using assms(2) by (auto simp: compareSnapshots_def Let_def shared_tables_def List.map_filter_def)
  then show ?thesis using assms(1) map_of_is_SomeI by fastforce
qed

lemma new_tables_none: "new_tables e (compareSnapshots collate now e d) = [] \<longleftrightarrow> sd_onlyInEntityTables (compareSnapshots collate now e d) = []"
  unfolding new_tables_def
  by (rule map_filter_all_Nil) (force simp: compareSnapshots_def Let_def only_in_set map_of_eq_None_iff)

lemma new_table_some: "new_table_sql t \<noteq> []"
  by (simp add: new_table_sql_def createTableSql_def Let_def)

lemma no_statements_tables:
  assumes "distinct (map fst (ss_tables e))"
  shows "no_statements e (compareSnapshots collate now e d) \<longleftrightarrow>
    sd_onlyInEntityTables (compareSnapshots collate now e d) = []
    \<and> (\<forall>(k, tab)\<in>set (sd_tables (compareSnapshots collate now e d)). td_onlyInEntityColumns tab = []
        \<and> td_onlyInEntityIndexes tab = [] \<and> td_likelyRenames tab = [] \<and> td_typeMismatches tab = []
        \<and> td_nullabilityMismatches tab = [] \<and> td_indexMismatches tab = [] \<and> td_onlyInEntityForeignKeys tab = [])"
proof -
  let ?diff = "compareSnapshots collate now e d"
  have per: "(\<exists>t. map_of (ss_tables e) k = Some t \<and> known t tab)" if "(k, tab) \<in> set (sd_tables ?diff)" for k tab
    using changed_table [OF assms that] compare_known by blast
  have all: "concat (map (\<lambda>(_, t, tab). g t tab) (changed_tables e ?diff)) = [] \<longleftrightarrow> (\<forall>(k, tab)\<in>set (sd_tables ?diff). h tab)"
    if "\<And>t tab. known t tab \<Longrightarrow> g t tab = [] \<longleftrightarrow> h tab" for g :: "schema_table \<Rightarrow> table_diff \<Rightarrow> string list" and h
  proof -
    have mem: "(k, t, tab) \<in> set (changed_tables e ?diff) \<longleftrightarrow> (k, tab) \<in> set (sd_tables ?diff) \<and> map_of (ss_tables e) k = Some t" for k t tab
      by (force simp: changed_tables_def List.map_filter_def)
    have m: "(\<forall>(k, t, tab)\<in>set (changed_tables e ?diff). g t tab = []) \<longleftrightarrow> (\<forall>(k, tab)\<in>set (sd_tables ?diff). h tab)"
    proof (intro iffI ballI, unfold split_paired_all prod.case)
      fix k tab assume a: "\<forall>(k, t, tab)\<in>set (changed_tables e ?diff). g t tab = []" "(k, tab) \<in> set (sd_tables ?diff)"
      obtain t where "map_of (ss_tables e) k = Some t" "known t tab" using per [OF a(2)] by blast
      then show "h tab" using a mem that by fastforce
    next
      fix k t tab assume a: "\<forall>(k, tab)\<in>set (sd_tables ?diff). h tab" "(k, t, tab) \<in> set (changed_tables e ?diff)"
      then have b: "(k, tab) \<in> set (sd_tables ?diff)" "map_of (ss_tables e) k = Some t" using mem by simp_all
      then have "known t tab" using per by fastforce
      then show "g t tab = []" using a(1) b(1) that by fastforce
    qed
    show ?thesis unfolding m [symmetric] by (auto simp: split_def)
  qed
  have n: "concat (map new_table_sql (new_tables e ?diff)) = [] \<longleftrightarrow> sd_onlyInEntityTables ?diff = []"
    using new_table_some new_tables_none by (metis concat_map_Nil)
  have "concat (map (\<lambda>(_, t, tab). add_column_sql t tab) (changed_tables e ?diff)) = []
      \<longleftrightarrow> (\<forall>(k, tab)\<in>set (sd_tables ?diff). td_onlyInEntityColumns tab = [])"
    using add_column_none by (rule all)
  moreover have "concat (map (\<lambda>(_, t, tab). notx_sql t tab) (changed_tables e ?diff)) = []
      \<longleftrightarrow> (\<forall>(k, tab)\<in>set (sd_tables ?diff). td_onlyInEntityIndexes tab = [])"
    using notx_none by (rule all)
  moreover have "concat (map (\<lambda>(_, t, tab). review_sql (sd_userReviewRequired ?diff) t tab) (changed_tables e ?diff)) = []
      \<longleftrightarrow> (\<forall>(k, tab)\<in>set (sd_tables ?diff). td_likelyRenames tab = [] \<and> td_typeMismatches tab = []
            \<and> td_nullabilityMismatches tab = [] \<and> td_indexMismatches tab = [] \<and> td_onlyInEntityForeignKeys tab = [])"
    using review_none by (rule all)
  ultimately show ?thesis
    unfolding no_statements_def patch_safe_def patch_notx_def patch_review_def append_self_conv append_is_Nil_conv n
    by blast
qed


definition demo_snapshot_drift :: "schema_diff" where
  "demo_snapshot_drift = compareSnapshots id [] (demo_snapshot ''int4'' []) (demo_snapshot ''int8'' [])"

lemma demo_int4: "comparablePgType (demo_column ''int4'') = ''int4''"
  by code_simp

lemma demo_drift_reviewed: "needs_review (demo_snapshot ''int4'' []) demo_snapshot_drift"
  by (simp add: needs_review_def demo_snapshot_drift_def patch_review_def changed_tables_def compareSnapshots_def demo_snapshot_def
      shared_tables_def List.map_filter_def only_in_def demo_table_def compare_tables_def Let_def table_renames_def no_renames
      by_key_def missing_indexes_def has_diff_def review_sql_def retype_sql_def
      type_mismatch_of_def null_mismatch_of_def col_of_def demo_types demo_int4)

definition gate_patch :: string where
  "gate_patch = buildSqlPatchFromMetaDiff (demo_snapshot ''int4'' []) demo_snapshot_drift"

definition gate_env :: "unit env" where
  "gate_env = \<lparr>e_query = (\<lambda>_ w. (Inr RDone, w)), e_now = (\<lambda>w. (0, w)), e_sleep = id, e_sha256 = (\<lambda>_. ''h''),
     e_verify = (\<lambda>_ _ _. Inr True)\<rparr>"

definition gate_options :: options where
  "gate_options = \<lparr>o_dir = Some [''p''], o_read = (\<lambda>_. Inr gate_patch), o_manifest = FileAbsent, o_keys = FileAbsent,
     o_allowedTrust = None, o_approvedReviews = None, o_actor = None, o_lockWaitMs = None\<rparr>"

definition gate_file :: patch_file where
  "gate_file = \<lparr>f_filename = ''p'', f_patchName = ''p'', f_raw = gate_patch, f_sha256 = ''h'', f_sha256Raw = ''h'',
     f_requiresReview = fst (parsePatchPragmas gate_patch), f_noTransaction = snd (parsePatchPragmas gate_patch)\<rparr>"

definition gate_manifest :: patch_manifest where
  "gate_manifest = \<lparr>mf_version = 1, mf_key_id = ''k'', mf_issued_at = [], mf_patches = [(''p'', ''h'')], mf_signature = []\<rparr>"

definition gate_key :: trusted_key where
  "gate_key = \<lparr>tk_key_id = ''k'', tk_public_key = [], tk_trust = Release\<rparr>"

lemma gate_check: "check_file gate_env gate_options gate_manifest ''p'' = Inr gate_file"
proof -
  have "patchNameFromFilename ''p'' = ''p''" by code_simp
  then show ?thesis by (simp add: check_file_def gate_env_def gate_options_def gate_manifest_def gate_file_def Let_def split_def)
qed

theorem emitted_review_is_gated_witness:
  "apply_loop gate_env gate_options gate_key (\<lambda>_. None) [gate_file] initial_result =
    andThen (query gate_env (Upsert (upsert_row gate_options gate_key gate_file PendingReview None None None)))
      (\<lambda>_. ret (initial_result\<lparr>r_pendingReview := [''p''], r_degraded := True\<rparr>))"
  using emitted_review_is_gated [OF demo_drift_reviewed gate_check, of "\<lambda>_. None" gate_key "[]" initial_result]
  by (simp add: gate_file_def gate_patch_def row_done_def gate_options_def initial_result_def)

lemma clean_but_fk: "isDriftClean diff \<Longrightarrow> \<not> drift_but_fk_changes diff"
  by (auto simp: isDriftClean_def drift_but_fk_changes_def list_all_iff split_def)


lemma demo_nullable: "sc_isNullable (demo_column t) = Some False"
  by (simp add: demo_column_def)

text \<open>A changed foreign key is drift, and has no statement.\<close>

definition demo_fk_snapshot :: "string \<Rightarrow> schema_snapshot" where
  "demo_fk_snapshot act = \<lparr>ss_generatedAt = [], ss_tables = [(''s.t'', (demo_table ''int8'' [])\<lparr>st_foreignKeys :=
     [\<lparr>sf_name = ''f'', sf_column = ''id'', sf_refSchema = ''s'', sf_refTable = ''u'', sf_refColumn = ''id'', sf_onDelete = act,
       sf_onUpdate = ''no_action''\<rparr>]\<rparr>)]\<rparr>"

lemma fk_change_has_no_statement:
  "\<not> isDriftClean (compareSnapshots id [] (demo_fk_snapshot ''cascade'') (demo_fk_snapshot ''restrict''))
   \<and> no_statements (demo_fk_snapshot ''cascade'') (compareSnapshots id [] (demo_fk_snapshot ''cascade'') (demo_fk_snapshot ''restrict''))"
  by (subst no_statements_tables) (simp_all add: isDriftClean_def compareSnapshots_def demo_fk_snapshot_def
      shared_tables_def List.map_filter_def only_in_def demo_table_def compare_tables_def Let_def table_renames_def no_renames
      by_key_def missing_indexes_def has_diff_def type_mismatch_of_def null_mismatch_of_def col_of_def demo_types demo_nullable
      fk_mismatch_of_def fk_ref_def)

section \<open>The unique groups of a new table\<close>

lemma snapshot_column_fields:
  "snapshot_columns annots meta ord cs = Inr cols \<Longrightarrow>
     map fst cols = map fst cs \<and> map (sc_name \<circ> snd) cols = map fst cs \<and> (\<forall>c\<in>snd ` set cols. sc_uniqueIndexName c = None)"
proof (induction annots meta ord cs arbitrary: cols rule: snapshot_columns.induct)
  case (1 annotations meta ord)
  then show ?case by simp
next
  case (2 annotations meta ord sqlName c cs)
  obtain hint rest where h: "column_hint annotations meta sqlName c = Inr hint"
    "snapshot_columns annotations meta (Suc ord) cs = Inr rest" "cols = (sqlName, snapshot_column ord hint sqlName c) # rest"
    using 2(2) by (auto simp: res_bind_def split: sum.splits)
  show ?case using 2(1) [OF h(1,2)] by (simp add: h(3) snapshot_column_def)
qed

lemma singleton_groups:
  assumes "distinct (map key cs)" "\<forall>c\<in>set cs. key c \<notin> set (map fst gs)" "\<forall>g\<in>set gs. length (snd g) = 1"
  shows "\<forall>g\<in>set (fold (\<lambda>c gs. AList.update (key c) ((case map_of gs (key c) of Some g \<Rightarrow> g | None \<Rightarrow> []) @ [val c]) gs) cs gs).
    length (snd g) = 1"
  using assms
proof (induction cs arbitrary: gs)
  case Nil
  then show ?case by simp
next
  case (Cons c cs)
  have n: "map_of gs (key c) = None" using Cons.prems(2) by (simp add: map_of_eq_None_iff)
  let ?gs = "AList.update (key c) [val c] gs"
  have "\<forall>g\<in>set ?gs. length (snd g) = 1" using Cons.prems(3) by (auto dest: set_update_cases)
  moreover have "key x \<noteq> key c" if "x \<in> set cs" for x
    using Cons.prems(1) that by (metis distinct.simps(2) image_eqI list.set_map list.simps(9))
  then have "\<forall>x\<in>set cs. key x \<notin> set (map fst ?gs)" using Cons.prems(2) by (simp add: dom_update)
  moreover have "distinct (map key cs)" using Cons.prems(1) by simp
  ultimately show ?case using Cons.IH [of ?gs] n by simp
qed

text \<open>The columns of an entity snapshot carry no name of a unique index, so the emitter puts each unique column in a
  group of its own: a new table never gets a constraint for a composite unique group, and the columns of such a
  group get no unique index of their own either.\<close>

lemma composite_uniques_lost:
  assumes "snapshot_table annots meta = Inr t" "distinct (map fst (em_columns meta))"
  shows "unique_constraints t = [] \<and>
    (\<forall>ix\<in>set (uniqueGroups meta). 1 < length (si_columns ix) \<longrightarrow> set (si_columns ix) \<subseteq> set (grouped_columns t))"
proof -
  obtain cols where c: "snapshot_columns annots meta 1 (em_columns meta) = Inr cols" "st_columns t = cols"
    "st_indexes t = map snapshot_index (em_indexes meta) @ uniqueGroups meta"
    using assms(1) by (auto simp: snapshot_table_def res_bind_def split: sum.splits)
  note f = snapshot_column_fields [OF c(1)]
  let ?cs = "filter (\<lambda>c. sc_isUnique c \<and> \<not> sc_isPrimaryKey c) (cols_sorted t)"
  have s: "set (cols_sorted t) = snd ` set cols" by (simp add: cols_sorted_def c(2))
  have k: "unique_key t x = (st_name t @ ''_uq_'') @ sc_name x" if "x \<in> set ?cs" for x
    using that f s by (auto simp: unique_key_def)
  have "distinct (map sc_name (cols_sorted t))"
  proof -
    have "mset (map sc_name (cols_sorted t)) = mset (map (sc_name \<circ> snd) cols)" by (simp add: cols_sorted_def c(2) multiset.map_comp)
    then show ?thesis using mset_eq_imp_distinct_iff f assms(2) by metis
  qed
  then have "distinct (map sc_name ?cs)" by (rule distinct_map_filter)
  then have "distinct (map (\<lambda>x. (st_name t @ ''_uq_'') @ sc_name x) ?cs)"
    unfolding distinct_map by (auto simp: inj_on_def)
  then have "distinct (map (unique_key t) ?cs)" using k by (metis (mono_tags, lifting) map_eq_conv)
  then have "\<forall>g\<in>set (unique_groups t). length (snd g) = 1"
    unfolding unique_groups_def by (intro singleton_groups) simp_all
  then have "unique_constraints t = []" by (force simp: unique_constraints_def map_filter_Nil)
  moreover have "si_isUnique ix" if "ix \<in> set (uniqueGroups meta)" for ix
    using that by (auto simp: uniqueGroups_def Let_def)
  ultimately show ?thesis by (fastforce simp: grouped_columns_def c(3))
qed

section \<open>Names\<close>

lemma replace_class:
  "re_replace_at (Cls P) (\<lambda>_ _. [d]) l r = map (\<lambda>c. if P c then d else c) r"
  by (induction r arbitrary: l) (subst re_replace_at.simps; simp)+

lemma us_run_chars: "set (re_replace_at us_run_re (\<lambda>_ _. ''_'') l r) \<subseteq> insert (CHR ''_'') (set r)"
proof (induction "length r" arbitrary: l r rule: less_induct)
  case less
  show ?case
  proof (cases "re_match us_run_re (l, r, [])")
    case Nil
    then show ?thesis
    proof (cases r)
      case (Cons c r')
      then show ?thesis using Nil less [of r' "c # l"] by (subst re_replace_at.simps) auto
    qed (subst re_replace_at.simps, simp)
  next
    case (Cons t ts)
    then have "consumes (min_len us_run_re) (l, r, []) t" by (intro re_match_consumes) simp
    then obtain u where u: "r = u @ st_rest t" "1 \<le> length u"
      by (auto simp: consumes_def us_run_re_def re_defs)
    then have "length (st_rest t) < length r" by (metis add_less_cancel_right length_append less_add_same_cancel2 less_eq_Suc_le One_nat_def)
    then have e: "re_replace_at us_run_re (\<lambda>_ _. ''_'') l r = ''_'' @ re_replace_at us_run_re (\<lambda>_ _. ''_'') (fst t) (st_rest t)"
      by (subst re_replace_at.simps) (simp add: Cons)
    have "set (st_rest t) \<subseteq> set r" by (subst u(1)) simp
    then show ?thesis unfolding e using less [of "st_rest t" "fst t"] \<open>length (st_rest t) < length r\<close> by auto
  qed
qed

lemma slug_length: "length (slugifyPatchSegment s) \<le> 72 \<and> slugifyPatchSegment s \<noteq> []"
  by (simp add: slugifyPatchSegment_def Let_def)

text \<open>The names that a patch gives to indexes and constraints are non-empty, of word characters only and within
  PostgreSQL's 63 bytes; the slug in the name of a patch file is non-empty and at most 72 characters long.\<close>

theorem generated_names_fit:
  "slugifyIdent s \<noteq> [] \<and> length (slugifyIdent s) \<le> 63 \<and> list_all is_word (slugifyIdent s)
   \<and> patchSlugFromDiff diff \<noteq> [] \<and> length (patchSlugFromDiff diff) \<le> 72"
proof -
  let ?x = "re_replace_all us_run_re (\<lambda>_ _. ''_'') (re_replace_all non_word_re (\<lambda>_ _. ''_'') s)"
  have us: "is_word (CHR ''_'')" by code_simp
  have "set ?x \<subseteq> insert (CHR ''_'') (set (map (\<lambda>c. if \<not> is_word c then CHR ''_'' else c) s))"
    using us_run_chars unfolding re_replace_all_def non_word_re_def replace_class by blast
  moreover have "\<forall>c\<in>set (map (\<lambda>c. if \<not> is_word c then CHR ''_'' else c) s). is_word c" using us by auto
  ultimately have "list_all is_word ?x" using us unfolding list_all_iff by blast
  then have "list_all is_word (take 63 ?x)" by (auto simp: list_all_iff dest: in_set_takeD)
  moreover have "list_all is_word ''uq''" by code_simp
  ultimately have "list_all is_word (slugifyIdent s)" unfolding slugifyIdent_def nonempty_or_def by simp
  moreover have "slugifyIdent s \<noteq> [] \<and> length (slugifyIdent s) \<le> 63" by (simp add: slugifyIdent_def nonempty_or_def)
  moreover have "patchSlugFromDiff diff \<noteq> [] \<and> length (patchSlugFromDiff diff) \<le> 72"
    using slug_length by (simp add: patchSlugFromDiff_def Let_def)
  ultimately show ?thesis by blast
qed

end
