(* ===== verification/ColumnIo.thy ===== *)
theory ColumnIo
  imports EntityPersistence Manifest
begin

text \<open>
  \<open>src/meta/column-pg-io.ts\<close> and \<open>src/audit/delta-calculator.ts\<close>: the values of rows and payloads, their conversion to
  parameters of the driver and back, and the deltas of the audit trail.

  A number is its decimal text, a \<open>bigint\<close> an integer, a \<open>Date\<close> its time value, a \<open>Decimal\<close> (of \<open>@primebrick/core\<close>) its text
  and a \<open>Vector\<close> its components; \<open>HRef\<close> is a \<open>DeferredFieldRef\<close> of
  \<open>src/dal/deferred-transaction.ts\<close>, with its operation and its field.  What depends on the host (parsing and printing of dates, the \<open>Decimal\<close> class,
  \<open>Number\<close> of a large \<open>bigint\<close>) is a field of \<open>host\<close>.
\<close>

section \<open>Values\<close>

datatype host_value =
    HNull
  | HUndefined
  | HBool bool
  | HNum string
  | HBig int
  | HStr string
  | HDate int
  | HDecimal string
  | HVector "string list"
  | HArr "host_value list"
  | HObj "(string \<times> host_value) list"
  | HRef nat string

record host =
  h_parseDate :: "string \<Rightarrow> int option"
  h_isoDate :: "int \<Rightarrow> string"
  h_toPG :: "string \<Rightarrow> string"
  h_dec :: "string \<Rightarrow> (string, string) res"
  h_decJson :: "string \<Rightarrow> string"
  h_number :: "int \<Rightarrow> string"
  h_numberOf :: "string \<Rightarrow> string"
  h_dateOf :: "string \<Rightarrow> int option"
  h_bigInt :: "string \<Rightarrow> (string, int) res"

text \<open>\<open>h_number\<close> and \<open>h_numberOf\<close> are \<open>Number\<close> of a \<open>bigint\<close> and of a string, \<open>h_dateOf\<close> is \<open>new Date\<close> of a number,
  \<open>h_bigInt\<close> is \<open>BigInt\<close> of a number or a string.\<close>

type_synonym host_record = "(string \<times> host_value) list"

definition host_nullish :: "host_value \<Rightarrow> bool" where
  "host_nullish v \<longleftrightarrow> v = HNull \<or> v = HUndefined"

definition finite_number :: "string \<Rightarrow> bool" where
  "finite_number n \<longleftrightarrow> n \<notin> {''NaN'', ''Infinity'', ''-Infinity''}"

text \<open>\<open>JSON.stringify(v, f)\<close>, where \<open>big\<close> is what the replacer makes of a \<open>bigint\<close> (\<open>Inl\<close> the \<open>TypeError\<close> that
  \<open>JSON.stringify\<close> throws without one).  Undefined members of an object are left out, undefined elements
  of an array are \<open>null\<close>, and an undefined value has no text.\<close>

fun json_text :: "host \<Rightarrow> (int \<Rightarrow> (string, string) res) \<Rightarrow> host_value \<Rightarrow> (string, string option) res"
and json_elems :: "host \<Rightarrow> (int \<Rightarrow> (string, string) res) \<Rightarrow> host_value list \<Rightarrow> (string, string list) res"
and json_members :: "host \<Rightarrow> (int \<Rightarrow> (string, string) res) \<Rightarrow> (string \<times> host_value) list \<Rightarrow> (string, string list) res" where
  "json_text H big HNull = Inr (Some ''null'')"
| "json_text H big HUndefined = Inr None"
| "json_text H big (HBool b) = Inr (Some (if b then ''true'' else ''false''))"
| "json_text H big (HNum n) = Inr (Some (if finite_number n then n else ''null''))"
| "json_text H big (HBig i) = res_bind (big i) (\<lambda>t. Inr (Some t))"
| "json_text H big (HStr s) = Inr (Some (json_str s))"
| "json_text H big (HDate d) = Inr (Some (json_str (h_isoDate H d)))"
| "json_text H big (HDecimal d) = Inr (Some (json_str (h_decJson H d)))"
| "json_text H big (HVector ns) = Inr (Some (''['' @ join '','' ns @ '']''))"
| "json_text H big (HArr vs) = res_bind (json_elems H big vs) (\<lambda>ts. Inr (Some (''['' @ join '','' ts @ '']'')))"
| "json_text H big (HObj kvs) = res_bind (json_members H big kvs) (\<lambda>ts. Inr (Some (''{'' @ join '','' ts @ ''}'')))"
| "json_text H big (HRef i f) = Inr (Some (''{'' @ json_str ''opIndex'' @ '':'' @ nat_str i @ '','' @ json_str ''field'' @ '':'' @ json_str f @ ''}''))"
| "json_elems H big [] = Inr []"
| "json_elems H big (v # vs) =
     res_bind (json_text H big v) (\<lambda>t. res_bind (json_elems H big vs) (\<lambda>ts.
       Inr ((case t of Some x \<Rightarrow> x | None \<Rightarrow> ''null'') # ts)))"
| "json_members H big [] = Inr []"
| "json_members H big ((k, v) # kvs) =
     res_bind (json_text H big v) (\<lambda>t. res_bind (json_members H big kvs) (\<lambda>ts.
       Inr (case t of Some x \<Rightarrow> (json_str k @ '':'' @ x) # ts | None \<Rightarrow> ts)))"

text \<open>\<open>String(v)\<close>, and the elements of \<open>join(",")\<close>.\<close>

fun host_string :: "host \<Rightarrow> host_value \<Rightarrow> string" and host_elems :: "host \<Rightarrow> host_value list \<Rightarrow> string list" where
  "host_string H HNull = ''null''"
| "host_string H HUndefined = ''undefined''"
| "host_string H (HBool b) = (if b then ''true'' else ''false'')"
| "host_string H (HNum n) = n"
| "host_string H (HBig i) = int_str i"
| "host_string H (HStr s) = s"
| "host_string H (HDate d) = h_isoDate H d"
| "host_string H (HDecimal d) = d"
| "host_string H (HVector ns) = ''['' @ join '','' ns @ '']''"
| "host_string H (HArr vs) = join '','' (host_elems H vs)"
| "host_string H (HObj kvs) = ''[object Object]''"
| "host_string H (HRef i f) = ''[object Object]''"
| "host_elems H [] = []"
| "host_elems H (v # vs) = (if host_nullish v then [] else host_string H v) # host_elems H vs"

section \<open>Parameters and wire values\<close>

definition effectivePgStorageType :: "column_meta \<Rightarrow> string" where
  "effectivePgStorageType c =
     trim (to_lower (case cm_pgType c of Some t \<Rightarrow> t | None \<Rightarrow> cm_inferredPgType c))"

text \<open>\<open>/^(timestamp|timestamptz)\b/\<close>, \<open>/^(numeric|decimal)\b/\<close>, \<open>/^date\b/i\<close>.\<close>

definition timestamp_re :: re where
  "timestamp_re = re_seq [Bol, Grp 1 (re_alt [lit ''timestamp'', lit ''timestamptz'']), WordB]"

definition decimal_re :: re where
  "decimal_re = re_seq [Bol, Grp 1 (re_alt [lit ''numeric'', lit ''decimal'']), WordB]"

definition date_re :: re where
  "date_re = re_seq [Bol, lit_ci ''date'', WordB]"

definition isLogicalJsDateColumn :: "column_meta \<Rightarrow> bool" where
  "isLogicalJsDateColumn c \<longleftrightarrow>
     cm_jsType c = Some Instant
     \<or> cm_auditableType c = Some CREATED_AT \<or> cm_auditableType c = Some UPDATED_AT
     \<or> cm_deletableType c = Some DELETED_AT
     \<or> cm_synchronizableType c = Some LAST_SYNCED_AT
     \<or> re_test timestamp_re (effectivePgStorageType c)"

definition isDecimalColumn :: "column_meta \<Rightarrow> bool" where
  "isDecimalColumn c \<longleftrightarrow> cm_jsType c = Some JsDecimal \<or> re_test decimal_re (effectivePgStorageType c)"

definition isVectorColumn :: "column_meta \<Rightarrow> bool" where
  "isVectorColumn c \<longleftrightarrow> cm_jsType c = Some JsVector \<or> starts_with (effectivePgStorageType c) ''vector''"

definition date_param :: "host \<Rightarrow> column_meta \<Rightarrow> int \<Rightarrow> host_value" where
  "date_param H c d =
     (if effectivePgStorageType c = ''date'' \<or> re_test date_re (effectivePgStorageType c)
      then HStr (take 10 (h_isoDate H d)) else HDate d)"

definition vector_param :: "host \<Rightarrow> host_value \<Rightarrow> host_value" where
  "vector_param H v = (case v of HArr vs \<Rightarrow> HStr (''['' @ join '','' (host_elems H vs) @ '']'') | _ \<Rightarrow> v)"

definition json_param :: "host \<Rightarrow> host_value \<Rightarrow> host_value" where
  "json_param H v =
     (let txt = (\<lambda>v. case json_text H (\<lambda>i. Inr (h_number H i)) v of Inr (Some t) \<Rightarrow> HStr t | _ \<Rightarrow> HUndefined)
      in case v of HArr _ \<Rightarrow> txt v | HObj _ \<Rightarrow> txt v | HRef _ _ \<Rightarrow> txt v | HBig i \<Rightarrow> HNum (h_number H i) | _ \<Rightarrow> v)"

definition other_param :: "host \<Rightarrow> column_meta \<Rightarrow> host_value \<Rightarrow> host_value" where
  "other_param H c v =
     (if isVectorColumn c then vector_param H v
      else if effectivePgStorageType c = ''jsonb'' \<or> effectivePgStorageType c = ''json'' then json_param H v
      else v)"

definition jsValueToPgParam :: "host \<Rightarrow> column_meta \<Rightarrow> host_value \<Rightarrow> host_value" where
  "jsValueToPgParam H c v =
     (case v of
        HNull \<Rightarrow> HNull
      | HUndefined \<Rightarrow> HUndefined
      | HDate d \<Rightarrow> date_param H c d
      | HDecimal d \<Rightarrow> HStr (h_toPG H d)
      | HVector ns \<Rightarrow> HStr (''['' @ join '','' ns @ '']'')
      | HStr s \<Rightarrow>
          if isLogicalJsDateColumn c then
            (case h_parseDate H s of Some d \<Rightarrow> date_param H c d | None \<Rightarrow> other_param H c v)
          else other_param H c v
      | _ \<Rightarrow> other_param H c v)"

text \<open>\<open>Vector.from\<close> of \<open>src/types/vector.ts\<close>; every component has to be a finite number.\<close>

definition fromNumbers :: "string list \<Rightarrow> (string, host_value) res" where
  "fromNumbers ns =
     (case List.find (\<lambda>n. \<not> finite_number n) ns of
        Some n \<Rightarrow> Inl (''Vector components must be finite numbers, got '' @ n)
      | None \<Rightarrow> Inr (HVector ns))"

definition vector_elem :: "host \<Rightarrow> host_value \<Rightarrow> (string, string) res" where
  "vector_elem H v = (case v of
      HNum n \<Rightarrow> if finite_number n then Inr n else Inl (''Vector components must be finite numbers, got '' @ n)
    | _ \<Rightarrow> Inl (''Vector components must be finite numbers, got '' @ host_string H v))"

definition Vector_from :: "host \<Rightarrow> host_value \<Rightarrow> (string, host_value) res" where
  "Vector_from H v =
     (case v of
        HStr s \<Rightarrow>
          (let t = trim s;
               inner = (if starts_with t ''['' \<and> ends_with t '']'' then butlast (tl t) else t)
           in fromNumbers (if inner = [] then [] else map (\<lambda>x. h_numberOf H (trim x)) (split_on (CHR '','') inner)))
      | HArr vs \<Rightarrow> res_bind (map_res (vector_elem H) vs) fromNumbers
      | _ \<Rightarrow> Inr v)"

text \<open>\<open>s.replace(/d$/, "")\<close>.\<close>

definition drop_suffix_d :: "string \<Rightarrow> string" where
  "drop_suffix_d s = (if ends_with s ''d'' then butlast s else s)"

definition date_value :: "host_value \<Rightarrow> int option \<Rightarrow> (string, host_value) res" where
  "date_value v d = Inr (case d of Some t \<Rightarrow> HDate t | None \<Rightarrow> v)"

definition pgValueToJsValue :: "host \<Rightarrow> column_meta \<Rightarrow> host_value \<Rightarrow> (string, host_value) res" where
  "pgValueToJsValue H c v =
     (if host_nullish v then Inr v
      else if isDecimalColumn c then
        (let decimal = (\<lambda>s. res_bind (h_dec H s) (\<lambda>d. Inr (HDecimal d)))
         in case v of HStr s \<Rightarrow> decimal (drop_suffix_d s) | HNum n \<Rightarrow> decimal n | HBig i \<Rightarrow> decimal (int_str i) | _ \<Rightarrow> Inr v)
      else if isVectorColumn c then
        (case v of HStr _ \<Rightarrow> Vector_from H v | HArr _ \<Rightarrow> Vector_from H v | _ \<Rightarrow> Inr v)
      else if isLogicalJsDateColumn c then
        (case v of HStr s \<Rightarrow> date_value v (h_parseDate H s) | HNum n \<Rightarrow> date_value v (h_dateOf H n) | _ \<Rightarrow> Inr v)
      else Inr v)"

fun hydrate_cols :: "host \<Rightarrow> column_meta list \<Rightarrow> host_record \<Rightarrow> (string, host_record) res" where
  "hydrate_cols H [] r = Inr r"
| "hydrate_cols H (c # cs) r =
     (case map_of r (cm_propertyKey c) of
        None \<Rightarrow> hydrate_cols H cs r
      | Some v \<Rightarrow>
          if host_nullish v then hydrate_cols H cs r
          else res_bind (pgValueToJsValue H c v) (\<lambda>x.
            hydrate_cols H cs (if x \<noteq> v then AList.update (cm_propertyKey c) x r else r)))"

definition hydrateEntityDateFieldsFromJson :: "host \<Rightarrow> entity_meta \<Rightarrow> host_record \<Rightarrow> (string, host_record) res" where
  "hydrateEntityDateFieldsFromJson H meta r = hydrate_cols H (map snd (em_columns meta)) r"

section \<open>Deltas\<close>

definition MAX_SAFE_INTEGER :: int where
  "MAX_SAFE_INTEGER = 2 ^ 53 - 1"

text \<open>A \<open>bigint\<close> is kept when its number is not a safe integer; \<open>for (k in o)\<close> copies the members of plain objects.\<close>

fun bigintToNumber :: "host \<Rightarrow> host_value \<Rightarrow> host_value"
and bigint_members :: "host \<Rightarrow> (string \<times> host_value) list \<Rightarrow> (string \<times> host_value) list" where
  "bigintToNumber H (HBig i) = (if MAX_SAFE_INTEGER < abs i then HBig i else HNum (int_str i))"
| "bigintToNumber H (HArr vs) = HArr (map (bigintToNumber H) vs)"
| "bigintToNumber H (HObj kvs) = HObj (bigint_members H kvs)"
| "bigintToNumber H v = v"
| "bigint_members H [] = []"
| "bigint_members H ((k, v) # kvs) = (k, bigintToNumber H v) # bigint_members H kvs"

definition no_bigint :: "int \<Rightarrow> (string, string) res" where
  "no_bigint i = Inl ''Do not know how to serialize a BigInt''"

definition member_or :: "host_value \<Rightarrow> host_record \<Rightarrow> string \<Rightarrow> host_value" where
  "member_or d r k = (case map_of r k of Some v \<Rightarrow> v | None \<Rightarrow> d)"

type_synonym delta = "(string \<times> host_value \<times> host_value) list"

text \<open>The entry of one key: absent when the texts agree.\<close>

definition delta_entry :: "host \<Rightarrow> host_record \<Rightarrow> string \<times> host_value \<Rightarrow> (string, delta) res" where
  "delta_entry H old p =
     (case p of (k, v) \<Rightarrow>
        (let oldVal = bigintToNumber H (member_or HUndefined old k); newVal = bigintToNumber H v
         in res_bind (json_text H no_bigint oldVal) (\<lambda>a.
            res_bind (json_text H no_bigint newVal) (\<lambda>b.
              Inr (if a \<noteq> b then [(k, oldVal, newVal)] else [])))))"

definition calculateDelta :: "host \<Rightarrow> host_record \<Rightarrow> host_record \<Rightarrow> (string, delta) res" where
  "calculateDelta H old new = res_bind (map_res (delta_entry H old) new) (\<lambda>ds. Inr (concat ds))"

fun force_fields :: "host \<Rightarrow> host_record \<Rightarrow> host_record \<Rightarrow> string list \<Rightarrow> delta \<Rightarrow> delta" where
  "force_fields H old new [] d = d"
| "force_fields H old new (k # ks) d =
     force_fields H old new ks
       (if map_of d k = None \<and> map_of new k \<noteq> None then
          d @ [(k, bigintToNumber H (case member_or HUndefined old k of HUndefined \<Rightarrow> HNull | v \<Rightarrow> v),
                   bigintToNumber H (member_or HUndefined new k))]
        else d)"

definition calculateDeltaWithForcedFields :: "host \<Rightarrow> host_record \<Rightarrow> host_record \<Rightarrow> string list \<Rightarrow> (string, delta) res" where
  "calculateDeltaWithForcedFields H old new ks =
     res_bind (calculateDelta H old new) (\<lambda>d. Inr (force_fields H old new ks d))"

end
