(* ===== verification/RepositoryWrites.thy ===== *)
theory RepositoryWrites
  imports QueryBuilder ColumnIo
begin

text \<open>
  The single-row writes of \<open>src/repository/repository.ts\<close> (\<open>add\<close>, \<open>update\<close>, \<open>delete\<close>, \<open>restore\<close>, \<open>hardDelete\<close>) and the
  error classes of \<open>src/errors/errors.ts\<close> that they throw.

  The database and the audit port act on a world of any type; a method returns its outcome and the world.  The
  time of a call is an argument, and \<open>rp_param\<close> is the value that the driver gets for a parameter of a query.  \<open>matchBy\<close> is the list of its properties.
\<close>

section \<open>Errors, options, the database\<close>

datatype dal_error =
    NotFound string
  | MultipleRows string
  | UnknownColumn string
  | Validation string
  | MissingVersion string
  | RecordVanished string
  | DuplicateRecord string
  | MatchSelector string
  | IdentityConflict string
  | OptimisticLock string
  | BulkTimeout string
  | PlainError string
  | DatabaseError string string
  | CaptureSignal string "host_value list"

text \<open>\<open>CaptureSignal\<close> is the rejection of the capturing connection of \<open>src/dal/deferred-transaction.ts\<close>.  The \<open>code\<close> of an error:\<close>

definition error_code :: "dal_error \<Rightarrow> string" where
  "error_code e = (case e of
      NotFound _ \<Rightarrow> ''NOT_FOUND'' | MultipleRows _ \<Rightarrow> ''MULTIPLE_ROWS'' | UnknownColumn _ \<Rightarrow> ''UNKNOWN_COLUMN''
    | Validation _ \<Rightarrow> ''VALIDATION'' | MissingVersion _ \<Rightarrow> ''ERR02'' | RecordVanished _ \<Rightarrow> ''ERR03''
    | DuplicateRecord _ \<Rightarrow> ''ERR04'' | BulkTimeout _ \<Rightarrow> ''ERR06'' | MatchSelector _ \<Rightarrow> ''ERR09''
    | IdentityConflict _ \<Rightarrow> ''ERR10'' | OptimisticLock _ \<Rightarrow> ''ERR01'' | PlainError _ \<Rightarrow> [] | CaptureSignal _ _ \<Rightarrow> [] | DatabaseError c _ \<Rightarrow> c)"

definition plain :: "(string, 'a) res \<Rightarrow> (dal_error, 'a) res" where
  "plain r = (case r of Inl e \<Rightarrow> Inl (PlainError e) | Inr a \<Rightarrow> Inr a)"

record query_result =
  qr_rows :: "host_record list"
  qr_rowCount :: nat

datatype audit_action = INSERT | UPDATE | SOFT_DELETE | HARD_DELETE | RESTORE | CLONE

record audit_entry =
  ae_entityClassName :: string
  ae_tableName :: string
  ae_entityId :: host_value
  ae_entityUuid :: host_value
  ae_action :: audit_action
  ae_changedAt :: int
  ae_version :: host_value
  ae_changedBy :: string
  ae_delta :: delta

record 'w repo =
  rp_query :: "string \<Rightarrow> host_value list \<Rightarrow> 'w \<Rightarrow> (dal_error, query_result) res \<times> 'w"
  rp_audit :: "audit_entry \<Rightarrow> 'w \<Rightarrow> 'w"
  rp_param :: "js_value \<Rightarrow> host_value"
  rp_host :: host
  rp_env :: entity_env

record write_options =
  wo_actor :: "string option"
  wo_audit :: bool
  wo_returning :: "field_projector list"
  wo_matchBy :: "string list"
  wo_tableName :: "string option"
  wo_ignore :: bool
  wo_conflictKeys :: "string list option"

type_synonym ('w, 'a) op = "'w \<Rightarrow> (dal_error, 'a) res \<times> 'w"

definition op_ret :: "'a \<Rightarrow> ('w, 'a) op" where
  "op_ret a w = (Inr a, w)"

definition op_fail :: "dal_error \<Rightarrow> ('w, 'a) op" where
  "op_fail e w = (Inl e, w)"

definition op_lift :: "(dal_error, 'a) res \<Rightarrow> ('w, 'a) op" where
  "op_lift r w = (r, w)"

definition op_bind :: "('w, 'a) op \<Rightarrow> ('a \<Rightarrow> ('w, 'b) op) \<Rightarrow> ('w, 'b) op" where
  "op_bind m f w = (case m w of (Inl e, w') \<Rightarrow> (Inl e, w') | (Inr a, w') \<Rightarrow> f a w')"

section \<open>Small helpers\<close>

definition escapeLiteral :: "string \<Rightarrow> string" where
  "escapeLiteral s = [CHR 0x27] @ replace_char (CHR 0x27) [CHR 0x27, CHR 0x27] s @ [CHR 0x27]"

definition cols :: "entity_meta \<Rightarrow> column_meta list" where
  "cols meta = map snd (em_columns meta)"

definition findPkColumn :: "entity_meta \<Rightarrow> column_meta option" where
  "findPkColumn meta = List.find cm_isKey (cols meta)"

definition auditable_col :: "auditable_type \<Rightarrow> entity_meta \<Rightarrow> column_meta option" where
  "auditable_col t meta = List.find (\<lambda>c. cm_auditableType c = Some t) (cols meta)"

definition deletable_col :: "deletable_type \<Rightarrow> entity_meta \<Rightarrow> column_meta option" where
  "deletable_col t meta = List.find (\<lambda>c. cm_deletableType c = Some t) (cols meta)"

definition uuid_col :: "entity_meta \<Rightarrow> column_meta option" where
  "uuid_col meta = List.find (\<lambda>c. cm_sqlName c = ''uuid'') (cols meta)"

definition findVersionColumn :: "entity_meta \<Rightarrow> column_meta option" where
  "findVersionColumn meta = auditable_col VERSION meta"

definition isAuditableEntity :: "entity_meta \<Rightarrow> bool" where
  "isAuditableEntity meta \<longleftrightarrow> em_isAuditable meta = Some True \<or> list_ex (\<lambda>c. cm_auditableType c \<noteq> None) (cols meta)"

text \<open>A property of a payload; \<open>undefined\<close> when it is absent.\<close>

definition prop_of :: "host_record \<Rightarrow> string \<Rightarrow> host_value" where
  "prop_of r k = member_or HUndefined r k"

definition without :: "host_record \<Rightarrow> string \<Rightarrow> host_record" where
  "without r k = filter (\<lambda>(k', _). k' \<noteq> k) r"

definition dollar :: "nat \<Rightarrow> string" where
  "dollar n = ''$'' @ nat_str n"

record match_condition =
  mc_propertyKey :: string
  mc_sqlName :: string
  mc_value :: host_value
  mc_column :: column_meta

definition condition_texts :: "(nat \<Rightarrow> string \<Rightarrow> string) \<Rightarrow> match_condition list \<Rightarrow> (dal_error, string list) res" where
  "condition_texts f conditions =
     map_res (\<lambda>(i, c). res_bind (plain (quoteIdent (mc_sqlName c))) (\<lambda>q. Inr (f i q))) (enumerate 0 conditions)"

definition identityWhere :: "match_condition list \<Rightarrow> nat \<Rightarrow> (dal_error, string) res" where
  "identityWhere conditions paramStart =
     res_bind (condition_texts (\<lambda>i q. q @ '' = '' @ dollar (paramStart + i)) conditions) (\<lambda>ts. Inr (join '' AND '' ts))"

definition identitySelfExclusion :: "match_condition list \<Rightarrow> nat \<Rightarrow> string \<Rightarrow> (dal_error, string) res" where
  "identitySelfExclusion conditions paramStart alias =
     res_bind (condition_texts (\<lambda>i q. alias @ ''.'' @ q @ '' IS DISTINCT FROM '' @ dollar (paramStart + i)) conditions)
       (\<lambda>ts. Inr (join '' OR '' ts))"

text \<open>\<open>Number(v)\<close> of the version; the payload of a wire client has a number.\<close>

definition host_number :: "host \<Rightarrow> host_value \<Rightarrow> host_value" where
  "host_number H v = (case v of HBig i \<Rightarrow> HNum (h_number H i) | HStr s \<Rightarrow> HNum (h_numberOf H s) | HBool b \<Rightarrow> HNum (if b then ''1'' else ''0'')
    | HRef _ _ \<Rightarrow> HNum ''NaN'' | _ \<Rightarrow> v)"

definition extractVersion :: "host \<Rightarrow> host_record \<Rightarrow> column_meta option \<Rightarrow> string
    \<Rightarrow> (dal_error, (host_value \<times> host_record) option) res" where
  "extractVersion H payload versionCol entityClassName =
     (case versionCol of
        None \<Rightarrow> Inr None
      | Some vc \<Rightarrow>
          (let v = prop_of payload (cm_propertyKey vc)
           in if host_nullish v then
                Inl (MissingVersion (''Auditable entity write requires a '' @ [CHR 0x27] @ ''version'' @ [CHR 0x27]
                  @ '' field; entity '' @ entityClassName @ '' is auditable but no version was provided.''))
              else Inr (Some (host_number H v, without payload (cm_propertyKey vc)))))"

section \<open>RETURNING\<close>

record returning =
  rt_clause :: string
  rt_visibleKeys :: "string list"
  rt_rowKeyToSqlName :: "(string \<times> string) list"

text \<open>A projection that is emitted: text, row key, column behind it, whether the caller sees it, and the column name
  that counts as emitted.\<close>

definition emit_column :: "string \<Rightarrow> string \<Rightarrow> bool \<Rightarrow> (dal_error, string \<times> string \<times> string \<times> bool) res" where
  "emit_column sqlName alias visible =
     res_bind (plain (quoteIdent sqlName)) (\<lambda>q. res_bind (plain (quoteIdent alias)) (\<lambda>a.
       Inr (q @ '' AS '' @ a, alias, sqlName, visible)))"

definition returning_projector :: "entity_env \<Rightarrow> nat \<Rightarrow> field_projector
    \<Rightarrow> (dal_error, (string \<times> string \<times> string \<times> bool) \<times> string option) res" where
  "returning_projector env entity p =
     (case p of
        ProjExpr e alias \<Rightarrow>
          res_bind (plain (quoteIdent alias)) (\<lambda>a. Inr ((eo_sql e @ '' AS '' @ a, alias, alias, True), None))
      | ProjField f alias \<Rightarrow>
          if fr_entity f \<noteq> entity then
            Inl (Validation (''returning: field projections must target the base entity '' @ [CHR 0xE2, CHR 0x80, CHR 0x94]
              @ '' RETURNING cannot reference joined tables''))
          else res_bind (plain (ee_column env entity (fr_key f))) (\<lambda>sqlName.
               res_bind (emit_column sqlName (case alias of Some a \<Rightarrow> a | None \<Rightarrow> sqlName) True) (\<lambda>x.
                 Inr (x, Some sqlName))))"

definition bookkeeping_names :: "entity_meta \<Rightarrow> string list" where
  "bookkeeping_names meta =
     List.map_filter id [map_option cm_sqlName (findPkColumn meta), Some ''uuid'', map_option cm_sqlName (auditable_col VERSION meta)]"

fun emit_bookkeeping :: "entity_meta \<Rightarrow> string list \<Rightarrow> string list \<Rightarrow> (dal_error, (string \<times> string \<times> string \<times> bool) list) res" where
  "emit_bookkeeping meta emitted [] = Inr []"
| "emit_bookkeeping meta emitted (n # ns) =
     (if n \<noteq> [] \<and> map_of (em_columns meta) n \<noteq> None \<and> n \<notin> set emitted then
        res_bind (emit_column n n False) (\<lambda>x. res_bind (emit_bookkeeping meta (n # emitted) ns) (\<lambda>xs. Inr (x # xs)))
      else emit_bookkeeping meta emitted ns)"

definition buildReturningClause :: "entity_env \<Rightarrow> nat \<Rightarrow> field_projector list \<Rightarrow> (dal_error, returning) res" where
  "buildReturningClause env entity flds =
     res_bind (plain (ee_meta env entity)) (\<lambda>meta.
     res_bind
       (if flds \<noteq> [] then
          res_bind (map_res (returning_projector env entity) flds) (\<lambda>ps.
          res_bind (emit_bookkeeping meta (List.map_filter snd ps) (bookkeeping_names meta)) (\<lambda>bs.
            Inr (map fst ps @ bs)))
        else
          map_res (\<lambda>c. emit_column (cm_sqlName c) (cm_propertyKey c)
                         (map_option cm_sqlName (findPkColumn meta) \<noteq> Some (cm_sqlName c))) (cols meta))
       (\<lambda>es. Inr \<lparr>rt_clause = ''RETURNING '' @ join '', '' (map fst es),
                  rt_visibleKeys = map (\<lambda>(_, a, _, _). a) (filter (\<lambda>(_, _, _, v). v) es),
                  rt_rowKeyToSqlName = fold (\<lambda>(_, a, s, _). AList.update a s) es []\<rparr>))"

definition pickReturningRow :: "host_record \<Rightarrow> string list \<Rightarrow> host_record" where
  "pickReturningRow raw visibleKeys = fold (\<lambda>k. AList.update k (prop_of raw k)) visibleKeys []"

definition remapReturningRow :: "host_record \<Rightarrow> (string \<times> string) list \<Rightarrow> host_record" where
  "remapReturningRow raw names =
     fold (\<lambda>(k, v). AList.update (case map_of names k of Some s \<Rightarrow> s | None \<Rightarrow> k) v) raw []"

section \<open>Identity of the target row\<close>

type_synonym conflict_group = "string \<times> column_meta list"

definition order_of :: "column_meta \<Rightarrow> int" where
  "order_of c = (case cm_uniqueIndexOrder c of Some i \<Rightarrow> i | None \<Rightarrow> 0)"

definition uniqueConflictGroups :: "entity_meta \<Rightarrow> conflict_group list" where
  "uniqueConflictGroups meta =
     (let us = filter cm_isUnique (cols meta);
          singles = map (\<lambda>c. (cm_sqlName c, [c])) (filter (\<lambda>c. \<not> truthy (cm_uniqueIndexName c)) us);
          named = fold (\<lambda>c gs. let n = the (cm_uniqueIndexName c)
                               in AList.update n ((case map_of gs n of Some g \<Rightarrow> g | None \<Rightarrow> []) @ [c]) gs)
                    (filter (\<lambda>c. truthy (cm_uniqueIndexName c)) us) []
      in singles @ map (\<lambda>(n, g). (n, sort_key order_of g)) named)"

definition col_by_prop :: "entity_meta \<Rightarrow> string \<Rightarrow> column_meta option" where
  "col_by_prop meta k = map_of (rev (map (\<lambda>c. (cm_propertyKey c, c)) (cols meta))) k"

definition group_of :: "entity_meta \<Rightarrow> string \<Rightarrow> conflict_group option" where
  "group_of meta k = List.find (\<lambda>g. k \<in> set (map cm_propertyKey (snd g))) (rev (uniqueConflictGroups meta))"

text \<open>A \<open>Set\<close> in insertion order.\<close>

definition set_add :: "'a \<Rightarrow> 'a list \<Rightarrow> 'a list" where
  "set_add x xs = (if x \<in> set xs then xs else xs @ [x])"

fun selector_props :: "entity_meta \<Rightarrow> string list \<Rightarrow> string list \<Rightarrow> (dal_error, string list) res" where
  "selector_props meta [] required = Inr required"
| "selector_props meta (k # ks) required =
     (case col_by_prop meta k of
        None \<Rightarrow> Inl (MatchSelector (''matchBy: '' @ [CHR 0x27] @ k @ [CHR 0x27] @ '' is not a column of '' @ em_entityClassName meta))
      | Some c \<Rightarrow>
          (case group_of meta k of
             Some g \<Rightarrow> selector_props meta ks (fold (\<lambda>c. set_add (cm_propertyKey c)) (snd g) required)
           | None \<Rightarrow>
               if map_option cm_propertyKey (findPkColumn meta) \<noteq> Some k then
                 Inl (MatchSelector (''matchBy: '' @ [CHR 0x27] @ k @ [CHR 0x27] @ '' on '' @ em_entityClassName meta
                   @ '' is not a @Unique/@Key column '' @ [CHR 0xE2, CHR 0x80, CHR 0x94]
                   @ '' writes must uniquely identify the target row(s)''))
               else selector_props meta ks (set_add k required)))"

definition resolveSelectorProps :: "entity_meta \<Rightarrow> string list \<Rightarrow> (dal_error, string list) res" where
  "resolveSelectorProps meta matchBy = selector_props meta matchBy []"

definition implicit_identity :: "entity_meta \<Rightarrow> string list" where
  "implicit_identity meta = filter (\<lambda>k. k \<noteq> [])
     (List.map_filter id [map_option cm_propertyKey (findPkColumn meta), map_option cm_propertyKey (uuid_col meta)])"

definition make_condition :: "entity_meta \<Rightarrow> host_record \<Rightarrow> string \<Rightarrow> match_condition" where
  "make_condition meta payload k =
     (let c = the (col_by_prop meta k)
      in \<lparr>mc_propertyKey = k, mc_sqlName = cm_sqlName c, mc_value = prop_of payload k, mc_column = c\<rparr>)"

definition resolveMatchConditions :: "entity_meta \<Rightarrow> host_record \<Rightarrow> string list
    \<Rightarrow> (dal_error, match_condition list \<times> host_record) res" where
  "resolveMatchConditions meta payload matchBy =
     res_bind (resolveSelectorProps meta matchBy) (\<lambda>selected.
       case List.find (\<lambda>k. prop_of payload k = HUndefined) selected of
         Some k \<Rightarrow> Inl (MatchSelector (''matchBy on '' @ em_entityClassName meta @ '': '' @ [CHR 0x27] @ k @ [CHR 0x27]
           @ '' is required in the payload (composite @Unique group must be complete)''))
       | None \<Rightarrow>
           (let required = fold set_add (filter (\<lambda>k. prop_of payload k \<noteq> HUndefined) (implicit_identity meta)) selected
            in if required = [] then
                 Inl (MatchSelector (''write on '' @ em_entityClassName meta @ '': payload carries no identity field ''
                   @ [CHR 0xE2, CHR 0x80, CHR 0x94] @ '' provide id, uuid, or a complete matchBy @Unique selector''))
               else Inr (map (make_condition meta payload) required, fold (\<lambda>k r. without r k) required payload)))"

definition buildGuardCte :: "string \<Rightarrow> match_condition list \<Rightarrow> nat \<Rightarrow> string \<Rightarrow> string \<Rightarrow> string" where
  "buildGuardCte table conds condParamStart matchWhere name =
     (let matchObj = join '', '' (map (\<lambda>(i, c). escapeLiteral (mc_sqlName c) @ '', '' @ dollar (condParamStart + i)) (enumerate 0 conds));
          lf = [CHR 0x0A]; lit = (\<lambda>s. [CHR 0x27] @ s @ [CHR 0x27])
      in ''matched AS ('' @ lf @ ''  SELECT * FROM '' @ table @ '' WHERE '' @ matchWhere @ lf @ ''),'' @ lf
         @ ''guard AS ('' @ lf @ ''  SELECT public.pg_raise('' @ lf @ ''    '' @ lit ''ERR10'' @ '','' @ lf
         @ ''    '' @ escapeLiteral (name @ '': identity match resolved to multiple rows'') @ '','' @ lf
         @ ''    jsonb_build_object('' @ lf
         @ ''      '' @ lit ''table'' @ '', '' @ escapeLiteral table @ '','' @ lf
         @ ''      '' @ lit ''match'' @ '', jsonb_build_object('' @ matchObj @ '')'' @ lf
         @ ''    )::text'' @ lf @ ''  ) AS _raised'' @ lf
         @ ''  WHERE (SELECT count(*) FROM matched) > 1'' @ lf @ '')'')"

end
