(* ===== verification/RepositoryMethods.thy ===== *)
theory RepositoryMethods
  imports RepositoryWrites
begin

text \<open>
  The method \<open>add\<close> of \<open>src/repository/repository.ts\<close>: its statement with the report of unique conflicts, its outcome and its
  audit entry.
\<close>

definition lf :: string where
  "lf = [CHR 0x0A]"

definition qlit :: "string \<Rightarrow> string" where
  "qlit s = [CHR 0x27] @ s @ [CHR 0x27]"

definition dash :: string where
  "dash = [CHR 0xE2, CHR 0x80, CHR 0x94]"

section \<open>Unique conflicts\<close>

text \<open>\<open>/^'(?:[^']|'')*'$|^-?\d+(\.\d+)?$|^(true|false|null)$/i\<close>.\<close>

definition constant_re :: re where
  "constant_re = re_alt
     [re_seq [Bol, chr (CHR 0x27), Star (re_alt [Cls (\<lambda>c. c \<noteq> CHR 0x27), lit [CHR 0x27, CHR 0x27]]), chr (CHR 0x27), Eol],
      re_seq [Bol, opt (chr (CHR ''-'')), plus1 (Cls is_digit), opt (Grp 1 (re_seq [chr (CHR ''.''), plus1 (Cls is_digit)])), Eol],
      re_seq [Bol, Grp 2 (re_alt [lit_ci ''true'', lit_ci ''false'', lit_ci ''null'']), Eol]]"

definition constantDefaultSql :: "string option \<Rightarrow> string option" where
  "constantDefaultSql d =
     (case d of
        None \<Rightarrow> None
      | Some t \<Rightarrow> if t = [] then None else if re_test constant_re (trim t) then Some (trim t) else None)"

record conflict_pred =
  cp_name :: string
  cp_sql :: string
  cp_keyRefs :: "(string \<times> string) list"

definition ref_predicate :: "string \<Rightarrow> string \<Rightarrow> (dal_error, string) res" where
  "ref_predicate sqlName ref =
     res_bind (plain (quoteIdent sqlName)) (\<lambda>q. Inr (''t.'' @ q @ '' IS NOT DISTINCT FROM '' @ ref @ '' AND '' @ ref @ '' IS NOT NULL''))"

definition attempted_ref :: "(string \<times> string) list \<Rightarrow> column_meta \<Rightarrow> string option" where
  "attempted_ref attempted c =
     (case map_of attempted (cm_propertyKey c) of
        Some r \<Rightarrow> Some r
      | None \<Rightarrow>
          (case constantDefaultSql (cm_defaultSql c) of
             Some d \<Rightarrow> Some d
           | None \<Rightarrow> if truthy (cm_defaultSql c) then None else Some ''NULL''))"

text \<open>The columns of one group; \<open>None\<close> when the attempted value of one of them cannot be written.\<close>

fun group_refs :: "(string \<times> string) list \<Rightarrow> column_meta list \<Rightarrow> (dal_error, (string \<times> string \<times> string) list option) res" where
  "group_refs attempted [] = Inr (Some [])"
| "group_refs attempted (c # cs) =
     (case attempted_ref attempted c of
        None \<Rightarrow> Inr None
      | Some ref \<Rightarrow>
          if ref = [] \<or> ref = ''NULL'' then Inr None
          else res_bind (ref_predicate (cm_sqlName c) ref) (\<lambda>p.
               res_bind (group_refs attempted cs) (\<lambda>rest.
                 Inr (map_option (\<lambda>xs. (p, cm_sqlName c, ref) # xs) rest))))"

definition make_pred :: "string \<Rightarrow> (string \<times> string \<times> string) list \<Rightarrow> conflict_pred" where
  "make_pred n xs = \<lparr>cp_name = n, cp_sql = join '' AND '' (map fst xs), cp_keyRefs = map snd xs\<rparr>"

definition wanted_names :: "entity_env \<Rightarrow> nat \<Rightarrow> entity_meta \<Rightarrow> string list \<Rightarrow> (dal_error, string list) res" where
  "wanted_names env entity meta keys =
     res_bind (map_res (\<lambda>k. res_bind (plain (ee_column env entity k)) (\<lambda>s.
         if map_of (em_columns meta) s = None then Inl (UnknownColumn (''add: conflictKeys '' @ dash @ '' unknown column/property '' @ k))
         else Inr s)) keys)
       (\<lambda>ss. Inr (remdups ss))"

definition selected_groups :: "entity_env \<Rightarrow> nat \<Rightarrow> entity_meta \<Rightarrow> string list option \<Rightarrow> (dal_error, conflict_group list) res" where
  "selected_groups env entity meta conflictKeys =
     (let groups = uniqueConflictGroups meta
      in case conflictKeys of
           None \<Rightarrow> Inr groups
         | Some keys \<Rightarrow>
             res_bind (wanted_names env entity meta keys) (\<lambda>wanted.
               let gs = filter (\<lambda>(_, cs). length cs = length wanted \<and> list_all (\<lambda>c. cm_sqlName c \<in> set wanted) cs) groups
               in if gs = [] then
                    Inl (Validation (''add: conflictKeys ['' @ join '', '' keys @ ''] match no unique constraint on '' @ em_entityClassName meta))
                  else Inr gs))"

definition uniqueConflictPredicates :: "entity_env \<Rightarrow> nat \<Rightarrow> entity_meta \<Rightarrow> (string \<times> string) list \<Rightarrow> string list option
    \<Rightarrow> (dal_error, conflict_pred list) res" where
  "uniqueConflictPredicates env entity meta attempted conflictKeys =
     res_bind (selected_groups env entity meta conflictKeys) (\<lambda>groups.
     res_bind (map_res (\<lambda>(n, cs). res_bind (group_refs attempted cs) (\<lambda>r. Inr (map_option (make_pred n) r))) groups) (\<lambda>ps.
       Inr (List.map_filter id ps)))"

text \<open>The parts of the conflict report that \<open>add\<close> and \<open>update\<close> share.\<close>

definition where_or :: "conflict_pred list \<Rightarrow> string" where
  "where_or ps = join (lf @ ''        OR '') (map (\<lambda>p. ''('' @ cp_sql p @ '')'') ps)"

definition constraint_case :: "conflict_pred list \<Rightarrow> string" where
  "constraint_case ps = join '' '' (map (\<lambda>p. ''WHEN ('' @ cp_sql p @ '') THEN '' @ escapeLiteral (cp_name p)) ps)"

definition keys_case :: "conflict_pred list \<Rightarrow> string" where
  "keys_case ps = join '' '' (map (\<lambda>p. ''WHEN ('' @ cp_sql p @ '') THEN jsonb_build_object(''
     @ join '', '' (map (\<lambda>(n, r). escapeLiteral n @ '', '' @ r) (cp_keyRefs p)) @ '')'') ps)"

definition uuid_sel :: "entity_meta \<Rightarrow> string" where
  "uuid_sel meta = (if map_of (em_columns meta) ''uuid'' \<noteq> None then ''t.\"uuid\"'' else ''NULL'')"

definition deleted_sel :: "entity_meta \<Rightarrow> (dal_error, string) res" where
  "deleted_sel meta =
     (case deletable_col DELETED_AT meta of
        None \<Rightarrow> Inr ''NULL''
      | Some c \<Rightarrow> res_bind (plain (quoteIdent (cm_sqlName c))) (\<lambda>q. Inr (''t.'' @ q)))"

definition conflict_select :: "entity_meta \<Rightarrow> string \<Rightarrow> conflict_pred list \<Rightarrow> string" where
  "conflict_select meta deletedSel ps =
     ''conflict AS ('' @ lf @ ''  SELECT '' @ uuid_sel meta @ '' AS c_uuid, '' @ deletedSel @ '' AS c_deleted_at,'' @ lf
     @ ''         CASE '' @ constraint_case ps @ '' END AS c_constraint,'' @ lf
     @ ''         CASE '' @ keys_case ps @ '' END AS c_keys'' @ lf"

definition raised_cte :: "entity_meta \<Rightarrow> string \<Rightarrow> string" where
  "raised_cte meta name =
     ''raised AS ('' @ lf @ ''  SELECT public.pg_raise('' @ lf
     @ ''    CASE WHEN c.c_deleted_at IS NULL THEN '' @ qlit ''ERR04'' @ '' ELSE '' @ qlit ''ERR05'' @ '' END,'' @ lf
     @ ''    '' @ escapeLiteral (name @ '': unique constraint violation on '' @ em_entityClassName meta) @ '','' @ lf
     @ ''    jsonb_build_object('' @ lf
     @ ''      '' @ qlit ''entity'' @ '', '' @ escapeLiteral (em_entityClassName meta) @ '','' @ lf
     @ ''      '' @ qlit ''table'' @ '', '' @ escapeLiteral (em_tableSchema meta @ ''.'' @ em_tableName meta) @ '','' @ lf
     @ ''      '' @ qlit ''uuid'' @ '', c.c_uuid::text,'' @ lf
     @ ''      '' @ qlit ''constraint'' @ '', c.c_constraint,'' @ lf
     @ ''      '' @ qlit ''keys'' @ '', c.c_keys'' @ lf
     @ ''    )::text'' @ lf @ ''  ) AS _raised'' @ lf @ ''  FROM conflict c'' @ lf @ '')''"

section \<open>add\<close>

definition insert_keys :: "entity_meta \<Rightarrow> host_record \<Rightarrow> string list" where
  "insert_keys meta row =
     (let keys = filter (\<lambda>k. prop_of row k \<noteq> HUndefined) (map fst row)
      in case findPkColumn meta of
           Some pk \<Rightarrow>
             (case map_of (em_columns meta) (cm_sqlName pk) of
                Some c \<Rightarrow> if cm_usePostgresIdentity c then filter (\<lambda>k. k \<noteq> cm_propertyKey pk) keys else keys
              | None \<Rightarrow> keys)
         | None \<Rightarrow> keys)"

text \<open>A column of the \<open>INSERT\<close>: its property, its name and its value.\<close>

definition payload_column :: "host \<Rightarrow> entity_env \<Rightarrow> nat \<Rightarrow> entity_meta \<Rightarrow> host_record \<Rightarrow> string
    \<Rightarrow> (dal_error, string \<times> string \<times> host_value) res" where
  "payload_column H env entity meta row k =
     res_bind (plain (ee_column env entity k)) (\<lambda>s.
       case map_of (em_columns meta) s of
         None \<Rightarrow> Inl (UnknownColumn (''add: unknown column/property '' @ k))
       | Some c \<Rightarrow> Inr (k, s, jsValueToPgParam H c (prop_of row k)))"

definition stamp_columns :: "entity_meta \<Rightarrow> string list \<Rightarrow> string \<Rightarrow> int \<Rightarrow> (string \<times> string \<times> host_value) list" where
  "stamp_columns meta keys actor now =
     List.map_filter (\<lambda>(t, v). case auditable_col t meta of
         Some c \<Rightarrow> if cm_propertyKey c \<notin> set keys then Some (cm_propertyKey c, cm_sqlName c, v) else None
       | None \<Rightarrow> None)
       [(CREATED_AT, HDate now), (CREATED_BY, HStr actor), (UPDATED_AT, HDate now), (UPDATED_BY, HStr actor)]"

definition insert_columns :: "host \<Rightarrow> entity_env \<Rightarrow> nat \<Rightarrow> entity_meta \<Rightarrow> host_record \<Rightarrow> write_options \<Rightarrow> int
    \<Rightarrow> (dal_error, (string \<times> string \<times> host_value) list) res" where
  "insert_columns H env entity meta row opts now =
     (let keys = insert_keys meta row
      in if keys = [] then Inl (Validation ''add: no columns to insert (all undefined?)'')
         else res_bind (map_res (payload_column H env entity meta row) keys) (\<lambda>ps.
           Inr (ps @ (case wo_actor opts of
                        Some a \<Rightarrow> if isAuditableEntity meta then stamp_columns meta keys a now else []
                      | None \<Rightarrow> []))))"

definition param_list :: "nat \<Rightarrow> string list" where
  "param_list n = map (\<lambda>i. dollar (Suc i)) [0..<n]"

definition add_report :: "entity_env \<Rightarrow> nat \<Rightarrow> entity_meta \<Rightarrow> string \<Rightarrow> string \<Rightarrow> string \<Rightarrow> (string \<times> string) list
    \<Rightarrow> string list option \<Rightarrow> (dal_error, string \<times> bool) res" where
  "add_report env entity meta table insertSql retClause attempted conflictKeys =
     res_bind (uniqueConflictPredicates env entity meta attempted conflictKeys) (\<lambda>ps.
       if ps = [] then Inr (insertSql @ '' '' @ retClause, False)
       else res_bind (deleted_sel meta) (\<lambda>ds.
         Inr (''WITH ins AS ('' @ lf @ ''  '' @ insertSql @ lf @ ''  ON CONFLICT DO NOTHING'' @ lf @ ''  '' @ retClause @ lf @ ''),'' @ lf
              @ conflict_select meta ds ps
              @ ''  FROM '' @ table @ '' t'' @ lf @ ''  WHERE '' @ where_or ps @ lf @ ''  LIMIT 1'' @ lf @ ''),'' @ lf
              @ raised_cte meta ''add'' @ lf @ ''SELECT ins.* FROM ins WHERE NOT EXISTS (SELECT 1 FROM raised)'', True)))"

text \<open>The statement of \<open>add\<close>, its values, its row shape, and whether conflicts are reported by the statement.\<close>

definition add_statement :: "host \<Rightarrow> entity_env \<Rightarrow> nat \<Rightarrow> entity_meta \<Rightarrow> host_record \<Rightarrow> write_options \<Rightarrow> int
    \<Rightarrow> (dal_error, string \<times> host_value list \<times> returning \<times> bool) res" where
  "add_statement H env entity meta row opts now =
     res_bind (plain (qTable env entity (wo_tableName opts))) (\<lambda>table.
     res_bind (insert_columns H env entity meta row opts now) (\<lambda>ics.
     res_bind (map_res (\<lambda>(_, s, _). plain (quoteIdent s)) ics) (\<lambda>colsSql.
     res_bind (buildReturningClause env entity (wo_returning opts)) (\<lambda>ret.
       let params = param_list (length ics);
           values = map (\<lambda>(_, _, v). v) ics;
           attempted = fold (\<lambda>(k, p). AList.update k p) (zip (map fst ics) params) [];
           insertSql = ''INSERT INTO '' @ table @ '' ('' @ join '', '' colsSql @ '') VALUES ('' @ join '', '' params @ '')''
       in if wo_ignore opts then Inr (insertSql @ '' ON CONFLICT DO NOTHING '' @ rt_clause ret, values, ret, False)
          else res_bind (add_report env entity meta table insertSql (rt_clause ret) attempted (wo_conflictKeys opts)) (\<lambda>(sql, reporting).
            Inr (sql, values, ret, reporting))))))"

text \<open>\<open>a ?? b\<close>.\<close>

definition coalesce_host :: "host_value \<Rightarrow> host_value \<Rightarrow> host_value" where
  "coalesce_host a b = (if host_nullish a then b else a)"

definition send_audit :: "'w repo \<Rightarrow> (delta \<Rightarrow> audit_entry) \<Rightarrow> (string, delta) res \<Rightarrow> ('w, unit) op" where
  "send_audit R entry d w =
     (case d of Inl e \<Rightarrow> (Inl (PlainError e), w) | Inr x \<Rightarrow> (Inr (), rp_audit R (entry x) w))"

definition add_audit :: "'w repo \<Rightarrow> entity_meta \<Rightarrow> write_options \<Rightarrow> int \<Rightarrow> returning \<Rightarrow> host_record \<Rightarrow> ('w, unit) op" where
  "add_audit R meta opts now ret inserted =
     (case (findPkColumn meta, wo_actor opts) of
        (Some pk, Some actor) \<Rightarrow>
          if isAuditableEntity meta \<and> wo_audit opts then
            (let rec = remapReturningRow inserted (rt_rowKeyToSqlName ret)
             in send_audit R (\<lambda>d. \<lparr>ae_entityClassName = em_entityClassName meta, ae_tableName = em_tableName meta,
                    ae_entityId = coalesce_host (prop_of rec (cm_sqlName pk)) (prop_of inserted (cm_propertyKey pk)),
                    ae_entityUuid = coalesce_host (prop_of rec ''uuid'') (HStr []),
                    ae_action = INSERT, ae_changedAt = now, ae_version = HNum ''1'', ae_changedBy = actor, ae_delta = d\<rparr>)
                  (calculateDelta (rp_host R) [] rec))
          else op_ret ()
      | _ \<Rightarrow> op_ret ())"

definition add :: "'w repo \<Rightarrow> nat \<Rightarrow> host_record \<Rightarrow> write_options \<Rightarrow> int \<Rightarrow> ('w, host_record option) op" where
  "add R entity row opts now =
     op_bind (op_lift (plain (ee_meta (rp_env R) entity))) (\<lambda>meta.
     op_bind (op_lift (add_statement (rp_host R) (rp_env R) entity meta row opts now)) (\<lambda>(sql, values, ret, reporting).
     op_bind (rp_query R sql values) (\<lambda>result.
       case qr_rows result of
         [] \<Rightarrow>
           if reporting then
             op_fail (DuplicateRecord (''add: unique constraint violation on '' @ em_entityClassName meta @ '' '' @ dash
               @ '' conflicting row not identifiable''))
           else op_ret None
       | inserted # _ \<Rightarrow>
           op_bind (add_audit R meta opts now ret inserted) (\<lambda>_.
             op_ret (Some (pickReturningRow inserted (rt_visibleKeys ret)))))))"

end
