(* ===== verification/RepositoryUpdates.thy ===== *)
theory RepositoryUpdates
  imports RepositoryMethods
begin

text \<open>
  The methods \<open>update\<close>, \<open>delete\<close>, \<open>restore\<close> and \<open>hardDelete\<close> of \<open>src/repository/repository.ts\<close>: each one prepares a plan
  (the identity conditions, the version guard and the assignments), reads the old row when it is audited, sends
  its statement, classifies a write that touched no row, and sends the audit entry.
\<close>

section \<open>Plans\<close>

datatype set_action = Bound host_value | Increment | Cleared

text \<open>An assignment of \<open>SET\<close>: the name of the column, its quoted form, and what it becomes.\<close>

type_synonym set_item = "string \<times> string \<times> set_action"

definition make_item :: "string \<Rightarrow> set_action \<Rightarrow> (dal_error, set_item) res" where
  "make_item sqlName a = res_bind (plain (quoteIdent sqlName)) (\<lambda>q. Inr (sqlName, q, a))"

fun set_clauses :: "set_item list \<Rightarrow> nat \<Rightarrow> string list" where
  "set_clauses [] n = []"
| "set_clauses ((_, q, Bound v) # xs) n = (q @ '' = '' @ dollar (Suc n)) # set_clauses xs (Suc n)"
| "set_clauses ((_, q, Increment) # xs) n = (q @ '' = '' @ q @ '' + 1'') # set_clauses xs n"
| "set_clauses ((_, q, Cleared) # xs) n = (q @ '' = NULL'') # set_clauses xs n"

fun set_values :: "set_item list \<Rightarrow> host_value list" where
  "set_values [] = []"
| "set_values ((_, _, Bound v) # xs) = v # set_values xs"
| "set_values (_ # xs) = set_values xs"

record write_plan =
  wp_name :: string
  wp_meta :: entity_meta
  wp_table :: string
  wp_conds :: "match_condition list"
  wp_version :: "(column_meta \<times> host_value) option"
  wp_sets :: "set_item list"
  wp_refs :: "(string \<times> string) list"

definition cond_values :: "host \<Rightarrow> match_condition list \<Rightarrow> host_value list" where
  "cond_values H conds = map (\<lambda>c. jsValueToPgParam H (mc_column c) (mc_value c)) conds"

definition cond_start :: "write_plan \<Rightarrow> nat" where
  "cond_start P = length (set_values (wp_sets P)) + 1"

definition version_values :: "write_plan \<Rightarrow> host_value list" where
  "version_values P = (case wp_version P of Some (_, v) \<Rightarrow> [v] | None \<Rightarrow> [])"

definition plan_values :: "host \<Rightarrow> write_plan \<Rightarrow> host_value list" where
  "plan_values H P = set_values (wp_sets P) @ cond_values H (wp_conds P) @ version_values P"

text \<open>\<open> AND <version> = $n\<close>, where \<open>n\<close> is the last parameter of the statement.\<close>

definition version_guard :: "write_plan \<Rightarrow> (dal_error, string) res" where
  "version_guard P =
     (case wp_version P of
        None \<Rightarrow> Inr []
      | Some (c, _) \<Rightarrow> res_bind (plain (quoteIdent (cm_sqlName c))) (\<lambda>q.
          Inr ('' AND '' @ q @ '' = '' @ dollar (cond_start P + length (wp_conds P)))))"

section \<open>Preparation\<close>

text \<open>The column of the version with the number that the caller expects.\<close>

definition expected_version :: "host \<Rightarrow> entity_meta \<Rightarrow> host_record \<Rightarrow> (dal_error, (column_meta \<times> host_value) option \<times> host_record) res" where
  "expected_version H meta payload =
     res_bind (extractVersion H payload (findVersionColumn meta) (em_entityClassName meta)) (\<lambda>r.
       Inr (case (findVersionColumn meta, r) of
              (Some c, Some (v, rest)) \<Rightarrow> (Some (c, v), rest)
            | _ \<Rightarrow> (None, payload)))"

definition col_items :: "(column_meta option \<times> set_action) list \<Rightarrow> (dal_error, set_item list) res" where
  "col_items xs = map_res (\<lambda>(s, a). make_item s a) (List.map_filter (\<lambda>(c, a). map_option (\<lambda>c. (cm_sqlName c, a)) c) xs)"

definition when_col :: "bool \<Rightarrow> column_meta option \<Rightarrow> column_meta option" where
  "when_col b c = (if b then c else None)"

definition actor_value :: "write_options \<Rightarrow> host_value" where
  "actor_value opts = (case wo_actor opts of Some a \<Rightarrow> HStr a | None \<Rightarrow> HUndefined)"

definition stamping :: "entity_meta \<Rightarrow> write_options \<Rightarrow> bool" where
  "stamping meta opts \<longleftrightarrow> isAuditableEntity meta \<and> wo_actor opts \<noteq> None"

definition update_stamps :: "entity_meta \<Rightarrow> write_options \<Rightarrow> int \<Rightarrow> (column_meta option \<times> set_action) list" where
  "update_stamps meta opts now =
     (if stamping meta opts then
        [(auditable_col UPDATED_AT meta, Bound (HDate now)), (auditable_col UPDATED_BY meta, Bound (actor_value opts)),
         (findVersionColumn meta, Increment)]
      else [])"

definition update_field :: "host \<Rightarrow> entity_env \<Rightarrow> nat \<Rightarrow> entity_meta \<Rightarrow> string \<times> host_value \<Rightarrow> (dal_error, string \<times> set_item) res" where
  "update_field H env entity meta kv =
     (case kv of (k, v) \<Rightarrow>
        res_bind (plain (ee_column env entity k)) (\<lambda>s.
          case map_of (em_columns meta) s of
            None \<Rightarrow> Inl (UnknownColumn (''update: unknown column/property '' @ k))
          | Some c \<Rightarrow> res_bind (make_item s (Bound (jsValueToPgParam H c v))) (\<lambda>i. Inr (k, i))))"

definition update_plan :: "host \<Rightarrow> entity_env \<Rightarrow> nat \<Rightarrow> host_record \<Rightarrow> write_options \<Rightarrow> int \<Rightarrow> (dal_error, write_plan) res" where
  "update_plan H env entity updates opts now =
     res_bind (plain (ee_meta env entity)) (\<lambda>meta.
     res_bind (plain (ee_qualified env entity)) (\<lambda>table.
     res_bind (resolveMatchConditions meta updates (wo_matchBy opts)) (\<lambda>(conds, remaining).
     res_bind (expected_version H meta remaining) (\<lambda>(version, final).
     res_bind (col_items (update_stamps meta opts now)) (\<lambda>stamps.
     res_bind (map_res (update_field H env entity meta) (filter (\<lambda>(_, v). v \<noteq> HUndefined) final)) (\<lambda>flds.
       if flds = [] then Inl (Validation ''update: no fields to update'')
       else Inr \<lparr>wp_name = ''update'', wp_meta = meta, wp_table = table, wp_conds = conds, wp_version = version,
                 wp_sets = stamps @ map snd flds,
                 wp_refs = map (\<lambda>(i, k). (k, dollar (Suc (length (set_values stamps) + i)))) (enumerate 0 (map fst flds))\<rparr>))))))"

text \<open>\<open>delete\<close> and \<open>restore\<close> differ in their names and in what becomes of the two columns of the deletion.\<close>

definition delete_stamps :: "entity_meta \<Rightarrow> write_options \<Rightarrow> int \<Rightarrow> (column_meta option \<times> set_action) list" where
  "delete_stamps meta opts now =
     [(deletable_col DELETED_AT meta, Bound (HDate now)),
      (when_col (stamping meta opts) (deletable_col DELETED_BY meta), Bound (actor_value opts)),
      (when_col (stamping meta opts) (auditable_col UPDATED_AT meta), Bound (HDate now)),
      (when_col (stamping meta opts) (auditable_col UPDATED_BY meta), Bound (actor_value opts)),
      (when_col (isAuditableEntity meta) (findVersionColumn meta), Increment)]"

definition restore_stamps :: "entity_meta \<Rightarrow> write_options \<Rightarrow> int \<Rightarrow> (column_meta option \<times> set_action) list" where
  "restore_stamps meta opts now =
     [(deletable_col DELETED_AT meta, Cleared),
      (deletable_col DELETED_BY meta, Cleared),
      (when_col (stamping meta opts) (auditable_col UPDATED_AT meta), Bound (HDate now)),
      (when_col (stamping meta opts) (auditable_col UPDATED_BY meta), Bound (actor_value opts)),
      (when_col (isAuditableEntity meta) (findVersionColumn meta), Increment)]"

definition match_plan :: "host \<Rightarrow> entity_env \<Rightarrow> nat \<Rightarrow> host_record \<Rightarrow> write_options \<Rightarrow> string \<Rightarrow> (entity_meta \<Rightarrow> (dal_error, unit) res)
    \<Rightarrow> (entity_meta \<Rightarrow> (column_meta option \<times> set_action) list) \<Rightarrow> (dal_error, write_plan) res" where
  "match_plan H env entity selector opts name check stamps =
     res_bind (plain (ee_meta env entity)) (\<lambda>meta.
     res_bind (plain (ee_qualified env entity)) (\<lambda>table.
     res_bind (resolveMatchConditions meta selector (wo_matchBy opts)) (\<lambda>(conds, _).
     res_bind (check meta) (\<lambda>_.
     res_bind (expected_version H meta selector) (\<lambda>(version, _).
     res_bind (col_items (stamps meta)) (\<lambda>sets.
       Inr \<lparr>wp_name = name, wp_meta = meta, wp_table = table, wp_conds = conds, wp_version = version,
            wp_sets = sets, wp_refs = []\<rparr>))))))"

definition require_deletable :: "string \<Rightarrow> entity_meta \<Rightarrow> (dal_error, unit) res" where
  "require_deletable what meta =
     (if list_ex (\<lambda>c. cm_deletableType c \<noteq> None) (cols meta) then Inr ()
      else Inl (PlainError (''Entity '' @ em_entityClassName meta @ '' has no @DeletableField '' @ dash @ '' cannot '' @ what)))"

definition delete_plan :: "host \<Rightarrow> entity_env \<Rightarrow> nat \<Rightarrow> host_record \<Rightarrow> write_options \<Rightarrow> int \<Rightarrow> (dal_error, write_plan) res" where
  "delete_plan H env entity selector opts now =
     match_plan H env entity selector opts ''delete'' (require_deletable ''soft delete'') (\<lambda>meta. delete_stamps meta opts now)"

definition restore_plan :: "host \<Rightarrow> entity_env \<Rightarrow> nat \<Rightarrow> host_record \<Rightarrow> write_options \<Rightarrow> int \<Rightarrow> (dal_error, write_plan) res" where
  "restore_plan H env entity selector opts now =
     match_plan H env entity selector opts ''restore'' (require_deletable ''restore'') (\<lambda>meta. restore_stamps meta opts now)"

definition hard_delete_plan :: "host \<Rightarrow> entity_env \<Rightarrow> nat \<Rightarrow> host_record \<Rightarrow> write_options \<Rightarrow> (dal_error, write_plan) res" where
  "hard_delete_plan H env entity selector opts =
     match_plan H env entity selector opts ''hardDelete'' (\<lambda>_. Inr ()) (\<lambda>_. [])"

section \<open>Statements\<close>

definition match_where :: "write_plan \<Rightarrow> (dal_error, string) res" where
  "match_where P = identityWhere (wp_conds P) (cond_start P)"

definition where_clause :: "write_plan \<Rightarrow> (dal_error, string) res" where
  "where_clause P =
     res_bind (match_where P) (\<lambda>m. res_bind (version_guard P) (\<lambda>g. Inr (''WHERE '' @ m @ g)))"

definition guard_cte :: "write_plan \<Rightarrow> (dal_error, string) res" where
  "guard_cte P = res_bind (match_where P) (\<lambda>m. Inr (buildGuardCte (wp_table P) (wp_conds P) (cond_start P) m (wp_name P)))"

definition set_text :: "write_plan \<Rightarrow> string" where
  "set_text P = ''UPDATE '' @ wp_table P @ '' SET '' @ join '', '' (set_clauses (wp_sets P) 0)"

text \<open>The write of \<open>WITH\<close>, unless the rows of \<open>blocker\<close> forbid it, as the whole statement.\<close>

definition guarded_write :: "string \<Rightarrow> string \<Rightarrow> string \<Rightarrow> string \<Rightarrow> string \<Rightarrow> string" where
  "guarded_write name body w blocker ret =
     name @ '' AS ('' @ lf @ ''  '' @ body @ '' '' @ w @ lf
     @ ''    AND NOT EXISTS (SELECT 1 FROM '' @ blocker @ '')'' @ lf @ ''  '' @ ret @ lf @ '')'' @ lf @ ''SELECT * FROM '' @ name"

definition write_statement :: "string \<Rightarrow> write_plan \<Rightarrow> string \<Rightarrow> returning \<Rightarrow> (dal_error, string) res" where
  "write_statement name P body ret =
     res_bind (where_clause P) (\<lambda>w.
     res_bind (guard_cte P) (\<lambda>g.
       Inr (''WITH '' @ g @ '','' @ lf @ guarded_write name body w ''guard'' (rt_clause ret))))"

definition update_pred :: "(string \<times> string) list \<Rightarrow> conflict_group \<Rightarrow> (dal_error, conflict_pred) res" where
  "update_pred refs g =
     res_bind (map_res (\<lambda>c.
         res_bind (case map_of refs (cm_propertyKey c) of
                     Some r \<Rightarrow> Inr r
                   | None \<Rightarrow> res_bind (plain (quoteIdent (cm_sqlName c))) (\<lambda>q. Inr (''t0.'' @ q)))
           (\<lambda>ref. res_bind (ref_predicate (cm_sqlName c) ref) (\<lambda>p. Inr (p, cm_sqlName c, ref)))) (snd g))
       (\<lambda>xs. Inr (make_pred (fst g) xs))"

definition update_preds :: "write_plan \<Rightarrow> (dal_error, conflict_pred list) res" where
  "update_preds P =
     map_res (update_pred (wp_refs P))
       (filter (\<lambda>g. list_ex (\<lambda>c. map_of (wp_refs P) (cm_propertyKey c) \<noteq> None) (snd g)) (uniqueConflictGroups (wp_meta P)))"

definition reporting_update :: "write_plan \<Rightarrow> conflict_pred list \<Rightarrow> returning \<Rightarrow> (dal_error, string) res" where
  "reporting_update P ps ret =
     res_bind (where_clause P) (\<lambda>w.
     res_bind (guard_cte P) (\<lambda>g.
     res_bind (deleted_sel (wp_meta P)) (\<lambda>ds.
     res_bind (version_guard P) (\<lambda>t0.
     res_bind (identitySelfExclusion (wp_conds P) (cond_start P) ''t'') (\<lambda>other.
       Inr (''WITH '' @ g @ '','' @ lf @ ''t0 AS ('' @ lf @ ''  SELECT * FROM matched WHERE 1=1'' @ t0 @ lf @ ''),'' @ lf
            @ conflict_select (wp_meta P) ds ps
            @ ''  FROM t0, '' @ wp_table P @ '' t'' @ lf @ ''  WHERE '' @ other @ lf @ ''    AND ('' @ where_or ps @ '')'' @ lf
            @ ''  LIMIT 1'' @ lf @ ''),'' @ lf @ raised_cte (wp_meta P) ''update'' @ '','' @ lf
            @ guarded_write ''upd'' (set_text P) w ''raised'' (rt_clause ret)))))))"

definition update_statement :: "write_plan \<Rightarrow> returning \<Rightarrow> conflict_pred list \<Rightarrow> (dal_error, string) res" where
  "update_statement P ret ps =
     (if ps = [] then write_statement ''upd'' P (set_text P) ret else reporting_update P ps ret)"

section \<open>Reads around the write\<close>

definition audited :: "write_plan \<Rightarrow> write_options \<Rightarrow> bool" where
  "audited P opts \<longleftrightarrow> stamping (wp_meta P) opts \<and> wo_audit opts"

definition old_record :: "'w repo \<Rightarrow> write_plan \<Rightarrow> write_options \<Rightarrow> ('w, host_record option) op" where
  "old_record R P opts =
     (if audited P opts then
        op_bind (op_lift (identityWhere (wp_conds P) 1)) (\<lambda>m.
        op_bind (rp_query R (''SELECT * FROM '' @ wp_table P @ '' WHERE '' @ m) (cond_values (rp_host R) (wp_conds P))) (\<lambda>r.
          op_ret (case qr_rows r of [] \<Rightarrow> None | x # _ \<Rightarrow> Some x)))
      else op_ret None)"

text \<open>The first condition that holds of some row alone.\<close>

fun first_partial :: "'w repo \<Rightarrow> string \<Rightarrow> match_condition list \<Rightarrow> ('w, match_condition option) op" where
  "first_partial R table [] = op_ret None"
| "first_partial R table (c # cs) =
     op_bind (op_lift (plain (quoteIdent (mc_sqlName c)))) (\<lambda>q.
     op_bind (rp_query R (''SELECT 1 FROM '' @ table @ '' WHERE '' @ q @ '' = $1 LIMIT 1'') (cond_values (rp_host R) [c])) (\<lambda>r.
       if qr_rowCount r > 0 then op_ret (Some c) else first_partial R table cs))"

definition partial_mismatch :: "string \<Rightarrow> string \<Rightarrow> string \<Rightarrow> dal_error" where
  "partial_mismatch entityClassName what tail_text = IdentityConflict
     (''Entity '' @ entityClassName @ '': identity mismatch '' @ dash @ '' a row exists for '' @ what @ tail_text)"

definition disambiguateZeroRows :: "'w repo \<Rightarrow> string \<Rightarrow> match_condition list \<Rightarrow> string \<Rightarrow> host_value \<Rightarrow> ('w, 'a) op" where
  "disambiguateZeroRows R table conditions entityClassName expectedVersion =
     op_bind (op_lift (identityWhere conditions 1)) (\<lambda>m.
     op_bind (rp_query R (''SELECT 1 FROM '' @ table @ '' WHERE '' @ m @ '' LIMIT 1'') (cond_values (rp_host R) conditions)) (\<lambda>r.
       if qr_rowCount r = 0 then
         op_bind (first_partial R table conditions) (\<lambda>p.
           case p of
             Some c \<Rightarrow> op_fail (partial_mismatch entityClassName (mc_sqlName c) '' but the supplied identity fields do not converge on it.'')
           | None \<Rightarrow> op_fail (RecordVanished (''Entity '' @ entityClassName @ '': record vanished '' @ dash
               @ '' the row was deleted by another writer between read and write.'')))
       else
         op_bind (rp_query R (''DO $$ BEGIN RAISE EXCEPTION '' @ qlit ''Optimistic Concurrency Violation'' @ '' USING ERRCODE = '' @ qlit ''ERR01''
             @ '', DETAIL = '' @ qlit (''The record exists but the provided version ('' @ host_string (rp_host R) expectedVersion
             @ '') does not match the current version of '' @ entityClassName @ ''.'') @ ''; END $$;'') []) (\<lambda>_.
           op_fail (PlainError (''Entity '' @ entityClassName @ '': disambiguation failed to raise ERR01'')))))"

definition assertNoPartialIdentity :: "'w repo \<Rightarrow> string \<Rightarrow> match_condition list \<Rightarrow> string \<Rightarrow> ('w, unit) op" where
  "assertNoPartialIdentity R table conditions entityClassName =
     (if length conditions < 2 then op_ret ()
      else op_bind (first_partial R table conditions) (\<lambda>p.
             case p of
               Some c \<Rightarrow> op_fail (partial_mismatch entityClassName (mc_sqlName c @ ''='' @ host_string (rp_host R) (mc_value c))
                           '' but the supplied identity fields do not converge on it.'')
             | None \<Rightarrow> op_ret ()))"

definition zero_rows :: "'w repo \<Rightarrow> write_plan \<Rightarrow> ('w, 'a) op" where
  "zero_rows R P =
     (case wp_version P of
        Some (_, v) \<Rightarrow> disambiguateZeroRows R (wp_table P) (wp_conds P) (em_entityClassName (wp_meta P)) v
      | None \<Rightarrow>
          op_bind (assertNoPartialIdentity R (wp_table P) (wp_conds P) (em_entityClassName (wp_meta P))) (\<lambda>_.
            op_fail (NotFound (''No '' @ wp_table P @ '' found with ''
              @ join '' AND '' (map (\<lambda>c. mc_sqlName c @ '' = '' @ host_string (rp_host R) (mc_value c)) (wp_conds P))))))"

section \<open>Audit entries\<close>

definition forced_fields :: "column_meta option list \<Rightarrow> string list" where
  "forced_fields cs = map cm_sqlName (List.map_filter id cs)"

definition update_forced :: "entity_meta \<Rightarrow> string list" where
  "update_forced meta = forced_fields [auditable_col UPDATED_AT meta, auditable_col UPDATED_BY meta]"

definition soft_forced :: "entity_meta \<Rightarrow> string list" where
  "soft_forced meta = forced_fields [deletable_col DELETED_AT meta, deletable_col DELETED_BY meta,
     auditable_col UPDATED_AT meta, auditable_col UPDATED_BY meta]"

text \<open>\<open>{ ...a, ...b }\<close>.\<close>

definition spread :: "host_record \<Rightarrow> host_record \<Rightarrow> host_record" where
  "spread a b = fold (\<lambda>(k, v). AList.update k v) b a"

definition write_entry :: "entity_meta \<Rightarrow> audit_action \<Rightarrow> int \<Rightarrow> string \<Rightarrow> host_record \<Rightarrow> host_record \<Rightarrow> delta \<Rightarrow> audit_entry" where
  "write_entry meta action now actor old new d =
     \<lparr>ae_entityClassName = em_entityClassName meta, ae_tableName = em_tableName meta,
      ae_entityId = (case findPkColumn meta of
          Some pk \<Rightarrow> coalesce_host (prop_of new (cm_sqlName pk)) (prop_of old (cm_sqlName pk))
        | None \<Rightarrow> HBig 0),
      ae_entityUuid = coalesce_host (prop_of new ''uuid'') (HStr []),
      ae_action = action, ae_changedAt = now,
      ae_version = (case findVersionColumn meta of Some c \<Rightarrow> prop_of new (cm_sqlName c) | None \<Rightarrow> HNum ''1''),
      ae_changedBy = actor, ae_delta = d\<rparr>"

definition audit_write :: "'w repo \<Rightarrow> write_plan \<Rightarrow> write_options \<Rightarrow> audit_action \<Rightarrow> string list \<Rightarrow> int \<Rightarrow> host_record option
    \<Rightarrow> host_record \<Rightarrow> ('w, unit) op" where
  "audit_write R P opts action forced now oldRecord new =
     (case (oldRecord, wo_actor opts) of
        (Some old, Some actor) \<Rightarrow>
          if audited P opts then
            send_audit R (write_entry (wp_meta P) action now actor old new)
              (calculateDeltaWithForcedFields (rp_host R) old (spread old new) forced)
          else op_ret ()
      | _ \<Rightarrow> op_ret ())"

definition audit_hard_delete :: "'w repo \<Rightarrow> write_plan \<Rightarrow> write_options \<Rightarrow> int \<Rightarrow> host_record option \<Rightarrow> ('w, unit) op" where
  "audit_hard_delete R P opts now oldRecord =
     (case (oldRecord, wo_actor opts) of
        (Some old, Some actor) \<Rightarrow>
          if audited P opts then
            send_audit R (write_entry (wp_meta P) HARD_DELETE now actor old old)
              (Inr (map (\<lambda>(k, v). (k, case v of HBig i \<Rightarrow> HNum (h_number (rp_host R) i) | _ \<Rightarrow> v, HNull)) old))
          else op_ret ()
      | _ \<Rightarrow> op_ret ())"

section \<open>The methods\<close>

text \<open>The statement, then the outcome: a write of no row is classified, one of a row is audited and returned.\<close>

definition finish :: "'w repo \<Rightarrow> write_plan \<Rightarrow> returning \<Rightarrow> string \<Rightarrow> (host_record \<Rightarrow> ('w, unit) op) \<Rightarrow> ('w, host_record) op" where
  "finish R P ret sql audit =
     op_bind (rp_query R sql (plan_values (rp_host R) P)) (\<lambda>result.
       if qr_rowCount result = 0 then zero_rows R P
       else (case qr_rows result of
               [] \<Rightarrow> op_fail (PlainError ''Cannot convert undefined or null to object'')
             | raw # _ \<Rightarrow>
                 op_bind (audit (remapReturningRow raw (rt_rowKeyToSqlName ret))) (\<lambda>_.
                   op_ret (pickReturningRow raw (rt_visibleKeys ret)))))"

definition update :: "'w repo \<Rightarrow> nat \<Rightarrow> host_record \<Rightarrow> write_options \<Rightarrow> int \<Rightarrow> ('w, host_record) op" where
  "update R entity updates opts now =
     op_bind (op_lift (update_plan (rp_host R) (rp_env R) entity updates opts now)) (\<lambda>P.
     op_bind (old_record R P opts) (\<lambda>old.
     op_bind (op_lift (update_preds P)) (\<lambda>ps.
     op_bind (op_lift (buildReturningClause (rp_env R) entity (wo_returning opts))) (\<lambda>ret.
     op_bind (op_lift (update_statement P ret ps)) (\<lambda>sql.
       finish R P ret sql (audit_write R P opts UPDATE (update_forced (wp_meta P)) now old))))))"

definition soft_write :: "'w repo \<Rightarrow> nat \<Rightarrow> (dal_error, write_plan) res \<Rightarrow> audit_action \<Rightarrow> write_options \<Rightarrow> int \<Rightarrow> ('w, host_record) op" where
  "soft_write R entity plan action opts now =
     op_bind (op_lift plan) (\<lambda>P.
     op_bind (old_record R P opts) (\<lambda>old.
     op_bind (op_lift (buildReturningClause (rp_env R) entity (wo_returning opts))) (\<lambda>ret.
     op_bind (op_lift (write_statement ''w'' P (set_text P) ret)) (\<lambda>sql.
       finish R P ret sql (audit_write R P opts action (soft_forced (wp_meta P)) now old)))))"

definition delete :: "'w repo \<Rightarrow> nat \<Rightarrow> host_record \<Rightarrow> write_options \<Rightarrow> int \<Rightarrow> ('w, host_record) op" where
  "delete R entity selector opts now =
     soft_write R entity (delete_plan (rp_host R) (rp_env R) entity selector opts now) SOFT_DELETE opts now"

definition restore :: "'w repo \<Rightarrow> nat \<Rightarrow> host_record \<Rightarrow> write_options \<Rightarrow> int \<Rightarrow> ('w, host_record) op" where
  "restore R entity selector opts now =
     soft_write R entity (restore_plan (rp_host R) (rp_env R) entity selector opts now) RESTORE opts now"

definition hardDelete :: "'w repo \<Rightarrow> nat \<Rightarrow> host_record \<Rightarrow> write_options \<Rightarrow> int \<Rightarrow> ('w, host_record) op" where
  "hardDelete R entity selector opts now =
     op_bind (op_lift (hard_delete_plan (rp_host R) (rp_env R) entity selector opts)) (\<lambda>P.
     op_bind (old_record R P opts) (\<lambda>old.
     op_bind (op_lift (buildReturningClause (rp_env R) entity (wo_returning opts))) (\<lambda>ret.
     op_bind (op_lift (write_statement ''w'' P (''DELETE FROM '' @ wp_table P) ret)) (\<lambda>sql.
       finish R P ret sql (\<lambda>_. audit_hard_delete R P opts now old)))))"

end
