(* ===== verification/RepositoryReads.thy ===== *)
theory RepositoryReads
  imports VectorSearch RepositoryUpdates
begin

text \<open>
  The finders of \<open>src/repository/repository.ts\<close>: \<open>findById\<close>, \<open>findByUUID\<close>, \<open>find\<close>, \<open>findAll\<close>, \<open>vectorSearch\<close>,
  \<open>findByPage\<close>, \<open>count\<close> and \<open>truncate\<close>.  A result of \<open>findAll\<close> with \<open>stream\<close> reads its rows through a cursor and is not
  modelled.
\<close>

record find_options =
  fo_joins :: "join_expr list"
  fo_filters :: "filter_expr list"
  fo_sorting :: "sorting_expr list"
  fo_deletedRecords :: "deleted_records option"
  fo_tableName :: "string option"
  fo_groupBy :: "group_by_operand list"
  fo_having :: "filter_expr list"
  fo_throwIfNotFound :: bool

definition no_options :: find_options where
  "no_options = \<lparr>fo_joins = [], fo_filters = [], fo_sorting = [], fo_deletedRecords = None, fo_tableName = None,
     fo_groupBy = [], fo_having = [], fo_throwIfNotFound = True\<rparr>"

definition select_input :: "nat \<Rightarrow> field_projector list \<Rightarrow> find_options \<Rightarrow> select_query_input" where
  "select_input entity flds opts =
     \<lparr>si_entity = entity, si_fields = flds, si_joins = fo_joins opts, si_filters = fo_filters opts,
      si_sorting = fo_sorting opts, si_deletedRecords = fo_deletedRecords opts, si_limit = None, si_offset = None,
      si_includeTotal = False, si_tableName = fo_tableName opts, si_groupBy = fo_groupBy opts, si_vectorOrder = None,
      si_having = fo_having opts\<rparr>"

definition send :: "'w repo \<Rightarrow> (string, string \<times> js_value list) res \<Rightarrow> ('w, host_record list) op" where
  "send R q =
     op_bind (op_lift (plain q)) (\<lambda>(text, values).
     op_bind (rp_query R text (map (rp_param R) values)) (\<lambda>r. op_ret (qr_rows r)))"

definition select_rows :: "'w repo \<Rightarrow> select_query_input \<Rightarrow> ('w, host_record list) op" where
  "select_rows R inp = send R (buildSelectQuery (rp_env R) inp)"

definition first_row :: "host_record list \<Rightarrow> host_record option" where
  "first_row rows = (case rows of [] \<Rightarrow> None | r # _ \<Rightarrow> Some r)"

text \<open>The row of a lookup by identity: exactly one, unless the caller accepts none.\<close>

definition only_row :: "entity_meta \<Rightarrow> string \<Rightarrow> bool \<Rightarrow> host_record list \<Rightarrow> (dal_error, host_record option) res" where
  "only_row meta what strict rows =
     (if \<not> strict then Inr (first_row rows)
      else case rows of
             [] \<Rightarrow> Inl (NotFound (''No '' @ em_tableName meta @ '' found with '' @ what))
           | [r] \<Rightarrow> Inr (Some r)
           | _ \<Rightarrow> Inl (MultipleRows (''Expected exactly 1 row, got '' @ nat_str (length rows) @ '' for '' @ em_tableName meta
               @ '' with '' @ what)))"

definition find_by_column :: "'w repo \<Rightarrow> nat \<Rightarrow> (entity_meta \<Rightarrow> column_meta option) \<Rightarrow> string \<Rightarrow> string \<Rightarrow> js_value \<Rightarrow> deleted_records option
    \<Rightarrow> bool \<Rightarrow> ('w, host_record option) op" where
  "find_by_column R entity col missing name v deleted strict =
     op_bind (op_lift (plain (ee_meta (rp_env R) entity))) (\<lambda>meta.
       case col meta of
         None \<Rightarrow> op_fail (PlainError (''Entity '' @ em_entityClassName meta @ missing))
       | Some c \<Rightarrow>
           op_bind (select_rows R (select_input entity [] (no_options
               \<lparr>fo_filters := [Filter_fieldValue (field entity (cm_propertyKey c)) ''='' v None], fo_deletedRecords := deleted\<rparr>))) (\<lambda>rows.
             op_lift (only_row meta (name @ '' '' @ js_string v) strict rows)))"

definition findById :: "'w repo \<Rightarrow> nat \<Rightarrow> js_value \<Rightarrow> deleted_records option \<Rightarrow> bool \<Rightarrow> ('w, host_record option) op" where
  "findById R entity rowId deleted strict =
     find_by_column R entity findPkColumn '' has no @Key() column'' ''id'' rowId deleted strict"

definition findByUUID :: "'w repo \<Rightarrow> nat \<Rightarrow> string \<Rightarrow> deleted_records option \<Rightarrow> bool \<Rightarrow> ('w, host_record option) op" where
  "findByUUID R entity uuid deleted strict =
     find_by_column R entity uuid_col '' has no uuid column'' ''uuid'' (QueryDsl.JStr uuid) deleted strict"

definition find :: "'w repo \<Rightarrow> nat \<Rightarrow> field_projector list \<Rightarrow> find_options \<Rightarrow> ('w, host_record option) op" where
  "find R entity flds opts =
     op_bind (op_lift (plain (ee_meta (rp_env R) entity))) (\<lambda>meta.
     op_bind (select_rows R ((select_input entity flds opts)\<lparr>si_limit := Some (QueryDsl.JNum ''1'')\<rparr>)) (\<lambda>rows.
       if rows = [] \<and> fo_throwIfNotFound opts then
         op_fail (NotFound (''No '' @ em_tableName meta @ '' found matching filters''))
       else op_ret (first_row rows)))"

definition findAll :: "'w repo \<Rightarrow> nat \<Rightarrow> field_projector list \<Rightarrow> find_options \<Rightarrow> ('w, host_record list) op" where
  "findAll R entity flds opts =
     op_bind (op_lift (plain (ee_meta (rp_env R) entity))) (\<lambda>_. select_rows R (select_input entity flds opts))"

section \<open>Vector search\<close>

record vector_options =
  ve_topK :: "int option"
  ve_distance :: "sql_operator option"
  ve_scoreAlias :: "string option"
  ve_fields :: "field_projector list"
  ve_joins :: "join_expr list"
  ve_filters :: "filter_expr list"
  ve_deletedRecords :: "deleted_records option"
  ve_tableName :: "string option"
  ve_oversample :: "int option"
  ve_lexical :: "lexical_channel option"
  ve_keywordBoost :: "keyword_channel option"
  ve_scoreAdjust :: "score_adjust option"

definition top_k :: "vector_options \<Rightarrow> int" where
  "top_k opts = (case ve_topK opts of Some k \<Rightarrow> k | None \<Rightarrow> 10)"

definition distance_op :: "vector_options \<Rightarrow> sql_operator" where
  "distance_op opts = (case ve_distance opts of Some d \<Rightarrow> d | None \<Rightarrow> ''<=>'')"

definition score_alias :: "vector_options \<Rightarrow> string" where
  "score_alias opts =
     (case ve_scoreAlias opts of Some a \<Rightarrow> a | None \<Rightarrow> if distance_op opts = ''<=>'' then ''similarity'' else ''distance'')"

definition hybrid :: "vector_options \<Rightarrow> bool" where
  "hybrid opts \<longleftrightarrow> ve_lexical opts \<noteq> None
     \<or> (case ve_keywordBoost opts of Some kb \<Rightarrow> kb_terms kb \<noteq> [] | None \<Rightarrow> False) \<or> ve_scoreAdjust opts \<noteq> None"

definition hybrid_input :: "nat \<Rightarrow> field_ref \<Rightarrow> string \<Rightarrow> vector_options \<Rightarrow> vector_hybrid_input" where
  "hybrid_input entity f vectorLiteral opts =
     \<lparr>vh_entity = entity, vh_field = f, vh_op = distance_op opts, vh_vectorLiteral = vectorLiteral, vh_topK = top_k opts,
      vh_oversample = ve_oversample opts, vh_filters = ve_filters opts, vh_fields = ve_fields opts,
      vh_deletedRecords = ve_deletedRecords opts, vh_tableName = ve_tableName opts, vh_lexical = ve_lexical opts,
      vh_keywordBoost = ve_keywordBoost opts, vh_scoreAdjust = ve_scoreAdjust opts\<rparr>"

definition vector_input :: "nat \<Rightarrow> field_ref \<Rightarrow> string \<Rightarrow> vector_options \<Rightarrow> select_query_input" where
  "vector_input entity f vectorLiteral opts =
     (select_input entity (ve_fields opts)
        (no_options\<lparr>fo_joins := ve_joins opts, fo_filters := ve_filters opts, fo_deletedRecords := ve_deletedRecords opts,
           fo_tableName := ve_tableName opts\<rparr>))
       \<lparr>si_limit := Some (jint (top_k opts)),
        si_vectorOrder := Some \<lparr>vo_field = f, vo_op = distance_op opts, vo_vectorLiteral = vectorLiteral,
          vo_scoreAlias = Some (score_alias opts)\<rparr>\<rparr>"

definition vectorSearch :: "'w repo \<Rightarrow> nat \<Rightarrow> field_ref \<Rightarrow> js_value \<Rightarrow> vector_options \<Rightarrow> ('w, host_record list) op" where
  "vectorSearch R entity f queryVector opts =
     (if top_k opts \<le> 0 then op_fail (Validation ''vectorSearch: topK must be a positive integer'')
      else if hybrid opts then
        (if ve_joins opts \<noteq> [] then op_fail (Validation ''vectorSearch: hybrid channels do not support joins'')
         else send R (buildVectorSearchQuery (rp_env R) (hybrid_input entity f (toVectorLiteral queryVector) opts)))
      else select_rows R (vector_input entity f (toVectorLiteral queryVector) opts))"

section \<open>Pages, counts, truncation\<close>

record paginated =
  pg_entities :: "host_record list"
  pg_total :: host_value

definition findByPage :: "'w repo \<Rightarrow> nat \<Rightarrow> int \<Rightarrow> int \<Rightarrow> field_projector list \<Rightarrow> find_options \<Rightarrow> ('w, paginated) op" where
  "findByPage R entity page recordsPerPage flds opts =
     (if page \<le> 0 then op_fail (Validation ''Cannot query with page number lower than 1'')
      else if recordsPerPage \<le> 0 then op_fail (Validation ''Cannot query with records per page lower than 1'')
      else
        op_bind (select_rows R ((select_input entity flds opts)
            \<lparr>si_limit := Some (jint recordsPerPage), si_offset := Some (jint (recordsPerPage * (page - 1))),
             si_includeTotal := True\<rparr>)) (\<lambda>rows.
          op_ret \<lparr>pg_entities = map (\<lambda>r. without r ''_total_records'') rows,
                  pg_total = (case rows of [] \<Rightarrow> HBig 0 | r # _ \<Rightarrow> coalesce_host (prop_of r ''_total_records'') (HBig 0))\<rparr>))"

definition count :: "'w repo \<Rightarrow> nat \<Rightarrow> string option \<Rightarrow> ('w, host_value) op" where
  "count R entity tableName =
     op_bind (op_lift (plain (qTable (rp_env R) entity tableName))) (\<lambda>table.
     op_bind (rp_query R (''SELECT COUNT(*) AS n FROM '' @ table) []) (\<lambda>r.
       op_ret (case qr_rows r of [] \<Rightarrow> HBig 0 | x # _ \<Rightarrow> coalesce_host (prop_of x ''n'') (HBig 0))))"

definition truncate_sql :: "string \<Rightarrow> bool \<Rightarrow> bool \<Rightarrow> string" where
  "truncate_sql table restartIdentity cascade =
     ''TRUNCATE TABLE '' @ table @ (if restartIdentity then '' RESTART IDENTITY'' else []) @ (if cascade then '' CASCADE'' else [])"

definition truncate :: "'w repo \<Rightarrow> nat \<Rightarrow> bool \<Rightarrow> bool \<Rightarrow> ('w, unit) op" where
  "truncate R entity restartIdentity cascade =
     op_bind (op_lift (plain (ee_qualified (rp_env R) entity))) (\<lambda>table.
     op_bind (rp_query R (truncate_sql table restartIdentity cascade) []) (\<lambda>_. op_ret ()))"

end
