(* ===== verification/DeferredTransaction.thy ===== *)
theory DeferredTransaction
  imports RepositoryReads
begin

text \<open>
  \<open>src/dal/deferred-transaction.ts\<close>: the buffered transaction of \<open>dal.beginTransaction()\<close>.  Every operation runs the real
  method of the repository on a connection that rejects with the statement (\<open>capture\<close>); \<open>commit\<close> splits the
  statements into their CTEs, renames and renumbers them, and sends one statement.

  Promises are evaluated in the order of the operations, so the first rejected capture is the one of the lowest index.
\<close>

section \<open>Splitting a statement into its CTEs\<close>

definition with_re :: re where
  "with_re = re_seq [Bol, ws0, lit_ci ''WITH'', Cls js_ws]"

definition cte_head_re :: re where
  "cte_head_re = re_seq [Bol, ws0, Grp 1 (re_seq [Cls is_ident_start, Star (Cls is_word)]), ws1, lit_ci ''AS'', ws0,
     opt (re_alt [re_seq [lit_ci ''NOT'', ws1, lit_ci ''MATERIALIZED'', ws1], re_seq [lit_ci ''MATERIALIZED'', ws1]]), chr (CHR ''('')]"

definition blank :: "char \<Rightarrow> bool" where
  "blank c \<longleftrightarrow> c = CHR '' '' \<or> c = CHR 0x09 \<or> c = CHR 0x0A \<or> c = CHR 0x0D"

text \<open>The text behind the first \<open>*\<close>\<open>/\<close>.\<close>

fun after_comment :: "string \<Rightarrow> string" where
  "after_comment [] = []"
| "after_comment [c] = []"
| "after_comment (c # d # s) = (if c = CHR ''*'' \<and> d = CHR ''/'' then s else after_comment (d # s))"

lemma after_comment_length: "length (after_comment s) \<le> length s"
  by (induction s rule: after_comment.induct) auto

abbreviation not_newline :: "char \<Rightarrow> bool" where
  "not_newline \<equiv> \<lambda>c. c \<noteq> CHR 0x0A"

lemma line_skip: "starts_with s ''--'' \<Longrightarrow> length (dropWhile not_newline s) < length s"
proof (cases s)
  case (Cons c r)
  then show "starts_with s ''--'' \<Longrightarrow> ?thesis"
    using length_dropWhile_le [of not_newline r] by (auto simp: starts_with_def)
qed (simp add: starts_with_def)

lemma block_skip: "starts_with s ''/*'' \<Longrightarrow> length (after_comment (drop 2 s)) < length s"
  using after_comment_length [of "drop 2 s"] by (cases s) (auto simp: starts_with_def)

function skipWs :: "string \<Rightarrow> string" where
  "skipWs s =
     (case s of
        [] \<Rightarrow> []
      | c # r \<Rightarrow>
          if blank c then skipWs r
          else if starts_with s ''--'' then skipWs (dropWhile not_newline s)
          else if starts_with s ''/*'' then skipWs (after_comment (drop 2 s))
          else s)"
  by pat_completeness auto
termination
  by (relation "measure length") (auto dest: line_skip block_skip)

declare skipWs.simps [simp del]

text \<open>The next token of the scan for the closing parenthesis: a quoted text (with a doubled quote behind it), a
  comment, or one character.\<close>

definition token_rest :: "string \<Rightarrow> string" where
  "token_rest s =
     (case s of
        [] \<Rightarrow> []
      | c # r \<Rightarrow>
          if c = CHR 0x27 then
            (case dropWhile (\<lambda>x. x \<noteq> CHR 0x27) r of
               q # q' # r' \<Rightarrow> if q' = CHR 0x27 then r' else q' # r'
             | _ \<Rightarrow> [])
          else if c = CHR ''\"'' then tl (dropWhile (\<lambda>x. x \<noteq> CHR ''\"'') r)
          else if starts_with s ''--'' then tl (dropWhile not_newline s)
          else if starts_with s ''/*'' then after_comment (drop 2 s)
          else r)"

lemma token_rest_length: "s \<noteq> [] \<Longrightarrow> length (token_rest s) < length s"
proof (cases s)
  case (Cons c r)
  have a: "length (dropWhile P r) \<le> length r" for P by (rule length_dropWhile_le)
  have q: "length (case dropWhile (\<lambda>x. x \<noteq> CHR 0x27) r of q # q' # r' \<Rightarrow> if q' = CHR 0x27 then r' else q' # r' | _ \<Rightarrow> []) \<le> length r"
    using a [of "\<lambda>x. x \<noteq> CHR 0x27"] by (auto split: list.splits)
  have t: "length (tl (dropWhile P r)) \<le> length r" for P using a [of P] by simp
  have "length (tl (dropWhile not_newline (c # r))) \<le> length r" using t [of not_newline] by auto
  moreover have "length (after_comment (drop 2 (c # r))) \<le> length r" using after_comment_length [of "drop 1 r"] by simp
  ultimately show ?thesis using q t Cons by (auto simp: token_rest_def less_Suc_eq_le)
qed simp

text \<open>What is left behind the parenthesis that closes the body.\<close>

function body_rest :: "nat \<Rightarrow> string \<Rightarrow> string" where
  "body_rest depth s =
     (case s of
        [] \<Rightarrow> []
      | c # r \<Rightarrow>
          if c = CHR ''('' then body_rest (Suc depth) r
          else if c = CHR '')'' then (if depth = 1 then r else body_rest (depth - 1) r)
          else body_rest depth (token_rest s))"
  by pat_completeness auto
termination
  by (relation "measure (\<lambda>(_, s). length s)") (auto intro: order_less_le_trans [OF token_rest_length])

declare body_rest.simps [simp del]

type_synonym cte = "string \<times> string"

text \<open>The head is consumed up to its parenthesis, then the body; the text of a CTE starts at its name.\<close>

definition cte_end :: "string \<Rightarrow> string \<Rightarrow> string" where
  "cte_end head text = body_rest 0 (drop (length head - 1) text)"

lemma body_rest_length: "length (body_rest d s) \<le> length s"
proof (induction d s rule: body_rest.induct)
  case (1 d s)
  show ?case
  proof (cases s)
    case Nil
    then show ?thesis by (simp add: body_rest.simps)
  next
    case (Cons c r)
    then show ?thesis using 1 [OF Cons] token_rest_length [of s]
      by (subst body_rest.simps) (auto intro: le_SucI)
  qed
qed

lemma body_rest_less: "s \<noteq> [] \<Longrightarrow> length (body_rest d s) < length s"
proof (cases s)
  case (Cons c r)
  show ?thesis
    unfolding Cons using body_rest_length [of _ r] body_rest_length [of d "token_rest (c # r)"] token_rest_length [of "c # r"]
    by (subst body_rest.simps) (auto simp: less_Suc_eq_le)
qed simp

lemma cte_end_less: "text \<noteq> [] \<Longrightarrow> length (cte_end h text) < length text"
proof (cases "drop (length h - 1) text = []")
  case True
  then show "text \<noteq> [] \<Longrightarrow> ?thesis" by (simp add: cte_end_def body_rest.simps)
next
  case False
  then show ?thesis using body_rest_less [OF False, of 0] by (simp add: cte_end_def)
qed

lemma skipWs_length: "length (skipWs s) \<le> length s"
proof (induction s rule: skipWs.induct)
  case (1 s)
  show ?case
  proof (cases s)
    case Nil
    then show ?thesis by (simp add: skipWs.simps)
  next
    case (Cons c r)
    then show ?thesis using 1 [OF Cons] length_dropWhile_le [of not_newline r] after_comment_length [of "drop 1 r"]
      by (subst skipWs.simps) (auto split: if_splits intro: le_SucI)
  qed
qed


function split_ctes :: "string \<Rightarrow> cte list \<times> string" where
  "split_ctes text0 =
     (let text = skipWs text0
      in if text = [] then ([], [])
         else case re_exec cte_head_re text of
                None \<Rightarrow> ([], text)
              | Some (l, t) \<Rightarrow>
                  (let head = matched l t;
                       after = cte_end head text;
                       c = (case capture 1 t of Some n \<Rightarrow> n | None \<Rightarrow> [], take (length text - length after) text);
                       rest = skipWs after
                   in if rest \<noteq> [] \<and> hd rest = CHR '','' then
                        (let (cs, tl_text) = split_ctes (tl rest) in (c # cs, tl_text))
                      else ([c], rest)))"
  by pat_completeness auto
termination
proof (relation "measure length"; clarsimp)
  fix text0 l a b c
  assume "skipWs text0 \<noteq> []"
  then have "length (cte_end (matched l (a, b, c)) (skipWs text0)) < length text0"
    using cte_end_less [of "skipWs text0"] skipWs_length [of text0] by (meson order_less_le_trans)
  then show "length (skipWs (cte_end (matched l (a, b, c)) (skipWs text0))) - Suc 0 < length text0"
    using skipWs_length [of "cte_end (matched l (a, b, c)) (skipWs text0)"] by linarith
qed

declare split_ctes.simps [simp del]

definition splitTopLevelCtes :: "string \<Rightarrow> cte list \<times> string" where
  "splitTopLevelCtes text =
     (case re_exec with_re text of
        None \<Rightarrow> ([], text)
      | Some (l, t) \<Rightarrow> split_ctes (st_rest t))"

definition renameCtes :: "string \<Rightarrow> string list \<Rightarrow> string \<Rightarrow> string" where
  "renameCtes fragment names ns =
     fold (\<lambda>n out. re_replace_all (re_seq [WordB, lit n, WordB]) (\<lambda>_ _. ns @ n) out) names fragment"

section \<open>Placeholders\<close>

text \<open>The text cut at its placeholders \<open>$n\<close>.\<close>

datatype piece = Txt string | Param nat

fun digits_nat :: "string \<Rightarrow> nat \<Rightarrow> nat" where
  "digits_nat [] n = n"
| "digits_nat (c # s) n = digits_nat s (10 * n + (of_char c - 48))"

function pieces :: "string \<Rightarrow> piece list" where
  "pieces [] = []"
| "pieces (c # s) =
     (if c = CHR ''$'' \<and> takeWhile is_digit s \<noteq> []
      then Param (digits_nat (takeWhile is_digit s) 0) # pieces (dropWhile is_digit s)
      else Txt [c] # pieces s)"
  by pat_completeness auto
termination
  by (relation "measure length") (auto simp: less_Suc_eq_le length_dropWhile_le)

datatype op_kind = OpAdd | OpUpdate | OpDelete | OpRestore | OpHardDelete | OpFind | OpFindByUUID | OpFindById | OpFindAll
  | OpFindByPage | OpCount | OpVectorSearch

fun kind_text :: "op_kind \<Rightarrow> string" where
  "kind_text OpAdd = ''add''" | "kind_text OpUpdate = ''update''" | "kind_text OpDelete = ''delete''"
| "kind_text OpRestore = ''restore''" | "kind_text OpHardDelete = ''hardDelete''" | "kind_text OpFind = ''find''"
| "kind_text OpFindByUUID = ''findByUUID''" | "kind_text OpFindById = ''findById''" | "kind_text OpFindAll = ''findAll''"
| "kind_text OpFindByPage = ''findByPage''" | "kind_text OpCount = ''count''" | "kind_text OpVectorSearch = ''vectorSearch''"

definition WRITE_KINDS :: "op_kind list" where
  "WRITE_KINDS = [OpAdd, OpUpdate, OpDelete, OpRestore, OpHardDelete]"

datatype abort_spec = AbortMatched | AbortFixed string

text \<open>A buffered operation; its captured statement is the outcome of the promise.\<close>

record deferred_op =
  dop_kind :: op_kind
  dop_entity :: nat
  dop_meta :: entity_meta
  dop_captured :: "(dal_error, string \<times> host_value list) res"
  dop_returning :: "field_projector list"
  dop_readFields :: "field_projector list"
  dop_abort :: "abort_spec option"

definition projector_key :: "entity_env \<Rightarrow> nat \<Rightarrow> field_projector \<Rightarrow> (dal_error, string) res" where
  "projector_key env entity p =
     (case p of
        ProjExpr _ a \<Rightarrow> Inr a
      | ProjField f (Some a) \<Rightarrow> Inr a
      | ProjField f None \<Rightarrow> plain (ee_column env entity (fr_key f)))"

definition emittedKeys :: "entity_env \<Rightarrow> deferred_op \<Rightarrow> (dal_error, string list) res" where
  "emittedKeys env d =
     (if dop_kind d \<in> set WRITE_KINDS then
        res_bind (buildReturningClause env (dop_entity d) (dop_returning d)) (\<lambda>ret. Inr (map fst (rt_rowKeyToSqlName ret)))
      else if dop_readFields d \<noteq> [] then map_res (projector_key env (dop_entity d)) (dop_readFields d)
      else Inr (concat (map (\<lambda>c. [cm_propertyKey c, cm_sqlName c]) (cols (dop_meta d)))
                @ [''_total_records'', ''similarity'', ''distance'', ''n'']))"

definition row_name :: "nat \<Rightarrow> string" where
  "row_name i = ''__r'' @ nat_str i"

type_synonym merge_state = "host_value list \<times> (nat \<times> nat) list"

definition local_value :: "host_value list \<Rightarrow> nat \<Rightarrow> host_value" where
  "local_value vs n = (if 0 < n \<and> n \<le> length vs then vs ! (n - 1) else HUndefined)"

definition ref_text :: "entity_env \<Rightarrow> deferred_op list \<Rightarrow> nat \<Rightarrow> nat \<Rightarrow> string \<Rightarrow> (dal_error, string) res" where
  "ref_text env ops opIndex i f =
     (if opIndex \<le> i then
        Inl (Validation (''beginTransaction: ref(\"'' @ f @ ''\") targets op '' @ nat_str i @ '' '' @ dash
          @ '' refs only resolve to EARLIER buffered ops''))
      else res_bind (emittedKeys env (ops ! i)) (\<lambda>keys.
        if f \<notin> set keys then
          Inl (Validation (''beginTransaction: ref(\"'' @ f @ ''\") is not emitted by op '' @ nat_str i @ '' (''
            @ em_entityClassName (dop_meta (ops ! i)) @ ''.'' @ kind_text (dop_kind (ops ! i)) @ '') '' @ dash @ '' add it to ''
            @ qlit ''returning'' @ ''/'' @ qlit ''fields''))
        else
          res_bind (plain (quoteIdent f)) (\<lambda>q.
          res_bind (plain (quoteIdent (row_name i))) (\<lambda>t.
            Inr (''(SELECT '' @ q @ '' FROM '' @ t @ '' LIMIT 1)'')))))"

definition remap_param :: "entity_env \<Rightarrow> deferred_op list \<Rightarrow> nat \<Rightarrow> host_value list \<Rightarrow> nat \<Rightarrow> merge_state
    \<Rightarrow> (dal_error, string \<times> merge_state) res" where
  "remap_param env ops opIndex vs n st =
     (case local_value vs n of
        HRef i f \<Rightarrow> res_bind (ref_text env ops opIndex i f) (\<lambda>t. Inr (t, st))
      | v \<Rightarrow>
          (case st of (merged, indexMap) \<Rightarrow>
             (case map_of indexMap n of
                Some g \<Rightarrow> Inr (dollar g, st)
              | None \<Rightarrow> Inr (dollar (Suc (length merged)), (merged @ [v], (n, Suc (length merged)) # indexMap)))))"

fun remap_pieces :: "entity_env \<Rightarrow> deferred_op list \<Rightarrow> nat \<Rightarrow> host_value list \<Rightarrow> piece list \<Rightarrow> merge_state
    \<Rightarrow> (dal_error, string list \<times> merge_state) res" where
  "remap_pieces env ops opIndex vs [] st = Inr ([], st)"
| "remap_pieces env ops opIndex vs (Txt t # ps) st =
     res_bind (remap_pieces env ops opIndex vs ps st) (\<lambda>(ts, st'). Inr (t # ts, st'))"
| "remap_pieces env ops opIndex vs (Param n # ps) st =
     res_bind (remap_param env ops opIndex vs n st) (\<lambda>(t, st1).
     res_bind (remap_pieces env ops opIndex vs ps st1) (\<lambda>(ts, st'). Inr (t # ts, st')))"

definition remapParams :: "entity_env \<Rightarrow> deferred_op list \<Rightarrow> nat \<Rightarrow> host_value list \<Rightarrow> string \<Rightarrow> merge_state
    \<Rightarrow> (dal_error, string \<times> merge_state) res" where
  "remapParams env ops opIndex vs text st =
     res_bind (remap_pieces env ops opIndex vs (pieces text) st) (\<lambda>(ts, st'). Inr (concat ts, st'))"

section \<open>The merged statement\<close>

definition abortSpec :: "deferred_op \<Rightarrow> string list \<Rightarrow> string \<Rightarrow> nat \<Rightarrow> (dal_error, string option) res" where
  "abortSpec d cteNames ns i =
     (case dop_abort d of
        None \<Rightarrow> Inr None
      | Some a \<Rightarrow>
          (let name = em_entityClassName (dop_meta d); kind = kind_text (dop_kind d);
               detail = ''jsonb_build_object('' @ qlit ''entity'' @ '', '' @ escapeLiteral name @ '', '' @ qlit ''op'' @ '', ''
                 @ escapeLiteral kind @ '', '' @ qlit ''deferred_index'' @ '', '' @ nat_str i @ '')::text''
           in res_bind (case a of
                AbortFixed code \<Rightarrow> Inr (escapeLiteral code)
              | AbortMatched \<Rightarrow>
                  if ''matched'' \<in> set cteNames then
                    res_bind (plain (quoteIdent (ns @ ''matched''))) (\<lambda>m.
                      Inr (''(CASE WHEN EXISTS (SELECT 1 FROM '' @ m @ '') THEN '' @ escapeLiteral ''ERR01'' @ '' ELSE ''
                        @ escapeLiteral ''ERR03'' @ '' END)''))
                  else Inr (escapeLiteral ''ERR03'')) (\<lambda>code.
              res_bind (plain (quoteIdent (''__ab'' @ nat_str i))) (\<lambda>ab.
              res_bind (plain (quoteIdent (row_name i))) (\<lambda>r.
                Inr (Some (ab @ '' AS ('' @ lf @ ''  SELECT public.pg_raise('' @ lf @ ''    '' @ code @ '','' @ lf
                  @ ''    '' @ escapeLiteral (kind @ '': required row not written for '' @ name @ '' (deferred tx op '' @ nat_str i @ '')'') @ '','' @ lf
                  @ ''    '' @ detail @ lf @ ''  ) AS _raised'' @ lf
                  @ ''  WHERE NOT EXISTS (SELECT 1 FROM '' @ r @ '')'' @ lf @ '')'')))))))"

text \<open>The branches of one operation: its CTEs, then its rows, all renamed and renumbered.\<close>

fun remap_branches :: "entity_env \<Rightarrow> deferred_op list \<Rightarrow> nat \<Rightarrow> host_value list \<Rightarrow> string list \<Rightarrow> merge_state
    \<Rightarrow> (dal_error, string list \<times> merge_state) res" where
  "remap_branches env ops i vs [] st = Inr ([], st)"
| "remap_branches env ops i vs (b # bs) st =
     res_bind (remapParams env ops i vs b st) (\<lambda>(t, st1).
     res_bind (remap_branches env ops i vs bs st1) (\<lambda>(ts, st'). Inr (t # ts, st')))"

definition op_ns :: "nat \<Rightarrow> string" where
  "op_ns i = ''s'' @ nat_str i @ ''_''"

definition branches :: "nat \<Rightarrow> string \<Rightarrow> string list \<times> string list" where
  "branches i text =
     (let (ctes, tl_text) = splitTopLevelCtes text; names = map fst ctes
      in (names, map (\<lambda>c. renameCtes (snd c) names (op_ns i)) ctes @ [renameCtes tl_text names (op_ns i)]))"

definition compile_op :: "entity_env \<Rightarrow> deferred_op list \<Rightarrow> nat \<Rightarrow> string \<times> host_value list \<Rightarrow> host_value list
    \<Rightarrow> (dal_error, string list \<times> string list \<times> host_value list) res" where
  "compile_op env ops i cap merged =
     (case cap of (text, vs) \<Rightarrow>
        (case branches i text of (names, bs) \<Rightarrow>
           res_bind (plain (quoteIdent (row_name i))) (\<lambda>r.
           res_bind (remap_branches env ops i vs bs (merged, [])) (\<lambda>(ts, merged', _).
           res_bind (abortSpec (ops ! i) names (op_ns i) i) (\<lambda>ab.
             Inr (butlast ts @ [r @ '' AS ('' @ lf @ last ts @ lf @ '')''] @ (case ab of Some a \<Rightarrow> [a] | None \<Rightarrow> []),
                  (case ab of Some _ \<Rightarrow> [''__ab'' @ nat_str i] | None \<Rightarrow> []),
                  merged'))))))"

fun compile_ops :: "entity_env \<Rightarrow> deferred_op list \<Rightarrow> nat \<Rightarrow> (string \<times> host_value list) list \<Rightarrow> host_value list
    \<Rightarrow> (dal_error, string list \<times> string list \<times> host_value list) res" where
  "compile_ops env ops i [] merged = Inr ([], [], merged)"
| "compile_ops env ops i (cap # caps) merged =
     res_bind (compile_op env ops i cap merged) (\<lambda>(ps, abs1, merged1).
     res_bind (compile_ops env ops (Suc i) caps merged1) (\<lambda>(qs, abs2, merged').
       Inr (ps @ qs, abs1 @ abs2, merged')))"

definition select_column :: "nat \<Rightarrow> (dal_error, string) res" where
  "select_column i =
     res_bind (plain (quoteIdent (row_name i))) (\<lambda>r.
       Inr (''(SELECT COALESCE(jsonb_agg(to_jsonb(t)), '' @ qlit ''[]'' @ ''::jsonb) FROM '' @ r @ '' t) AS '' @ r))"

definition abort_clause :: "string list \<Rightarrow> (dal_error, string) res" where
  "abort_clause names =
     (if names = [] then Inr []
      else res_bind (map_res (\<lambda>n. res_bind (plain (quoteIdent n)) (\<lambda>q. Inr (''NOT EXISTS (SELECT 1 FROM '' @ q @ '')''))) names) (\<lambda>ts.
        Inr (lf @ ''WHERE '' @ join (lf @ ''  AND '') ts)))"

definition merged_statement :: "entity_env \<Rightarrow> deferred_op list \<Rightarrow> (string \<times> host_value list) list
    \<Rightarrow> (dal_error, string \<times> host_value list) res" where
  "merged_statement env ops caps =
     res_bind (compile_ops env ops 0 caps []) (\<lambda>(parts, aborts, values).
     res_bind (map_res select_column [0..<length ops]) (\<lambda>sel.
     res_bind (abort_clause aborts) (\<lambda>w.
       Inr (''WITH '' @ join ('','' @ lf) parts @ lf @ ''SELECT '' @ join ('','' @ lf @ ''       '') sel @ w, values))))"

end
