(* ===== verification/DeferredSession.thy ===== *)
theory DeferredSession
  imports DeferredTransaction
begin

text \<open>
  The class \<open>DeferredTransaction\<close> and the handles of \<open>src/dal/deferred-transaction.ts\<close>: buffering an operation, \<open>commit\<close>,
  \<open>discard\<close>, and the values that the handles get.
\<close>

section \<open>Rehydration\<close>

definition bigint_of :: "host \<Rightarrow> host_value \<Rightarrow> (string, host_value) res" where
  "bigint_of H v =
     (case v of
        HBig i \<Rightarrow> Inr v
      | HBool b \<Rightarrow> Inr (HBig (if b then 1 else 0))
      | _ \<Rightarrow> res_bind (h_bigInt H (host_string H v)) (\<lambda>i. Inr (HBig i)))"

definition rehydrateValue :: "host \<Rightarrow> host_value \<Rightarrow> column_meta \<Rightarrow> (string, host_value) res" where
  "rehydrateValue H v c =
     (if host_nullish v then Inr v
      else if effectivePgStorageType c \<in> {''bigint'', ''int8'', ''bigserial''} then
        (case v of HNum _ \<Rightarrow> bigint_of H v | HStr _ \<Rightarrow> bigint_of H v | _ \<Rightarrow> Inr v)
      else pgValueToJsValue H c v)"

definition row_column :: "entity_meta \<Rightarrow> (string \<times> string) list \<Rightarrow> string \<Rightarrow> string" where
  "row_column meta rowKeyToSqlName k =
     (case map_of rowKeyToSqlName k of
        Some s \<Rightarrow> s
      | None \<Rightarrow>
          (case map_of (em_columns meta) k of
             Some c \<Rightarrow> cm_sqlName c
           | None \<Rightarrow> (case col_by_prop meta k of Some c \<Rightarrow> cm_sqlName c | None \<Rightarrow> k)))"

definition rehydrateRow :: "host \<Rightarrow> entity_meta \<Rightarrow> (string \<times> string) list \<Rightarrow> host_record \<Rightarrow> (string, host_record) res" where
  "rehydrateRow H meta rowKeyToSqlName raw =
     map_res (\<lambda>(k, v).
        case map_of (em_columns meta) (row_column meta rowKeyToSqlName k) of
          Some c \<Rightarrow> res_bind (rehydrateValue H v c) (\<lambda>x. Inr (k, x))
        | None \<Rightarrow> Inr (k, v)) raw"

section \<open>Handles\<close>

datatype handle_value =
    OneRow "host_record option"
  | ManyRows "host_record list"
  | OnePage paginated
  | OneCount host_value

definition plain_row :: "host \<Rightarrow> entity_meta \<Rightarrow> host_record \<Rightarrow> (dal_error, host_record) res" where
  "plain_row H meta raw = plain (rehydrateRow H meta [] raw)"

definition big_or_zero :: "host \<Rightarrow> host_record list \<Rightarrow> string \<Rightarrow> (dal_error, host_value) res" where
  "big_or_zero H rows k =
     (case rows of
        [] \<Rightarrow> Inr (HBig 0)
      | r # _ \<Rightarrow> if host_nullish (prop_of r k) then Inr (HBig 0) else plain (bigint_of H (prop_of r k)))"

text \<open>The \<open>finalize\<close> of an operation.\<close>

definition finalize :: "host \<Rightarrow> entity_env \<Rightarrow> deferred_op \<Rightarrow> host_record list \<Rightarrow> (dal_error, handle_value) res" where
  "finalize H env d rows =
     (let meta = dop_meta d
      in if dop_kind d \<in> set WRITE_KINDS then
           res_bind (buildReturningClause env (dop_entity d) (dop_returning d)) (\<lambda>ret.
             case rows of
               [] \<Rightarrow> Inr (OneRow None)
             | raw # _ \<Rightarrow> res_bind (plain (rehydrateRow H meta (rt_rowKeyToSqlName ret) raw)) (\<lambda>r.
                 Inr (OneRow (Some (pickReturningRow r (rt_visibleKeys ret))))))
         else if dop_kind d \<in> {OpFind, OpFindByUUID, OpFindById} then
           (case rows of
              [] \<Rightarrow> Inr (OneRow None)
            | raw # _ \<Rightarrow> res_bind (plain_row H meta raw) (\<lambda>r. Inr (OneRow (Some r))))
         else if dop_kind d = OpFindByPage then
           res_bind (map_res (plain_row H meta) rows) (\<lambda>rs.
           res_bind (big_or_zero H rows ''_total_records'') (\<lambda>n.
             Inr (OnePage \<lparr>pg_entities = map (\<lambda>r. without r ''_total_records'') rs, pg_total = n\<rparr>)))
         else if dop_kind d = OpCount then res_bind (big_or_zero H rows ''n'') (\<lambda>n. Inr (OneCount n))
         else res_bind (map_res (plain_row H meta) rows) (\<lambda>rs. Inr (ManyRows rs)))"

datatype tx_state = TxOpen | TxCommitted | TxDiscarded

text \<open>\<open>tx_handles\<close> holds the outcome of each settled handle.\<close>

record deferred_tx =
  tx_state :: tx_state
  tx_ops :: "deferred_op list"
  tx_handles :: "(dal_error, handle_value) res option list"

definition new_tx :: deferred_tx where
  "new_tx = \<lparr>tx_state = TxOpen, tx_ops = [], tx_handles = []\<rparr>"

definition state_text :: "tx_state \<Rightarrow> string" where
  "state_text s = (case s of TxOpen \<Rightarrow> ''open'' | TxCommitted \<Rightarrow> ''committed'' | TxDiscarded \<Rightarrow> ''discarded'')"

text \<open>\<open>Deferred.ref\<close> and \<open>Deferred.value\<close> of the handle of operation \<open>i\<close>.\<close>

definition deferred_ref :: "nat \<Rightarrow> string \<Rightarrow> host_value" where
  "deferred_ref i f = HRef i f"

definition deferred_value :: "deferred_tx \<Rightarrow> nat \<Rightarrow> (dal_error, handle_value) res" where
  "deferred_value tx i =
     (case tx_handles tx ! i of
        None \<Rightarrow> Inl (Validation (''Deferred.value accessed before commit() '' @ dash
          @ '' buffered ops materialize only after the transaction statement succeeds''))
      | Some r \<Rightarrow> r)"

section \<open>Capturing a statement\<close>

definition capture_repo :: "host \<Rightarrow> entity_env \<Rightarrow> (js_value \<Rightarrow> host_value) \<Rightarrow> unit repo" where
  "capture_repo H env param =
     \<lparr>rp_query = (\<lambda>text values w. (Inl (CaptureSignal text values), w)), rp_audit = (\<lambda>_ w. w), rp_param = param,
      rp_host = H, rp_env = env\<rparr>"

definition captured :: "op_kind \<Rightarrow> (unit, 'a) op \<Rightarrow> (dal_error, string \<times> host_value list) res" where
  "captured kind m =
     (case fst (m ()) of
        Inr _ \<Rightarrow> Inl (Validation (''beginTransaction: '' @ kind_text kind @ '' completed without emitting a statement '' @ dash
          @ '' unsupported op shape''))
      | Inl (CaptureSignal text values) \<Rightarrow> Inr (text, values)
      | Inl e \<Rightarrow> Inl e)"

record register_args =
  ra_kind :: op_kind
  ra_entity :: nat
  ra_audit :: bool
  ra_returning :: "field_projector list"
  ra_readFields :: "field_projector list"
  ra_captured :: "(dal_error, string \<times> host_value list) res"
  ra_abort :: "abort_spec option"

definition register :: "entity_env \<Rightarrow> register_args \<Rightarrow> deferred_tx \<Rightarrow> (dal_error, nat \<times> deferred_tx) res" where
  "register env a tx =
     (if tx_state tx \<noteq> TxOpen then
        Inl (Validation (''beginTransaction: '' @ kind_text (ra_kind a) @ ''() on a '' @ state_text (tx_state tx) @ '' transaction''))
      else if ra_audit a then
        Inl (Validation (''beginTransaction: '' @ kind_text (ra_kind a) @ '' with options.audit cannot be deferred '' @ dash
          @ '' the audit delta needs the pre-write row. Use dal.transaction(fn) for audited writes.''))
      else res_bind (plain (ee_meta env (ra_entity a))) (\<lambda>meta.
        Inr (length (tx_ops tx),
             tx\<lparr>tx_ops := tx_ops tx @ [\<lparr>dop_kind = ra_kind a, dop_entity = ra_entity a, dop_meta = meta,
                  dop_captured = ra_captured a, dop_returning = ra_returning a, dop_readFields = ra_readFields a,
                  dop_abort = ra_abort a\<rparr>],
                tx_handles := tx_handles tx @ [None]\<rparr>)))"

section \<open>The buffered methods\<close>

definition write_args :: "op_kind \<Rightarrow> nat \<Rightarrow> write_options \<Rightarrow> (dal_error, string \<times> host_value list) res \<Rightarrow> abort_spec option \<Rightarrow> register_args" where
  "write_args kind entity opts cap ab =
     \<lparr>ra_kind = kind, ra_entity = entity, ra_audit = wo_audit opts, ra_returning = wo_returning opts, ra_readFields = [],
      ra_captured = cap, ra_abort = ab\<rparr>"

definition read_args :: "op_kind \<Rightarrow> nat \<Rightarrow> field_projector list \<Rightarrow> (dal_error, string \<times> host_value list) res \<Rightarrow> abort_spec option \<Rightarrow> register_args" where
  "read_args kind entity flds cap ab =
     \<lparr>ra_kind = kind, ra_entity = entity, ra_audit = False, ra_returning = [], ra_readFields = flds, ra_captured = cap,
      ra_abort = ab\<rparr>"

definition required :: "bool \<Rightarrow> abort_spec option" where
  "required strict = (if strict then Some (AbortFixed ''ERR03'') else None)"

definition tx_add :: "unit repo \<Rightarrow> nat \<Rightarrow> host_record \<Rightarrow> write_options \<Rightarrow> int \<Rightarrow> deferred_tx \<Rightarrow> (dal_error, nat \<times> deferred_tx) res" where
  "tx_add C entity row opts now =
     register (rp_env C) (write_args OpAdd entity opts (captured OpAdd (add C entity row opts now))
       (if wo_ignore opts then None else Some (AbortFixed ''ERR04'')))"

definition tx_update :: "unit repo \<Rightarrow> nat \<Rightarrow> host_record \<Rightarrow> write_options \<Rightarrow> int \<Rightarrow> deferred_tx \<Rightarrow> (dal_error, nat \<times> deferred_tx) res" where
  "tx_update C entity updates opts now =
     register (rp_env C) (write_args OpUpdate entity opts (captured OpUpdate (update C entity updates opts now)) (Some AbortMatched))"

definition tx_delete :: "unit repo \<Rightarrow> nat \<Rightarrow> host_record \<Rightarrow> write_options \<Rightarrow> int \<Rightarrow> deferred_tx \<Rightarrow> (dal_error, nat \<times> deferred_tx) res" where
  "tx_delete C entity selector opts now =
     register (rp_env C) (write_args OpDelete entity opts (captured OpDelete (delete C entity selector opts now)) (Some AbortMatched))"

definition tx_restore :: "unit repo \<Rightarrow> nat \<Rightarrow> host_record \<Rightarrow> write_options \<Rightarrow> int \<Rightarrow> deferred_tx \<Rightarrow> (dal_error, nat \<times> deferred_tx) res" where
  "tx_restore C entity selector opts now =
     register (rp_env C) (write_args OpRestore entity opts (captured OpRestore (restore C entity selector opts now)) (Some AbortMatched))"

definition tx_hardDelete :: "unit repo \<Rightarrow> nat \<Rightarrow> host_record \<Rightarrow> write_options \<Rightarrow> int \<Rightarrow> deferred_tx \<Rightarrow> (dal_error, nat \<times> deferred_tx) res" where
  "tx_hardDelete C entity selector opts now =
     register (rp_env C) (write_args OpHardDelete entity opts (captured OpHardDelete (hardDelete C entity selector opts now)) (Some AbortMatched))"

definition tx_find :: "unit repo \<Rightarrow> nat \<Rightarrow> field_projector list \<Rightarrow> find_options \<Rightarrow> deferred_tx \<Rightarrow> (dal_error, nat \<times> deferred_tx) res" where
  "tx_find C entity flds opts =
     register (rp_env C) (read_args OpFind entity flds (captured OpFind (RepositoryReads.find C entity flds opts)) (required (fo_throwIfNotFound opts)))"

definition tx_findByUUID :: "unit repo \<Rightarrow> nat \<Rightarrow> string \<Rightarrow> deleted_records option \<Rightarrow> bool \<Rightarrow> deferred_tx \<Rightarrow> (dal_error, nat \<times> deferred_tx) res" where
  "tx_findByUUID C entity uuid deleted strict =
     register (rp_env C) (read_args OpFindByUUID entity [] (captured OpFindByUUID (findByUUID C entity uuid deleted strict)) (required strict))"

definition tx_findById :: "unit repo \<Rightarrow> nat \<Rightarrow> js_value \<Rightarrow> deleted_records option \<Rightarrow> bool \<Rightarrow> deferred_tx \<Rightarrow> (dal_error, nat \<times> deferred_tx) res" where
  "tx_findById C entity rowId deleted strict =
     register (rp_env C) (read_args OpFindById entity [] (captured OpFindById (findById C entity rowId deleted strict)) (required strict))"

definition tx_findAll :: "unit repo \<Rightarrow> nat \<Rightarrow> field_projector list \<Rightarrow> find_options \<Rightarrow> bool \<Rightarrow> deferred_tx \<Rightarrow> (dal_error, nat \<times> deferred_tx) res" where
  "tx_findAll C entity flds opts stream tx =
     (if stream then
        Inl (Validation (''beginTransaction: findAll stream is not deferrable '' @ dash @ '' omit '' @ qlit ''stream''
          @ '' inside a buffered transaction''))
      else register (rp_env C) (read_args OpFindAll entity flds (captured OpFindAll (findAll C entity flds opts)) None) tx)"

definition tx_findByPage :: "unit repo \<Rightarrow> nat \<Rightarrow> int \<Rightarrow> int \<Rightarrow> field_projector list \<Rightarrow> find_options \<Rightarrow> deferred_tx \<Rightarrow> (dal_error, nat \<times> deferred_tx) res" where
  "tx_findByPage C entity page recordsPerPage flds opts =
     register (rp_env C) (read_args OpFindByPage entity flds (captured OpFindByPage (findByPage C entity page recordsPerPage flds opts)) None)"

definition tx_count :: "unit repo \<Rightarrow> nat \<Rightarrow> string option \<Rightarrow> deferred_tx \<Rightarrow> (dal_error, nat \<times> deferred_tx) res" where
  "tx_count C entity tableName =
     register (rp_env C) (read_args OpCount entity [] (captured OpCount (RepositoryReads.count C entity tableName)) None)"

definition tx_vectorSearch :: "unit repo \<Rightarrow> nat \<Rightarrow> field_ref \<Rightarrow> js_value \<Rightarrow> vector_options \<Rightarrow> deferred_tx \<Rightarrow> (dal_error, nat \<times> deferred_tx) res" where
  "tx_vectorSearch C entity f queryVector opts =
     register (rp_env C) (read_args OpVectorSearch entity (ve_fields opts) (captured OpVectorSearch (vectorSearch C entity f queryVector opts)) None)"

section \<open>commit and discard\<close>

definition reject_all :: "dal_error \<Rightarrow> deferred_tx \<Rightarrow> deferred_tx" where
  "reject_all e tx = tx\<lparr>tx_handles := map (\<lambda>_. Some (Inl e)) (tx_handles tx)\<rparr>"

text \<open>The rows of branch \<open>i\<close> in the row of the result.\<close>

definition branch_rows :: "host_record \<Rightarrow> nat \<Rightarrow> host_record list" where
  "branch_rows payload i =
     (case prop_of payload (row_name i) of
        HArr vs \<Rightarrow> List.map_filter (\<lambda>v. case v of HObj r \<Rightarrow> Some r | _ \<Rightarrow> None) vs
      | _ \<Rightarrow> [])"

definition settle :: "host \<Rightarrow> entity_env \<Rightarrow> host_record \<Rightarrow> deferred_op list \<Rightarrow> (dal_error, handle_value) res option list" where
  "settle H env payload ops = map (\<lambda>(i, d). Some (finalize H env d (branch_rows payload i))) (enumerate 0 ops)"

definition commit_statement :: "entity_env \<Rightarrow> deferred_tx \<Rightarrow> (dal_error, (string \<times> host_value list) option) res" where
  "commit_statement env tx =
     res_bind (map_res dop_captured (tx_ops tx)) (\<lambda>caps.
       if caps = [] then Inr None
       else res_bind (merged_statement env (tx_ops tx) caps) (\<lambda>q. Inr (Some q)))"

definition commit :: "(string \<Rightarrow> host_value list \<Rightarrow> ('w, query_result) op) \<Rightarrow> host \<Rightarrow> entity_env \<Rightarrow> deferred_tx \<Rightarrow> 'w
    \<Rightarrow> (dal_error, unit) res \<times> deferred_tx \<times> 'w" where
  "commit run H env tx w =
     (if tx_state tx \<noteq> TxOpen then
        (Inl (Validation (''beginTransaction: commit() on a '' @ state_text (tx_state tx) @ '' transaction'')), tx, w)
      else
        (let tx1 = tx\<lparr>tx_state := TxCommitted\<rparr>
         in case commit_statement env tx1 of
              Inl e \<Rightarrow> (Inl e, reject_all e tx1, w)
            | Inr None \<Rightarrow> (Inr (), tx1, w)
            | Inr (Some (sql, values)) \<Rightarrow>
                (case run sql values w of
                   (Inl e, w') \<Rightarrow> (Inl e, reject_all e tx1, w')
                 | (Inr r, w') \<Rightarrow>
                     (Inr (), tx1\<lparr>tx_handles := settle H env (case qr_rows r of [] \<Rightarrow> [] | x # _ \<Rightarrow> x) (tx_ops tx1)\<rparr>, w'))))"

definition discard :: "deferred_tx \<Rightarrow> deferred_tx" where
  "discard tx =
     (if tx_state tx \<noteq> TxOpen then tx
      else reject_all (Validation ''beginTransaction: discarded before commit'') (tx\<lparr>tx_state := TxDiscarded\<rparr>))"

end
