(* ===== verification/RepositoryFacts.thy ===== *)
theory RepositoryFacts
  imports RepositoryUpdates
begin

text \<open>
  Facts about the single-row writes of \<open>src/repository/repository.ts\<close>: the identity of the row, the parameters of the
  statements, the version guard, the classification of a write of no row, the report of unique conflicts and the
  deltas of the audit trail.
\<close>

section \<open>An example entity\<close>

definition ex_column :: "string \<Rightarrow> bool \<Rightarrow> bool \<Rightarrow> auditable_type option \<Rightarrow> column_meta" where
  "ex_column n key unique aud =
     \<lparr>cm_propertyKey = n, cm_sqlName = n, cm_isKey = key, cm_isUnique = unique, cm_uniqueIndexName = None,
      cm_uniqueIndexOrder = None, cm_nullable = False, cm_pgType = None, cm_jsType = None, cm_defaultSql = None,
      cm_length = None, cm_precision = None, cm_scale = None, cm_inferredPgType = ''text'', cm_usePostgresIdentity = key,
      cm_auditableType = aud, cm_deletableType = None, cm_synchronizableType = None, cm_isClone = False,
      cm_castInJoin = None, cm_isPartition = False, cm_partitionOpts = None\<rparr>"

definition ex_meta :: entity_meta where
  "ex_meta = \<lparr>em_entityClassName = ''User'', em_tableSchema = ''app'', em_tableName = ''users'', em_isAuditable = None,
     em_isAuditTrailEntity = None, em_auditTrailChangedByColumn = None,
     em_columns = map (\<lambda>c. (cm_sqlName c, c)) [ex_column ''id'' True False None, ex_column ''email'' False True None,
       ex_column ''nick'' False False None, ex_column ''version'' False False (Some VERSION)],
     em_partition = None, em_partitionChildOf = None, em_indexes = [], em_foreignKeys = []\<rparr>"

definition ex_env :: entity_env where
  "ex_env = \<lparr>ee_qualified = (\<lambda>_. Inr ''app.users''), ee_column = (\<lambda>_ k. Inr k), ee_meta = (\<lambda>_. Inr ex_meta)\<rparr>"

definition ex_host :: host where
  "ex_host = \<lparr>h_parseDate = (\<lambda>_. None), h_isoDate = (\<lambda>_. []), h_toPG = (\<lambda>s. s), h_dec = Inr, h_decJson = (\<lambda>s. s),
     h_number = int_str, h_numberOf = (\<lambda>s. s), h_dateOf = (\<lambda>_. None),
     h_bigInt = (\<lambda>_. Inr 0)\<rparr>"

definition ex_options :: write_options where
  "ex_options = \<lparr>wo_actor = Some ''ann'', wo_audit = False, wo_returning = [], wo_matchBy = [''email''], wo_tableName = None,
     wo_ignore = False, wo_conflictKeys = None\<rparr>"

definition ex_payload :: host_record where
  "ex_payload = [(''email'', HStr ''a@b''), (''nick'', HStr ''x''), (''version'', HNum ''3'')]"

section \<open>Identity\<close>

lemma set_add_set [simp]: "set (set_add x xs) = insert x (set xs)"
  by (auto simp: set_add_def)

lemma fold_set_add [simp]: "set (fold (\<lambda>c. set_add (f c)) cs xs) = set xs \<union> f ` set cs"
  by (induction cs arbitrary: xs) auto

lemma fold_set_add' [simp]: "set (fold set_add cs xs) = set xs \<union> set cs"
  using fold_set_add [of "\<lambda>x. x" cs xs] by simp

definition identity_props :: "entity_meta \<Rightarrow> string \<Rightarrow> string set" where
  "identity_props meta k = (case group_of meta k of Some g \<Rightarrow> cm_propertyKey ` set (snd g) | None \<Rightarrow> {k})"

definition identifying :: "entity_meta \<Rightarrow> column_meta \<Rightarrow> bool" where
  "identifying meta c \<longleftrightarrow> cm_isUnique c \<or> cm_isKey c \<or> cm_sqlName c = ''uuid''"

lemma group_of_props: "group_of meta k = Some g \<Longrightarrow> k \<in> cm_propertyKey ` set (snd g) \<and> g \<in> set (uniqueConflictGroups meta)"
  unfolding group_of_def find_Some_iff by (auto simp: image_iff rev_nth) 

lemma selector_props_ok:
  "selector_props meta ks r = Inr s \<Longrightarrow>
     set s = set r \<union> (\<Union>k \<in> set ks. identity_props meta k)
     \<and> (\<forall>k \<in> set ks. group_of meta k = None \<longrightarrow> map_option cm_propertyKey (findPkColumn meta) = Some k)"
proof (induction ks arbitrary: r)
  case Nil
  then show ?case by simp
next
  case (Cons k ks)
  show ?case
  proof (cases "group_of meta k")
    case None
    then show ?thesis using Cons by (auto split: option.splits if_splits simp: identity_props_def)
  next
    case (Some g)
    then show ?thesis using Cons.prems Cons.IH by (force split: option.splits simp: identity_props_def)
  qed
qed

lemma named_groups_members:
  "(n, g) \<in> set (fold (\<lambda>c gs. AList.update (f c) ((case map_of gs (f c) of Some g \<Rightarrow> g | None \<Rightarrow> []) @ [c]) gs) cs gs)
   \<Longrightarrow> (\<And>n g. (n, g) \<in> set gs \<Longrightarrow> set g \<subseteq> S) \<Longrightarrow> set cs \<subseteq> S \<Longrightarrow> set g \<subseteq> S"
proof (induction cs arbitrary: gs)
  case Nil
  then show ?case by auto
next
  case (Cons c cs)
  let ?gs = "AList.update (f c) ((case map_of gs (f c) of Some g \<Rightarrow> g | None \<Rightarrow> []) @ [c]) gs"
  have "set g' \<subseteq> S" if "(n', g') \<in> set ?gs" for n' g'
  proof -
    have "g' = (case map_of gs (f c) of Some g \<Rightarrow> g | None \<Rightarrow> []) @ [c] \<or> (n', g') \<in> set gs"
      using that by (induction gs) (auto split: if_splits)
    then show ?thesis using Cons.prems(2,3) map_of_SomeD [of gs "f c"]
      by (auto split: option.splits) blast
  qed
  then show ?case using Cons.IH [of ?gs] Cons.prems by simp
qed

lemma unique_groups_members:
  "(n, g) \<in> set (uniqueConflictGroups meta) \<Longrightarrow> c \<in> set g \<Longrightarrow> c \<in> set (cols meta) \<and> cm_isUnique c"
proof -
  assume a: "(n, g) \<in> set (uniqueConflictGroups meta)" "c \<in> set g"
  let ?S = "{c \<in> set (cols meta). cm_isUnique c}"
  have "set g \<subseteq> ?S"
  proof (cases "\<exists>g'. g = sort_key order_of g' \<and> (n, g') \<in> set (fold (\<lambda>c gs. let n = the (cm_uniqueIndexName c)
        in AList.update n ((case map_of gs n of Some g \<Rightarrow> g | None \<Rightarrow> []) @ [c]) gs)
        (filter (\<lambda>c. truthy (cm_uniqueIndexName c)) (filter cm_isUnique (cols meta))) [])")
    case True
    then obtain g' where g: "g = sort_key order_of g'" and m: "(n, g') \<in> set (fold (\<lambda>c gs. AList.update (the (cm_uniqueIndexName c))
        ((case map_of gs (the (cm_uniqueIndexName c)) of Some g \<Rightarrow> g | None \<Rightarrow> []) @ [c]) gs)
        (filter (\<lambda>c. truthy (cm_uniqueIndexName c)) (filter cm_isUnique (cols meta))) [])"
      by (auto simp: Let_def)
    have "set g' \<subseteq> ?S" by (rule named_groups_members [OF m]) auto
    then show ?thesis using g by simp
  next
    case False
    then show ?thesis using a(1) by (auto simp: uniqueConflictGroups_def Let_def)
  qed
  then show ?thesis using a(2) by auto
qed

lemma col_by_prop_member: "col_by_prop meta k = Some c \<Longrightarrow> c \<in> set (cols meta) \<and> cm_propertyKey c = k"
  unfolding col_by_prop_def by (auto dest!: map_of_SomeD)

lemma col_by_prop_exists: "c \<in> set (cols meta) \<Longrightarrow> \<exists>c'. col_by_prop meta (cm_propertyKey c) = Some c'"
  unfolding col_by_prop_def by (cases "map_of (rev (map (\<lambda>c. (cm_propertyKey c, c)) (cols meta))) (cm_propertyKey c)")
    (auto simp: map_of_eq_None_iff image_iff)

lemma without_fold [simp]: "map_of (fold (\<lambda>k r. without r k) ks r) k = (if k \<in> set ks then None else map_of r k)"
proof (induction ks arbitrary: r)
  case Nil
  then show ?case by simp
next
  case (Cons a ks)
  have "map_of (without r a) k = (if k = a then None else map_of r k)"
    by (induction r) (auto simp: without_def)
  then show ?case using Cons by auto
qed

lemma implicit_identifying: "k \<in> set (implicit_identity meta) \<Longrightarrow> \<exists>c \<in> set (cols meta). cm_propertyKey c = k \<and> identifying meta c"
  unfolding implicit_identity_def identifying_def findPkColumn_def uuid_col_def
  by (auto simp: map_filter_simps find_Some_iff split: option.splits if_splits)

lemma selected_identifying:
  assumes "resolveSelectorProps meta matchBy = Inr sel" and "k \<in> set sel"
  shows "\<exists>c \<in> set (cols meta). cm_propertyKey c = k \<and> identifying meta c"
proof -
  have s: "set sel = (\<Union>k \<in> set matchBy. identity_props meta k)"
    and pk: "\<forall>k \<in> set matchBy. group_of meta k = None \<longrightarrow> map_option cm_propertyKey (findPkColumn meta) = Some k"
    using selector_props_ok [of meta matchBy "[]" sel] assms(1) by (auto simp: resolveSelectorProps_def)
  from assms(2) s obtain m where m: "m \<in> set matchBy" "k \<in> identity_props meta m" by auto
  show ?thesis
  proof (cases "group_of meta m")
    case None
    then have "map_option cm_propertyKey (findPkColumn meta) = Some k" using pk m by (auto simp: identity_props_def)
    then obtain c where "findPkColumn meta = Some c" "cm_propertyKey c = k" by auto
    then show ?thesis unfolding findPkColumn_def identifying_def find_Some_iff using nth_mem by blast
  next
    case (Some g)
    then have "g \<in> set (uniqueConflictGroups meta)" using group_of_props by blast
    then show ?thesis using m Some unique_groups_members [of "fst g" "snd g" meta]
      by (auto simp: identity_props_def identifying_def)
  qed
qed

lemma make_condition_simps: "mc_propertyKey (make_condition meta payload k) = k"
  "mc_value (make_condition meta payload k) = prop_of payload k"
  by (simp_all add: make_condition_def Let_def)

lemma resolved_conditions:
  assumes "resolveMatchConditions meta payload matchBy = Inr (conds, rest)"
  obtains sel req where "resolveSelectorProps meta matchBy = Inr sel" "req \<noteq> []"
    "set req = set sel \<union> {k \<in> set (implicit_identity meta). prop_of payload k \<noteq> HUndefined}"
    "\<forall>k \<in> set req. prop_of payload k \<noteq> HUndefined"
    "conds = map (make_condition meta payload) req" "rest = fold (\<lambda>k r. without r k) req payload"
proof -
  from assms obtain sel where sel: "resolveSelectorProps meta matchBy = Inr sel"
    by (cases "resolveSelectorProps meta matchBy") (auto simp: resolveMatchConditions_def)
  let ?req = "fold set_add (filter (\<lambda>k. prop_of payload k \<noteq> HUndefined) (implicit_identity meta)) sel"
  from assms sel have none: "List.find (\<lambda>k. prop_of payload k = HUndefined) sel = None" and ne: "?req \<noteq> []"
    and conds: "conds = map (make_condition meta payload) ?req" and rest: "rest = fold (\<lambda>k r. without r k) ?req payload"
    by (auto simp: resolveMatchConditions_def Let_def split: option.splits if_splits)
  have req: "set ?req = set sel \<union> {k \<in> set (implicit_identity meta). prop_of payload k \<noteq> HUndefined}" by auto
  have "\<forall>k \<in> set sel. prop_of payload k \<noteq> HUndefined" using none unfolding find_None_iff by blast
  then have "\<forall>k \<in> set ?req. prop_of payload k \<noteq> HUndefined" unfolding req by blast
  then show thesis using that sel ne req conds rest by blast
qed

text \<open>C3: every write names at least one identity column, each one a unique column, the key or the uuid of the entity with a value of the payload that is not written back, and every composite unique group that the caller selects is complete.\<close>

theorem writes_are_identified:
  assumes "resolveMatchConditions meta payload matchBy = Inr (conds, rest)"
  shows "conds \<noteq> []
    \<and> (\<forall>c \<in> set conds. mc_value c = prop_of payload (mc_propertyKey c) \<and> mc_value c \<noteq> HUndefined
          \<and> map_of rest (mc_propertyKey c) = None
          \<and> (\<exists>c' \<in> set (cols meta). cm_propertyKey c' = mc_propertyKey c \<and> identifying meta c'))
    \<and> (\<forall>k \<in> set matchBy. identity_props meta k \<subseteq> mc_propertyKey ` set conds)"
proof -
  obtain sel req where sel: "resolveSelectorProps meta matchBy = Inr sel" and ne: "req \<noteq> []"
    and req: "set req = set sel \<union> {k \<in> set (implicit_identity meta). prop_of payload k \<noteq> HUndefined}"
    and val: "\<forall>k \<in> set req. prop_of payload k \<noteq> HUndefined"
    and conds: "conds = map (make_condition meta payload) req" and rest: "rest = fold (\<lambda>k r. without r k) req payload"
    using resolved_conditions [OF assms] by blast
  have s: "set sel = (\<Union>k \<in> set matchBy. identity_props meta k)"
    using selector_props_ok [of meta matchBy "[]" sel] sel by (auto simp: resolveSelectorProps_def)
  have im: "mc_propertyKey ` set conds = set req" by (simp only: conds set_map image_image make_condition_simps image_ident)
  have "mc_value c = prop_of payload (mc_propertyKey c) \<and> mc_value c \<noteq> HUndefined
          \<and> map_of rest (mc_propertyKey c) = None
          \<and> (\<exists>c' \<in> set (cols meta). cm_propertyKey c' = mc_propertyKey c \<and> identifying meta c')" if "c \<in> set conds" for c
  proof -
    have k: "mc_propertyKey c \<in> set req" using that im by blast
    then have "\<exists>c' \<in> set (cols meta). cm_propertyKey c' = mc_propertyKey c \<and> identifying meta c'"
      using req selected_identifying [OF sel] implicit_identifying by blast
    moreover have "mc_value c = prop_of payload (mc_propertyKey c)"
      using that unfolding conds by (auto simp only: set_map image_iff make_condition_simps)
    moreover have "map_of rest (mc_propertyKey c) = None" unfolding rest using k by (simp only: without_fold if_True)
    ultimately show ?thesis using val k by simp
  qed
  moreover have "\<forall>k \<in> set matchBy. identity_props meta k \<subseteq> mc_propertyKey ` set conds" unfolding im req s by blast
  moreover have "conds \<noteq> []" using ne conds by simp
  ultimately show ?thesis by blast
qed

section \<open>Parameters\<close>

definition bound_to :: "host_value list \<Rightarrow> nat \<Rightarrow> host_value \<Rightarrow> bool" where
  "bound_to vals n v \<longleftrightarrow> 0 < n \<and> n \<le> length vals \<and> vals ! (n - 1) = v"

definition assigns :: "host_value list \<Rightarrow> set_item \<Rightarrow> string \<Rightarrow> bool" where
  "assigns vals i t \<longleftrightarrow>
     (case i of (_, q, a) \<Rightarrow>
        (case a of
           Bound v \<Rightarrow> \<exists>n. t = q @ '' = '' @ dollar n \<and> bound_to vals n v
         | Increment \<Rightarrow> t = q @ '' = '' @ q @ '' + 1''
         | Cleared \<Rightarrow> t = q @ '' = NULL''))"

definition compares :: "host \<Rightarrow> host_value list \<Rightarrow> match_condition \<Rightarrow> string \<Rightarrow> bool" where
  "compares H vals c t \<longleftrightarrow> (\<exists>q n. quoteIdent (mc_sqlName c) = Inr q \<and> t = q @ '' = '' @ dollar n
     \<and> bound_to vals n (jsValueToPgParam H (mc_column c) (mc_value c)))"

lemma set_clauses_assign:
  "list_all2 (assigns (pre @ set_values xs @ post)) xs (set_clauses xs (length pre))"
proof (induction xs "length pre" arbitrary: pre rule: set_clauses.induct)
  case 1
  then show ?case by simp
next
  case (2 s q v xs)
  have "list_all2 (assigns ((pre @ [v]) @ set_values xs @ post)) xs (set_clauses xs (length (pre @ [v])))"
    by (rule 2) simp
  then show ?case by (auto simp: assigns_def bound_to_def nth_append intro!: exI [of _ "Suc (length pre)"])
next
  case (3 s q xs)
  then show ?case by (simp add: assigns_def)
next
  case (4 s q xs)
  then show ?case by (simp add: assigns_def)
qed

lemma map_res_all2: "map_res f xs = Inr ys \<Longrightarrow> list_all2 (\<lambda>x y. f x = Inr y) xs ys"
  by (induction f xs arbitrary: ys rule: map_res.induct) (auto simp: res_bind_def split: sum.splits)

lemma plain_Inr: "plain r = Inr a \<longleftrightarrow> r = Inr a"
  by (auto simp: plain_def split: sum.splits)

lemma conditions_compare:
  assumes "condition_texts (\<lambda>i q. q @ '' = '' @ dollar (Suc (length pre) + i)) conds = Inr ts"
  shows "list_all2 (compares H (pre @ cond_values H conds @ post)) conds ts"
proof -
  let ?f = "\<lambda>(i, c). res_bind (plain (quoteIdent (mc_sqlName c))) (\<lambda>q. Inr (q @ '' = '' @ dollar (Suc (length pre) + i)))"
  have a: "list_all2 (\<lambda>x t. ?f x = (Inr t :: (dal_error, string) res)) (enumerate 0 conds) ts"
    using map_res_all2 [OF assms [unfolded condition_texts_def]] by simp
  show ?thesis unfolding list_all2_conv_all_nth
  proof (intro conjI allI impI)
    show len: "length conds = length ts" using list_all2_lengthD [OF a] by simp
    fix i assume i: "i < length conds"
    have "?f (enumerate 0 conds ! i) = (Inr (ts ! i) :: (dal_error, string) res)"
      using a i by (simp add: list_all2_conv_all_nth)
    then obtain q where "quoteIdent (mc_sqlName (conds ! i)) = Inr q" "ts ! i = q @ '' = '' @ dollar (Suc (length pre) + i)"
      using i by (auto simp: nth_enumerate_eq res_bind_Inr plain_Inr)
    then show "compares H (pre @ cond_values H conds @ post) (conds ! i) (ts ! i)"
      using i by (auto simp: compares_def bound_to_def cond_values_def nth_append intro!: exI [of _ "Suc (length pre) + i"])
  qed
qed

text \<open>C5: in the statement of a write, the placeholder of every assignment, of every identity condition and of the version guard stands for the value that was pushed for it.\<close>

theorem parameters_denote_values:
  assumes "where_clause P = Inr w"
  shows "list_all2 (assigns (plan_values H P)) (wp_sets P) (set_clauses (wp_sets P) 0)
    \<and> (\<exists>ts g. w = ''WHERE '' @ join '' AND '' ts @ g \<and> list_all2 (compares H (plan_values H P)) (wp_conds P) ts
        \<and> (case wp_version P of
             None \<Rightarrow> g = []
           | Some (c, v) \<Rightarrow> \<exists>q n. quoteIdent (cm_sqlName c) = Inr q \<and> g = '' AND '' @ q @ '' = '' @ dollar n
               \<and> bound_to (plan_values H P) n v))"
proof -
  from assms obtain m g where m: "match_where P = Inr m" and g: "version_guard P = Inr g" and w: "w = ''WHERE '' @ m @ g"
    by (auto simp: where_clause_def res_bind_Inr)
  from m obtain ts where ts: "condition_texts (\<lambda>i q. q @ '' = '' @ dollar (cond_start P + i)) (wp_conds P) = Inr ts"
    and mt: "m = join '' AND '' ts"
    by (auto simp: match_where_def identityWhere_def res_bind_Inr)
  have "list_all2 (compares H (set_values (wp_sets P) @ cond_values H (wp_conds P) @ version_values P)) (wp_conds P) ts"
    by (rule conditions_compare) (use ts in \<open>simp add: cond_start_def\<close>)
  moreover have "list_all2 (assigns (plan_values H P)) (wp_sets P) (set_clauses (wp_sets P) 0)"
    using set_clauses_assign [of "[]" "wp_sets P"] by (simp add: plan_values_def)
  moreover have "case wp_version P of
             None \<Rightarrow> g = []
           | Some (c, v) \<Rightarrow> \<exists>q n. quoteIdent (cm_sqlName c) = Inr q \<and> g = '' AND '' @ q @ '' = '' @ dollar n
               \<and> bound_to (plan_values H P) n v"
    using g by (auto simp: version_guard_def res_bind_Inr plain_Inr bound_to_def plan_values_def cond_start_def
        version_values_def cond_values_def nth_append split: option.splits
        intro!: exI [of _ "Suc (length (set_values (wp_sets P)) + length (wp_conds P))"])
  ultimately show ?thesis using w mt by (auto simp: plan_values_def)
qed

section \<open>Versions\<close>

lemma prop_of_without: "prop_of (fold (\<lambda>k r. without r k) ks r) k = (if k \<in> set ks then HUndefined else prop_of r k)"
  by (simp add: prop_of_def member_or_def)

lemma missing_version_fails:
  assumes "findVersionColumn meta = Some vc" "host_nullish (prop_of payload (cm_propertyKey vc))"
  shows "expected_version H meta payload = Inl (MissingVersion (''Auditable entity write requires a '' @ [CHR 0x27] @ ''version'' @ [CHR 0x27]
                  @ '' field; entity '' @ em_entityClassName meta @ '' is auditable but no version was provided.''))"
  using assms by (simp add: expected_version_def extractVersion_def Let_def res_bind_def)

lemma match_plan_needs_version:
  assumes "ee_meta env entity = Inr meta" "findVersionColumn meta = Some vc" "host_nullish (prop_of payload (cm_propertyKey vc))"
  shows "\<exists>e. match_plan H env entity payload opts name check stamps = Inl e"
  using missing_version_fails [OF assms(2,3), of H]
  by (auto simp: match_plan_def assms(1) plain_def res_bind_def split: sum.splits prod.splits)

lemma update_plan_needs_version:
  assumes "ee_meta env entity = Inr meta" "findVersionColumn meta = Some vc" "host_nullish (prop_of payload (cm_propertyKey vc))"
  shows "\<exists>e. update_plan H env entity payload opts now = Inl e"
proof -
  have "\<exists>e. expected_version H meta rest = Inl e"
    if r: "resolveMatchConditions meta payload (wo_matchBy opts) = Inr (conds, rest)" for conds :: "match_condition list" and rest
  proof -
    from r obtain ks where "rest = fold (\<lambda>k r. without r k) ks payload"
      by (auto simp: resolveMatchConditions_def Let_def res_bind_Inr split: option.splits if_splits)
    then have "host_nullish (prop_of rest (cm_propertyKey vc))"
      using assms(3) by (auto simp: prop_of_without host_nullish_def)
    then show ?thesis using missing_version_fails [OF assms(2)] by blast
  qed
  then show ?thesis
    by (cases "resolveMatchConditions meta payload (wo_matchBy opts)")
      (fastforce simp: update_plan_def assms(1) plain_def res_bind_def split: sum.splits)+
qed

text \<open>C8: a write on a versioned entity whose payload has no version fails before any query is sent and before any audit entry.\<close>

theorem unversioned_writes_stay_local:
  assumes "ee_meta (rp_env R) entity = Inr meta" "findVersionColumn meta = Some vc"
    "host_nullish (prop_of payload (cm_propertyKey vc))"
  shows "(\<exists>e. update R entity payload opts now w = (Inl e, w)) \<and> (\<exists>e. delete R entity payload opts now w = (Inl e, w))
    \<and> (\<exists>e. restore R entity payload opts now w = (Inl e, w)) \<and> (\<exists>e. hardDelete R entity payload opts now w = (Inl e, w))"
proof -
  obtain e1 where "update_plan (rp_host R) (rp_env R) entity payload opts now = Inl e1"
    using update_plan_needs_version [OF assms] by blast
  moreover obtain e2 where "delete_plan (rp_host R) (rp_env R) entity payload opts now = Inl e2"
    unfolding delete_plan_def using match_plan_needs_version [OF assms] by blast
  moreover obtain e3 where "restore_plan (rp_host R) (rp_env R) entity payload opts now = Inl e3"
    unfolding restore_plan_def using match_plan_needs_version [OF assms] by blast
  moreover obtain e4 where "hard_delete_plan (rp_host R) (rp_env R) entity payload opts = Inl e4"
    unfolding hard_delete_plan_def using match_plan_needs_version [OF assms] by blast
  ultimately show ?thesis
    by (simp add: update_def delete_def restore_def hardDelete_def soft_write_def op_bind_def op_lift_def)
qed

section \<open>Writes of no row\<close>

definition probe_sql :: "string \<Rightarrow> string \<Rightarrow> string" where
  "probe_sql table cond = ''SELECT 1 FROM '' @ table @ '' WHERE '' @ cond @ '' LIMIT 1''"

lemma op_bind_simps:
  "op_bind (op_ret a) f w = f a w" "op_bind (op_fail e) f w = (Inl e, w)"
  "op_bind (op_lift (Inr a)) f w = f a w" "op_bind (op_lift (Inl e)) f w = (Inl e, w)"
  by (simp_all add: op_bind_def op_ret_def op_fail_def op_lift_def)

lemma op_bind_step: "m w = (Inr a, w') \<Longrightarrow> op_bind m f w = f a w'" "m w = (Inl e, w') \<Longrightarrow> op_bind m f w = (Inl e, w')"
  by (simp_all add: op_bind_def)

lemma first_partial_pure:
  assumes q: "\<And>sql vs w. rp_query R sql vs w = (ans sql vs, w)"
    and each: "\<And>c. c \<in> set conds \<Longrightarrow> \<exists>q r. quoteIdent (mc_sqlName c) = Inr q
        \<and> ans (probe_sql table (q @ '' = $1'')) (cond_values (rp_host R) [c]) = Inr r \<and> (qr_rowCount r > 0 \<longleftrightarrow> found c)"
  shows "first_partial R table conds w = (Inr (List.find found conds), w)"
  using each
proof (induction conds)
  case Nil
  then show ?case by (simp add: op_ret_def)
next
  case (Cons c cs)
  obtain qi r where s: "quoteIdent (mc_sqlName c) = Inr qi"
    "ans (probe_sql table (qi @ '' = $1'')) (cond_values (rp_host R) [c]) = Inr r" "qr_rowCount r > 0 \<longleftrightarrow> found c"
    using Cons.prems [of c] by auto
  have "rp_query R (''SELECT 1 FROM '' @ table @ '' WHERE '' @ qi @ '' = $1 LIMIT 1'') (cond_values (rp_host R) [c]) w = (Inr r, w)"
    using s(2) by (simp add: q probe_sql_def)
  then show ?case using Cons s by (simp add: op_bind_simps op_bind_step plain_def op_ret_def)
qed

definition raise_sql :: "host \<Rightarrow> string \<Rightarrow> host_value \<Rightarrow> string" where
  "raise_sql H entityClassName v = ''DO $$ BEGIN RAISE EXCEPTION '' @ qlit ''Optimistic Concurrency Violation'' @ '' USING ERRCODE = '' @ qlit ''ERR01''
             @ '', DETAIL = '' @ qlit (''The record exists but the provided version ('' @ host_string H v
             @ '') does not match the current version of '' @ entityClassName @ ''.'') @ ''; END $$;''"

text \<open>C11: a versioned write that touched no row is a version mismatch (ERR01) when the identified row exists, an identity conflict (ERR10) when only one of the identity fields finds a row, and a vanished record (ERR03) otherwise.\<close>

theorem zero_row_classification:
  assumes "\<And>sql vs w. rp_query R sql vs w = (ans sql vs, w)"
    and "identityWhere conds 1 = Inr m"
    and "ans (probe_sql table m) (cond_values (rp_host R) conds) = Inr r"
    and "\<And>c. c \<in> set conds \<Longrightarrow> \<exists>q r. quoteIdent (mc_sqlName c) = Inr q
        \<and> ans (probe_sql table (q @ '' = $1'')) (cond_values (rp_host R) [c]) = Inr r \<and> (qr_rowCount r > 0 \<longleftrightarrow> found c)"
    and "ans (raise_sql (rp_host R) name v) [] = Inl (DatabaseError ''ERR01'' detail)"
  shows "\<exists>e. disambiguateZeroRows R table conds name v w = (Inl e, w)
    \<and> error_code e = (if qr_rowCount r > 0 then ''ERR01'' else if list_ex found conds then ''ERR10'' else ''ERR03'')"
proof -
  have a: "rp_query R (''SELECT 1 FROM '' @ table @ '' WHERE '' @ m @ '' LIMIT 1'') (cond_values (rp_host R) conds) w = (Inr r, w)"
    using assms(1,3) by (simp add: probe_sql_def)
  have b: "rp_query R (raise_sql (rp_host R) name v) [] w = (Inl (DatabaseError ''ERR01'' detail), w)"
    using assms(1,5) by simp
  have c: "first_partial R table conds w = (Inr (List.find found conds), w)"
    by (rule first_partial_pure [OF assms(1,4)])
  have d: "list_ex found conds \<longleftrightarrow> List.find found conds \<noteq> None"
    by (auto simp: find_None_iff list_ex_iff)
  show ?thesis
  proof (cases "qr_rowCount r = 0")
    case True
    then show ?thesis using c d
      by (auto simp: disambiguateZeroRows_def assms(2) op_bind_def op_lift_def a [simplified] c op_fail_def
          error_code_def partial_mismatch_def simp del: One_nat_def split: option.splits)
  next
    case False
    then show ?thesis
      by (simp add: disambiguateZeroRows_def assms(2) op_bind_def op_lift_def a [simplified]
          b [unfolded raise_sql_def, simplified] error_code_def del: One_nat_def)
  qed
qed

section \<open>Reported conflicts\<close>

definition known_ref :: "(string \<times> string) list \<Rightarrow> column_meta \<Rightarrow> string option" where
  "known_ref attempted c = (case attempted_ref attempted c of Some r \<Rightarrow> if r = [] \<or> r = ''NULL'' then None else Some r | None \<Rightarrow> None)"

lemma group_refs_known:
  "group_refs attempted cs = Inr x \<Longrightarrow>
     map_option (map snd) x = (if list_all (\<lambda>c. known_ref attempted c \<noteq> None) cs
       then Some (map (\<lambda>c. (cm_sqlName c, the (known_ref attempted c))) cs) else None)"
proof (induction cs arbitrary: x)
  case Nil
  then show ?case by auto
next
  case (Cons c cs)
  show ?case
  proof (cases "known_ref attempted c")
    case None
    then show ?thesis using Cons.prems by (auto simp: known_ref_def split: option.splits if_splits)
  next
    case (Some ref)
    then have a: "attempted_ref attempted c = Some ref" "ref \<noteq> []" "ref \<noteq> ''NULL''"
      by (auto simp: known_ref_def split: option.splits if_splits)
    then obtain p y where y: "group_refs attempted cs = Inr y" "x = map_option ((#) (p, cm_sqlName c, ref)) y"
      using Cons.prems by (auto simp: res_bind_Inr)
    show ?thesis using Cons.IH [OF y(1)] Some y(2) by (cases y) (auto split: if_splits)
  qed
qed

text \<open>The conflict report of an insert covers exactly the unique groups whose attempted values are all known, each one with the value that the insert attempts for every column.\<close>

theorem reported_conflicts:
  assumes "uniqueConflictPredicates env entity meta attempted None = Inr ps"
  shows "map (\<lambda>p. (cp_name p, cp_keyRefs p)) ps
    = map (\<lambda>(n, cs). (n, map (\<lambda>c. (cm_sqlName c, the (known_ref attempted c))) cs))
        (filter (\<lambda>(n, cs). list_all (\<lambda>c. known_ref attempted c \<noteq> None) cs) (uniqueConflictGroups meta))"
proof -
  let ?f = "\<lambda>(n, cs). res_bind (group_refs attempted cs) (\<lambda>r. Inr (map_option (make_pred n) r))"
  obtain qs where qs: "map_res ?f (uniqueConflictGroups meta) = Inr qs" and ps: "ps = List.map_filter id qs"
    using assms by (auto simp: uniqueConflictPredicates_def selected_groups_def res_bind_Inr)
  have "map (\<lambda>p. (cp_name p, cp_keyRefs p)) (List.map_filter id qs)
    = map (\<lambda>(n, cs). (n, map (\<lambda>c. (cm_sqlName c, the (known_ref attempted c))) cs))
        (filter (\<lambda>(n, cs). list_all (\<lambda>c. known_ref attempted c \<noteq> None) cs) gs)"
    if "list_all2 (\<lambda>g q. ?f g = Inr q) gs qs" for gs
    using that
  proof (induction gs qs rule: list_all2_induct)
    case Nil
    then show ?case by (simp add: map_filter_simps)
  next
    case (Cons g gs q qs)
    obtain n cs where g: "g = (n, cs)" by force
    obtain x where x: "group_refs attempted cs = Inr x" "q = map_option (make_pred n) x"
      using Cons.hyps(1) g by (auto simp: res_bind_Inr)
    show ?case using Cons.IH group_refs_known [OF x(1)] x(2) g
      by (cases x) (auto simp: map_filter_simps make_pred_def split: if_splits)
  qed
  then show ?thesis using map_res_all2 [OF qs] ps by blast
qed

section \<open>Deltas\<close>

fun unsafe :: "host_value \<Rightarrow> bool" where
  "unsafe (HBig i) \<longleftrightarrow> MAX_SAFE_INTEGER < abs i"
| "unsafe (HArr vs) \<longleftrightarrow> (\<exists>v \<in> set vs. unsafe v)"
| "unsafe (HObj kvs) \<longleftrightarrow> (\<exists>kv \<in> set kvs. unsafe (snd kv))"
| "unsafe _ \<longleftrightarrow> False"

definition is_Inr :: "('e, 'a) res \<Rightarrow> bool" where
  "is_Inr r \<longleftrightarrow> (\<exists>a. r = Inr a)"

lemma is_Inr_simps [simp]: "is_Inr (Inr a)" "\<not> is_Inr (Inl e)"
  "is_Inr (res_bind m (\<lambda>a. Inr (f a))) \<longleftrightarrow> is_Inr m"
  by (auto simp: is_Inr_def res_bind_Inr)

lemma is_Inr_bind2: "is_Inr (res_bind m (\<lambda>a. res_bind n (\<lambda>b. Inr (f a b)))) \<longleftrightarrow> is_Inr m \<and> is_Inr n"
  by (auto simp: is_Inr_def res_bind_Inr)

lemma json_elems_safe:
  "(\<And>v. v \<in> set vs \<Longrightarrow> is_Inr (json_text H no_bigint (bigintToNumber H v)) \<longleftrightarrow> \<not> unsafe v) \<Longrightarrow>
   is_Inr (json_elems H no_bigint (map (bigintToNumber H) vs)) \<longleftrightarrow> \<not> list_ex unsafe vs"
  by (induction vs) (simp_all add: is_Inr_bind2)

lemma json_text_safe:
  "is_Inr (json_text H no_bigint (bigintToNumber H v)) \<longleftrightarrow> \<not> unsafe v"
  "is_Inr (json_members H no_bigint (bigint_members H kvs)) \<longleftrightarrow> \<not> list_ex (\<lambda>kv. unsafe (snd kv)) kvs"
proof (induction H v and H kvs rule: bigintToNumber_bigint_members.induct)
  case (2 H vs)
  then show ?case by (simp add: json_elems_safe list_ex_iff)
qed (simp_all add: no_bigint_def is_Inr_bind2 list_ex_iff)

lemma map_res_is_Inr: "is_Inr (map_res f xs) \<longleftrightarrow> list_all (\<lambda>x. is_Inr (f x)) xs"
  by (induction xs) (auto simp: is_Inr_def res_bind_Inr)

text \<open>The delta of an audit entry can be computed exactly when no value of the written record, old or new, holds an integer beyond the safe ones; otherwise the serializer throws.\<close>

theorem delta_fails_on_unsafe_bigints:
  "is_Inr (calculateDelta H old new) = list_all (\<lambda>(k, v). \<not> unsafe v \<and> \<not> unsafe (member_or HUndefined old k)) new"
proof -
  have "is_Inr (calculateDelta H old new) \<longleftrightarrow> is_Inr (map_res (delta_entry H old) new)"
    by (simp add: calculateDelta_def)
  also have "\<dots> \<longleftrightarrow> list_all (\<lambda>x. is_Inr (delta_entry H old x)) new" by (rule map_res_is_Inr)
  also have "is_Inr (delta_entry H old x) \<longleftrightarrow> (case x of (k, v) \<Rightarrow> \<not> unsafe v \<and> \<not> unsafe (member_or HUndefined old k))" for x
    by (cases x) (auto simp: delta_entry_def Let_def is_Inr_bind2 json_text_safe)
  then have "list_all (\<lambda>x. is_Inr (delta_entry H old x)) new
      = list_all (\<lambda>(k, v). \<not> unsafe v \<and> \<not> unsafe (member_or HUndefined old k)) new" by (simp cong: list.pred_cong)
  finally show ?thesis .
qed

theorem writes_are_identified_witness:
  "list_all (\<lambda>c. mc_value c = prop_of ex_payload (mc_propertyKey c)) (fst (projr (resolveMatchConditions ex_meta ex_payload [''email''])))"
proof -
  have r: "resolveMatchConditions ex_meta ex_payload [''email'']
      = Inr ([\<lparr>mc_propertyKey = ''email'', mc_sqlName = ''email'', mc_value = HStr ''a@b'', mc_column = ex_column ''email'' False True None\<rparr>],
             [(''nick'', HStr ''x''), (''version'', HNum ''3'')])"
    by code_simp
  from writes_are_identified [OF r] show ?thesis by (simp add: r)
qed

definition ex_plan :: write_plan where
  "ex_plan = \<lparr>wp_name = ''update'', wp_meta = ex_meta, wp_table = ''app.users'',
     wp_conds = [\<lparr>mc_propertyKey = ''email'', mc_sqlName = ''email'', mc_value = HStr ''a@b'', mc_column = ex_column ''email'' False True None\<rparr>],
     wp_version = Some (ex_column ''version'' False False (Some VERSION), HNum ''3''),
     wp_sets = [(''version'', ''\"version\"'', Increment), (''nick'', ''\"nick\"'', Bound (HStr ''x''))],
     wp_refs = [(''nick'', ''$1'')]\<rparr>"

lemma ex_plan_computed: "update_plan ex_host ex_env 0 ex_payload ex_options 0 = Inr ex_plan"
  by code_simp

lemma ex_where: "where_clause ex_plan = Inr (''WHERE \"email\" = $2 AND \"version\" = $3'')"
  by code_simp

theorem parameters_denote_values_witness:
  "list_all2 (assigns (plan_values ex_host ex_plan)) (wp_sets ex_plan) (set_clauses (wp_sets ex_plan) 0)"
  using parameters_denote_values [OF ex_where] by blast


definition ex_repo :: "(string \<Rightarrow> host_value list \<Rightarrow> (dal_error, query_result) res) \<Rightarrow> nat repo" where
  "ex_repo ans = \<lparr>rp_query = (\<lambda>sql vs w. (ans sql vs, w)), rp_audit = (\<lambda>_ w. Suc w), rp_param = (\<lambda>_. HNull),
     rp_host = ex_host, rp_env = ex_env\<rparr>"

definition ex_answers :: "string \<Rightarrow> host_value list \<Rightarrow> (dal_error, query_result) res" where
  "ex_answers sql vs = (if vs = [] then Inl (DatabaseError ''ERR01'' ''stale'')
     else Inr \<lparr>qr_rows = [], qr_rowCount = (if vs = [HBig 7] then 1 else 0)\<rparr>)"

theorem unversioned_writes_stay_local_witness:
  "\<exists>e. delete (ex_repo ex_answers) 0 [(''id'', HBig 1)] ex_options 0 7 = (Inl e, 7)"
proof -
  have a: "ee_meta (rp_env (ex_repo ex_answers)) 0 = Inr ex_meta" by (simp add: ex_repo_def ex_env_def)
  have b: "findVersionColumn ex_meta = Some (ex_column ''version'' False False (Some VERSION))" by code_simp
  have c: "host_nullish (prop_of [(''id'', HBig 1)] (cm_propertyKey (ex_column ''version'' False False (Some VERSION))))"
    by code_simp
  show ?thesis using unversioned_writes_stay_local [OF a b c, where opts = ex_options and now = 0 and w = 7] by blast
qed

definition ex_conds :: "match_condition list" where
  "ex_conds = [\<lparr>mc_propertyKey = ''email'', mc_sqlName = ''email'', mc_value = HStr ''a@b'', mc_column = ex_column ''email'' False True None\<rparr>,
     \<lparr>mc_propertyKey = ''id'', mc_sqlName = ''id'', mc_value = HBig 7, mc_column = ex_column ''id'' True False None\<rparr>]"

theorem zero_row_classification_witness:
  "\<exists>e. disambiguateZeroRows (ex_repo ex_answers) ''app.users'' ex_conds ''User'' (HNum ''3'') 7 = (Inl e, 7)
    \<and> error_code e = ''ERR10''"
proof -
  let ?found = "\<lambda>c. mc_sqlName c = ''id''"
  let ?r = "\<lparr>qr_rows = [], qr_rowCount = 0\<rparr>"
  have "rp_query (ex_repo ex_answers) sql vs w = (ex_answers sql vs, w)" for sql vs w by (simp add: ex_repo_def)
  moreover have "identityWhere ex_conds 1 = Inr ''\"email\" = $1 AND \"id\" = $2''" by code_simp
  moreover have "ex_answers (probe_sql ''app.users'' (''\"email\" = $1 AND \"id\" = $2'')) (cond_values ex_host ex_conds) = Inr ?r"
    by code_simp
  moreover have "\<exists>q r. quoteIdent (mc_sqlName c) = Inr q \<and> ex_answers (probe_sql ''app.users'' (q @ '' = $1'')) (cond_values ex_host [c]) = Inr r
      \<and> (qr_rowCount r > 0 \<longleftrightarrow> ?found c)" if "c \<in> set ex_conds" for c
  proof -
    have "quoteIdent ''email'' = Inr ''\"email\"''" "quoteIdent ''id'' = Inr ''\"id\"''" by code_simp+
    moreover have "ex_answers s (cond_values ex_host [ex_conds ! 0]) = Inr ?r"
      "ex_answers s (cond_values ex_host [ex_conds ! 1]) = Inr \<lparr>qr_rows = [], qr_rowCount = 1\<rparr>" for s by code_simp+
    ultimately show ?thesis using that by (auto simp: ex_conds_def)
  qed
  moreover have "ex_answers (raise_sql ex_host ''User'' (HNum ''3'')) [] = Inl (DatabaseError ''ERR01'' ''stale'')"
    by (simp add: ex_answers_def)
  moreover have "rp_host (ex_repo ex_answers) = ex_host" by (simp add: ex_repo_def)
  ultimately show ?thesis
    using zero_row_classification [of "ex_repo ex_answers" ex_answers ex_conds _ "''app.users''" ?r ?found "''User''" "HNum ''3''" "''stale''" 7]
    by (simp add: ex_conds_def)
qed

theorem reported_conflicts_witness:
  "map (\<lambda>p. (cp_name p, cp_keyRefs p)) (projr (uniqueConflictPredicates ex_env 0 ex_meta [(''email'', ''$1'')] None))
    = [(''email'', [(''email'', ''$1'')])]"
proof -
  have "case uniqueConflictPredicates ex_env 0 ex_meta [(''email'', ''$1'')] None of Inl _ \<Rightarrow> False | Inr _ \<Rightarrow> True" by code_simp
  then obtain ps where ps: "uniqueConflictPredicates ex_env 0 ex_meta [(''email'', ''$1'')] None = Inr ps"
    by (auto split: sum.splits)
  show ?thesis unfolding ps sum.sel reported_conflicts [OF ps] by code_simp
qed

end
