(* ===== verification/DeferredFacts.thy ===== *)
theory DeferredFacts
  imports DeferredSession RepositoryFacts
begin

text \<open>
  Facts about \<open>src/dal/deferred-transaction.ts\<close>: the pieces of a split statement, the renumbering of placeholders, the
  merged statement, the life of a transaction, and the captured statements as a refinement of the direct calls.
\<close>

section \<open>Placeholders\<close>

definition is_ref :: "host_value \<Rightarrow> bool" where
  "is_ref v \<longleftrightarrow> (case v of HRef _ _ \<Rightarrow> True | _ \<Rightarrow> False)"

text \<open>What a piece of a branch becomes: a placeholder of a value is renumbered to that value, a reference becomes a read
  of an earlier branch, and the rest of the text stays.\<close>

definition remapped :: "nat \<Rightarrow> host_value list \<Rightarrow> host_value list \<Rightarrow> piece \<Rightarrow> string \<Rightarrow> bool" where
  "remapped opIndex vs merged p t \<longleftrightarrow>
     (case p of
        Txt s \<Rightarrow> t = s
      | Param n \<Rightarrow>
          (case local_value vs n of
             HRef i f \<Rightarrow> i < opIndex \<and> (\<exists>q r. quoteIdent f = Inr q \<and> quoteIdent (row_name i) = Inr r
               \<and> t = ''(SELECT '' @ q @ '' FROM '' @ r @ '' LIMIT 1)'')
           | v \<Rightarrow> \<exists>g. t = dollar g \<and> bound_to merged g v))"

definition map_ok :: "host_value list \<Rightarrow> merge_state \<Rightarrow> bool" where
  "map_ok vs st \<longleftrightarrow> (\<forall>n g. map_of (snd st) n = Some g \<longrightarrow> bound_to (fst st) g (local_value vs n))"

definition grows :: "merge_state \<Rightarrow> merge_state \<Rightarrow> bool" where
  "grows st st' \<longleftrightarrow> (\<exists>new. fst st' = fst st @ new \<and> list_all (\<lambda>v. \<not> is_ref v) new)"

lemma grows_refl [simp]: "grows st st"
  by (simp add: grows_def)

lemma grows_trans: "grows a b \<Longrightarrow> grows b c \<Longrightarrow> grows a c"
  by (auto simp: grows_def)

lemma bound_to_grows: "bound_to (fst st) g v \<Longrightarrow> grows st st' \<Longrightarrow> bound_to (fst st') g v"
  by (auto simp: bound_to_def grows_def nth_append)

lemma remapped_grows: "remapped i vs (fst st) p t \<Longrightarrow> grows st st' \<Longrightarrow> remapped i vs (fst st') p t"
  unfolding remapped_def by (auto split: piece.splits host_value.splits intro: bound_to_grows)

lemma ref_text_ok: "ref_text env ops opIndex i f = Inr t \<Longrightarrow> i < opIndex \<and> (\<exists>q r. quoteIdent f = Inr q \<and> quoteIdent (row_name i) = Inr r
               \<and> t = ''(SELECT '' @ q @ '' FROM '' @ r @ '' LIMIT 1)'')"
  by (auto simp: ref_text_def res_bind_Inr plain_Inr split: if_splits)

lemma remap_value:
  assumes "\<not> is_ref (local_value vs n)"
  shows "remap_param env ops opIndex vs n (merged, im) = (case map_of im n of
      Some g \<Rightarrow> Inr (dollar g, (merged, im))
    | None \<Rightarrow> Inr (dollar (Suc (length merged)), (merged @ [local_value vs n], (n, Suc (length merged)) # im)))"
  using assms by (cases "local_value vs n") (simp_all add: remap_param_def is_ref_def split: option.split)

lemma remap_param_ok:
  assumes "remap_param env ops opIndex vs n st = Inr (t, st')" and "map_ok vs st"
  shows "remapped opIndex vs (fst st') (Param n) t \<and> map_ok vs st' \<and> grows st st'"
proof (cases "is_ref (local_value vs n)")
  case True
  then obtain i f where r: "local_value vs n = HRef i f" by (auto simp: is_ref_def split: host_value.splits)
  then show ?thesis using assms ref_text_ok [of env ops opIndex i f t]
    by (auto simp: remap_param_def res_bind_Inr remapped_def)
next
  case False
  obtain merged im where st: "st = (merged, im)" by force
  have v: "remapped opIndex vs m (Param n) t' \<longleftrightarrow> (\<exists>g. t' = dollar g \<and> bound_to m g (local_value vs n))" for m t'
    using False by (simp add: remapped_def is_ref_def split: host_value.splits)
  show ?thesis
  proof (cases "map_of im n")
    case None
    then have r: "t = dollar (Suc (length merged))" "st' = (merged @ [local_value vs n], (n, Suc (length merged)) # im)"
      using assms(1) remap_value [OF False, of env ops opIndex merged im] st by auto
    have "grows st st'" using False r st by (simp add: grows_def)
    moreover have "map_ok vs st'" using assms(2) \<open>grows st st'\<close> bound_to_grows [OF _ \<open>grows st st'\<close>]
      unfolding map_ok_def by (auto simp: r st bound_to_def intro: le_SucI)
    ultimately show ?thesis by (auto simp: v r bound_to_def)
  next
    case (Some g)
    then have "t = dollar g" "st' = st" using assms(1) remap_value [OF False, of env ops opIndex merged im] st by auto
    then show ?thesis using assms(2) Some st by (auto simp: v map_ok_def)
  qed
qed

lemma remap_denotes_state:
  assumes "remap_pieces env ops opIndex vs ps st = Inr (ts, st')" and "map_ok vs st"
  shows "list_all2 (remapped opIndex vs (fst st')) ps ts \<and> map_ok vs st' \<and> grows st st'"
  using assms
proof (induction env ops opIndex vs ps st arbitrary: ts st' rule: remap_pieces.induct)
  case (1 env ops opIndex vs st)
  then show ?case by simp
next
  case (2 env ops opIndex vs t ps st)
  from 2(2) obtain ts' where r: "remap_pieces env ops opIndex vs ps st = Inr (ts', st')" "ts = t # ts'"
    by (auto simp: res_bind_Inr)
  show ?case using 2(1) [OF r(1) 2(3)] r(2) by (simp add: remapped_def)
next
  case (3 env ops opIndex vs n ps st)
  from 3(2) obtain t st1 ts' where p: "remap_param env ops opIndex vs n st = Inr (t, st1)"
    and r: "remap_pieces env ops opIndex vs ps st1 = Inr (ts', st')" "ts = t # ts'"
    by (auto simp: res_bind_Inr)
  have a: "remapped opIndex vs (fst st1) (Param n) t" "map_ok vs st1" "grows st st1"
    using remap_param_ok [OF p 3(3)] by simp_all
  have b: "list_all2 (remapped opIndex vs (fst st')) ps ts'" "map_ok vs st'" "grows st1 st'"
    using 3(1) [OF p _ r(1) a(2)] by simp_all
  show ?case using b r(2) remapped_grows [OF a(1) b(3)] grows_trans [OF a(3) b(3)] by simp
qed

text \<open>C13: renumbering the placeholders of a branch keeps what they mean: each one becomes a placeholder of the merged statement that is bound to the value it stood for, or, for a deferred reference, a read of the branch of an earlier operation, and the values bound before stay where they are.\<close>

theorem remap_denotes:
  assumes "remap_pieces env ops opIndex vs ps (merged, []) = Inr (ts, (merged', im))"
  shows "list_all2 (remapped opIndex vs merged') ps ts \<and> prefix merged merged' \<and> (list_all (\<lambda>v. \<not> is_ref v) merged = list_all (\<lambda>v. \<not> is_ref v) merged')"
  using remap_denotes_state [OF assms] by (auto simp: map_ok_def grows_def)

section \<open>The merged values\<close>

lemma remap_branches_grows:
  "remap_branches env ops i vs bs st = Inr (ts, st') \<Longrightarrow> map_ok vs st \<Longrightarrow> map_ok vs st' \<and> grows st st' \<and> length ts = length bs"
proof (induction bs arbitrary: st ts)
  case Nil
  then show ?case by simp
next
  case (Cons b bs)
  from Cons.prems(1) obtain t st1 ts' where b: "remapParams env ops i vs b st = Inr (t, st1)"
    and r: "remap_branches env ops i vs bs st1 = Inr (ts', st')" "ts = t # ts'"
    by (auto simp: res_bind_Inr)
  from b obtain ss where "remap_pieces env ops i vs (pieces b) st = Inr (ss, st1)" by (auto simp: remapParams_def res_bind_Inr)
  from remap_denotes_state [OF this Cons.prems(2)] have "map_ok vs st1" "grows st st1" by simp_all
  then show ?case using Cons.IH [OF r(1)] r(2) grows_trans by auto
qed

lemma compile_op_ok:
  assumes "compile_op env ops i cap merged = Inr (ps, abs1, merged')"
  shows "(\<exists>new. merged' = merged @ new \<and> list_all (\<lambda>v. \<not> is_ref v) new)
    \<and> abs1 = (if dop_abort (ops ! i) = None then [] else [''__ab'' @ nat_str i])"
proof -
  obtain sql vs where cap: "cap = (sql, vs)" by force
  obtain names bs where b: "branches i sql = (names, bs)" by force
  from assms obtain ts im ab where r: "remap_branches env ops i vs bs (merged, []) = Inr (ts, (merged', im))"
    and ab: "abortSpec (ops ! i) names (op_ns i) i = Inr ab" and a: "abs1 = (case ab of Some _ \<Rightarrow> [''__ab'' @ nat_str i] | None \<Rightarrow> [])"
    by (auto simp: compile_op_def cap b res_bind_Inr)
  have "grows (merged, []) (merged', im)" using remap_branches_grows [OF r] by (simp add: map_ok_def)
  moreover have "ab = None \<longleftrightarrow> dop_abort (ops ! i) = None"
    using ab by (auto simp: abortSpec_def Let_def res_bind_Inr split: option.splits abort_spec.splits if_splits)
  ultimately show ?thesis using a by (auto simp: grows_def split: option.splits)
qed

lemma compile_ops_ok:
  "compile_ops env ops i caps merged = Inr (ps, aborts, merged') \<Longrightarrow>
     (\<exists>new. merged' = merged @ new \<and> list_all (\<lambda>v. \<not> is_ref v) new)
     \<and> aborts = map (\<lambda>j. ''__ab'' @ nat_str j) (filter (\<lambda>j. dop_abort (ops ! j) \<noteq> None) [i..<i + length caps])"
proof (induction caps arbitrary: i merged ps aborts)
  case Nil
  then show ?case by simp
next
  case (Cons cap caps)
  from Cons.prems obtain ps1 abs1 m1 qs abs2 where a: "compile_op env ops i cap merged = Inr (ps1, abs1, m1)"
    and b: "compile_ops env ops (Suc i) caps m1 = Inr (qs, abs2, merged')" and ab: "aborts = abs1 @ abs2"
    by (auto simp: res_bind_Inr)
  obtain new1 where n1: "m1 = merged @ new1" "list_all (\<lambda>v. \<not> is_ref v) new1"
    and a1: "abs1 = (if dop_abort (ops ! i) = None then [] else [''__ab'' @ nat_str i])" using compile_op_ok [OF a] by blast
  obtain new2 where n2: "merged' = m1 @ new2" "list_all (\<lambda>v. \<not> is_ref v) new2"
    and a2: "abs2 = map (\<lambda>j. ''__ab'' @ nat_str j) (filter (\<lambda>j. dop_abort (ops ! j) \<noteq> None) [Suc i..<Suc i + length caps])"
    using Cons.IH [OF b] by blast
  have "[i..<i + length (cap # caps)] = i # [Suc i..<Suc i + length caps]" by (subst upt_rec) simp
  then have "aborts = map (\<lambda>j. ''__ab'' @ nat_str j) (filter (\<lambda>j. dop_abort (ops ! j) \<noteq> None) [i..<i + length (cap # caps)])"
    using ab a1 a2 by (simp only: filter.simps list.map) simp
  moreover have "merged' = merged @ (new1 @ new2) \<and> list_all (\<lambda>v. \<not> is_ref v) (new1 @ new2)" using n1 n2 by simp
  ultimately show ?case by blast
qed


section \<open>The life of a buffered transaction\<close>

text \<open>Every call on a transaction, with the number of statements that the connection got.\<close>

definition counting :: "(string \<Rightarrow> host_value list \<Rightarrow> (dal_error, query_result) res) \<Rightarrow> string \<Rightarrow> host_value list \<Rightarrow> (nat, query_result) op" where
  "counting ans sql vs n = (ans sql vs, Suc n)"

inductive tx_reach :: "(string \<Rightarrow> host_value list \<Rightarrow> (dal_error, query_result) res) \<Rightarrow> host \<Rightarrow> entity_env \<Rightarrow> deferred_tx \<Rightarrow> nat \<Rightarrow> bool"
  for ans H env where
  begin_tx: "tx_reach ans H env new_tx 0"
| call: "tx_reach ans H env tx n \<Longrightarrow> register env a tx = Inr (h, tx') \<Longrightarrow> tx_reach ans H env tx' n"
| drop_tx: "tx_reach ans H env tx n \<Longrightarrow> tx_reach ans H env (discard tx) n"
| commit_tx: "tx_reach ans H env tx n \<Longrightarrow> commit (counting ans) H env tx n = (r, tx', n') \<Longrightarrow> tx_reach ans H env tx' n'"

definition settled :: "(dal_error, handle_value) res option list \<Rightarrow> bool" where
  "settled hs = list_all (\<lambda>h. h \<noteq> None) hs"

definition tx_inv :: "deferred_tx \<Rightarrow> nat \<Rightarrow> bool" where
  "tx_inv tx n \<longleftrightarrow> n = 0 \<and> tx_state tx \<noteq> TxCommitted \<or> n \<le> 1 \<and> tx_state tx = TxCommitted"

definition handles_inv :: "deferred_tx \<Rightarrow> bool" where
  "handles_inv tx \<longleftrightarrow> length (tx_handles tx) = length (tx_ops tx)
     \<and> (if tx_state tx = TxOpen then list_all (\<lambda>h. h = None) (tx_handles tx) else settled (tx_handles tx))"

lemma settled_simps [simp]: "settled []" "settled (map (\<lambda>x. Some (f x)) xs)"
  by (auto simp: settled_def list_all_iff)

lemma reject_all_fields [simp]: "tx_state (reject_all e tx) = tx_state tx" "tx_ops (reject_all e tx) = tx_ops tx"
  "tx_handles (reject_all e tx) = map (\<lambda>_. Some (Inl e)) (tx_handles tx)"
  by (simp_all add: reject_all_def)

lemma settle_props [simp]: "settled (settle H env p ops)" "length (settle H env p ops) = length ops"
  by (simp_all add: settle_def settled_def list_all_iff case_prod_beta)

lemma commit_inv:
  assumes "handles_inv tx" "tx_inv tx n" "commit (counting ans) H env tx n = (r, tx', n')"
  shows "handles_inv tx' \<and> tx_inv tx' n' \<and> settled (tx_handles tx')"
proof (cases "tx_state tx = TxOpen")
  case False
  then show ?thesis using assms by (auto simp: commit_def handles_inv_def)
next
  case True
  have n: "n = 0" using assms(2) True by (simp add: tx_inv_def)
  have len: "length (tx_handles tx) = length (tx_ops tx)" using assms(1) by (simp add: handles_inv_def)
  have empty: "tx_ops tx = []" if "commit_statement env (tx\<lparr>tx_state := TxCommitted\<rparr>) = Inr None"
    using that by (cases "tx_ops tx") (auto simp: commit_statement_def res_bind_Inr split: if_splits)
  show ?thesis
    using assms(3) True n len empty assms(1)
    by (auto simp: commit_def Let_def counting_def handles_inv_def tx_inv_def
        split: sum.splits option.splits)
qed

lemma discard_inv: "handles_inv tx \<Longrightarrow> tx_inv tx n \<Longrightarrow> handles_inv (discard tx) \<and> tx_inv (discard tx) n"
  by (auto simp: discard_def handles_inv_def tx_inv_def)

lemma register_inv: "handles_inv tx \<Longrightarrow> tx_inv tx n \<Longrightarrow> register env a tx = Inr (h, tx') \<Longrightarrow>
    handles_inv tx' \<and> tx_inv tx' n \<and> h = length (tx_ops tx)"
  by (auto simp: register_def handles_inv_def tx_inv_def res_bind_Inr split: if_splits)

lemma reach_inv: "tx_reach ans H env tx n \<Longrightarrow> handles_inv tx \<and> tx_inv tx n"
proof (induction rule: tx_reach.induct)
  case begin_tx
  then show ?case by (simp add: handles_inv_def tx_inv_def new_tx_def)
next
  case (call tx n a h tx')
  then show ?case using register_inv by blast
next
  case (drop_tx tx n)
  then show ?case using discard_inv by blast
next
  case (commit_tx tx n r tx' n')
  then show ?case using commit_inv by blast
qed

text \<open>C14: whatever is called on a buffered transaction, at most one statement is ever sent, none unless it is committed, and a handle is settled exactly when the transaction is closed.\<close>

theorem at_most_one_statement:
  assumes "tx_reach ans H env tx n"
  shows "n \<le> (if tx_state tx = TxCommitted then 1 else 0) \<and> length (tx_handles tx) = length (tx_ops tx)
    \<and> (if tx_state tx = TxOpen then list_all (\<lambda>h. h = None) (tx_handles tx) else settled (tx_handles tx))"
  using reach_inv [OF assms] by (auto simp: handles_inv_def tx_inv_def)

text \<open>C15: committing an open transaction always ends in the committed state with every handle settled, all of them rejected with the error when the commit fails.\<close>

theorem commit_settles:
  assumes "tx_reach ans H env tx n" and "tx_state tx = TxOpen"
  shows "\<exists>r tx' n'. commit (counting ans) H env tx n = (r, tx', n') \<and> tx_state tx' = TxCommitted \<and> n' \<le> 1
    \<and> length (tx_handles tx') = length (tx_ops tx) \<and> settled (tx_handles tx')
    \<and> (case r of Inl e \<Rightarrow> list_all (\<lambda>h. h = Some (Inl e)) (tx_handles tx') | Inr _ \<Rightarrow> True)"
proof -
  obtain r tx' n' where c: "commit (counting ans) H env tx n = (r, tx', n')" by (metis prod_cases3)
  have "handles_inv tx'" "tx_inv tx' n'" "settled (tx_handles tx')"
    using commit_inv [OF _ _ c] reach_inv [OF assms(1)] by blast+
  moreover have "tx_state tx' = TxCommitted" "tx_ops tx' = tx_ops tx"
    "case r of Inl e \<Rightarrow> list_all (\<lambda>h. h = Some (Inl e)) (tx_handles tx') | Inr _ \<Rightarrow> True"
    using c assms(2) by (auto simp: commit_def Let_def counting_def list_all_iff split: sum.splits option.splits)
  ultimately show ?thesis using c by (auto simp: handles_inv_def tx_inv_def)
qed

section \<open>What a capture captures\<close>

text \<open>A preparation never fails with a captured statement.\<close>

definition genuine :: "(dal_error, 'a) res \<Rightarrow> bool" where
  "genuine r = (case r of Inl (CaptureSignal _ _) \<Rightarrow> False | _ \<Rightarrow> True)"

lemma genuine_simps [simp]: "genuine (Inr a)" "genuine (plain r)"
  "genuine (Inl (NotFound s))" "genuine (Inl (MultipleRows s))" "genuine (Inl (UnknownColumn s))" "genuine (Inl (Validation s))"
  "genuine (Inl (MissingVersion s))" "genuine (Inl (MatchSelector s))" "genuine (Inl (PlainError s))" "genuine (Inl (DuplicateRecord s))"
  by (simp_all add: genuine_def plain_def split: sum.split)

lemma genuine_bind: "genuine m \<Longrightarrow> (\<And>a. m = Inr a \<Longrightarrow> genuine (f a)) \<Longrightarrow> genuine (res_bind m f)"
  by (cases m) (auto simp: genuine_def res_bind_def split: dal_error.splits)

lemma genuine_map: "(\<And>x. x \<in> set xs \<Longrightarrow> genuine (f x)) \<Longrightarrow> genuine (map_res f xs)"
  by (induction xs) (auto intro!: genuine_bind)

lemmas genuine_rules = genuine_bind genuine_map

lemma genuine_conds: "genuine (condition_texts f conds)" "genuine (identityWhere conds n)" "genuine (identitySelfExclusion conds n a)"
  by (auto simp: condition_texts_def identityWhere_def identitySelfExclusion_def intro!: genuine_rules split: prod.splits)

lemma genuine_bookkeeping: "genuine (emit_bookkeeping meta em ns)"
  by (induction meta em ns rule: emit_bookkeeping.induct) (auto simp: emit_column_def intro!: genuine_rules)

lemma genuine_returning: "genuine (buildReturningClause env entity flds)"
  by (auto simp: buildReturningClause_def returning_projector_def emit_column_def genuine_bookkeeping intro!: genuine_rules
      split: field_projector.splits)

lemma genuine_selector: "genuine (selector_props meta ks r)"
  by (induction meta ks r rule: selector_props.induct) (auto split: option.splits)

lemma genuine_resolve: "genuine (resolveMatchConditions meta payload ks)"
  by (auto simp: resolveMatchConditions_def resolveSelectorProps_def Let_def genuine_selector intro!: genuine_rules split: option.splits)

lemma genuine_version: "genuine (expected_version H meta payload)"
  by (auto simp: expected_version_def extractVersion_def Let_def intro!: genuine_rules split: option.splits)

lemma genuine_items: "genuine (make_item s a)" "genuine (col_items xs)"
  by (auto simp: col_items_def make_item_def intro!: genuine_rules split: prod.splits)

lemma genuine_update_plan: "genuine (update_plan H env entity updates opts now)"
  by (auto simp: update_plan_def update_field_def genuine_resolve genuine_version genuine_items intro!: genuine_rules
      split: prod.splits option.splits)

lemma genuine_match_plan: "(\<And>meta. genuine (check meta)) \<Longrightarrow> genuine (match_plan H env entity sel opts name check stamps)"
  by (auto simp: match_plan_def genuine_resolve genuine_version genuine_items intro!: genuine_rules split: prod.splits)

lemma genuine_clauses: "genuine (version_guard P)" "genuine (match_where P)" "genuine (where_clause P)" "genuine (guard_cte P)"
  "genuine (deleted_sel meta)"
  by (auto simp: version_guard_def match_where_def where_clause_def guard_cte_def deleted_sel_def genuine_conds intro!: genuine_rules
      split: option.splits)

lemma genuine_ref: "genuine (ref_predicate s r)"
  by (auto simp: ref_predicate_def intro!: genuine_rules)

lemma genuine_preds: "genuine (update_preds P)"
  by (auto simp: update_preds_def update_pred_def genuine_ref intro!: genuine_rules split: option.splits)

lemma genuine_statements: "genuine (write_statement name P body ret)" "genuine (update_statement P ret ps)"
  by (auto simp: update_statement_def write_statement_def reporting_update_def genuine_clauses genuine_conds intro!: genuine_rules)

lemma genuine_groups: "genuine (group_refs att cs)"
  by (induction att cs rule: group_refs.induct) (auto simp: genuine_ref intro!: genuine_rules split: option.splits)

lemma genuine_conflicts: "genuine (uniqueConflictPredicates env entity meta att keys)"
  by (auto simp: uniqueConflictPredicates_def selected_groups_def wanted_names_def Let_def genuine_groups intro!: genuine_rules
      split: option.splits prod.splits)

lemma genuine_add: "genuine (add_statement H env entity meta row opts now)"
  by (auto simp: add_statement_def insert_columns_def payload_column_def add_report_def Let_def genuine_returning genuine_conflicts
      genuine_clauses intro!: genuine_rules split: option.splits prod.splits)

section \<open>A captured statement is the one that the method sends\<close>

text \<open>\<open>m\<close> sends \<open>sql\<close> with \<open>values\<close> first, on every connection.\<close>

definition sends_first :: "'w repo \<Rightarrow> string \<Rightarrow> host_value list \<Rightarrow> ('w, 'a) op \<Rightarrow> bool" where
  "sends_first R sql values m \<longleftrightarrow> (\<exists>k. m = op_bind (rp_query R sql values) k)"

lemma sends_lift:
  "genuine r \<Longrightarrow> fst (op_bind (op_lift r) f ()) = Inl (CaptureSignal sql values) \<Longrightarrow> \<exists>a. r = Inr a"
  by (cases r) (auto simp: op_bind_def op_lift_def genuine_def split: dal_error.splits)

lemma lift_Inr [simp]: "op_bind (op_lift (Inr a)) f = f a"
  by (rule ext) (simp add: op_bind_def op_lift_def)

lemma query_captured: "fst (op_bind (rp_query (capture_repo H env param) s vs) k ()) = Inl (CaptureSignal sql values)
    \<Longrightarrow> s = sql \<and> vs = values"
  by (simp add: op_bind_def capture_repo_def)

lemma capture_fields [simp]: "rp_host (capture_repo H env param) = H" "rp_env (capture_repo H env param) = env"
  "rp_param (capture_repo H env param) = param"
  by (simp_all add: capture_repo_def)

abbreviation capturing :: "'w repo \<Rightarrow> unit repo" where
  "capturing R \<equiv> capture_repo (rp_host R) (rp_env R) (rp_param R)"

lemma finish_captured:
  "fst (finish (capturing R) P ret s audit ()) = Inl (CaptureSignal sql values) \<Longrightarrow> sends_first R sql values (finish R P ret s audit')"
  unfolding finish_def sends_first_def by (drule query_captured) auto

lemma no_old_record: "\<not> audited P opts \<Longrightarrow> old_record R P opts = op_lift (Inr None)"
  by (simp add: old_record_def op_ret_def op_lift_def fun_eq_iff)

lemma not_audited: "\<not> wo_audit opts \<Longrightarrow> \<not> audited P opts"
  by (simp add: audited_def)

lemma captured_Inr: "captured kind m = Inr (sql, values) \<Longrightarrow> fst (m ()) = Inl (CaptureSignal sql values)"
  by (auto simp: captured_def split: sum.splits dal_error.splits)

lemma add_captured:
  assumes "captured kind (add (capturing R) entity row opts now) = Inr (sql, values)"
  shows "sends_first R sql values (add R entity row opts now)"
proof -
  note c = captured_Inr [OF assms, unfolded add_def capture_fields]
  obtain meta where m: "plain (ee_meta (rp_env R) entity) = Inr meta" using sends_lift [OF genuine_simps(2) c] by blast
  note c1 = c [unfolded m lift_Inr]
  obtain s where s: "add_statement (rp_host R) (rp_env R) entity meta row opts now = Inr s"
    using sends_lift [OF genuine_add c1] by blast
  obtain s1 v1 ret rep where t: "s = (s1, v1, ret, rep)" by (cases s)
  have "s1 = sql \<and> v1 = values" by (rule query_captured [OF c1 [unfolded s lift_Inr t prod.case]])
  then show ?thesis unfolding sends_first_def add_def m lift_Inr s t prod.case by blast
qed

lemma update_captured:
  assumes "captured kind (update (capturing R) entity updates opts now) = Inr (sql, values)" "\<not> wo_audit opts"
  shows "sends_first R sql values (update R entity updates opts now)"
proof -
  note old = no_old_record [OF not_audited [OF assms(2)]]
  note c = captured_Inr [OF assms(1), unfolded update_def capture_fields old lift_Inr]
  obtain P where P: "update_plan (rp_host R) (rp_env R) entity updates opts now = Inr P"
    using sends_lift [OF genuine_update_plan c] by blast
  note c1 = c [unfolded P lift_Inr]
  obtain ps where ps: "update_preds P = Inr ps" using sends_lift [OF genuine_preds c1] by blast
  note c2 = c1 [unfolded ps lift_Inr]
  obtain ret where ret: "buildReturningClause (rp_env R) entity (wo_returning opts) = Inr ret"
    using sends_lift [OF genuine_returning c2] by blast
  note c3 = c2 [unfolded ret lift_Inr]
  obtain s where s: "update_statement P ret ps = Inr s" using sends_lift [OF genuine_statements(2) c3] by blast
  show ?thesis unfolding update_def P lift_Inr old ps ret s by (rule finish_captured [OF c3 [unfolded s lift_Inr]])
qed

lemma soft_captured:
  assumes "captured kind (soft_write (capturing R) entity plan action opts now) = Inr (sql, values)" "\<not> wo_audit opts" "genuine plan"
  shows "sends_first R sql values (soft_write R entity plan action opts now)"
proof -
  note old = no_old_record [OF not_audited [OF assms(2)]]
  note c = captured_Inr [OF assms(1), unfolded soft_write_def capture_fields old lift_Inr]
  obtain P where P: "plan = Inr P" using sends_lift [OF assms(3) c] by blast
  note c2 = c [unfolded P lift_Inr]
  obtain ret where ret: "buildReturningClause (rp_env R) entity (wo_returning opts) = Inr ret"
    using sends_lift [OF genuine_returning c2] by blast
  note c3 = c2 [unfolded ret lift_Inr]
  obtain s where s: "write_statement ''w'' P (set_text P) ret = Inr s" using sends_lift [OF genuine_statements(1) c3] by blast
  show ?thesis unfolding soft_write_def P lift_Inr old ret s by (rule finish_captured [OF c3 [unfolded s lift_Inr]])
qed

lemma hard_captured:
  assumes "captured kind (hardDelete (capturing R) entity sel opts now) = Inr (sql, values)" "\<not> wo_audit opts"
  shows "sends_first R sql values (hardDelete R entity sel opts now)"
proof -
  note old = no_old_record [OF not_audited [OF assms(2)]]
  note c = captured_Inr [OF assms(1), unfolded hardDelete_def capture_fields old lift_Inr]
  have g: "genuine (hard_delete_plan (rp_host R) (rp_env R) entity sel opts)"
    unfolding hard_delete_plan_def by (rule genuine_match_plan) simp
  obtain P where P: "hard_delete_plan (rp_host R) (rp_env R) entity sel opts = Inr P" using sends_lift [OF g c] by blast
  note c2 = c [unfolded P lift_Inr]
  obtain ret where ret: "buildReturningClause (rp_env R) entity (wo_returning opts) = Inr ret"
    using sends_lift [OF genuine_returning c2] by blast
  note c3 = c2 [unfolded ret lift_Inr]
  obtain s where s: "write_statement ''w'' P (''DELETE FROM '' @ wp_table P) ret = Inr s" using sends_lift [OF genuine_statements(1) c3] by blast
  show ?thesis unfolding hardDelete_def P lift_Inr old ret s by (rule finish_captured [OF c3 [unfolded s lift_Inr]])
qed

lemma genuine_deletable: "genuine (require_deletable what meta)"
  by (simp add: require_deletable_def)

lemma op_bind_assoc: "op_bind (op_bind m f) g = op_bind m (\<lambda>x. op_bind (f x) g)"
  by (rule ext) (simp add: op_bind_def split: prod.splits sum.splits)

lemma op_bind_ret: "op_bind m op_ret = m"
  by (rule ext) (simp add: op_bind_def op_ret_def split: prod.splits sum.splits)

lemma send_captured:
  assumes "fst (op_bind (send (capturing R) q) k ()) = Inl (CaptureSignal sql values)"
  shows "sends_first R sql values (op_bind (send R q) k')"
proof -
  note c = assms [unfolded send_def op_bind_assoc capture_fields]
  obtain t v where p: "plain q = Inr (t, v)" using sends_lift [OF genuine_simps(2) c] by auto
  have "t = sql \<and> map (rp_param R) v = values"
    by (rule query_captured [OF c [unfolded p lift_Inr prod.case op_bind_assoc]])
  then show ?thesis unfolding send_def op_bind_assoc p lift_Inr prod.case sends_first_def by blast
qed

lemma rows_captured:
  "fst (op_bind (select_rows (capturing R) inp) k ()) = Inl (CaptureSignal sql values) \<Longrightarrow> sends_first R sql values (op_bind (select_rows R inp) k')"
  unfolding select_rows_def capture_fields by (rule send_captured)

lemma column_captured:
  assumes "captured kind (find_by_column (capturing R) entity col missing name v deleted strict) = Inr (sql, values)"
  shows "sends_first R sql values (find_by_column R entity col missing name v deleted strict)"
proof -
  note c = captured_Inr [OF assms, unfolded find_by_column_def capture_fields]
  obtain meta where m: "plain (ee_meta (rp_env R) entity) = Inr meta" using sends_lift [OF genuine_simps(2) c] by blast
  note c1 = c [unfolded m lift_Inr]
  obtain cc where cc: "col meta = Some cc" using c1 by (cases "col meta") (simp_all add: op_fail_def)
  show ?thesis unfolding find_by_column_def m lift_Inr cc option.case by (rule rows_captured [OF c1 [unfolded cc option.case]])
qed

lemma find_captured:
  assumes "captured kind (RepositoryReads.find (capturing R) entity flds opts) = Inr (sql, values)"
  shows "sends_first R sql values (RepositoryReads.find R entity flds opts)"
proof -
  note c = captured_Inr [OF assms, unfolded RepositoryReads.find_def capture_fields]
  obtain meta where m: "plain (ee_meta (rp_env R) entity) = Inr meta" using sends_lift [OF genuine_simps(2) c] by blast
  show ?thesis unfolding RepositoryReads.find_def m lift_Inr by (rule rows_captured [OF c [unfolded m lift_Inr]])
qed

lemma findAll_captured:
  assumes "captured kind (findAll (capturing R) entity flds opts) = Inr (sql, values)"
  shows "sends_first R sql values (findAll R entity flds opts)"
proof -
  note c = captured_Inr [OF assms, unfolded findAll_def capture_fields]
  obtain meta where m: "plain (ee_meta (rp_env R) entity) = Inr meta" using sends_lift [OF genuine_simps(2) c] by blast
  note c1 = c [unfolded m lift_Inr]
  have "fst (op_bind (select_rows (capturing R) (select_input entity flds opts)) op_ret ()) = Inl (CaptureSignal sql values)"
    using c1 by (simp add: op_bind_ret)
  from rows_captured [OF this, of op_ret] show ?thesis unfolding findAll_def m lift_Inr by (simp add: op_bind_ret)
qed

lemma page_captured:
  assumes "captured kind (findByPage (capturing R) entity page perPage flds opts) = Inr (sql, values)"
  shows "sends_first R sql values (findByPage R entity page perPage flds opts)"
proof -
  note c = captured_Inr [OF assms, unfolded findByPage_def]
  have p: "\<not> page \<le> 0" "\<not> perPage \<le> 0" using c by (auto simp: op_fail_def split: if_splits)
  show ?thesis unfolding findByPage_def using p rows_captured [OF c [simplified p if_False]] by simp
qed

lemma count_captured:
  assumes "captured kind (RepositoryReads.count (capturing R) entity tableName) = Inr (sql, values)"
  shows "sends_first R sql values (RepositoryReads.count R entity tableName)"
proof -
  note c = captured_Inr [OF assms, unfolded RepositoryReads.count_def capture_fields]
  obtain t where t: "plain (qTable (rp_env R) entity tableName) = Inr t" using sends_lift [OF genuine_simps(2) c] by blast
  have "''SELECT COUNT(*) AS n FROM '' @ t = sql \<and> [] = values" by (rule query_captured [OF c [unfolded t lift_Inr]])
  then show ?thesis unfolding RepositoryReads.count_def t lift_Inr sends_first_def by blast
qed

lemma vector_captured:
  assumes "captured kind (vectorSearch (capturing R) entity f q opts) = Inr (sql, values)"
  shows "sends_first R sql values (vectorSearch R entity f q opts)"
proof -
  have *: "sends_first R sql values (send R qq)" if "fst (send (capturing R) qq ()) = Inl (CaptureSignal sql values)" for qq
    using send_captured [where R = R and q = qq and k = op_ret and k' = op_ret] that by (simp add: op_bind_ret)
  from captured_Inr [OF assms] show ?thesis
    by (auto simp: vectorSearch_def op_fail_def select_rows_def intro!: * split: if_splits)
qed

text \<open>The buffered operation holds the statement \<open>sql\<close>.\<close>

definition buffers :: "(dal_error, nat \<times> deferred_tx) res \<Rightarrow> string \<Rightarrow> host_value list \<Rightarrow> bool" where
  "buffers r sql values \<longleftrightarrow> (\<exists>h tx'. r = Inr (h, tx') \<and> dop_captured (tx_ops tx' ! h) = Inr (sql, values))"

lemma register_buffers: "buffers (register env a tx) sql values \<Longrightarrow> \<not> ra_audit a \<and> ra_captured a = Inr (sql, values)"
  by (auto simp: buffers_def register_def res_bind_Inr split: if_splits)

lemma write_buffers: "buffers (register env (write_args kind entity opts cap ab) tx) sql values \<Longrightarrow> \<not> wo_audit opts \<and> cap = Inr (sql, values)"
  by (drule register_buffers) (simp add: write_args_def)

lemma read_buffers: "buffers (register env (read_args kind entity flds cap ab) tx) sql values \<Longrightarrow> cap = Inr (sql, values)"
  by (drule register_buffers) (simp add: read_args_def)

text \<open>C12: the statement and the values that a buffered write holds are the ones that the same method of the repository, called directly, sends first on any connection.\<close>

theorem buffered_writes_refine_direct:
  "(buffers (tx_add (capturing R) e r opts now tx) sql vs \<longrightarrow> sends_first R sql vs (add R e r opts now))
   \<and> (buffers (tx_update (capturing R) e r opts now tx) sql vs \<longrightarrow> sends_first R sql vs (update R e r opts now))
   \<and> (buffers (tx_delete (capturing R) e r opts now tx) sql vs \<longrightarrow> sends_first R sql vs (delete R e r opts now))
   \<and> (buffers (tx_restore (capturing R) e r opts now tx) sql vs \<longrightarrow> sends_first R sql vs (restore R e r opts now))
   \<and> (buffers (tx_hardDelete (capturing R) e r opts now tx) sql vs \<longrightarrow> sends_first R sql vs (hardDelete R e r opts now))"
proof (intro conjI impI)
  assume "buffers (tx_add (capturing R) e r opts now tx) sql vs"
  then show "sends_first R sql vs (add R e r opts now)"
    using write_buffers add_captured unfolding tx_add_def capture_fields by blast
next
  assume "buffers (tx_update (capturing R) e r opts now tx) sql vs"
  then show "sends_first R sql vs (update R e r opts now)"
    using write_buffers update_captured unfolding tx_update_def capture_fields by blast
next
  assume "buffers (tx_delete (capturing R) e r opts now tx) sql vs"
  from write_buffers [OF this [unfolded tx_delete_def capture_fields]] show "sends_first R sql vs (delete R e r opts now)"
    unfolding delete_def capture_fields
    by (auto intro!: soft_captured simp: delete_plan_def genuine_match_plan genuine_deletable)
next
  assume "buffers (tx_restore (capturing R) e r opts now tx) sql vs"
  from write_buffers [OF this [unfolded tx_restore_def capture_fields]] show "sends_first R sql vs (restore R e r opts now)"
    unfolding restore_def capture_fields
    by (auto intro!: soft_captured simp: restore_plan_def genuine_match_plan genuine_deletable)
next
  assume "buffers (tx_hardDelete (capturing R) e r opts now tx) sql vs"
  then show "sends_first R sql vs (hardDelete R e r opts now)"
    using write_buffers hard_captured unfolding tx_hardDelete_def capture_fields by blast
qed

text \<open>The statement and the values that a buffered read holds are the ones that the same finder of the repository, called directly, sends first on any connection.\<close>

theorem buffered_reads_refine_direct:
  "(buffers (tx_find (capturing R) e flds fo tx) sql vs \<longrightarrow> sends_first R sql vs (RepositoryReads.find R e flds fo))
   \<and> (buffers (tx_findByUUID (capturing R) e u del strict tx) sql vs \<longrightarrow> sends_first R sql vs (findByUUID R e u del strict))
   \<and> (buffers (tx_findById (capturing R) e i del strict tx) sql vs \<longrightarrow> sends_first R sql vs (findById R e i del strict))
   \<and> (buffers (tx_findAll (capturing R) e flds fo stream tx) sql vs \<longrightarrow> sends_first R sql vs (findAll R e flds fo))
   \<and> (buffers (tx_findByPage (capturing R) e page perPage flds fo tx) sql vs \<longrightarrow> sends_first R sql vs (findByPage R e page perPage flds fo))
   \<and> (buffers (tx_count (capturing R) e tn tx) sql vs \<longrightarrow> sends_first R sql vs (RepositoryReads.count R e tn))
   \<and> (buffers (tx_vectorSearch (capturing R) e f q ve tx) sql vs \<longrightarrow> sends_first R sql vs (vectorSearch R e f q ve))"
  unfolding tx_find_def tx_findByUUID_def tx_findById_def tx_findAll_def tx_findByPage_def tx_count_def tx_vectorSearch_def capture_fields
proof (intro conjI impI)
  assume "buffers (if stream then Inl (Validation (''beginTransaction: findAll stream is not deferrable '' @ dash @ '' omit '' @ qlit ''stream''
          @ '' inside a buffered transaction''))
      else register (rp_env R) (read_args OpFindAll e flds (captured OpFindAll (findAll (capturing R) e flds fo)) None) tx) sql vs"
  then have "buffers (register (rp_env R) (read_args OpFindAll e flds (captured OpFindAll (findAll (capturing R) e flds fo)) None) tx) sql vs"
    by (auto simp: buffers_def split: if_splits)
  then show "sends_first R sql vs (findAll R e flds fo)" using read_buffers findAll_captured by blast
qed (auto dest!: read_buffers intro: find_captured page_captured count_captured vector_captured column_captured
    simp: findByUUID_def findById_def)

section \<open>Splitting is verbatim\<close>

lemma after_comment_suffix: "suffix (after_comment s) s"
  by (induction s rule: after_comment.induct) (auto intro: suffix_ConsI)

lemma dropWhile_suffix: "suffix (dropWhile P s) s"
  by (metis suffix_def takeWhile_dropWhile_id)

lemma block_suffix: "suffix (after_comment (drop 2 s)) s"
  by (rule suffix_order.order_trans [OF after_comment_suffix suffix_drop])

lemma skipWs_suffix: "suffix (skipWs s) s"
proof (induction s rule: skipWs.induct)
  case (1 s)
  show ?case
  proof (cases s)
    case Nil
    then show ?thesis by (simp add: skipWs.simps)
  next
    case (Cons c r)
    have eq: "skipWs s = (if blank c then skipWs r else if starts_with s ''--'' then skipWs (dropWhile not_newline s)
        else if starts_with s ''/*'' then skipWs (after_comment (drop 2 s)) else s)"
      by (subst skipWs.simps) (simp only: Cons list.case)
    have r: "suffix r s" unfolding Cons by (rule suffix_ConsI) simp
    consider "blank c" | "\<not> blank c" "starts_with s ''--''" | "\<not> blank c" "\<not> starts_with s ''--''" "starts_with s ''/*''"
      | "\<not> blank c" "\<not> starts_with s ''--''" "\<not> starts_with s ''/*''" by blast
    then show ?thesis
    proof cases
      case 1
      show ?thesis unfolding eq using suffix_order.order_trans [OF "1.IH"(1) [OF Cons 1] r] by (simp only: 1 if_True)
    next
      case 2
      show ?thesis unfolding eq using suffix_order.order_trans [OF "1.IH"(2) [OF Cons 2] dropWhile_suffix] by (simp only: 2 if_True if_False)
    next
      case 3
      show ?thesis unfolding eq using suffix_order.order_trans [OF "1.IH"(3) [OF Cons 3] block_suffix] by (simp only: 3 if_True if_False)
    next
      case 4
      show ?thesis unfolding eq by (simp only: 4 if_False suffix_order.order_refl)
    qed
  qed
qed

lemma tl_dropWhile_suffix: "suffix (tl (dropWhile P x)) x"
  by (rule suffix_order.order_trans [OF suffix_tl dropWhile_suffix])

lemma quote_suffix: "suffix (case x of q # q' # r' \<Rightarrow> if q' = CHR 0x27 then r' else q' # r' | _ \<Rightarrow> []) x"
  by (auto simp: suffix_def split: list.splits)

lemma token_rest_suffix: "suffix (token_rest s) s"
proof (cases s)
  case Nil
  then show ?thesis by (simp add: token_rest_def)
next
  case (Cons c r)
  have "suffix (case dropWhile (\<lambda>x. x \<noteq> CHR 0x27) r of q # q' # r' \<Rightarrow> if q' = CHR 0x27 then r' else q' # r' | _ \<Rightarrow> []) s"
    unfolding Cons by (rule suffix_ConsI [OF suffix_order.order_trans [OF quote_suffix dropWhile_suffix]])
  moreover have "suffix (tl (dropWhile (\<lambda>x. x \<noteq> CHR ''\"'') r)) s" unfolding Cons by (rule suffix_ConsI [OF tl_dropWhile_suffix])
  moreover have "suffix r s" unfolding Cons by (rule suffix_ConsI) simp
  ultimately show ?thesis using tl_dropWhile_suffix [of not_newline s] block_suffix [of s]
    by (simp only: token_rest_def Cons list.case split: if_split) blast
qed

lemma body_rest_suffix: "suffix (body_rest d s) s"
proof (induction d s rule: body_rest.induct)
  case (1 d s)
  show ?case
  proof (cases s)
    case Nil
    then show ?thesis by (simp add: body_rest.simps)
  next
    case (Cons c r)
    have eq: "body_rest d s = (if c = CHR ''('' then body_rest (Suc d) r
        else if c = CHR '')'' then (if d = 1 then r else body_rest (d - 1) r) else body_rest d (token_rest s))"
      by (subst body_rest.simps) (simp only: Cons list.case)
    have r: "suffix r s" unfolding Cons by (rule suffix_ConsI) simp
    consider "c = CHR ''(''" | "c \<noteq> CHR ''(''" "c = CHR '')''" "d = 1" | "c \<noteq> CHR ''(''" "c = CHR '')''" "d \<noteq> 1"
      | "c \<noteq> CHR ''(''" "c \<noteq> CHR '')''" by blast
    then show ?thesis
    proof cases
      case 1
      show ?thesis unfolding eq if_P [OF 1] by (rule suffix_order.order_trans [OF "1.IH"(1) [OF Cons 1] r])
    next
      case 2
      show ?thesis unfolding eq if_not_P [OF 2(1)] if_P [OF 2(2)] if_P [OF 2(3)] by (rule r)
    next
      case 3
      show ?thesis unfolding eq if_not_P [OF 3(1)] if_P [OF 3(2)] if_not_P [OF 3(3)]
        by (rule suffix_order.order_trans [OF "1.IH"(2) [OF Cons 3] r])
    next
      case 4
      show ?thesis unfolding eq if_not_P [OF 4(1)] if_not_P [OF 4(2)]
        by (rule suffix_order.order_trans [OF "1.IH"(3) [OF Cons 4] token_rest_suffix])
    qed
  qed
qed

lemma cte_end_suffix: "suffix (cte_end h s) s"
  unfolding cte_end_def using suffix_order.order_trans [OF body_rest_suffix suffix_drop] .

lemma suffix_take: "suffix r s \<Longrightarrow> s = take (length s - length r) s @ r"
  by (auto simp: suffix_def)

definition verbatim :: "string \<Rightarrow> cte list \<Rightarrow> string \<Rightarrow> bool" where
  "verbatim text cs tl_text \<longleftrightarrow>
     (\<exists>pre gaps. length gaps = length cs \<and> text = pre @ concat (map2 (@) (map snd cs) gaps) @ tl_text)"

lemma verbatim_prefix: "verbatim s cs t \<Longrightarrow> suffix s s' \<Longrightarrow> verbatim s' cs t"
  unfolding verbatim_def suffix_def by (metis append.assoc)

lemma verbatim_Cons: "verbatim r cs t \<Longrightarrow> verbatim (snd c @ r) (c # cs) t"
  unfolding verbatim_def
proof (elim exE conjE)
  fix pre gaps assume "length gaps = length cs" "r = pre @ concat (map2 (@) (map snd cs) gaps) @ t"
  then show "\<exists>pre gaps. length gaps = length (c # cs) \<and> snd c @ r = pre @ concat (map2 (@) (map snd (c # cs)) gaps) @ t"
    by (intro exI [of _ "[]"] exI [of _ "pre # gaps"]) simp
qed

lemma split_verbatim: "split_ctes s0 = (cs, t) \<Longrightarrow> verbatim s0 cs t"
proof (induction s0 arbitrary: cs t rule: split_ctes.induct)
  case (1 text0)
  let ?s = "skipWs text0"
  show ?case
  proof (cases "?s = [] \<or> re_exec cte_head_re ?s = None")
    case True
    then have "split_ctes text0 = ([], ?s)" by (cases "?s = []") (simp_all add: split_ctes.simps [of text0] Let_def)
    then have "cs = [] \<and> t = ?s" using 1(2) by simp
    then show ?thesis using skipWs_suffix [of text0] by (auto simp: verbatim_def suffix_def)
  next
    case False
    then obtain l st where h: "re_exec cte_head_re ?s = Some (l, st)" and ne: "?s \<noteq> []" by auto
    define aft where "aft = cte_end (matched l st) ?s"
    define c where "c = (case capture 1 st of Some n \<Rightarrow> n | None \<Rightarrow> [], take (length ?s - length aft) ?s)"
    define rest where "rest = skipWs aft"
    have s: "?s = snd c @ aft" using suffix_take [OF cte_end_suffix [of "matched l st" ?s]] by (simp add: aft_def c_def)
    have r: "split_ctes text0 = (if rest \<noteq> [] \<and> hd rest = CHR '','' then (case split_ctes (tl rest) of (cs, u) \<Rightarrow> (c # cs, u)) else ([c], rest))"
      using h ne by (simp add: split_ctes.simps [of text0] Let_def aft_def c_def rest_def)
    have v: "verbatim aft cs' t" if "verbatim rest cs' t" for cs' t
      using verbatim_prefix [OF that] skipWs_suffix [of aft] by (simp add: rest_def)
    show ?thesis
    proof (cases "rest \<noteq> [] \<and> hd rest = CHR '',''")
      case True
      obtain cs' where cs': "split_ctes (tl rest) = (cs', t)" "cs = c # cs'" using 1(2) r True by (auto split: prod.splits)
      have "verbatim (tl rest) cs' t"
        by (rule 1(1) [OF refl ne h refl refl refl refl refl True [unfolded rest_def aft_def] cs'(1) [unfolded rest_def aft_def], folded aft_def, folded rest_def])
      then have "verbatim aft cs' t" using v verbatim_prefix [OF _ suffix_tl] by blast
      then show ?thesis using verbatim_prefix [OF _ skipWs_suffix [of text0]] verbatim_Cons [of aft cs' t c] s cs'(2) by simp
    next
      case False
      then have "cs = [c]" "t = rest" using 1(2) r by auto
      moreover have "verbatim rest [] rest" by (simp add: verbatim_def)
      ultimately show ?thesis using v verbatim_prefix [OF _ skipWs_suffix [of text0]] verbatim_Cons [of aft "[]" rest c] s by simp
    qed
  qed
qed

text \<open>Splitting a statement into its CTEs and its final statement keeps every piece verbatim, in the order of the text and without overlap.\<close>

theorem split_is_verbatim:
  assumes "splitTopLevelCtes s0 = (cs, t)"
  shows "verbatim s0 cs t"
proof (cases "re_exec with_re s0")
  case None
  then show ?thesis using assms by (simp add: splitTopLevelCtes_def verbatim_def)
next
  case (Some lt)
  obtain l st where lt: "lt = (l, st)" by (cases lt)
  then have "split_ctes (st_rest st) = (cs, t)" using assms Some by (simp add: splitTopLevelCtes_def)
  moreover have "suffix (st_rest st) s0"
    using re_exec_matched [OF Some [unfolded lt]] unfolding suffix_def by (metis append.assoc)
  ultimately show ?thesis using verbatim_prefix split_verbatim by blast
qed

section \<open>Examples\<close>

lemma split_example:
  "splitTopLevelCtes ''WITH a AS (SELECT f(1) /* ( */), b AS (SELECT 2) SELECT * FROM a, b''
   = ([(''a'', ''a AS (SELECT f(1) /* ( */)''), (''b'', ''b AS (SELECT 2)'')], ''SELECT * FROM a, b'')"
  by code_simp

text \<open>The text behind a doubled quote is scanned as code: its parenthesis is counted, and the rest is read as the CTE.\<close>

lemma doubled_quote_breaks_split:
  "splitTopLevelCtes (''WITH a AS (SELECT '' @ qlit (''x'' @ [CHR 0x27, CHR 0x27] @ ''('') @ '') SELECT 1'')
   = ([(''a'', ''a AS (SELECT '' @ qlit (''x'' @ [CHR 0x27, CHR 0x27] @ ''('') @ '') SELECT 1'')], [])"
  by code_simp

lemma rename_reaches_quoted_columns:
  "renameCtes ''UPDATE t SET \"w\" = $1'' [''w''] ''s0_'' = ''UPDATE t SET \"s0_w\" = $1''"
  by code_simp

text \<open>A reference in a \<open>jsonb\<close> column does not survive the conversion to a parameter.\<close>

lemma ref_lost_in_jsonb:
  "jsValueToPgParam ex_host ((ex_column ''meta'' False False None)\<lparr>cm_pgType := Some ''jsonb''\<rparr>) (deferred_ref 0 ''id'')
   = HStr ''{\"opIndex\":0,\"field\":\"id\"}''"
  by code_simp

lemma pieces_example: "pieces ''a = $12 OR $x $3'' = map (\<lambda>c. Txt [c]) ''a = '' @ [Param 12] @ map (\<lambda>c. Txt [c]) '' OR $x '' @ [Param 3]"
  by code_simp

section \<open>Witnesses\<close>

definition ex_read :: "string \<Rightarrow> host_value list \<Rightarrow> deferred_op" where
  "ex_read sql vs = \<lparr>dop_kind = OpCount, dop_entity = 0, dop_meta = ex_meta, dop_captured = Inr (sql, vs), dop_returning = [],
     dop_readFields = [], dop_abort = Some (AbortFixed ''ERR03'')\<rparr>"

definition ex_ops :: "deferred_op list" where
  "ex_ops = [ex_read ''SELECT $1'' [HNum ''4''], ex_read ''SELECT $2, $1'' [HNum ''5'', HRef 0 ''n'']]"

theorem remap_denotes_witness:
  "\<exists>ts merged' im. remap_pieces ex_env ex_ops 1 [HNum ''5'', HRef 0 ''n''] [Param 2, Txt '','', Param 1] ([HNum ''4''], []) = Inr (ts, (merged', im))
     \<and> list_all2 (remapped 1 [HNum ''5'', HRef 0 ''n''] merged') [Param 2, Txt '','', Param 1] ts"
proof -
  have r: "remap_pieces ex_env ex_ops 1 [HNum ''5'', HRef 0 ''n''] [Param 2, Txt '','', Param 1] ([HNum ''4''], [])
      = Inr ([''(SELECT \"n\" FROM \"__r0\" LIMIT 1)'', '','', ''$2''], ([HNum ''4'', HNum ''5''], [(1, 2)]))"
    by code_simp
  show ?thesis using remap_denotes [OF r] r by blast
qed

definition ex_tx :: deferred_tx where
  "ex_tx = \<lparr>tx_state = TxOpen, tx_ops = ex_ops, tx_handles = [None, None]\<rparr>"


lemma ex_reach: "tx_reach ans ex_host ex_env new_tx 0"
  by (rule tx_reach.begin_tx)

theorem at_most_one_statement_witness: "settled (tx_handles (discard new_tx))"
  using at_most_one_statement [OF tx_reach.drop_tx [OF ex_reach]] by (simp add: discard_def new_tx_def)

theorem commit_settles_witness:
  "\<exists>r tx' n'. commit (counting (\<lambda>_ _. Inl (PlainError []))) ex_host ex_env new_tx 0 = (r, tx', n') \<and> tx_state tx' = TxCommitted"
  using commit_settles [OF ex_reach] by (fastforce simp: new_tx_def)

theorem split_is_verbatim_witness:
  "verbatim ''WITH a AS (SELECT f(1) /* ( */), b AS (SELECT 2) SELECT * FROM a, b''
     [(''a'', ''a AS (SELECT f(1) /* ( */)''), (''b'', ''b AS (SELECT 2)'')] ''SELECT * FROM a, b''"
  by (rule split_is_verbatim [OF split_example])

lemma ex_capturing: "capturing (ex_repo ex_answers) = capture_repo ex_host ex_env (\<lambda>_. HNull)"
  by (simp add: ex_repo_def)

lemma buffers_case:
  assumes "case r of Inl _ \<Rightarrow> False | Inr (h, tx') \<Rightarrow> (case dop_captured (tx_ops tx' ! h) of Inl _ \<Rightarrow> False | Inr _ \<Rightarrow> True)"
  shows "\<exists>sql vs. buffers r sql vs"
proof -
  obtain h and tx' :: deferred_tx where r: "r = Inr (h, tx')" using assms by (auto split: sum.splits)
  then show ?thesis using assms by (cases "dop_captured (tx_ops tx' ! h)") (auto simp: buffers_def)
qed

theorem buffered_writes_refine_direct_witness:
  "\<exists>sql vs. sends_first (ex_repo ex_answers) sql vs (update (ex_repo ex_answers) 0 ex_payload ex_options 0)"
proof -
  let ?r = "tx_update (capture_repo ex_host ex_env (\<lambda>_. HNull)) 0 ex_payload ex_options 0 new_tx"
  have "case ?r of Inl _ \<Rightarrow> False | Inr (h, tx') \<Rightarrow> (case dop_captured (tx_ops tx' ! h) of Inl _ \<Rightarrow> False | Inr _ \<Rightarrow> True)"
    by code_simp
  then obtain sql vs where "buffers ?r sql vs" using buffers_case by blast
  then show ?thesis using buffered_writes_refine_direct [of "ex_repo ex_answers" 0 ex_payload ex_options 0 new_tx sql vs]
    unfolding ex_capturing by blast
qed

theorem buffered_reads_refine_direct_witness:
  "\<exists>sql vs. sends_first (ex_repo ex_answers) sql vs (RepositoryReads.count (ex_repo ex_answers) 0 None)"
proof -
  let ?r = "tx_count (capture_repo ex_host ex_env (\<lambda>_. HNull)) 0 None new_tx"
  have "case ?r of Inl _ \<Rightarrow> False | Inr (h, tx') \<Rightarrow> (case dop_captured (tx_ops tx' ! h) of Inl _ \<Rightarrow> False | Inr _ \<Rightarrow> True)"
    by code_simp
  then obtain sql vs where "buffers ?r sql vs" using buffers_case by blast
  then show ?thesis using buffered_reads_refine_direct [of "ex_repo ex_answers" 0 _ _ _ sql vs]
    unfolding ex_capturing by blast
qed

end
