(* ===== verification/Connections.thy ===== *)
theory Connections
  imports RepositoryUpdates
begin

text \<open>
  The connections that \<open>src/dal/dal.ts\<close> and the bulk methods of \<open>src/repository/repository.ts\<close> take from the pool.  The
  driver \<open>pg\<close>, the clock and the source of uuids are parameters (\<open>driver\<close>).  A \<open>gateway\<close> is the state of the outside
  world, the clients whose \<open>release\<close> has been replaced by a no-op, and the traffic on the pool so far.
\<close>

section \<open>The pool and its clients\<close>

record 'w driver =
  dr_connect :: "'w \<Rightarrow> (dal_error, nat) res \<times> 'w"
  dr_query :: "nat \<Rightarrow> string \<Rightarrow> host_value list \<Rightarrow> 'w \<Rightarrow> (dal_error, query_result) res \<times> 'w"
  dr_release :: "nat \<Rightarrow> 'w \<Rightarrow> 'w"
  dr_run :: "string \<Rightarrow> host_value list \<Rightarrow> 'w \<Rightarrow> (dal_error, query_result) res \<times> 'w"
  dr_reconnect :: "nat \<Rightarrow> 'w \<Rightarrow> (dal_error, unit) res \<times> 'w"
  dr_hasConnect :: bool
  dr_now :: "'w \<Rightarrow> int"
  dr_uuid :: "'w \<Rightarrow> string \<times> 'w"

text \<open>\<open>dr_run\<close> is \<open>pool.query\<close>; \<open>dr_hasConnect\<close> tells whether a client has a method \<open>connect\<close>, and \<open>dr_reconnect\<close> is
  that method, on a client that the pool has handed out.\<close>

datatype event = Connected nat | Sent nat string "host_value list" | PoolSent string "host_value list" | Released nat

record 'w gateway =
  gw_world :: 'w
  gw_noop :: "nat list"
  gw_log :: "event list"

definition logged :: "'w gateway \<Rightarrow> event \<Rightarrow> 'w \<Rightarrow> 'w gateway" where
  "logged g e w = g\<lparr>gw_world := w, gw_log := gw_log g @ [e]\<rparr>"

definition connect :: "'w driver \<Rightarrow> ('w gateway, nat) op" where
  "connect D g =
     (case dr_connect D (gw_world g) of
        (Inl e, w) \<Rightarrow> (Inl e, g\<lparr>gw_world := w\<rparr>)
      | (Inr c, w) \<Rightarrow> (Inr c, (logged g (Connected c) w)\<lparr>gw_noop := removeAll c (gw_noop g)\<rparr>))"

definition client_query :: "'w driver \<Rightarrow> nat \<Rightarrow> string \<Rightarrow> host_value list \<Rightarrow> ('w gateway, query_result) op" where
  "client_query D c sql vs g = (case dr_query D c sql vs (gw_world g) of (r, w) \<Rightarrow> (r, logged g (Sent c sql vs) w))"

definition pool_query :: "'w driver \<Rightarrow> string \<Rightarrow> host_value list \<Rightarrow> ('w gateway, query_result) op" where
  "pool_query D sql vs g = (case dr_run D sql vs (gw_world g) of (r, w) \<Rightarrow> (r, logged g (PoolSent sql vs) w))"

definition release :: "'w driver \<Rightarrow> nat \<Rightarrow> 'w gateway \<Rightarrow> 'w gateway" where
  "release D c g = (if c \<in> set (gw_noop g) then g else logged g (Released c) (dr_release D c (gw_world g)))"

definition clock :: "'w driver \<Rightarrow> ('w gateway, int) op" where
  "clock D g = (Inr (dr_now D (gw_world g)), g)"

definition randomUUID :: "'w driver \<Rightarrow> ('w gateway, string) op" where
  "randomUUID D g = (case dr_uuid D (gw_world g) of (u, w) \<Rightarrow> (Inr u, g\<lparr>gw_world := w\<rparr>))"

section \<open>Repositories on the pool and on a client\<close>

datatype queryable = PoolDb | ClientDb nat

record 'w repository =
  ry_driver :: "'w driver"
  ry_db :: queryable
  ry_repo :: "'w gateway repo"
  ry_bulkTimeoutMs :: int

text \<open>\<open>new Repository(db, token, bulkTimeoutMs)\<close>; \<open>base\<close> holds the metadata, the host and the audit port of the process.\<close>

definition new_repository :: "'w driver \<Rightarrow> 'w gateway repo \<Rightarrow> queryable \<Rightarrow> int \<Rightarrow> 'w repository" where
  "new_repository D base db bulkTimeoutMs =
     \<lparr>ry_driver = D, ry_db = db,
      ry_repo = base\<lparr>rp_query := (case db of PoolDb \<Rightarrow> pool_query D | ClientDb c \<Rightarrow> client_query D c)\<rparr>,
      ry_bulkTimeoutMs = bulkTimeoutMs\<rparr>"

text \<open>\<open>None\<close> is \<open>undefined\<close>, the value that the \<open>connect\<close> of a client resolves to.\<close>

definition getClient :: "'w repository \<Rightarrow> ('w gateway, nat option) op" where
  "getClient S g =
     (case ry_db S of
        PoolDb \<Rightarrow> (case connect (ry_driver S) g of (Inl e, g') \<Rightarrow> (Inl e, g') | (Inr c, g') \<Rightarrow> (Inr (Some c), g'))
      | ClientDb c \<Rightarrow>
          if dr_hasConnect (ry_driver S) then
            (case dr_reconnect (ry_driver S) c (gw_world g) of
               (Inl e, w) \<Rightarrow> (Inl e, g\<lparr>gw_world := w\<rparr>)
             | (Inr _, w) \<Rightarrow> (Inr None, g\<lparr>gw_world := w\<rparr>))
          else (Inr (Some c), g\<lparr>gw_noop := c # gw_noop g\<rparr>))"

section \<open>Clients held\<close>

fun held :: "event list \<Rightarrow> nat \<Rightarrow> int" where
  "held [] c = 0"
| "held (Connected c' # es) c = held es c + (if c' = c then 1 else 0)"
| "held (Released c' # es) c = held es c - (if c' = c then 1 else 0)"
| "held (_ # es) c = held es c"

lemma held_append [simp]: "held (es @ fs) c = held es c + held fs c"
  by (induction es c rule: held.induct) auto

text \<open>Traffic that consists of statements on the client \<open>c\<close> alone.\<close>

fun on_client :: "nat \<Rightarrow> event list \<Rightarrow> bool" where
  "on_client c [] \<longleftrightarrow> True"
| "on_client c (Sent c' _ _ # es) \<longleftrightarrow> c' = c \<and> on_client c es"
| "on_client c (_ # es) \<longleftrightarrow> False"

lemma on_client_append [simp]: "on_client c (es @ fs) \<longleftrightarrow> on_client c es \<and> on_client c fs"
  by (induction c es rule: on_client.induct) auto

lemma on_client_held: "on_client c es \<Longrightarrow> held es c' = 0"
  by (induction c es rule: on_client.induct) auto

fun statements :: "event list \<Rightarrow> string list" where
  "statements [] = []"
| "statements (Sent _ sql _ # es) = sql # statements es"
| "statements (PoolSent sql _ # es) = sql # statements es"
| "statements (_ # es) = statements es"

lemma statements_append [simp]: "statements (es @ fs) = statements es @ statements fs"
  by (induction es rule: statements.induct) auto

end
