(* ===== verification/RepositoryBulk.thy ===== *)
theory RepositoryBulk
  imports Connections
begin

text \<open>
  What the bulk methods of \<open>src/repository/repository.ts\<close> share: the transaction on a dedicated client with its time
  budget, the loop over the batches, the identity columns and versions of the items, and the diagnostic statements.

  A run is \<open>None\<close> when it does not return: the loop over the batches does not advance for a \<open>batchSize\<close> of 0.
\<close>

section \<open>Runs\<close>

type_synonym ('w, 'a) run = "'w \<Rightarrow> ((dal_error, 'a) res \<times> 'w) option"

definition run_op :: "('w, 'a) op \<Rightarrow> ('w, 'a) run" where
  "run_op m w = Some (m w)"

definition run_bind :: "('w, 'a) run \<Rightarrow> ('a \<Rightarrow> ('w, 'b) run) \<Rightarrow> ('w, 'b) run" where
  "run_bind m f w =
     (case m w of
        None \<Rightarrow> None
      | Some (Inl e, w') \<Rightarrow> Some (Inl e, w')
      | Some (Inr a, w') \<Rightarrow> f a w')"

definition run_ret :: "'a \<Rightarrow> ('w, 'a) run" where
  "run_ret a = run_op (op_ret a)"

record bulk_options =
  bo_write :: write_options
  bo_batchSize :: "int option"
  bo_timeoutMs :: "int option"

record bulk_result =
  br_received :: nat
  br_affected :: nat

section \<open>Batches\<close>

definition autoBatchSize :: "nat \<Rightarrow> nat" where
  "autoBatchSize columnCount = (if columnCount = 0 then 1000 else min 1000 (65535 div columnCount))"

lemma autoBatchSize_code [code]: "autoBatchSize n = (if n = 0 then 1000 else nat (min 1000 (65535 div int n)))"
proof -
  have "int (min 1000 (65535 div n)) = min 1000 (65535 div int n)" by (simp add: zdiv_int of_nat_min)
  then show ?thesis unfolding autoBatchSize_def by (metis nat_int)
qed

text \<open>\<open>Array.prototype.slice\<close>.\<close>

definition js_slice :: "'a list \<Rightarrow> int \<Rightarrow> int \<Rightarrow> 'a list" where
  "js_slice xs a b =
     (let n = int (length xs); clip = (\<lambda>i. if i < 0 then max (n + i) 0 else min i n)
      in take (nat (clip b - clip a)) (drop (nat (clip a)) xs))"

text \<open>\<open>for (let i = 0; i < rows.length; i += batchSz)\<close>.\<close>

partial_function (option) batches ::
  "int \<Rightarrow> (int \<Rightarrow> 'r list \<Rightarrow> 'w \<Rightarrow> (dal_error, unit) res \<times> 'w) \<Rightarrow> 'r list \<Rightarrow> int \<Rightarrow> 'w \<Rightarrow> ((dal_error, unit) res \<times> 'w) option" where
  "batches sz f rows i w =
     (if i < int (length rows) then
        (case f i (js_slice rows i (i + sz)) w of
           (Inl e, w') \<Rightarrow> Some (Inl e, w')
         | (Inr _, w') \<Rightarrow> batches sz f rows (i + sz) w')
      else Some (Inr (), w))"

declare batches.simps [code]

text \<open>The tuples of \<open>VALUES\<close>, with the placeholders numbered through from \<open>k\<close>.\<close>

fun value_tuples :: "nat \<Rightarrow> 'a list list \<Rightarrow> string list" where
  "value_tuples k [] = []"
| "value_tuples k (v # vs) =
     (''('' @ join '', '' (map (\<lambda>i. dollar (k + Suc i)) [0..<length v]) @ '')'') # value_tuples (k + length v) vs"

definition insert_tuples :: "'w repository \<Rightarrow> nat \<Rightarrow> string \<Rightarrow> string \<Rightarrow> host_value list list \<Rightarrow> ('w gateway, unit) op" where
  "insert_tuples S c tmpQ columnsSql rows =
     op_bind (client_query (ry_driver S) c
         (''INSERT INTO '' @ tmpQ @ '' ('' @ columnsSql @ '') VALUES '' @ join '', '' (value_tuples 0 rows)) (concat rows))
       (\<lambda>_. op_ret ())"

section \<open>The transaction\<close>

definition bulk_budget :: "'w repository \<Rightarrow> int option \<Rightarrow> int" where
  "bulk_budget S timeoutMs = (case timeoutMs of Some t \<Rightarrow> t | None \<Rightarrow> ry_bulkTimeoutMs S)"

definition bulkBegin :: "'w repository \<Rightarrow> int option \<Rightarrow> ('w gateway, nat \<times> int option) op" where
  "bulkBegin S timeoutMs =
     op_bind (getClient S) (\<lambda>client.
       case client of
         None \<Rightarrow> op_fail (PlainError (''Cannot read properties of undefined (reading '' @ qlit ''query'' @ '')''))
       | Some c \<Rightarrow>
           op_bind (client_query (ry_driver S) c ''BEGIN'' []) (\<lambda>_.
             if bulk_budget S timeoutMs > 0 then
               op_bind (client_query (ry_driver S) c (''SET LOCAL statement_timeout TO '' @ int_str (bulk_budget S timeoutMs)) []) (\<lambda>_.
               op_bind (clock (ry_driver S)) (\<lambda>now. op_ret (c, Some (now + bulk_budget S timeoutMs))))
             else op_ret (c, None)))"

definition assertBulkAlive :: "'w repository \<Rightarrow> int option \<Rightarrow> string \<Rightarrow> ('w gateway, unit) op" where
  "assertBulkAlive S deadline name =
     (case deadline of
        None \<Rightarrow> op_ret ()
      | Some d \<Rightarrow> op_bind (clock (ry_driver S)) (\<lambda>now.
          if now \<ge> d then op_fail (BulkTimeout (name @ '': exceeded bulk operation timeout '' @ dash @ '' transaction rolled back''))
          else op_ret ()))"

definition bulkAbort :: "'w repository \<Rightarrow> nat \<Rightarrow> 'w gateway \<Rightarrow> 'w gateway" where
  "bulkAbort S c g = snd (client_query (ry_driver S) c ''ROLLBACK'' [] g)"

text \<open>The \<open>try\<close> of a bulk method: \<open>ROLLBACK\<close> after an error, \<open>release\<close> in any case.\<close>

definition bulk_try :: "'w repository \<Rightarrow> nat \<Rightarrow> ('w gateway, 'a) run \<Rightarrow> ('w gateway, 'a) run" where
  "bulk_try S c body g =
     (case body g of
        None \<Rightarrow> None
      | Some (Inl e, g') \<Rightarrow> Some (Inl e, release (ry_driver S) c (bulkAbort S c g'))
      | Some (Inr a, g') \<Rightarrow> Some (Inr a, release (ry_driver S) c g'))"

definition bulk_transaction :: "'w repository \<Rightarrow> int option \<Rightarrow> (nat \<Rightarrow> int option \<Rightarrow> ('w gateway, 'a) run) \<Rightarrow> ('w gateway, 'a) run" where
  "bulk_transaction S timeoutMs body =
     run_bind (run_op (bulkBegin S timeoutMs)) (\<lambda>(c, deadline). bulk_try S c (body c deadline))"

definition tmp_table :: "'w repository \<Rightarrow> string \<Rightarrow> entity_meta \<Rightarrow> ('w gateway, string) op" where
  "tmp_table S stem meta =
     op_bind (randomUUID (ry_driver S)) (\<lambda>u.
       op_ret (stem @ em_tableName meta @ ''_'' @ take 16 (filter (\<lambda>c. c \<noteq> CHR ''-'') u)))"

definition quoted :: "string \<Rightarrow> (dal_error, string) res" where
  "quoted n = plain (quoteIdent n)"

definition quoted_list :: "string list \<Rightarrow> (dal_error, string) res" where
  "quoted_list ns = res_bind (map_res quoted ns) (\<lambda>qs. Inr (join '', '' qs))"

section \<open>Identity\<close>

definition missing_at :: "host_record list \<Rightarrow> string \<Rightarrow> nat option" where
  "missing_at items k = map_option fst (List.find (\<lambda>(_, r). prop_of r k = HUndefined) (enumerate 0 items))"

fun check_required :: "string \<Rightarrow> string \<Rightarrow> host_record list \<Rightarrow> string list \<Rightarrow> (dal_error, unit) res" where
  "check_required name cls items [] = Inr ()"
| "check_required name cls items (k # ks) =
     (case missing_at items k of
        Some ix \<Rightarrow> Inl (MatchSelector (name @ '' on '' @ cls @ '': '' @ qlit k
          @ '' is required in every item (composite @Unique selector must be complete) '' @ dash @ '' missing at index '' @ nat_str ix))
      | None \<Rightarrow> check_required name cls items ks)"

fun uniform_identity :: "string \<Rightarrow> string \<Rightarrow> host_record list \<Rightarrow> string list \<Rightarrow> string list \<Rightarrow> (dal_error, string list) res" where
  "uniform_identity name cls items [] required = Inr required"
| "uniform_identity name cls items (k # ks) required =
     (if k \<in> set required \<or> list_all (\<lambda>r. prop_of r k = HUndefined) items then uniform_identity name cls items ks required
      else case missing_at items k of
             Some ix \<Rightarrow> Inl (MatchSelector (name @ '' on '' @ cls @ '': '' @ qlit k
               @ '' is present in some items but missing at index '' @ nat_str ix @ '' '' @ dash
               @ '' bulk identity must be uniform across the batch''))
           | None \<Rightarrow> uniform_identity name cls items ks (required @ [k]))"

definition resolveBulkMatchColumns :: "entity_meta \<Rightarrow> host_record list \<Rightarrow> string list \<Rightarrow> string \<Rightarrow> (dal_error, column_meta list) res" where
  "resolveBulkMatchColumns meta items matchBy name =
     res_bind (resolveSelectorProps meta matchBy) (\<lambda>selected.
     res_bind (check_required name (em_entityClassName meta) items selected) (\<lambda>_.
     res_bind (uniform_identity name (em_entityClassName meta) items (implicit_identity meta) selected) (\<lambda>required.
       if required = [] then
         Inl (MatchSelector (name @ '' on '' @ em_entityClassName meta @ '': items carry no identity field '' @ dash
           @ '' provide id, uuid, or a complete matchBy @Unique selector''))
       else Inr (map (\<lambda>k. the (col_by_prop meta k)) required))))"

definition bulkJoinPredicate :: "string \<Rightarrow> string \<Rightarrow> column_meta list \<Rightarrow> (dal_error, string) res" where
  "bulkJoinPredicate left right matchCols =
     res_bind (map_res (\<lambda>c. res_bind (quoted (cm_sqlName c)) (\<lambda>q. Inr (left @ ''.'' @ q @ '' = '' @ right @ ''.'' @ q))) matchCols)
       (\<lambda>ts. Inr (join '' AND '' ts))"

text \<open>The versions of the items, with the column of the version.\<close>

definition extractExpectedVersions :: "host \<Rightarrow> entity_meta \<Rightarrow> host_record list \<Rightarrow> string
    \<Rightarrow> (dal_error, (column_meta \<times> host_value list) option) res" where
  "extractExpectedVersions H meta rows name =
     (case findVersionColumn meta of
        None \<Rightarrow> Inr None
      | Some vc \<Rightarrow>
          (let missing = filter (\<lambda>r. host_nullish (prop_of r (cm_propertyKey vc))) rows
           in if missing \<noteq> [] then
                Inl (MissingVersion (name @ '': '' @ nat_str (length missing) @ '' of '' @ nat_str (length rows) @ '' rows are missing ''
                  @ qlit ''version'' @ '' '' @ dash @ '' bulk '' @ name @ '' on auditable '' @ em_entityClassName meta
                  @ '' is all-or-nothing and requires the caller-observed version per row.''))
              else Inr (Some (vc, map (\<lambda>r. host_number H (prop_of r (cm_propertyKey vc))) rows))))"

definition version_at :: "host_value list \<Rightarrow> int \<Rightarrow> host_value" where
  "version_at vs i = (if 0 \<le> i \<and> i < int (length vs) then vs ! nat i else HUndefined)"

text \<open>The version of item \<open>i\<close>, behind the other values of the tuple.\<close>

definition version_value :: "(column_meta \<times> host_value list) option \<Rightarrow> int \<Rightarrow> host_value list" where
  "version_value guard i = (case guard of Some (_, vs) \<Rightarrow> [version_at vs i] | None \<Rightarrow> [])"

section \<open>Diagnostic statements\<close>

definition detail_head :: "entity_meta \<Rightarrow> string" where
  "detail_head meta =
     ''    '' @ qlit ''entity'' @ '', '' @ escapeLiteral (em_entityClassName meta) @ '','' @ lf
     @ ''    '' @ qlit ''table'' @ '', '' @ escapeLiteral (em_tableSchema meta @ ''.'' @ em_tableName meta) @ '','' @ lf"

definition det_rows :: string where
  "det_rows = ''  SELECT coalesce(jsonb_agg(to_jsonb(x)), '' @ qlit ''[]'' @ ''::jsonb) AS rows'' @ lf"

definition bulkAmbiguousSql :: "entity_meta \<Rightarrow> string \<Rightarrow> column_meta list \<Rightarrow> string \<Rightarrow> string \<Rightarrow> (dal_error, string) res" where
  "bulkAmbiguousSql meta table matchCols tmpName name =
     res_bind (bulkJoinPredicate ''t'' ''tmp'' matchCols) (\<lambda>j.
     res_bind (quoted tmpName) (\<lambda>tmp.
       Inr (''WITH dup AS ('' @ lf @ ''  SELECT tmp.row_ix, count(*) AS hits'' @ lf
            @ ''  FROM '' @ tmp @ '' tmp'' @ lf @ ''  JOIN '' @ table @ '' t ON '' @ j @ lf
            @ ''  GROUP BY tmp.row_ix'' @ lf @ ''  HAVING count(*) > 1'' @ lf @ ''),'' @ lf
            @ ''det AS ('' @ lf @ det_rows
            @ ''  FROM (SELECT row_ix, hits FROM dup ORDER BY row_ix LIMIT 10) x'' @ lf @ '')'' @ lf
            @ ''SELECT public.pg_raise('' @ lf @ ''  '' @ qlit ''ERR10'' @ '','' @ lf
            @ ''  '' @ escapeLiteral (name @ '': ambiguous identity '' @ dash @ '' item(s) matched multiple rows on '' @ em_entityClassName meta) @ '','' @ lf
            @ ''  jsonb_build_object('' @ lf @ detail_head meta
            @ ''    '' @ qlit ''rows'' @ '', det.rows'' @ lf @ ''  )::text'' @ lf @ '')'' @ lf
            @ ''FROM det'' @ lf @ ''WHERE EXISTS (SELECT 1 FROM dup)'')))"

text \<open>The probes of the single identity columns, none for an identity of one column.\<close>

definition probe_cols :: "column_meta list \<Rightarrow> column_meta list" where
  "probe_cols matchCols = (if length matchCols > 1 then matchCols else [])"

definition probe_selects :: "string \<Rightarrow> column_meta list \<Rightarrow> (dal_error, string list) res" where
  "probe_selects table cs =
     map_res (\<lambda>(i, c). res_bind (quoted (cm_sqlName c)) (\<lambda>q.
         let p = ''p'' @ nat_str i
         in Inr (''EXISTS(SELECT 1 FROM '' @ table @ '' '' @ p @ '' WHERE '' @ p @ ''.'' @ q @ '' = tmp.'' @ q @ '') AS s_seen_'' @ nat_str i)))
       (enumerate 0 cs)"

definition any_seen :: "column_meta list \<Rightarrow> string" where
  "any_seen cs = join '' OR '' (map (\<lambda>i. ''s_seen_'' @ nat_str i) [0..<length cs])"

definition per_row_code :: "column_meta list \<Rightarrow> string" where
  "per_row_code cs =
     (if cs \<noteq> [] then
        ''CASE WHEN s_vanished AND ('' @ any_seen cs @ '') THEN '' @ qlit ''ERR10'' @ '' WHEN s_vanished THEN '' @ qlit ''ERR03''
        @ '' ELSE '' @ qlit ''ERR01'' @ '' END''
      else ''CASE WHEN s_vanished THEN '' @ qlit ''ERR03'' @ '' ELSE '' @ qlit ''ERR01'' @ '' END'')"

definition batch_code :: "column_meta list \<Rightarrow> string" where
  "batch_code cs =
     (if cs \<noteq> [] then
        ''CASE WHEN bool_or(s_vanished AND ('' @ any_seen cs @ '')) THEN '' @ qlit ''ERR10'' @ '' WHEN bool_and(s_vanished) THEN ''
        @ qlit ''ERR03'' @ '' ELSE '' @ qlit ''ERR01'' @ '' END''
      else ''CASE WHEN bool_and(s_vanished) THEN '' @ qlit ''ERR03'' @ '' ELSE '' @ qlit ''ERR01'' @ '' END'')"

definition input_cols :: "column_meta list \<Rightarrow> (dal_error, string) res" where
  "input_cols cs =
     res_bind (map_res (\<lambda>c. res_bind (quoted (cm_sqlName c)) (\<lambda>q. Inr (qlit (cm_sqlName c) @ '', tmp.'' @ q))) cs)
       (\<lambda>ts. Inr (join '', '' ts))"

definition stale_key :: "entity_meta \<Rightarrow> column_meta list \<Rightarrow> column_meta" where
  "stale_key meta matchCols = (case findPkColumn meta of Some pk \<Rightarrow> pk | None \<Rightarrow> hd matchCols)"

definition stale_text :: "entity_meta \<Rightarrow> string \<Rightarrow> column_meta list \<Rightarrow> string \<Rightarrow> string \<Rightarrow> string \<Rightarrow> string \<Rightarrow> string \<Rightarrow> string \<Rightarrow> string list \<Rightarrow> string" where
  "stale_text meta table cs name j v pk inputs tmp probes =
     ''WITH st AS ('' @ lf
     @ ''  SELECT tmp.row_ix AS s_ix, jsonb_build_object('' @ inputs @ '') AS s_match,'' @ lf
     @ ''         t.'' @ pk @ '' AS s_pk,'' @ lf
     @ ''         t.'' @ v @ '' AS s_actual, tmp.expected_version AS s_expected,'' @ lf
     @ ''         (t.'' @ pk @ '' IS NULL) AS s_vanished''
     @ (if probes = [] then [] else '','' @ lf @ ''         '' @ join ('','' @ lf @ ''         '') probes) @ lf
     @ ''  FROM '' @ tmp @ '' tmp'' @ lf @ ''  LEFT JOIN '' @ table @ '' t ON '' @ j @ lf
     @ ''  WHERE t.'' @ pk @ '' IS NULL OR t.'' @ v @ '' IS DISTINCT FROM tmp.expected_version'' @ lf @ ''),'' @ lf
     @ ''agg AS (SELECT count(*) AS n, '' @ batch_code cs @ '' AS code FROM st),'' @ lf
     @ ''det AS ('' @ lf @ det_rows @ ''  FROM ('' @ lf
     @ ''    SELECT s_ix AS row_ix, s_pk AS pk, s_match AS match,'' @ lf
     @ ''           s_expected AS expected_version, s_actual AS actual_version,'' @ lf
     @ ''           s_vanished AS vanished,'' @ lf
     @ ''           '' @ per_row_code cs @ '' AS code'' @ lf
     @ ''    FROM st ORDER BY s_ix LIMIT 10'' @ lf @ ''  ) x'' @ lf @ '')'' @ lf
     @ ''SELECT public.pg_raise('' @ lf @ ''  agg.code,'' @ lf
     @ ''  '' @ escapeLiteral (name @ '': stale or missing rows on '' @ em_entityClassName meta) @ '','' @ lf
     @ ''  jsonb_build_object('' @ lf @ detail_head meta
     @ ''    '' @ qlit ''stale'' @ '', agg.n,'' @ lf @ ''    '' @ qlit ''rows'' @ '', det.rows'' @ lf
     @ ''  )::text'' @ lf @ '')'' @ lf @ ''FROM agg, det'' @ lf @ ''WHERE agg.n > 0''"

definition bulkStaleDiagnoseSql :: "entity_meta \<Rightarrow> string \<Rightarrow> column_meta list \<Rightarrow> string \<Rightarrow> column_meta \<Rightarrow> string \<Rightarrow> (dal_error, string) res" where
  "bulkStaleDiagnoseSql meta table matchCols tmpName versionCol name =
     res_bind (bulkJoinPredicate ''t'' ''tmp'' matchCols) (\<lambda>j.
     res_bind (quoted (cm_sqlName versionCol)) (\<lambda>v.
     res_bind (quoted (cm_sqlName (stale_key meta matchCols))) (\<lambda>pk.
     res_bind (probe_selects table (probe_cols matchCols)) (\<lambda>probes.
     res_bind (input_cols matchCols) (\<lambda>inputs.
     res_bind (quoted tmpName) (\<lambda>tmp.
       Inr (stale_text meta table (probe_cols matchCols) name j v pk inputs tmp probes)))))))"

end
