(* ===== verification/RepositoryMany.thy ===== *)
theory RepositoryMany
  imports RepositoryBulk
begin

text \<open>
  The methods \<open>addMany\<close>, \<open>deleteMany\<close>, \<open>hardDeleteMany\<close>, \<open>restoreMany\<close> and \<open>updateMany\<close> of
  \<open>src/repository/repository.ts\<close>: each streams its items into a temporary table, lets diagnostic statements
  abort the transaction, sends one write, writes the audit rows of that write, and commits.
\<close>

section \<open>Steps\<close>

definition env_of_repo :: "'w repository \<Rightarrow> entity_env" where
  "env_of_repo S = rp_env (ry_repo S)"

definition host_of_repo :: "'w repository \<Rightarrow> host" where
  "host_of_repo S = rp_host (ry_repo S)"

definition tell :: "'w repository \<Rightarrow> nat \<Rightarrow> string \<Rightarrow> host_value list \<Rightarrow> ('w gateway, query_result) op" where
  "tell S c sql vs = client_query (ry_driver S) c sql vs"

text \<open>\<open>CREATE TEMP TABLE \<dots> AS SELECT \<dots> WHERE false\<close>.\<close>

definition create_tmp :: "'w repository \<Rightarrow> nat \<Rightarrow> string \<Rightarrow> string \<Rightarrow> string \<Rightarrow> ('w gateway, query_result) op" where
  "create_tmp S c tmpName columnsSql table =
     op_bind (op_lift (quoted tmpName)) (\<lambda>tmp.
       tell S c (''CREATE TEMP TABLE '' @ tmp @ '' ON COMMIT DROP AS SELECT '' @ columnsSql @ '' FROM '' @ table @ '' WHERE false'') [])"

definition tmp_columns :: "string list \<Rightarrow> bool \<Rightarrow> string" where
  "tmp_columns qs guard =
     join '', '' (''NULL::bigint AS row_ix'' # qs @ (if guard then [''NULL::integer AS expected_version''] else []))"

text \<open>One batch of match keys: position, identity values, version.\<close>

definition key_tuple :: "'w repository \<Rightarrow> column_meta list \<Rightarrow> (column_meta \<times> host_value list) option \<Rightarrow> int \<Rightarrow> host_record \<Rightarrow> host_value list" where
  "key_tuple S matchCols guard i r =
     HNum (int_str i) # map (\<lambda>c. jsValueToPgParam (host_of_repo S) c (prop_of r (cm_propertyKey c))) matchCols @ version_value guard i"

definition indexed :: "int \<Rightarrow> 'a list \<Rightarrow> (int \<times> 'a) list" where
  "indexed i xs = map (\<lambda>(k, x). (i + int k, x)) (enumerate 0 xs)"

definition key_batch :: "'w repository \<Rightarrow> nat \<Rightarrow> int option \<Rightarrow> string \<Rightarrow> string \<Rightarrow> column_meta list
    \<Rightarrow> (column_meta \<times> host_value list) option \<Rightarrow> int \<Rightarrow> host_record list \<Rightarrow> ('w gateway, unit) op" where
  "key_batch S c deadline name tmpName matchCols guard i batch =
     op_bind (op_lift (quoted tmpName)) (\<lambda>tmp.
     op_bind (op_lift (quoted_list (map cm_sqlName matchCols))) (\<lambda>keysSql.
     op_bind (insert_tuples S c tmp (''row_ix, '' @ keysSql @ (if guard \<noteq> None then '', expected_version'' else []))
         (map (\<lambda>(j, r). key_tuple S matchCols guard j r) (indexed i batch))) (\<lambda>_.
       assertBulkAlive S deadline name)))"

definition key_batch_size :: "column_meta list \<Rightarrow> (column_meta \<times> host_value list) option \<Rightarrow> nat" where
  "key_batch_size matchCols guard = autoBatchSize (length matchCols + 1 + (if guard \<noteq> None then 1 else 0))"

text \<open>The assignments of \<open>SET\<close>; a version is incremented on the target table.\<close>

fun bulk_clauses :: "string \<Rightarrow> set_item list \<Rightarrow> nat \<Rightarrow> string list" where
  "bulk_clauses table [] n = []"
| "bulk_clauses table ((_, q, Bound v) # xs) n = (q @ '' = '' @ dollar (Suc n)) # bulk_clauses table xs (Suc n)"
| "bulk_clauses table ((_, q, Increment) # xs) n = (q @ '' = '' @ table @ ''.'' @ q @ '' + 1'') # bulk_clauses table xs n"
| "bulk_clauses table ((_, q, Cleared) # xs) n = (q @ '' = NULL'') # bulk_clauses table xs n"

definition audit_enabled :: "entity_meta \<Rightarrow> write_options \<Rightarrow> bool" where
  "audit_enabled meta opts \<longleftrightarrow> stamping meta opts \<and> wo_audit opts"

text \<open>The rows before the write, when they are audited.\<close>

definition snapshot_old :: "'w repository \<Rightarrow> nat \<Rightarrow> entity_meta \<Rightarrow> string \<Rightarrow> string \<Rightarrow> column_meta list \<Rightarrow> bool \<Rightarrow> ('w gateway, string option) op" where
  "snapshot_old S c meta table tmpName matchCols wanted =
     (if \<not> wanted then op_ret None
      else op_bind (tmp_table S ''tmp_old_'' meta) (\<lambda>old.
           op_bind (op_lift (quoted old)) (\<lambda>oldQ.
           op_bind (op_lift (quoted tmpName)) (\<lambda>tmp.
           op_bind (op_lift (bulkJoinPredicate ''t'' ''tmp'' matchCols)) (\<lambda>j.
           op_bind (tell S c (''CREATE TEMP TABLE '' @ oldQ @ '' ON COMMIT DROP AS SELECT t.* FROM '' @ table @ '' t INNER JOIN ''
               @ tmp @ '' tmp ON '' @ j) []) (\<lambda>_. op_ret (Some old)))))))"

text \<open>The ambiguity guard, then the version guard.\<close>

definition bulk_guards :: "'w repository \<Rightarrow> nat \<Rightarrow> int option \<Rightarrow> string \<Rightarrow> entity_meta \<Rightarrow> string \<Rightarrow> column_meta list \<Rightarrow> string
    \<Rightarrow> (column_meta \<times> host_value list) option \<Rightarrow> ('w gateway, unit) op" where
  "bulk_guards S c deadline name meta table matchCols tmpName guard =
     op_bind (op_lift (bulkAmbiguousSql meta table matchCols tmpName name)) (\<lambda>sql.
     op_bind (tell S c sql []) (\<lambda>_.
       case guard of
         None \<Rightarrow> op_ret ()
       | Some (vc, _) \<Rightarrow>
           op_bind (op_lift (bulkStaleDiagnoseSql meta table matchCols tmpName vc name)) (\<lambda>sql.
           op_bind (tell S c sql []) (\<lambda>_. assertBulkAlive S deadline name))))"

text \<open>\<open>WHERE\<close> of the write: the identity, and the expected version.\<close>

definition bulk_where :: "string \<Rightarrow> column_meta list \<Rightarrow> (column_meta \<times> host_value list) option \<Rightarrow> (dal_error, string) res" where
  "bulk_where table matchCols guard =
     res_bind (bulkJoinPredicate table ''tmp'' matchCols) (\<lambda>j.
       case guard of
         None \<Rightarrow> Inr (''WHERE '' @ j)
       | Some (vc, _) \<Rightarrow> res_bind (quoted (cm_sqlName vc)) (\<lambda>v.
           Inr (''WHERE '' @ j @ '' AND '' @ table @ ''.'' @ v @ '' = tmp.expected_version'')))"

definition race_guard :: "string \<Rightarrow> entity_meta \<Rightarrow> (column_meta \<times> host_value list) option \<Rightarrow> nat \<Rightarrow> nat \<Rightarrow> (dal_error, unit) res" where
  "race_guard name meta guard wanted rowCount =
     (if guard \<noteq> None \<and> rowCount < wanted then
        Inl (OptimisticLock (name @ '': '' @ nat_str (wanted - rowCount)
          @ '' row(s) changed concurrently during the bulk operation on '' @ em_entityClassName meta @ '' '' @ dash @ '' rolled back.''))
      else Inr ())"

section \<open>Audit rows\<close>

definition sql_name_of :: "column_meta option \<Rightarrow> (dal_error, string) res" where
  "sql_name_of c =
     (case c of
        None \<Rightarrow> Inl (PlainError (''Cannot read properties of undefined (reading '' @ qlit ''sqlName'' @ '')''))
      | Some x \<Rightarrow> quoted (cm_sqlName x))"

definition changed_delta :: "column_meta list \<Rightarrow> (dal_error, string) res" where
  "changed_delta cs =
     res_bind (map_res (\<lambda>c. res_bind (quoted (cm_sqlName c)) (\<lambda>q.
         Inr (qlit (cm_sqlName c) @ '', CASE WHEN o.'' @ q @ '' IS DISTINCT FROM u.'' @ q @ '' THEN jsonb_build_object(''
           @ qlit ''old'' @ '', o.'' @ q @ '', '' @ qlit ''new'' @ '', u.'' @ q @ '') END''))) cs)
       (\<lambda>ts. Inr (join ('','' @ lf @ ''          '') ts))"

definition audit_head :: "string \<Rightarrow> string" where
  "audit_head auditTable =
     ''INSERT INTO '' @ auditTable @ '' (entity_id, entity_uuid, action, changed_at, changed_by, version, delta)'' @ lf"

definition bulk_audit_table :: "entity_meta \<Rightarrow> (dal_error, string) res" where
  "bulk_audit_table meta =
     res_bind (quoted (em_tableSchema meta)) (\<lambda>s. res_bind (quoted (em_tableName meta @ ''_audit'')) (\<lambda>t. Inr (s @ ''.'' @ t)))"

definition change_audit_sql :: "entity_meta \<Rightarrow> string \<Rightarrow> column_meta list \<Rightarrow> column_meta list \<Rightarrow> string \<Rightarrow> string \<Rightarrow> (dal_error, string) res" where
  "change_audit_sql meta table deltaCols matchCols old action =
     res_bind (bulk_audit_table meta) (\<lambda>auditTable.
     res_bind (changed_delta deltaCols) (\<lambda>d.
     res_bind (sql_name_of (findPkColumn meta)) (\<lambda>pk.
     res_bind (sql_name_of (findVersionColumn meta)) (\<lambda>v.
     res_bind (quoted old) (\<lambda>oldQ.
     res_bind (bulkJoinPredicate ''u'' ''o'' matchCols) (\<lambda>j.
       Inr (audit_head auditTable
            @ ''          SELECT u.'' @ pk @ '', u.uuid, '' @ qlit action @ '', $1, $2, u.'' @ v @ '','' @ lf
            @ ''            jsonb_strip_nulls(jsonb_build_object('' @ lf
            @ ''              '' @ d @ lf @ ''            ))'' @ lf
            @ ''          FROM '' @ table @ '' u'' @ lf
            @ ''          INNER JOIN '' @ oldQ @ '' o ON '' @ j)))))))"

definition hard_delta :: "column_meta list \<Rightarrow> (dal_error, string) res" where
  "hard_delta cs =
     res_bind (map_res (\<lambda>c. res_bind (quoted (cm_sqlName c)) (\<lambda>q.
         Inr (qlit (cm_sqlName c) @ '', jsonb_build_object('' @ qlit ''old'' @ '', o.'' @ q @ '', '' @ qlit ''new'' @ '', null)''))) cs)
       (\<lambda>ts. Inr (join ('','' @ lf @ ''          '') ts))"

definition hard_audit_sql :: "entity_meta \<Rightarrow> string \<Rightarrow> (dal_error, string) res" where
  "hard_audit_sql meta old =
     res_bind (bulk_audit_table meta) (\<lambda>auditTable.
     res_bind (hard_delta (cols meta)) (\<lambda>d.
     res_bind (sql_name_of (findPkColumn meta)) (\<lambda>pk.
     res_bind (sql_name_of (findVersionColumn meta)) (\<lambda>v.
     res_bind (quoted old) (\<lambda>oldQ.
       Inr (audit_head auditTable
            @ ''          SELECT o.'' @ pk @ '', o.uuid, '' @ qlit ''HARD_DELETE'' @ '', $1, $2, o.'' @ v @ '','' @ lf
            @ ''            jsonb_build_object('' @ lf @ ''              '' @ d @ lf @ ''            )'' @ lf
            @ ''          FROM '' @ oldQ @ '' o''))))))"

definition audit_rows :: "'w repository \<Rightarrow> nat \<Rightarrow> string option \<Rightarrow> nat \<Rightarrow> (string \<Rightarrow> (dal_error, string) res) \<Rightarrow> int \<Rightarrow> write_options \<Rightarrow> ('w gateway, unit) op" where
  "audit_rows S c old rowCount sql now opts =
     (case old of
        Some oldName \<Rightarrow>
          if rowCount > 0 then
            op_bind (op_lift (sql oldName)) (\<lambda>q. op_bind (tell S c q [HDate now, actor_value opts]) (\<lambda>_. op_ret ()))
          else op_ret ()
      | None \<Rightarrow> op_ret ())"

definition commit_result :: "'w repository \<Rightarrow> nat \<Rightarrow> nat \<Rightarrow> nat \<Rightarrow> ('w gateway, bulk_result) op" where
  "commit_result S c received affected =
     op_bind (tell S c ''COMMIT'' []) (\<lambda>_. op_ret \<lparr>br_received = received, br_affected = affected\<rparr>)"

section \<open>deleteMany, restoreMany, hardDeleteMany\<close>

definition prepare_keys :: "'w repository \<Rightarrow> nat \<Rightarrow> host_record list \<Rightarrow> write_options \<Rightarrow> string \<Rightarrow> (entity_meta \<Rightarrow> (dal_error, unit) res)
    \<Rightarrow> (entity_meta \<Rightarrow> bool) \<Rightarrow> (dal_error, entity_meta \<times> string \<times> column_meta list \<times> (column_meta \<times> host_value list) option) res" where
  "prepare_keys S entity items opts name check versioned =
     res_bind (plain (ee_meta (env_of_repo S) entity)) (\<lambda>meta.
     res_bind (plain (ee_qualified (env_of_repo S) entity)) (\<lambda>table.
     res_bind (resolveBulkMatchColumns meta items (wo_matchBy opts) name) (\<lambda>matchCols.
     res_bind (check meta) (\<lambda>_.
     res_bind (if versioned meta then extractExpectedVersions (host_of_repo S) meta items name else Inr None) (\<lambda>guard.
       Inr (meta, table, matchCols, guard))))))"

definition stage_keys :: "'w repository \<Rightarrow> nat \<Rightarrow> int option \<Rightarrow> string \<Rightarrow> string \<Rightarrow> entity_meta \<Rightarrow> string \<Rightarrow> column_meta list
    \<Rightarrow> (column_meta \<times> host_value list) option \<Rightarrow> host_record list \<Rightarrow> ('w gateway, string) run" where
  "stage_keys S c deadline name stem meta table matchCols guard items =
     run_bind (run_op (tmp_table S stem meta)) (\<lambda>tmpName.
     run_bind (run_op (op_bind (op_lift (map_res quoted (map cm_sqlName matchCols))) (\<lambda>qs.
         create_tmp S c tmpName (tmp_columns qs (guard \<noteq> None)) table))) (\<lambda>_.
     run_bind (batches (int (key_batch_size matchCols guard)) (key_batch S c deadline name tmpName matchCols guard) items 0) (\<lambda>_.
       run_ret tmpName)))"

text \<open>The guards, the write, its race guard, its audit rows and \<open>COMMIT\<close>.\<close>

definition guarded_bulk_write :: "'w repository \<Rightarrow> nat \<Rightarrow> int option \<Rightarrow> string \<Rightarrow> entity_meta \<Rightarrow> string \<Rightarrow> column_meta list
    \<Rightarrow> (column_meta \<times> host_value list) option \<Rightarrow> string \<Rightarrow> (string \<Rightarrow> string) \<Rightarrow> host_value list \<Rightarrow> nat
    \<Rightarrow> (nat \<Rightarrow> ('w gateway, unit) op) \<Rightarrow> ('w gateway, bulk_result) op" where
  "guarded_bulk_write S c deadline name meta table matchCols guard tmpName head vals wanted audit =
     op_bind (bulk_guards S c deadline name meta table matchCols tmpName guard) (\<lambda>_.
     op_bind (op_lift (quoted tmpName)) (\<lambda>tmp.
     op_bind (op_lift (bulk_where table matchCols guard)) (\<lambda>w.
     op_bind (tell S c (head tmp @ w) vals) (\<lambda>r.
     op_bind (op_lift (race_guard name meta guard wanted (qr_rowCount r))) (\<lambda>_.
     op_bind (audit (qr_rowCount r)) (\<lambda>_.
       commit_result S c wanted (qr_rowCount r)))))))"

definition soft_delta_cols :: "entity_meta \<Rightarrow> column_meta list" where
  "soft_delta_cols meta =
     filter (\<lambda>c. cm_auditableType c \<noteq> Some CREATED_AT \<and> cm_auditableType c \<noteq> Some CREATED_BY) (cols meta)"

definition update_head :: "string \<Rightarrow> string list \<Rightarrow> string \<Rightarrow> string" where
  "update_head table clauses tmp = ''UPDATE '' @ table @ '' SET '' @ join '', '' clauses @ '' FROM '' @ tmp @ '' tmp ''"

definition soft_many :: "'w repository \<Rightarrow> nat \<Rightarrow> host_record list \<Rightarrow> bulk_options \<Rightarrow> string \<Rightarrow> string \<Rightarrow> string \<Rightarrow> string
    \<Rightarrow> (entity_meta \<Rightarrow> write_options \<Rightarrow> int \<Rightarrow> (column_meta option \<times> set_action) list) \<Rightarrow> ('w gateway, bulk_result) run" where
  "soft_many S entity items opts name stem what action stamps =
     (if items = [] then run_ret \<lparr>br_received = 0, br_affected = 0\<rparr>
      else
        run_bind (run_op (op_lift (prepare_keys S entity items (bo_write opts) name (require_deletable what) (\<lambda>_. True)))) (\<lambda>(meta, table, matchCols, guard).
        run_bind (run_op (clock (ry_driver S))) (\<lambda>now.
        bulk_transaction S (bo_timeoutMs opts) (\<lambda>c deadline.
          run_bind (stage_keys S c deadline name stem meta table matchCols guard items) (\<lambda>tmpName.
          run_bind (run_op (op_lift (col_items (stamps meta (bo_write opts) now)))) (\<lambda>sets.
          run_bind (run_op (snapshot_old S c meta table tmpName matchCols (audit_enabled meta (bo_write opts)))) (\<lambda>old.
          run_op (guarded_bulk_write S c deadline name meta table matchCols guard tmpName
            (update_head table (bulk_clauses table sets 0)) (set_values sets) (length items)
            (\<lambda>n. audit_rows S c old n
               (\<lambda>oldName. change_audit_sql meta table (soft_delta_cols meta) matchCols oldName action) now (bo_write opts))))))))))"

definition deleteMany :: "'w repository \<Rightarrow> nat \<Rightarrow> host_record list \<Rightarrow> bulk_options \<Rightarrow> ('w gateway, bulk_result) run" where
  "deleteMany S entity items opts =
     soft_many S entity items opts ''deleteMany'' ''tmp_delete_'' ''soft delete'' ''SOFT_DELETE'' delete_stamps"

definition restoreMany :: "'w repository \<Rightarrow> nat \<Rightarrow> host_record list \<Rightarrow> bulk_options \<Rightarrow> ('w gateway, bulk_result) run" where
  "restoreMany S entity items opts =
     soft_many S entity items opts ''restoreMany'' ''tmp_restore_'' ''restore'' ''RESTORE'' restore_stamps"

definition hardDeleteMany :: "'w repository \<Rightarrow> nat \<Rightarrow> host_record list \<Rightarrow> bulk_options \<Rightarrow> ('w gateway, bulk_result) run" where
  "hardDeleteMany S entity items opts =
     (if items = [] then run_ret \<lparr>br_received = 0, br_affected = 0\<rparr>
      else
        run_bind (run_op (op_lift (prepare_keys S entity items (bo_write opts) ''hardDeleteMany'' (\<lambda>_. Inr ()) isAuditableEntity)))
          (\<lambda>(meta, table, matchCols, guard).
        bulk_transaction S (bo_timeoutMs opts) (\<lambda>c deadline.
          run_bind (stage_keys S c deadline ''hardDeleteMany'' ''tmp_hdel_'' meta table matchCols guard items) (\<lambda>tmpName.
          run_bind (run_op (snapshot_old S c meta table tmpName matchCols (audit_enabled meta (bo_write opts)))) (\<lambda>old.
          run_op (guarded_bulk_write S c deadline ''hardDeleteMany'' meta table matchCols guard tmpName
            (\<lambda>tmp. ''DELETE FROM '' @ table @ '' USING '' @ tmp @ '' tmp '') [] (length items)
            (\<lambda>n. op_bind (clock (ry_driver S)) (\<lambda>now. audit_rows S c old n (hard_audit_sql meta) now (bo_write opts)))))))))"

end
