(* ===== verification/RepositoryManyWrites.thy ===== *)
theory RepositoryManyWrites
  imports RepositoryMany
begin

text \<open>
  The methods \<open>addMany\<close> and \<open>updateMany\<close> of \<open>src/repository/repository.ts\<close>, whose columns come from the first item.
\<close>

section \<open>Unique conflicts of addMany\<close>

definition bulk_ref :: "string list \<Rightarrow> column_meta \<Rightarrow> (dal_error, string option) res" where
  "bulk_ref payloadProps c =
     (if cm_propertyKey c \<in> set payloadProps then res_bind (quoted (cm_sqlName c)) (\<lambda>q. Inr (Some (''tmp.'' @ q)))
      else Inr (case constantDefaultSql (cm_defaultSql c) of
                  Some d \<Rightarrow> Some d
                | None \<Rightarrow> if truthy (cm_defaultSql c) then None else Some ''NULL''))"

text \<open>The comparisons of one group; \<open>None\<close> when one attempted value is unknown or \<open>NULL\<close>.\<close>

fun bulk_refs :: "string list \<Rightarrow> column_meta list \<Rightarrow> (dal_error, string list option) res" where
  "bulk_refs payloadProps [] = Inr (Some [])"
| "bulk_refs payloadProps (c # cs) =
     res_bind (bulk_ref payloadProps c) (\<lambda>r.
       case r of
         None \<Rightarrow> Inr None
       | Some ref \<Rightarrow>
           if ref = [] \<or> ref = ''NULL'' then Inr None
           else res_bind (ref_predicate (cm_sqlName c) ref) (\<lambda>p.
                res_bind (bulk_refs payloadProps cs) (\<lambda>rest. Inr (map_option (\<lambda>ps. p # ps) rest))))"

definition bulk_wanted :: "entity_env \<Rightarrow> nat \<Rightarrow> entity_meta \<Rightarrow> string list \<Rightarrow> (dal_error, string list) res" where
  "bulk_wanted env entity meta conflictKeys =
     res_bind (map_res (\<lambda>k. res_bind (plain (ee_column env entity k)) (\<lambda>s.
         if map_of (em_columns meta) s = None then Inl (UnknownColumn (''addMany: conflictKeys '' @ dash @ '' unknown column/property '' @ k))
         else Inr s)) conflictKeys)
       (\<lambda>ss. Inr (remdups ss))"

definition bulk_groups :: "entity_env \<Rightarrow> nat \<Rightarrow> entity_meta \<Rightarrow> string list option \<Rightarrow> (dal_error, conflict_group list) res" where
  "bulk_groups env entity meta conflictKeys =
     (case conflictKeys of
        None \<Rightarrow> Inr (uniqueConflictGroups meta)
      | Some keys \<Rightarrow>
          res_bind (bulk_wanted env entity meta keys) (\<lambda>wanted.
            let gs = filter (\<lambda>(_, cs). length cs = length wanted \<and> list_all (\<lambda>c. cm_sqlName c \<in> set wanted) cs) (uniqueConflictGroups meta)
            in if gs = [] then
                 Inl (Validation (''addMany: conflictKeys ['' @ join '', '' keys @ ''] match no unique constraint on '' @ em_entityClassName meta))
               else Inr gs))"

definition key_refs :: "column_meta list \<Rightarrow> (dal_error, (string \<times> string) list) res" where
  "key_refs cs = map_res (\<lambda>c. res_bind (quoted (cm_sqlName c)) (\<lambda>q. Inr (cm_sqlName c, ''tmp.'' @ q))) cs"

definition bulkConflictPredicates :: "entity_env \<Rightarrow> nat \<Rightarrow> entity_meta \<Rightarrow> string list \<Rightarrow> string list option \<Rightarrow> (dal_error, conflict_pred list) res" where
  "bulkConflictPredicates env entity meta payloadProps conflictKeys =
     res_bind (bulk_groups env entity meta conflictKeys) (\<lambda>groups.
     res_bind (map_res (\<lambda>(n, cs). res_bind (bulk_refs payloadProps cs) (\<lambda>r.
         case r of
           None \<Rightarrow> Inr None
         | Some ps \<Rightarrow> res_bind (key_refs cs) (\<lambda>ks. Inr (Some \<lparr>cp_name = n, cp_sql = join '' AND '' ps, cp_keyRefs = ks\<rparr>)))) groups)
       (\<lambda>ps. Inr (List.map_filter id ps)))"

definition bulk_conflict_sql :: "entity_meta \<Rightarrow> string \<Rightarrow> string \<Rightarrow> string list \<Rightarrow> string \<Rightarrow> conflict_pred list \<Rightarrow> string" where
  "bulk_conflict_sql meta table tmp allKeys deletedSel ps =
     ''WITH conf AS ('' @ lf
     @ ''  SELECT '' @ uuid_sel meta @ '' AS c_uuid, '' @ (if ''uuid'' \<in> set allKeys then ''tmp.\"uuid\"'' else ''NULL'') @ '' AS c_input_uuid,'' @ lf
     @ ''         '' @ deletedSel @ '' AS c_deleted_at,'' @ lf
     @ ''         CASE '' @ constraint_case ps @ '' END AS c_constraint,'' @ lf
     @ ''         CASE '' @ keys_case ps @ '' END AS c_keys'' @ lf
     @ ''  FROM '' @ tmp @ '' tmp'' @ lf @ ''  JOIN '' @ table @ '' t ON '' @ where_or ps @ lf @ ''),'' @ lf
     @ ''agg AS (SELECT count(*) AS n, bool_and(c_deleted_at IS NOT NULL) AS all_del FROM conf),'' @ lf
     @ ''det AS ('' @ lf @ det_rows @ ''  FROM ('' @ lf
     @ ''    SELECT c_uuid AS uuid, c_input_uuid AS input_uuid,'' @ lf
     @ ''           CASE WHEN c_deleted_at IS NULL THEN '' @ qlit ''ERR04'' @ '' ELSE '' @ qlit ''ERR05'' @ '' END AS code,'' @ lf
     @ ''           (c_deleted_at IS NOT NULL) AS deleted, c_constraint AS \"constraint\",'' @ lf
     @ ''           c_keys AS keys'' @ lf
     @ ''    FROM conf LIMIT 10'' @ lf @ ''  ) x'' @ lf @ '')'' @ lf
     @ ''SELECT public.pg_raise('' @ lf
     @ ''  CASE WHEN agg.all_del THEN '' @ qlit ''ERR05'' @ '' ELSE '' @ qlit ''ERR04'' @ '' END,'' @ lf
     @ ''  '' @ escapeLiteral (''addMany: unique constraint violation on '' @ em_entityClassName meta) @ '','' @ lf
     @ ''  jsonb_build_object('' @ lf @ detail_head meta
     @ ''    '' @ qlit ''conflicts'' @ '', agg.n,'' @ lf @ ''    '' @ qlit ''rows'' @ '', det.rows'' @ lf
     @ ''  )::text'' @ lf @ '')'' @ lf @ ''FROM agg, det'' @ lf @ ''WHERE agg.n > 0''"

section \<open>addMany\<close>

definition known_columns :: "entity_env \<Rightarrow> nat \<Rightarrow> entity_meta \<Rightarrow> string \<Rightarrow> string list \<Rightarrow> (dal_error, unit) res" where
  "known_columns env entity meta name keys =
     res_bind (map_res (\<lambda>k. res_bind (plain (ee_column env entity k)) (\<lambda>s.
         if map_of (em_columns meta) s = None then Inl (UnknownColumn (name @ '': unknown column/property '' @ k)) else Inr ())) keys)
       (\<lambda>_. Inr ())"

definition audit_props :: "entity_meta \<Rightarrow> write_options \<Rightarrow> string list \<Rightarrow> string list" where
  "audit_props meta opts keys =
     (if stamping meta opts then
        map cm_propertyKey (filter (\<lambda>c. cm_auditableType c \<noteq> None \<and> cm_propertyKey c \<notin> set keys) (cols meta))
      else [])"

definition property_columns :: "entity_env \<Rightarrow> nat \<Rightarrow> string list \<Rightarrow> (dal_error, string list) res" where
  "property_columns env entity ks = map_res (\<lambda>k. res_bind (plain (ee_column env entity k)) quoted) ks"

text \<open>\<open>rec[k] ?? null\<close>, as a parameter of its column.\<close>

definition item_value :: "'w repository \<Rightarrow> nat \<Rightarrow> entity_meta \<Rightarrow> host_record \<Rightarrow> string \<Rightarrow> (dal_error, host_value) res" where
  "item_value S entity meta r k =
     res_bind (plain (ee_column (env_of_repo S) entity k)) (\<lambda>s.
       let v = coalesce_host (prop_of r k) HNull
       in Inr (case map_of (em_columns meta) s of Some c \<Rightarrow> jsValueToPgParam (host_of_repo S) c v | None \<Rightarrow> v))"

definition stamp_value :: "entity_meta \<Rightarrow> write_options \<Rightarrow> int \<Rightarrow> string \<Rightarrow> host_value list" where
  "stamp_value meta opts now k =
     (case List.find (\<lambda>c. cm_propertyKey c = k) (cols meta) of
        None \<Rightarrow> []
      | Some c \<Rightarrow>
          [case cm_auditableType c of
             Some CREATED_AT \<Rightarrow> HDate now | Some UPDATED_AT \<Rightarrow> HDate now
           | Some CREATED_BY \<Rightarrow> actor_value opts | Some UPDATED_BY \<Rightarrow> actor_value opts
           | Some VERSION \<Rightarrow> HNum ''1'' | None \<Rightarrow> HNull])"

definition add_tuple :: "'w repository \<Rightarrow> nat \<Rightarrow> entity_meta \<Rightarrow> write_options \<Rightarrow> int \<Rightarrow> string list \<Rightarrow> string list \<Rightarrow> host_record \<Rightarrow> (dal_error, host_value list) res" where
  "add_tuple S entity meta opts now keys auditCols r =
     res_bind (map_res (item_value S entity meta r) keys) (\<lambda>vs. Inr (vs @ concat (map (stamp_value meta opts now) auditCols)))"

definition add_batch :: "'w repository \<Rightarrow> nat \<Rightarrow> int option \<Rightarrow> nat \<Rightarrow> entity_meta \<Rightarrow> write_options \<Rightarrow> int \<Rightarrow> string \<Rightarrow> string
    \<Rightarrow> string list \<Rightarrow> string list \<Rightarrow> int \<Rightarrow> host_record list \<Rightarrow> ('w gateway, unit) op" where
  "add_batch S c deadline entity meta opts now tmpName colsSql keys auditCols i batch =
     op_bind (op_lift (map_res (add_tuple S entity meta opts now keys auditCols) batch)) (\<lambda>tuples.
     op_bind (op_lift (quoted tmpName)) (\<lambda>tmp.
     op_bind (insert_tuples S c tmp colsSql tuples) (\<lambda>_.
       assertBulkAlive S deadline ''addMany'')))"

definition add_conflicts :: "'w repository \<Rightarrow> nat \<Rightarrow> int option \<Rightarrow> nat \<Rightarrow> entity_meta \<Rightarrow> write_options \<Rightarrow> string \<Rightarrow> string \<Rightarrow> string list
    \<Rightarrow> ('w gateway, unit) op" where
  "add_conflicts S c deadline entity meta opts table tmpName allKeys =
     op_bind (op_lift (bulkConflictPredicates (env_of_repo S) entity meta allKeys (wo_conflictKeys opts))) (\<lambda>ps.
       if ps = [] then op_ret ()
       else op_bind (op_lift (deleted_sel meta)) (\<lambda>ds.
            op_bind (op_lift (quoted tmpName)) (\<lambda>tmp.
            op_bind (tell S c (bulk_conflict_sql meta table tmp allKeys ds ps) []) (\<lambda>_.
              assertBulkAlive S deadline ''addMany''))))"

definition add_prepare :: "'w repository \<Rightarrow> nat \<Rightarrow> host_record list \<Rightarrow> write_options
    \<Rightarrow> (dal_error, entity_meta \<times> string \<times> string list \<times> string list \<times> string) res" where
  "add_prepare S entity rows opts =
     res_bind (plain (ee_meta (env_of_repo S) entity)) (\<lambda>meta.
     res_bind (plain (qTable (env_of_repo S) entity (wo_tableName opts))) (\<lambda>table.
       let keys = insert_keys meta (hd rows)
       in if keys = [] then Inl (Validation ''addMany: no columns to insert (all undefined?)'')
          else res_bind (known_columns (env_of_repo S) entity meta ''addMany'' keys) (\<lambda>_.
               res_bind (property_columns (env_of_repo S) entity (keys @ audit_props meta opts keys)) (\<lambda>qs.
                 Inr (meta, table, keys, audit_props meta opts keys, join '', '' qs)))))"

definition batch_size :: "bulk_options \<Rightarrow> nat \<Rightarrow> int" where
  "batch_size opts n = (case bo_batchSize opts of Some b \<Rightarrow> b | None \<Rightarrow> int (autoBatchSize n))"

definition addMany :: "'w repository \<Rightarrow> nat \<Rightarrow> host_record list \<Rightarrow> bulk_options \<Rightarrow> ('w gateway, bulk_result) run" where
  "addMany S entity rows opts =
     (if rows = [] then run_ret \<lparr>br_received = 0, br_affected = 0\<rparr>
      else
        run_bind (run_op (op_lift (add_prepare S entity rows (bo_write opts)))) (\<lambda>(meta, table, keys, auditCols, colsSql).
        run_bind (run_op (clock (ry_driver S))) (\<lambda>now.
        bulk_transaction S (bo_timeoutMs opts) (\<lambda>c deadline.
          run_bind (run_op (tmp_table S ''tmp_add_'' meta)) (\<lambda>tmpName.
          run_bind (run_op (create_tmp S c tmpName colsSql table)) (\<lambda>_.
          run_bind (batches (batch_size opts (length (keys @ auditCols)))
              (add_batch S c deadline entity meta (bo_write opts) now tmpName colsSql keys auditCols) rows 0) (\<lambda>_.
          run_op
            (op_bind (add_conflicts S c deadline entity meta (bo_write opts) table tmpName (keys @ auditCols)) (\<lambda>_.
             op_bind (op_lift (quoted tmpName)) (\<lambda>tmp.
             op_bind (tell S c (''INSERT INTO '' @ table @ '' ('' @ colsSql @ '') SELECT '' @ colsSql @ '' FROM '' @ tmp) []) (\<lambda>r.
               commit_result S c (length rows) (qr_rowCount r))))))))))))"

section \<open>updateMany\<close>

definition update_keys :: "entity_meta \<Rightarrow> column_meta list \<Rightarrow> (column_meta \<times> host_value list) option \<Rightarrow> host_record \<Rightarrow> string list" where
  "update_keys meta matchCols guard first =
     filter (\<lambda>k. k \<notin> set (map cm_propertyKey matchCols)
         \<and> k \<noteq> (case guard of Some (vc, _) \<Rightarrow> cm_propertyKey vc | None \<Rightarrow> [CHR 0x00]) \<and> prop_of first k \<noteq> HUndefined)
       (map fst first)"

definition stamp_columns_of :: "entity_meta \<Rightarrow> write_options \<Rightarrow> column_meta list" where
  "stamp_columns_of meta opts =
     (if stamping meta opts then List.map_filter id [auditable_col UPDATED_AT meta, auditable_col UPDATED_BY meta] else [])"

definition audit_sets :: "entity_meta \<Rightarrow> write_options \<Rightarrow> string \<Rightarrow> (dal_error, string list) res" where
  "audit_sets meta opts table =
     res_bind (map_res (\<lambda>c. res_bind (quoted (cm_sqlName c)) (\<lambda>q. Inr (q @ '' = tmp.'' @ q))) (stamp_columns_of meta opts)) (\<lambda>xs.
     res_bind (map_res (\<lambda>c. res_bind (quoted (cm_sqlName c)) (\<lambda>q. Inr (q @ '' = '' @ table @ ''.'' @ q @ '' + 1'')))
         (if stamping meta opts then List.map_filter id [findVersionColumn meta] else [])) (\<lambda>vs.
       Inr (xs @ vs)))"

definition update_value :: "'w repository \<Rightarrow> nat \<Rightarrow> entity_meta \<Rightarrow> write_options \<Rightarrow> int \<Rightarrow> column_meta list \<Rightarrow> host_record \<Rightarrow> string \<Rightarrow> (dal_error, host_value) res" where
  "update_value S entity meta opts now matchCols r k =
     res_bind (plain (ee_column (env_of_repo S) entity k)) (\<lambda>_.
       case List.find (\<lambda>c. cm_propertyKey c = k) matchCols of
         Some c \<Rightarrow> Inr (jsValueToPgParam (host_of_repo S) c (prop_of r k))
       | None \<Rightarrow>
           (case (stamping meta opts, map_option cm_auditableType (List.find (\<lambda>c. cm_propertyKey c = k) (cols meta))) of
              (True, Some (Some UPDATED_AT)) \<Rightarrow> Inr (HDate now)
            | (True, Some (Some UPDATED_BY)) \<Rightarrow> Inr (actor_value opts)
            | _ \<Rightarrow> item_value S entity meta r k))"

definition update_batch :: "'w repository \<Rightarrow> nat \<Rightarrow> int option \<Rightarrow> nat \<Rightarrow> entity_meta \<Rightarrow> write_options \<Rightarrow> int \<Rightarrow> string \<Rightarrow> column_meta list
    \<Rightarrow> string list \<Rightarrow> (column_meta \<times> host_value list) option \<Rightarrow> int \<Rightarrow> host_record list \<Rightarrow> ('w gateway, unit) op" where
  "update_batch S c deadline entity meta opts now tmpName matchCols allTmpKeys guard i batch =
     op_bind (op_lift (map_res (\<lambda>(j, r). res_bind (map_res (update_value S entity meta opts now matchCols r) allTmpKeys) (\<lambda>vs.
         Inr (HNum (int_str j) # vs @ version_value guard j))) (indexed i batch))) (\<lambda>tuples.
     op_bind (op_lift (property_columns (env_of_repo S) entity allTmpKeys)) (\<lambda>qs.
     op_bind (op_lift (quoted tmpName)) (\<lambda>tmp.
     op_bind (insert_tuples S c tmp (''row_ix, '' @ join '', '' qs @ (if guard \<noteq> None then '', \"expected_version\"'' else [])) tuples) (\<lambda>_.
       assertBulkAlive S deadline ''updateMany''))))"

definition update_delta_cols :: "entity_meta \<Rightarrow> column_meta list" where
  "update_delta_cols meta =
     filter (\<lambda>c. cm_auditableType c \<noteq> Some CREATED_AT \<and> cm_auditableType c \<noteq> Some CREATED_BY
       \<and> cm_deletableType c \<noteq> Some DELETED_AT \<and> cm_deletableType c \<noteq> Some DELETED_BY) (cols meta)"

definition update_prepare :: "'w repository \<Rightarrow> nat \<Rightarrow> host_record list \<Rightarrow> write_options
    \<Rightarrow> (dal_error, entity_meta \<times> string \<times> column_meta list \<times> (column_meta \<times> host_value list) option \<times> string list \<times> string list) res" where
  "update_prepare S entity items opts =
     res_bind (prepare_keys S entity items opts ''updateMany'' (\<lambda>_. Inr ()) (\<lambda>_. True)) (\<lambda>(meta, table, matchCols, guard).
       let updateKeys = update_keys meta matchCols guard (hd items)
       in if updateKeys = [] then Inl (Validation ''updateMany: no columns to update (only identity props provided?)'')
          else res_bind (known_columns (env_of_repo S) entity meta ''updateMany'' updateKeys) (\<lambda>_.
               res_bind (audit_sets meta opts table) (\<lambda>sets.
                 Inr (meta, table, matchCols, guard, updateKeys, sets))))"

definition update_tmp :: "'w repository \<Rightarrow> nat \<Rightarrow> nat \<Rightarrow> entity_meta \<Rightarrow> write_options \<Rightarrow> string \<Rightarrow> column_meta list
    \<Rightarrow> (column_meta \<times> host_value list) option \<Rightarrow> string list \<Rightarrow> ('w gateway, string) op" where
  "update_tmp S c entity meta opts table matchCols guard updateKeys =
     op_bind (op_lift (map_res quoted (map cm_sqlName matchCols))) (\<lambda>ms.
     op_bind (op_lift (property_columns (env_of_repo S) entity updateKeys)) (\<lambda>us.
     op_bind (op_lift (map_res quoted (map cm_sqlName (stamp_columns_of meta opts)))) (\<lambda>ss.
     op_bind (tmp_table S ''tmp_update_'' meta) (\<lambda>tmpName.
     op_bind (create_tmp S c tmpName (tmp_columns (ms @ us @ ss) (guard \<noteq> None)) table) (\<lambda>_. op_ret tmpName)))))"

definition update_sets :: "entity_env \<Rightarrow> nat \<Rightarrow> string list \<Rightarrow> (dal_error, string list) res" where
  "update_sets env entity updateKeys =
     res_bind (property_columns env entity updateKeys) (\<lambda>qs. Inr (map (\<lambda>q. q @ '' = tmp.'' @ q) qs))"

definition updateMany :: "'w repository \<Rightarrow> nat \<Rightarrow> host_record list \<Rightarrow> bulk_options \<Rightarrow> ('w gateway, bulk_result) run" where
  "updateMany S entity items opts =
     (if items = [] then run_ret \<lparr>br_received = 0, br_affected = 0\<rparr>
      else
        run_bind (run_op (op_lift (update_prepare S entity items (bo_write opts)))) (\<lambda>(meta, table, matchCols, guard, updateKeys, auditSets).
        bulk_transaction S (bo_timeoutMs opts) (\<lambda>c deadline.
          run_bind (run_op (update_tmp S c entity meta (bo_write opts) table matchCols guard updateKeys)) (\<lambda>tmpName.
          run_bind (run_op (clock (ry_driver S))) (\<lambda>now.
          let allTmpKeys = map cm_propertyKey matchCols @ updateKeys @ map cm_propertyKey (stamp_columns_of meta (bo_write opts))
          in run_bind (batches (batch_size opts (length allTmpKeys + 1 + (if guard \<noteq> None then 1 else 0)))
              (update_batch S c deadline entity meta (bo_write opts) now tmpName matchCols allTmpKeys guard) items 0) (\<lambda>_.
          run_bind (run_op (op_lift (update_sets (env_of_repo S) entity updateKeys))) (\<lambda>sets.
          run_bind (run_op (snapshot_old S c meta table tmpName matchCols (audit_enabled meta (bo_write opts)))) (\<lambda>old.
          run_op (guarded_bulk_write S c deadline ''updateMany'' meta table matchCols guard tmpName
            (update_head table (sets @ auditSets)) [] (length items)
            (\<lambda>n. audit_rows S c old n
               (\<lambda>oldName. change_audit_sql meta table (update_delta_cols meta) matchCols oldName ''UPDATE'') now (bo_write opts)))))))))))"

end
