(* ===== verification/ClientSessions.thy ===== *)
theory ClientSessions
  imports RepositoryManyWrites
begin

text \<open>
  The interface between the code that works on a dedicated client and the pool: what checkout, queries and release do
  to the traffic, and what follows for the code that runs between checkout and release.  The pool of \<open>Connections\<close>
  provides it for every driver.
\<close>

section \<open>Computations that stay on a client\<close>

fun calls :: "event list \<Rightarrow> (string \<times> host_value list) list" where
  "calls [] = []"
| "calls (Sent _ sql vs # es) = (sql, vs) # calls es"
| "calls (PoolSent sql vs # es) = (sql, vs) # calls es"
| "calls (_ # es) = calls es"

lemma calls_append [simp]: "calls (es @ fs) = calls es @ calls fs"
  by (induction es rule: calls.induct) auto

lemma statements_calls: "statements es = map fst (calls es)"
  by (induction es rule: calls.induct) auto

text \<open>From \<open>g\<close> to \<open>g'\<close> only allowed statements on the client \<open>c\<close> were sent, and no \<open>release\<close> was replaced.\<close>

definition stays :: "('g \<Rightarrow> event list) \<Rightarrow> ('g \<Rightarrow> nat list) \<Rightarrow> nat \<Rightarrow> (string \<Rightarrow> host_value list \<Rightarrow> bool) \<Rightarrow> 'g \<Rightarrow> 'g \<Rightarrow> bool" where
  "stays log noop c ok g g' \<longleftrightarrow>
     (\<exists>es. log g' = log g @ es \<and> on_client c es \<and> (\<forall>(sql, vs) \<in> set (calls es). ok sql vs) \<and> noop g' = noop g)"

definition confined :: "('g \<Rightarrow> event list) \<Rightarrow> ('g \<Rightarrow> nat list) \<Rightarrow> nat \<Rightarrow> (string \<Rightarrow> host_value list \<Rightarrow> bool) \<Rightarrow> ('g, 'a) run \<Rightarrow> bool" where
  "confined log noop c ok m \<longleftrightarrow> (\<forall>g r g'. m g = Some (r, g') \<longrightarrow> stays log noop c ok g g')"

lemma stays_refl [simp]: "stays log noop c ok g g"
  by (auto simp: stays_def)

lemma stays_trans:
  assumes "stays log noop c ok g g'" and "stays log noop c ok g' g''"
  shows "stays log noop c ok g g''"
proof -
  obtain es where es: "log g' = log g @ es" "on_client c es" "\<forall>(sql, vs) \<in> set (calls es). ok sql vs" "noop g' = noop g"
    using assms(1) unfolding stays_def by blast
  obtain fs where fs: "log g'' = log g' @ fs" "on_client c fs" "\<forall>(sql, vs) \<in> set (calls fs). ok sql vs" "noop g'' = noop g'"
    using assms(2) unfolding stays_def by blast
  have "\<forall>(sql, vs) \<in> set (calls (es @ fs)). ok sql vs" using es(3) fs(3) by auto
  then show ?thesis unfolding stays_def using es fs by (intro exI [of _ "es @ fs"]) simp
qed

lemma stays_mono:
  assumes "stays log noop c ok g g'" and "\<And>sql vs. ok sql vs \<Longrightarrow> ok' sql vs"
  shows "stays log noop c ok' g g'"
proof -
  obtain es where es: "log g' = log g @ es" "on_client c es" "\<forall>(sql, vs) \<in> set (calls es). ok sql vs" "noop g' = noop g"
    using assms(1) unfolding stays_def by (elim exE conjE) (rule that)
  have "\<forall>(sql, vs) \<in> set (calls es). ok' sql vs" using es(3) assms(2) by auto
  then show ?thesis unfolding stays_def using es by (intro exI [of _ es]) simp
qed

named_theorems confined_intros

lemma confined_mono: "confined log noop c ok m \<Longrightarrow> (\<And>sql vs. ok sql vs \<Longrightarrow> ok' sql vs) \<Longrightarrow> confined log noop c ok' m"
  unfolding confined_def by (blast intro: stays_mono [of log noop c ok _ _ ok'])

lemma confined_bind [confined_intros]:
  assumes "confined log noop c ok m" and "\<And>a. confined log noop c ok (f a)"
  shows "confined log noop c ok (run_bind m f)"
  unfolding confined_def
proof (intro allI impI)
  fix g r g' assume a: "run_bind m f g = Some (r, g')"
  show "stays log noop c ok g g'"
  proof (cases "m g")
    case None
    then show ?thesis using a by (simp add: run_bind_def)
  next
    case (Some x)
    obtain q h where x: "x = (q, h)" by (cases x)
    have st: "stays log noop c ok g h" using assms(1) Some x unfolding confined_def by blast
    show ?thesis
    proof (cases q)
      case (Inl e)
      then show ?thesis using a Some x st by (simp add: run_bind_def)
    next
      case (Inr v)
      then have "f v h = Some (r, g')" using a Some x by (simp add: run_bind_def)
      then have "stays log noop c ok h g'" using assms(2) [of v] unfolding confined_def by blast
      then show ?thesis by (rule stays_trans [OF st])
    qed
  qed
qed

lemma confined_op_bind [confined_intros]:
  assumes "confined log noop c ok (run_op m)" and "\<And>a. confined log noop c ok (run_op (f a))"
  shows "confined log noop c ok (run_op (op_bind m f))"
proof -
  have "run_op (op_bind m f) = run_bind (run_op m) (\<lambda>a. run_op (f a))"
    by (auto simp: run_op_def op_bind_def run_bind_def split: prod.splits sum.splits)
  then show ?thesis using confined_bind [OF assms(1), of "\<lambda>a. run_op (f a)"] assms(2) by simp
qed

lemma confined_ret [confined_intros]: "confined log noop c ok (run_op (op_ret a))"
  by (auto simp: confined_def run_op_def op_ret_def)

lemma confined_run_ret [confined_intros]: "confined log noop c ok (run_ret a)"
  by (simp add: run_ret_def confined_ret)

lemma confined_fail [confined_intros]: "confined log noop c ok (run_op (op_fail e))"
  by (auto simp: confined_def run_op_def op_fail_def)

lemma confined_lift [confined_intros]: "confined log noop c ok (run_op (op_lift r))"
  by (auto simp: confined_def run_op_def op_lift_def)

lemma confined_if [confined_intros]:
  "confined log noop c ok m \<Longrightarrow> confined log noop c ok m' \<Longrightarrow> confined log noop c ok (if b then m else m')"
  by simp

section \<open>The interface\<close>

locale client_pool =
  fixes log :: "'g \<Rightarrow> event list" and noop :: "'g \<Rightarrow> nat list"
    and checkout :: "'g \<Rightarrow> (dal_error, nat) res \<times> 'g"
    and ask :: "nat \<Rightarrow> string \<Rightarrow> host_value list \<Rightarrow> 'g \<Rightarrow> (dal_error, query_result) res \<times> 'g"
    and give_back :: "nat \<Rightarrow> 'g \<Rightarrow> 'g"
  assumes checkout_ok: "checkout g = (Inr c, g') \<Longrightarrow> log g' = log g @ [Connected c] \<and> c \<notin> set (noop g')"
    and checkout_failed: "checkout g = (Inl e, g') \<Longrightarrow> log g' = log g"
    and ask_logged: "ask c sql vs g = (r, g') \<Longrightarrow> log g' = log g @ [Sent c sql vs] \<and> noop g' = noop g"
    and given_back: "c \<notin> set (noop g) \<Longrightarrow> log (give_back c g) = log g @ [Released c]"
begin

lemma stays_ask: "ask c sql vs g = (r, g') \<Longrightarrow> ok sql vs \<Longrightarrow> stays log noop c ok g g'"
  using ask_logged [of c sql vs g r g'] unfolding stays_def by (intro exI [of _ "[Sent c sql vs]"]) simp

lemma confined_ask: "ok sql vs \<Longrightarrow> confined log noop c ok (run_op (ask c sql vs))"
  unfolding confined_def run_op_def using stays_ask by auto

text \<open>A checkout, a stretch that stays on the client, and the release: the client is held exactly in between.\<close>

lemma session:
  assumes "checkout g = (Inr c, g1)" and "stays log noop c ok g1 g2"
  shows "\<exists>es. log (give_back c g2) = log g @ Connected c # es @ [Released c] \<and> on_client c es
    \<and> (\<forall>(sql, vs) \<in> set (calls es). ok sql vs) \<and> log g2 = log g1 @ es"
proof -
  obtain es where es: "log g2 = log g1 @ es" "on_client c es" "\<forall>(sql, vs) \<in> set (calls es). ok sql vs" "noop g2 = noop g1"
    using assms(2) unfolding stays_def by blast
  have "c \<notin> set (noop g2)" using checkout_ok [OF assms(1)] es(4) by simp
  then show ?thesis using given_back [of c g2] checkout_ok [OF assms(1)] es by auto
qed

lemma session_balanced:
  assumes "checkout g = (Inr c, g1)" and "stays log noop c ok g1 g2"
  shows "held (log (give_back c g2)) c' = held (log g) c'"
proof -
  obtain es where "log (give_back c g2) = log g @ Connected c # es @ [Released c]" "on_client c es"
    using session [OF assms] by blast
  then show ?thesis by (simp add: on_client_held)
qed

end

section \<open>The pool of the model\<close>

lemma log_logged [simp]: "gw_log (logged g e w) = gw_log g @ [e]" "gw_noop (logged g e w) = gw_noop g"
  by (simp_all add: logged_def)

interpretation pool: client_pool gw_log gw_noop "connect D" "client_query D" "release D"
  for D :: "'w driver"
proof unfold_locales
  fix g g' :: "'w gateway" and c assume "connect D g = (Inr c, g')"
  then show "gw_log g' = gw_log g @ [Connected c] \<and> c \<notin> set (gw_noop g')"
    by (auto simp: connect_def split: prod.splits sum.splits)
next
  fix g g' :: "'w gateway" and e assume "connect D g = (Inl e, g')"
  then show "gw_log g' = gw_log g" by (auto simp: connect_def split: prod.splits sum.splits)
next
  fix g g' :: "'w gateway" and c sql vs r assume "client_query D c sql vs g = (r, g')"
  then show "gw_log g' = gw_log g @ [Sent c sql vs] \<and> gw_noop g' = gw_noop g"
    by (auto simp: client_query_def split: prod.splits)
next
  fix g :: "'w gateway" and c assume "c \<notin> set (gw_noop g)"
  then show "gw_log (release D c g) = gw_log g @ [Released c]" by (simp add: release_def)
qed

abbreviation at_client :: "nat \<Rightarrow> (string \<Rightarrow> host_value list \<Rightarrow> bool) \<Rightarrow> ('w gateway, 'a) run \<Rightarrow> bool" where
  "at_client \<equiv> confined gw_log gw_noop"

lemma tell_confined: "ok sql vs \<Longrightarrow> at_client c ok (run_op (tell S c sql vs))"
  unfolding tell_def by (rule pool.confined_ask)

lemma clock_confined [confined_intros]: "at_client c ok (run_op (clock D))"
  by (auto simp: confined_def run_op_def clock_def)

lemma uuid_confined [confined_intros]: "at_client c ok (run_op (randomUUID D))"
  by (auto simp: confined_def run_op_def randomUUID_def stays_def split: prod.splits)

end
