(* ===== verification/BulkFacts.thy ===== *)
theory BulkFacts
  imports ClientSessions
begin

text \<open>
  The transaction of the bulk methods of \<open>src/repository/repository.ts\<close>: every step stays on the client of the transaction, binds a
  bounded number of parameters, and the whole ends with \<open>COMMIT\<close> or \<open>ROLLBACK\<close>.
\<close>

section \<open>The size of the batches\<close>

lemma autoBatchSize_le: "n * autoBatchSize n \<le> 65535"
proof (cases "n = 0")
  case False
  have "autoBatchSize n \<le> 65535 div n" using False by (simp add: autoBatchSize_def)
  then have "n * autoBatchSize n \<le> n * (65535 div n)" by simp
  also have "\<dots> \<le> 65535" by simp
  finally show ?thesis .
qed simp

lemma autoBatchSize_pos: "n \<le> 65535 \<Longrightarrow> 0 < autoBatchSize n"
  by (simp add: autoBatchSize_def div_greater_zero_iff)

lemma js_slice_nonneg: "0 \<le> i \<Longrightarrow> 0 \<le> sz \<Longrightarrow> js_slice xs i (i + sz) = take (nat sz) (drop (nat i) xs)"
proof -
  assume a: "0 \<le> i" "0 \<le> sz"
  show ?thesis
  proof (cases "i \<le> int (length xs)")
    case True
    then show ?thesis
    proof (cases "i + sz \<le> int (length xs)")
      case True
      then show ?thesis using a by (simp add: js_slice_def Let_def)
    next
      case False
      then have "nat (int (length xs) - i) = length xs - nat i" using a by simp
      then show ?thesis using a True False by (simp add: js_slice_def Let_def min_def)
    qed
  next
    case False
    then show ?thesis using a by (simp add: js_slice_def Let_def min_def)
  qed
qed

lemma js_slice_length: "0 \<le> i \<Longrightarrow> 0 \<le> sz \<Longrightarrow> length (js_slice xs i (i + sz)) \<le> nat sz"
  by (simp add: js_slice_nonneg)

section \<open>Statements of a bulk method\<close>

definition orderly :: "bool \<Rightarrow> string \<Rightarrow> host_value list \<Rightarrow> bool" where
  "orderly bounded sql vs \<longleftrightarrow> sql \<notin> {''BEGIN'', ''COMMIT'', ''ROLLBACK''} \<and> (bounded \<longrightarrow> length vs \<le> 65535)"

lemma batches_confined_raw:
  fixes log :: "'w \<Rightarrow> event list" and rows :: "'r list"
  assumes "batches sz f rows i g = Some (r, g')"
    and "\<And>i batch. P i \<Longrightarrow> batch = js_slice rows i (i + sz) \<Longrightarrow> confined log noop c ok (run_op (f i batch))" and "P i" and "\<And>i. P i \<Longrightarrow> P (i + sz)"
  shows "stays log noop c ok g g'"
proof -
  have "\<forall>P. (\<forall>i batch. P i \<longrightarrow> batch = js_slice rows i (i + sz) \<longrightarrow> confined log noop c ok (run_op (f i batch))) \<longrightarrow> P i \<longrightarrow> (\<forall>i. P i \<longrightarrow> P (i + sz))
      \<longrightarrow> stays log noop c ok g (snd (r, g'))"
  proof (rule batches.raw_induct [OF _ assms(1), of "\<lambda>sz f rows i g y. \<forall>P. (\<forall>i batch. P i \<longrightarrow> batch = js_slice rows i (i + sz) \<longrightarrow> confined log noop c ok (run_op (f i batch))) \<longrightarrow> P i
       \<longrightarrow> (\<forall>i. P i \<longrightarrow> P (i + sz)) \<longrightarrow> stays log noop c ok g (snd y)"])
    fix B :: "int \<Rightarrow> (int \<Rightarrow> 'r list \<Rightarrow> 'w \<Rightarrow> (dal_error, unit) res \<times> 'w) \<Rightarrow> 'r list \<Rightarrow> int \<Rightarrow> 'w \<Rightarrow> ((dal_error, unit) res \<times> 'w) option"
    fix sz :: int and f and rows :: "'r list" and i :: int and w y
    assume IH: "\<And>sz f rows i w y. B sz f rows i w = Some y \<Longrightarrow>
        \<forall>P. (\<forall>i batch. P i \<longrightarrow> batch = js_slice rows i (i + sz) \<longrightarrow> confined log noop c ok (run_op (f i batch))) \<longrightarrow> P i
          \<longrightarrow> (\<forall>i. P i \<longrightarrow> P (i + sz)) \<longrightarrow> stays log noop c ok w (snd y)"
      and step: "(if i < int (length rows) then case f i (js_slice rows i (i + sz)) w of (Inl e, w') \<Rightarrow> Some (Inl e, w')
          | (Inr _, w') \<Rightarrow> B sz f rows (i + sz) w' else Some (Inr (), w)) = Some y"
    show "\<forall>P. (\<forall>i batch. P i \<longrightarrow> batch = js_slice rows i (i + sz) \<longrightarrow> confined log noop c ok (run_op (f i batch))) \<longrightarrow> P i
       \<longrightarrow> (\<forall>i. P i \<longrightarrow> P (i + sz)) \<longrightarrow> stays log noop c ok w (snd y)"
    proof (intro allI impI)
      fix P assume f: "\<forall>i batch. P i \<longrightarrow> batch = js_slice rows i (i + sz) \<longrightarrow> confined log noop c ok (run_op (f i batch))" and Pi: "P i" and Pn: "\<forall>i. P i \<longrightarrow> P (i + sz)"
      show "stays log noop c ok w (snd y)"
      proof (cases "i < int (length rows)")
        case False
        then show ?thesis using step by auto
      next
        case True
        obtain q w' where q: "f i (js_slice rows i (i + sz)) w = (q, w')" by (cases "f i (js_slice rows i (i + sz)) w")
        have s: "stays log noop c ok w w'" using f Pi q unfolding confined_def run_op_def by simp
        show ?thesis
        proof (cases q)
          case (Inl e)
          then show ?thesis using step True q s by auto
        next
          case (Inr u)
          then have "B sz f rows (i + sz) w' = Some y" using step True q by simp
          then have "stays log noop c ok w' (snd y)" using IH f Pi Pn by blast
          then show ?thesis by (rule stays_trans [OF s])
        qed
      qed
    qed
  qed
  then show ?thesis using assms(2-4) by auto
qed

lemma batches_confined:
  assumes "\<And>i batch. (0 \<le> sz \<Longrightarrow> 0 \<le> i \<and> length batch \<le> nat sz) \<Longrightarrow> confined log noop c ok (run_op (f i batch))"
  shows "confined log noop c ok (batches sz f rows 0)"
  unfolding confined_def
proof (intro allI impI)
  fix g r g' assume "batches sz f rows 0 g = Some (r, g')"
  then show "stays log noop c ok g g'"
  proof (rule batches_confined_raw [where P = "\<lambda>i. 0 \<le> sz \<longrightarrow> 0 \<le> i"])
    fix i batch assume "0 \<le> sz \<longrightarrow> 0 \<le> i" "batch = js_slice rows i (i + sz)"
    then show "confined log noop c ok (run_op (f i batch))"
      by (intro assms) (auto simp: js_slice_length)
  qed auto
qed

lemma batches_returns:
  assumes "0 < sz" and "0 \<le> i"
  shows "\<exists>y. batches sz f rows i w = Some y"
  using assms
proof (induction "nat (int (length rows) - i)" arbitrary: i w rule: less_induct)
  case less
  show ?case
  proof (cases "i < int (length rows)")
    case True
    then have "\<exists>y. batches sz f rows (i + sz) w' = Some y" for w' using less by simp
    then show ?thesis by (subst batches.simps) (auto simp: True split: prod.splits sum.splits)
  qed (simp add: batches.simps)
qed


section \<open>Each step stays on the client\<close>

lemma confined_op_if [confined_intros]:
  "confined log noop c ok (run_op m) \<Longrightarrow> confined log noop c ok (run_op m') \<Longrightarrow> confined log noop c ok (run_op (if b then m else m'))"
  by simp

lemma lift_bind_confined:
  assumes "\<And>x. r = Inr x \<Longrightarrow> confined log noop c ok (run_op (f x))"
  shows "confined log noop c ok (run_op (op_bind (op_lift r) f))"
  using assms by (cases r) (auto simp: confined_def run_op_def op_bind_def op_lift_def)

lemma insert_tuples_confined:
  "(b \<Longrightarrow> length (concat rows) \<le> 65535) \<Longrightarrow> at_client c (orderly b) (run_op (insert_tuples S c tmp qs rows))"
  unfolding insert_tuples_def
  by (intro confined_op_bind confined_ret pool.confined_ask) (simp add: orderly_def)

lemma alive_confined [confined_intros]: "at_client c ok (run_op (assertBulkAlive S d name))"
  unfolding assertBulkAlive_def by (cases d) (auto intro!: confined_intros)

lemma tmp_table_confined [confined_intros]: "at_client c ok (run_op (tmp_table S stem meta))"
  unfolding tmp_table_def by (intro confined_intros)

lemma create_tmp_confined [confined_intros]: "at_client c (orderly b) (run_op (create_tmp S c tmp qs table))"
  unfolding create_tmp_def by (intro confined_intros tell_confined) (simp add: orderly_def)

lemma snapshot_confined [confined_intros]:
  "at_client c (orderly b) (run_op (snapshot_old S c meta table tmp matchCols wanted))"
  unfolding snapshot_old_def by (intro confined_intros tell_confined) (simp_all add: orderly_def)

lemma ambiguous_orderly: "bulkAmbiguousSql meta table matchCols tmp name = Inr sql \<Longrightarrow> orderly b sql []"
  by (auto simp: bulkAmbiguousSql_def orderly_def res_bind_Inr)

lemma stale_orderly: "bulkStaleDiagnoseSql meta table matchCols tmp vc name = Inr sql \<Longrightarrow> orderly b sql []"
  by (auto simp: bulkStaleDiagnoseSql_def stale_text_def orderly_def res_bind_Inr)

lemma guards_confined [confined_intros]:
  "at_client c (orderly b) (run_op (bulk_guards S c d name meta table matchCols tmp guard))"
  unfolding bulk_guards_def
  by (auto intro!: confined_intros lift_bind_confined tell_confined simp: ambiguous_orderly stale_orderly split: option.splits)

lemma change_audit_orderly: "change_audit_sql meta table ds ms old action = Inr sql \<Longrightarrow> orderly b sql [x, y]"
  by (auto simp: change_audit_sql_def audit_head_def orderly_def res_bind_Inr)

lemma hard_audit_orderly: "hard_audit_sql meta old = Inr sql \<Longrightarrow> orderly b sql [x, y]"
  by (auto simp: hard_audit_sql_def audit_head_def orderly_def res_bind_Inr)

lemma audit_rows_confined:
  assumes "\<And>old sql x y. f old = Inr sql \<Longrightarrow> orderly b sql [x, y]"
  shows "at_client c (orderly b) (run_op (audit_rows S c old n f now opts))"
  unfolding audit_rows_def
  by (auto intro!: confined_intros lift_bind_confined tell_confined assms split: option.splits)

lemma key_batch_confined:
  assumes "b \<Longrightarrow> length batch \<le> key_batch_size matchCols guard"
  shows "at_client c (orderly b) (run_op (key_batch S c d name tmp matchCols guard i batch))"
  unfolding key_batch_def
proof (intro confined_intros insert_tuples_confined)
  assume b
  let ?n = "length matchCols + 1 + (if guard \<noteq> None then 1 else 0)"
  let ?rows = "map (\<lambda>(j, r). key_tuple S matchCols guard j r) (indexed i batch)"
  have "length (key_tuple S matchCols guard j r) = ?n" for j r
    by (auto simp: key_tuple_def version_value_def split: option.splits)
  then have "length (concat ?rows) = length batch * ?n"
    by (simp add: length_concat comp_def case_prod_beta indexed_def sum_list_triv)
  also have "\<dots> \<le> autoBatchSize ?n * ?n" using assms [OF \<open>b\<close>] unfolding key_batch_size_def by (rule mult_le_mono1)
  also have "\<dots> \<le> 65535" using autoBatchSize_le [of ?n] by (simp add: mult.commute)
  finally show "length (concat ?rows) \<le> 65535" .
qed

lemma stage_keys_confined:
  "at_client c (orderly b) (stage_keys S c d name stem meta table matchCols guard items)"
  unfolding stage_keys_def
  by (intro confined_intros batches_confined key_batch_confined) simp_all


section \<open>Work that ends with COMMIT\<close>

definition committing :: "bool \<Rightarrow> nat \<Rightarrow> ('w gateway, 'a) run \<Rightarrow> bool" where
  "committing b c m \<longleftrightarrow> (\<forall>g r g'. m g = Some (r, g') \<longrightarrow>
     (\<exists>g1. stays gw_log gw_noop c (orderly b) g g1
        \<and> (if isl r then (gw_log g' = gw_log g1 \<or> gw_log g' = gw_log g1 @ [Sent c ''COMMIT'' []]) else gw_log g' = gw_log g1 @ [Sent c ''COMMIT'' []])
        \<and> gw_noop g' = gw_noop g1))"

lemma committing_bind:
  assumes "at_client c (orderly b) m" and "\<And>a. committing b c (f a)"
  shows "committing b c (run_bind m f)"
  unfolding committing_def
proof (intro allI impI)
  fix g r g' assume a: "run_bind m f g = Some (r, g')"
  let ?C = "\<lambda>g1. (if isl r then (gw_log g' = gw_log g1 \<or> gw_log g' = gw_log g1 @ [Sent c ''COMMIT'' []]) else gw_log g' = gw_log g1 @ [Sent c ''COMMIT'' []])
        \<and> gw_noop g' = gw_noop g1"
  obtain q h where x: "m g = Some (q, h)" using a by (cases "m g") (auto simp: run_bind_def)
  have st: "stays gw_log gw_noop c (orderly b) g h" using assms(1) x unfolding confined_def by blast
  show "\<exists>g1. stays gw_log gw_noop c (orderly b) g g1 \<and> ?C g1"
  proof (cases q)
    case (Inl e)
    then show ?thesis using a x st by (intro exI [of _ h]) (auto simp: run_bind_def)
  next
    case (Inr v)
    then have "f v h = Some (r, g')" using a x by (simp add: run_bind_def)
    then obtain g1 where "stays gw_log gw_noop c (orderly b) h g1" "?C g1" using assms(2) [of v] unfolding committing_def by blast
    then show ?thesis using stays_trans [OF st] by blast
  qed
qed

lemma committing_op_bind:
  assumes "at_client c (orderly b) (run_op m)" and "\<And>a. committing b c (run_op (f a))"
  shows "committing b c (run_op (op_bind m f))"
proof -
  have "run_op (op_bind m f) = run_bind (run_op m) (\<lambda>a. run_op (f a))"
    by (auto simp: run_op_def op_bind_def run_bind_def split: prod.splits sum.splits)
  then show ?thesis using committing_bind [OF assms(1), of "\<lambda>a. run_op (f a)"] assms(2) by simp
qed

lemma committing_fail: "committing b c (run_op (op_fail e))"
  unfolding committing_def run_op_def op_fail_def by (intro allI impI exI) (auto intro: stays_refl)

lemma committing_result: "committing b c (run_op (commit_result S c x y))"
  unfolding committing_def
proof (intro allI impI)
  fix g r g' assume a: "run_op (commit_result S c x y) g = Some (r, g')"
  obtain q h where q: "client_query (ry_driver S) c ''COMMIT'' [] g = (q, h)" by fastforce
  then have "g' = h" "isl r = isl q"
    using a by (auto simp: run_op_def commit_result_def tell_def op_bind_def op_ret_def split: sum.splits)
  then show "\<exists>g1. stays gw_log gw_noop c (orderly b) g g1
        \<and> (if isl r then (gw_log g' = gw_log g1 \<or> gw_log g' = gw_log g1 @ [Sent c ''COMMIT'' []]) else gw_log g' = gw_log g1 @ [Sent c ''COMMIT'' []])
        \<and> gw_noop g' = gw_noop g1"
    using pool.ask_logged [OF q] by (intro exI [of _ g]) simp
qed

lemmas committing_intros = committing_result committing_op_bind committing_bind

lemma guarded_write_committing:
  assumes "\<And>n. at_client c (orderly b) (run_op (audit n))" and "\<And>tmp w. orderly b (head tmp @ w) vals"
  shows "committing b c (run_op (guarded_bulk_write S c d name meta table matchCols guard tmpName head vals wanted audit))"
  unfolding guarded_bulk_write_def
  by (intro committing_intros confined_intros tell_confined assms)

lemma set_values_length: "length (set_values xs) \<le> length xs"
  by (induction xs rule: set_values.induct) auto

lemma map_filter_length: "length (List.map_filter f xs) \<le> length xs"
  unfolding List.map_filter_def by (simp add: length_filter_le)

lemma col_items_length: "col_items xs = Inr ys \<Longrightarrow> length ys \<le> length xs"
  unfolding col_items_def using map_res_length map_filter_length by metis

lemma update_orderly: "length vs \<le> 65535 \<Longrightarrow> orderly b (update_head table cs tmp @ w) vs"
  by (simp add: orderly_def update_head_def)


section \<open>The methods\<close>

lemma conflict_orderly: "orderly b (bulk_conflict_sql meta table tmp ks ds ps) []"
  by (simp add: orderly_def bulk_conflict_sql_def)

lemma add_conflicts_confined [confined_intros]:
  "at_client c (orderly b) (run_op (add_conflicts S c d entity meta opts table tmp ks))"
  unfolding add_conflicts_def by (intro confined_intros tell_confined conflict_orderly)

lemma concat_length_le:
  assumes "\<And>x. x \<in> set xs \<Longrightarrow> length x \<le> n"
  shows "length (concat xs) \<le> n * length xs"
  using assms by (induction xs) fastforce+

lemma small_batch:
  assumes "\<And>x. x \<in> set rows \<Longrightarrow> length x \<le> n" and "length rows \<le> autoBatchSize n"
  shows "length (concat rows) \<le> 65535"
proof -
  have "length (concat rows) \<le> n * length rows" by (rule concat_length_le) (rule assms(1))
  also have "\<dots> \<le> n * autoBatchSize n" using assms(2) by simp
  also have "\<dots> \<le> 65535" by (rule autoBatchSize_le)
  finally show ?thesis .
qed

lemma map_res_in: "map_res f xs = Inr ys \<Longrightarrow> y \<in> set ys \<Longrightarrow> \<exists>x \<in> set xs. f x = Inr y"
  by (induction xs arbitrary: ys) (auto simp: res_bind_Inr)

lemma add_tuple_length:
  assumes "add_tuple S entity meta opts now keys auditCols r = Inr t"
  shows "length t \<le> length (keys @ auditCols)"
proof -
  have "length (stamp_value meta opts now k) \<le> 1" for k by (simp add: stamp_value_def split: option.splits)
  then have "length (concat (map (stamp_value meta opts now) auditCols)) \<le> 1 * length (map (stamp_value meta opts now) auditCols)"
    by (intro concat_length_le) auto
  then show ?thesis using assms by (auto simp: add_tuple_def res_bind_Inr map_res_length)
qed

lemma add_batch_confined:
  assumes "b \<Longrightarrow> length batch \<le> autoBatchSize (length (keys @ auditCols))"
  shows "at_client c (orderly b) (run_op (add_batch S c d entity meta opts now tmp qs keys auditCols i batch))"
  unfolding add_batch_def
proof (intro lift_bind_confined confined_intros insert_tuples_confined)
  fix tuples tmpQ assume t: "map_res (add_tuple S entity meta opts now keys auditCols) batch = Inr tuples" and b
  show "length (concat tuples) \<le> 65535"
  proof (rule small_batch)
    show "length tuples \<le> autoBatchSize (length (keys @ auditCols))" using map_res_length [OF t] assms [OF \<open>b\<close>] by simp
    show "length x \<le> length (keys @ auditCols)" if "x \<in> set tuples" for x
      using map_res_in [OF t that] add_tuple_length by blast
  qed
qed

lemma update_batch_confined:
  assumes "b \<Longrightarrow> length batch \<le> autoBatchSize (length ks + 1 + (if guard \<noteq> None then 1 else 0))"
  shows "at_client c (orderly b) (run_op (update_batch S c d entity meta opts now tmp matchCols ks guard i batch))"
  unfolding update_batch_def
proof (intro lift_bind_confined confined_intros insert_tuples_confined)
  fix tuples qs tmpQ
  let ?f = "\<lambda>(j, r). res_bind (map_res (update_value S entity meta opts now matchCols r) ks) (\<lambda>vs. Inr (HNum (int_str j) # vs @ version_value guard j))"
  assume t: "map_res ?f (indexed i batch) = Inr tuples" and b
  show "length (concat tuples) \<le> 65535"
  proof (rule small_batch)
    show "length tuples \<le> autoBatchSize (length ks + 1 + (if guard \<noteq> None then 1 else 0))"
      using map_res_length [OF t] assms [OF \<open>b\<close>] by (simp add: indexed_def)
    show "length x \<le> length ks + 1 + (if guard \<noteq> None then 1 else 0)" if "x \<in> set tuples" for x
      using map_res_in [OF t that]
      by (auto simp: res_bind_Inr version_value_def dest!: map_res_length split: option.splits)
  qed
qed

definition default_batch :: "bulk_options \<Rightarrow> bool" where
  "default_batch opts \<longleftrightarrow> bo_batchSize opts = None"

lemma batch_size_default: "default_batch opts \<Longrightarrow> batch_size opts n = int (autoBatchSize n)"
  by (simp add: default_batch_def batch_size_def)

lemma committing_if: "committing b c m \<Longrightarrow> committing b c m' \<Longrightarrow> committing b c (if p then m else m')"
  by simp

lemma set_values_small: "col_items xs = Inr sets \<Longrightarrow> length xs \<le> 5 \<Longrightarrow> length (set_values sets) \<le> 65535"
  using col_items_length [of xs sets] set_values_length [of sets] by simp

lemma committing_lift_run:
  assumes "\<And>x. r = Inr x \<Longrightarrow> committing b c (f x)"
  shows "committing b c (run_bind (run_op (op_lift r)) f)"
proof (cases r)
  case (Inl e)
  then have "run_bind (run_op (op_lift r)) f = run_op (op_fail e)"
    by (auto simp: run_bind_def run_op_def op_lift_def op_fail_def)
  then show ?thesis by (simp add: committing_fail)
next
  case (Inr x)
  then have "run_bind (run_op (op_lift r)) f = f x" by (auto simp: run_bind_def run_op_def op_lift_def)
  then show ?thesis using assms Inr by simp
qed

section \<open>The transaction of a bulk method\<close>

text \<open>What a bulk method on the pool leaves in the traffic: nothing; a whole transaction that ends in \<open>COMMIT\<close> exactly when the
  method succeeds and gives its client back; or, after an error of \<open>BEGIN\<close> or \<open>SET LOCAL\<close>, a client that is never given back.\<close>

definition closing :: "nat \<Rightarrow> bool \<Rightarrow> event list \<Rightarrow> bool" where
  "closing c failed fin \<longleftrightarrow>
     (if failed then fin = [Sent c ''ROLLBACK'' []] \<or> fin = [Sent c ''COMMIT'' [], Sent c ''ROLLBACK'' []]
      else fin = [Sent c ''COMMIT'' []])"

definition whole_transaction :: "bool \<Rightarrow> bool \<Rightarrow> event list \<Rightarrow> bool" where
  "whole_transaction bounded failed es \<longleftrightarrow>
     (\<exists>c work fin. es = Connected c # Sent c ''BEGIN'' [] # work @ fin @ [Released c] \<and> on_client c work
        \<and> (\<forall>(sql, vs) \<in> set (calls work). orderly bounded sql vs) \<and> closing c failed fin)"

definition leaked :: "event list \<Rightarrow> bool" where
  "leaked es \<longleftrightarrow> (\<exists>c work. es = Connected c # Sent c ''BEGIN'' [] # work \<and> length work \<le> 1 \<and> on_client c work
      \<and> (\<forall>(sql, vs) \<in> set (calls work). orderly True sql vs))"

definition bulk_outcome :: "bool \<Rightarrow> 'w gateway \<Rightarrow> bool \<Rightarrow> 'w gateway \<Rightarrow> bool" where
  "bulk_outcome bounded g failed g' \<longleftrightarrow>
     (\<exists>es. gw_log g' = gw_log g @ es \<and> (es = [] \<or> whole_transaction bounded failed es \<or> failed \<and> leaked es))"

lemma bulkBegin_cases:
  assumes "ry_db S = PoolDb" and "bulkBegin S t g = (r, g')"
  obtains (none) e where "r = Inl e" "gw_log g' = gw_log g"
  | (leak) e es where "r = Inl e" "gw_log g' = gw_log g @ es" "leaked es"
  | (open_) c d work g1 where "r = Inr (c, d)" "connect (ry_driver S) g = (Inr c, g1)"
      "gw_log g' = gw_log g @ Connected c # Sent c ''BEGIN'' [] # work" "on_client c work"
      "\<forall>(sql, vs) \<in> set (calls work). orderly True sql vs" "c \<notin> set (gw_noop g')"
proof (cases "connect (ry_driver S) g")
  case (Pair q g1)
  show thesis
  proof (cases q)
    case (Inl e)
    then have "gw_log g1 = gw_log g" using pool.checkout_failed Pair by blast
    then show thesis using none assms Pair Inl by (auto simp: bulkBegin_def getClient_def op_bind_def)
  next
    case (Inr c)
    have k: "gw_log g1 = gw_log g @ [Connected c]" "c \<notin> set (gw_noop g1)" using pool.checkout_ok Pair Inr by blast+
    obtain q2 g2 where b: "client_query (ry_driver S) c ''BEGIN'' [] g1 = (q2, g2)" by fastforce
    have l2: "gw_log g2 = gw_log g1 @ [Sent c ''BEGIN'' []]" "gw_noop g2 = gw_noop g1" using pool.ask_logged [OF b] by simp_all
    let ?T = "''SET LOCAL statement_timeout TO '' @ int_str (bulk_budget S t)"
    obtain q3 g3 where b3: "client_query (ry_driver S) c ?T [] g2 = (q3, g3)" by fastforce
    have l3: "gw_log g3 = gw_log g2 @ [Sent c ?T []]" "gw_noop g3 = gw_noop g2" using pool.ask_logged [OF b3] by simp_all
    have o: "orderly True ?T []" by (simp add: orderly_def)
    have a: "bulkBegin S t g =
       (case q2 of Inl e \<Rightarrow> (Inl e, g2) | Inr _ \<Rightarrow>
          if bulk_budget S t > 0 then (case q3 of Inl e \<Rightarrow> (Inl e, g3)
            | Inr _ \<Rightarrow> (Inr (c, Some (dr_now (ry_driver S) (gw_world g3) + bulk_budget S t)), g3))
          else (Inr (c, None), g2))"
      using assms(1) Pair Inr b b3
      by (auto simp: bulkBegin_def getClient_def op_bind_def op_ret_def clock_def split: sum.splits)
    show thesis
    proof (cases q2)
      case (Inl e)
      then show thesis using leak [of e "[Connected c, Sent c ''BEGIN'' []]"] a assms(2) k l2 by (simp add: leaked_def)
    next
      case q2: (Inr _)
      show thesis
      proof (cases "bulk_budget S t > 0")
        case False
        then show thesis using open_ [of c None g1 "[]"] a assms(2) k l2 q2 Pair Inr by simp
      next
        case True
        show thesis
        proof (cases q3)
          case (Inl e)
          then show thesis using leak [of e "[Connected c, Sent c ''BEGIN'' [], Sent c ?T []]"] a assms(2) k l2 l3 q2 True o
            by (simp add: leaked_def)
        next
          case (Inr _)
          then show thesis using open_ [of c _ g1 "[Sent c ?T []]"] a assms(2) k l2 l3 q2 True o Pair \<open>q = Inr c\<close> by simp
        qed
      qed
    qed
  qed
qed

lemma bulk_try_outcome:
  assumes body: "committing b c body" and run: "bulk_try S c body g1 = Some (r, g')" and c: "c \<notin> set (gw_noop g1)"
  shows "\<exists>work fin. gw_log g' = gw_log g1 @ work @ fin @ [Released c] \<and> on_client c work
     \<and> (\<forall>(sql, vs) \<in> set (calls work). orderly b sql vs) \<and> closing c (isl r) fin"
proof -
  obtain q h where q: "body g1 = Some (q, h)" using run by (cases "body g1") (auto simp: bulk_try_def)
  obtain g2 where st: "stays gw_log gw_noop c (orderly b) g1 g2"
    and fin: "if isl q then (gw_log h = gw_log g2 \<or> gw_log h = gw_log g2 @ [Sent c ''COMMIT'' []]) else gw_log h = gw_log g2 @ [Sent c ''COMMIT'' []]"
    and noop: "gw_noop h = gw_noop g2"
    using body q unfolding committing_def by blast
  obtain work where w: "gw_log g2 = gw_log g1 @ work" "on_client c work" "\<forall>(sql, vs) \<in> set (calls work). orderly b sql vs" "gw_noop g2 = gw_noop g1"
    using st unfolding stays_def by (elim exE conjE) (rule that)
  show ?thesis
  proof (cases q)
    case (Inl e)
    obtain q' h' where ab: "client_query (ry_driver S) c ''ROLLBACK'' [] h = (q', h')" by fastforce
    have g': "r = Inl e" "g' = release (ry_driver S) c h'" using run q Inl ab by (auto simp: bulk_try_def bulkAbort_def)
    have "gw_log h' = gw_log h @ [Sent c ''ROLLBACK'' []]" "gw_noop h' = gw_noop h" using pool.ask_logged [OF ab] by simp_all
    then have "gw_log g' = gw_log h @ [Sent c ''ROLLBACK'' [], Released c]" using pool.given_back [of c h'] c noop w(4) g' by simp
    then have l: "gw_log g' = gw_log g1 @ work @ (if gw_log h = gw_log g2 then [Sent c ''ROLLBACK'' []]
        else [Sent c ''COMMIT'' [], Sent c ''ROLLBACK'' []]) @ [Released c]"
      using fin Inl w(1) by auto
    show ?thesis by (rule exI [of _ work], rule exI, rule conjI, rule l) (use w g' in \<open>simp add: closing_def\<close>)
  next
    case (Inr a)
    have g': "r = Inr a" "g' = release (ry_driver S) c h" using run q Inr by (auto simp: bulk_try_def)
    then have "gw_log g' = gw_log h @ [Released c]" using pool.given_back [of c h] c noop w(4) by simp
    then show ?thesis using fin Inr g' w by (auto simp: closing_def)
  qed
qed

lemma orderly_mono: "orderly True sql vs \<Longrightarrow> orderly b sql vs"
  by (auto simp: orderly_def)

lemma bulk_transaction_outcome:
  assumes db: "ry_db S = PoolDb" and body: "\<And>c d. committing b c (body c d)"
    and run: "bulk_transaction S t body g = Some (r, g')"
  shows "bulk_outcome b g (isl r) g'"
proof -
  obtain q g1 where q: "bulkBegin S t g = (q, g1)" by fastforce
  from db q show ?thesis
  proof (cases rule: bulkBegin_cases)
    case (none e)
    then show ?thesis using run q by (auto simp: bulk_transaction_def run_bind_def run_op_def bulk_outcome_def)
  next
    case (leak e es)
    then show ?thesis using run q by (auto simp: bulk_transaction_def run_bind_def run_op_def bulk_outcome_def)
  next
    case (open_ c d work g0)
    have tr: "bulk_try S c (body c d) g1 = Some (r, g')"
      using run q open_(1) by (simp add: bulk_transaction_def run_bind_def run_op_def)
    obtain work' fin where w: "gw_log g' = gw_log g1 @ work' @ fin @ [Released c]" "on_client c work'"
       "\<forall>(sql, vs) \<in> set (calls work'). orderly b sql vs" "closing c (isl r) fin"
      using bulk_try_outcome [OF body tr open_(6)] by (elim exE conjE) (rule that)
    have "\<forall>(sql, vs) \<in> set (calls (work @ work')). orderly b sql vs"
      using w(3) open_(5) orderly_mono by (auto split: prod.splits)
    then have "whole_transaction b (isl r) (Connected c # Sent c ''BEGIN'' [] # (work @ work') @ fin @ [Released c])"
      unfolding whole_transaction_def using w open_(4) by (intro exI [of _ c] exI [of _ "work @ work'"] exI [of _ fin]) simp
    then show ?thesis unfolding bulk_outcome_def using w(1) open_(3)
      by (intro exI [of _ "Connected c # Sent c ''BEGIN'' [] # (work @ work') @ fin @ [Released c]"]) simp
  qed
qed


section \<open>Every bulk method\<close>

lemma ret_outcome: "run_ret x g = Some (r, g') \<Longrightarrow> bulk_outcome b g (isl r) g'"
  by (auto simp: run_ret_def run_op_def op_ret_def bulk_outcome_def)

lemma lift_outcome:
  assumes "run_bind (run_op (op_lift q)) f g = Some (r, g')"
    and "\<And>x. q = Inr x \<Longrightarrow> f x g = Some (r, g') \<Longrightarrow> bulk_outcome b g (isl r) g'"
  shows "bulk_outcome b g (isl r) g'"
  using assms by (cases q) (auto simp: run_bind_def run_op_def op_lift_def bulk_outcome_def)

lemma clock_run: "run_bind (run_op (clock D)) f g = f (dr_now D (gw_world g)) g"
  by (simp add: run_bind_def run_op_def clock_def)

lemma soft_many_outcome:
  assumes db: "ry_db S = PoolDb" and st: "\<And>meta opts now. length (stamps meta opts now) \<le> 5"
    and run: "soft_many S entity items opts name stem what action stamps g = Some (r, g')"
  shows "bulk_outcome b g (isl r) g'"
proof (cases "items = []")
  case True
  then show ?thesis using run by (auto simp: soft_many_def intro: ret_outcome)
next
  case False
  have v: "orderly b (update_head table cs tmp @ w) (set_values sets)"
    if "col_items (stamps meta o' now) = Inr sets" for table cs tmp w meta o' now sets
    by (rule update_orderly) (rule set_values_small [OF that st])
  show ?thesis
    by (rule lift_outcome [OF run [unfolded soft_many_def if_not_P [OF False]]])
       (auto simp: clock_run elim!: bulk_transaction_outcome [OF db, rotated] split: prod.splits
         intro!: committing_bind committing_lift_run stage_keys_confined snapshot_confined guarded_write_committing
           audit_rows_confined change_audit_orderly v)
qed

lemma stamps_length: "length (delete_stamps meta opts now) \<le> 5" "length (restore_stamps meta opts now) \<le> 5"
  by (simp_all add: delete_stamps_def restore_stamps_def)

lemma hard_outcome:
  assumes db: "ry_db S = PoolDb" and run: "hardDeleteMany S entity items opts g = Some (r, g')"
  shows "bulk_outcome b g (isl r) g'"
proof (cases "items = []")
  case True
  then show ?thesis using run by (auto simp: hardDeleteMany_def intro: ret_outcome)
next
  case False
  show ?thesis
    by (rule lift_outcome [OF run [unfolded hardDeleteMany_def if_not_P [OF False]]])
       (auto elim!: bulk_transaction_outcome [OF db, rotated] split: prod.splits
         intro!: committing_bind stage_keys_confined snapshot_confined guarded_write_committing confined_op_bind clock_confined
           audit_rows_confined hard_audit_orderly, simp add: orderly_def)
qed

lemma add_outcome:
  assumes db: "ry_db S = PoolDb" and run: "addMany S entity rows opts g = Some (r, g')" and b: "b \<Longrightarrow> default_batch opts"
  shows "bulk_outcome b g (isl r) g'"
proof (cases "rows = []")
  case True
  then show ?thesis using run by (auto simp: addMany_def intro: ret_outcome)
next
  case False
  have bt: "at_client c (orderly b) (batches (batch_size opts (length (keys @ auditCols))) 
      (add_batch S c d entity meta (bo_write opts) now tmp qs keys auditCols) rows 0)" for c d meta now tmp qs keys auditCols
    by (intro batches_confined add_batch_confined) (use b in \<open>auto simp: batch_size_default\<close>)
  show ?thesis
    by (rule lift_outcome [OF run [unfolded addMany_def if_not_P [OF False]]])
       (auto simp: clock_run elim!: bulk_transaction_outcome [OF db, rotated] split: prod.splits
         intro!: committing_bind committing_op_bind committing_result confined_lift tmp_table_confined create_tmp_confined add_conflicts_confined
           bt [simplified] tell_confined, simp_all add: orderly_def)
qed

lemma update_outcome:
  assumes db: "ry_db S = PoolDb" and run: "updateMany S entity items opts g = Some (r, g')" and b: "b \<Longrightarrow> default_batch opts"
  shows "bulk_outcome b g (isl r) g'"
proof (cases "items = []")
  case True
  then show ?thesis using run by (auto simp: updateMany_def intro: ret_outcome)
next
  case False
  have bt: "at_client c (orderly b) (batches (batch_size opts n)
      (update_batch S c d entity meta (bo_write opts) now tmp matchCols ks guard) items 0)"
    if "n = length ks + 1 + (if guard \<noteq> None then 1 else 0)" for c d meta now tmp ks matchCols guard n
    unfolding that by (intro batches_confined update_batch_confined) (use b in \<open>auto simp: batch_size_default\<close>)
  have ut: "at_client c (orderly b) (run_op (update_tmp S c entity meta w table matchCols guard updateKeys))" for c meta w table matchCols guard updateKeys
    unfolding update_tmp_def by (intro confined_intros)
  have h: "orderly b (update_head table cs tmp @ w) []" for table cs tmp w by (rule update_orderly) simp
  show ?thesis
    by (rule lift_outcome [OF run [unfolded updateMany_def if_not_P [OF False] Let_def]])
       (auto elim!: bulk_transaction_outcome [OF db, rotated] split: prod.splits simp del: One_nat_def
         intro!: committing_bind confined_lift clock_confined snapshot_confined guarded_write_committing audit_rows_confined
           change_audit_orderly ut bt h)
qed


definition bulk_methods :: "'w repository \<Rightarrow> (nat \<Rightarrow> host_record list \<Rightarrow> bulk_options \<Rightarrow> ('w gateway, bulk_result) run) list" where
  "bulk_methods S = [addMany S, updateMany S, deleteMany S, restoreMany S, hardDeleteMany S]"

lemma bulk_outcomes:
  assumes "ry_db S = PoolDb" and "m \<in> set (bulk_methods S)" and "m entity items opts g = Some (r, g')"
    and "b \<Longrightarrow> default_batch opts"
  shows "bulk_outcome b g (isl r) g'"
  using assms soft_many_outcome [OF assms(1) stamps_length(1)] soft_many_outcome [OF assms(1) stamps_length(2)]
    hard_outcome [OF assms(1)] add_outcome [OF assms(1)] update_outcome [OF assms(1)]
  by (auto simp: bulk_methods_def deleteMany_def restoreMany_def)

end
