(* ===== verification/BulkRuns.thy ===== *)
theory BulkRuns
  imports BulkFacts RepositoryFacts
begin

text \<open>
  Runs of the bulk methods: the loop over the batches covers the items and ends, the methods return, what they do on a repository
  of an open transaction, and an example.
\<close>

section \<open>The loop over the batches\<close>

text \<open>The batches as a list, with their positions.\<close>

function chunks :: "nat \<Rightarrow> 'a list \<Rightarrow> nat \<Rightarrow> (nat \<times> 'a list) list" where
  "chunks sz xs i = (if xs = [] \<or> sz = 0 then [] else (i, take sz xs) # chunks sz (drop sz xs) (i + sz))"
  by pat_completeness auto

termination by (relation "measure (\<lambda>(sz, xs, i). length xs)") auto

declare chunks.simps [simp del]

fun each_batch :: "(int \<Rightarrow> 'r list \<Rightarrow> ('w, unit) op) \<Rightarrow> (nat \<times> 'r list) list \<Rightarrow> ('w, unit) op" where
  "each_batch f [] = op_ret ()"
| "each_batch f ((i, b) # bs) = op_bind (f (int i) b) (\<lambda>_. each_batch f bs)"

lemma chunks_cover:
  "0 < sz \<Longrightarrow> concat (map snd (chunks sz xs i)) = xs
     \<and> list_all (\<lambda>(j, b). b \<noteq> [] \<and> length b \<le> sz) (chunks sz xs i)"
proof (induction sz xs i rule: chunks.induct)
  case (1 sz xs i)
  then show ?case by (subst (1 2) chunks.simps) auto
qed

lemma batches_chunks:
  assumes "0 < sz"
  shows "batches (int sz) f rows (int i) w = Some (each_batch f (chunks sz (drop i rows) i) w)"
proof (induction "length rows - i" arbitrary: i w rule: less_induct)
  case less
  show ?case
  proof (cases "i < length rows")
    case False
    then show ?thesis by (subst batches.simps, subst chunks.simps) (simp add: op_ret_def)
  next
    case True
    have sl: "js_slice rows (int i) (int i + int sz) = take sz (drop i rows)" by (simp add: js_slice_nonneg)
    have c: "chunks sz (drop i rows) i = (i, take sz (drop i rows)) # chunks sz (drop (i + sz) rows) (i + sz)"
      using True assms by (subst chunks.simps) (simp add: add.commute)
    have ih: "batches (int sz) f rows (int i + int sz) w' = Some (each_batch f (chunks sz (drop (i + sz) rows) (i + sz)) w')" for w'
      using less [of "i + sz" w'] True assms by simp
    show ?thesis by (subst batches.simps) (simp add: True sl c ih op_bind_def split: prod.splits sum.splits)
  qed
qed

text \<open>For a positive batch size the loop ends, and does to its items what handling consecutive batches one after the other
  does; together the batches hold every item once, in order, and none is empty or too long.\<close>

theorem batches_cover_items:
  assumes "0 < sz"
  shows "batches (int sz) f rows 0 w = Some (each_batch f (chunks sz rows 0) w)
    \<and> concat (map snd (chunks sz rows 0)) = rows \<and> list_all (\<lambda>(j, b). b \<noteq> [] \<and> length b \<le> sz) (chunks sz rows 0)"
  using batches_chunks [OF assms, of f rows 0] chunks_cover [OF assms, of rows 0] by simp

theorem batches_cover_items_witness:
  "batches (int 2) (\<lambda>i b w. (Inr (), w @ [(i, b)])) [7, 8, 9 :: nat] 0 [] = Some (Inr (), [(0, [7, 8]), (2, [9])])"
  using batches_cover_items [of 2 "\<lambda>i b w. (Inr (), w @ [(i, b)])" "[7, 8, 9]" "[]"] by (simp add: chunks.simps op_bind_def op_ret_def)

text \<open>A batch size of 0 makes the loop repeat an empty batch for ever.\<close>

lemma empty_batches_spin:
  assumes "rows \<noteq> []" and "\<And>w. f 0 [] w = (Inr (), w)"
  shows "batches 0 f rows 0 w = None"
proof (rule ccontr)
  assume "batches 0 f rows 0 w \<noteq> None"
  then obtain y where y: "batches 0 f rows 0 w = Some y" by blast
  have "(0 :: int) = 0 \<longrightarrow> (0 :: int) = 0 \<longrightarrow> (\<forall>w. f 0 [] w = (Inr (), w)) \<longrightarrow> rows = []"
    by (rule batches.raw_induct [OF _ y, where P = "\<lambda>sz f rows i w y. sz = 0 \<longrightarrow> i = 0 \<longrightarrow> (\<forall>w. f 0 [] w = (Inr (), w)) \<longrightarrow> rows = []"])
       (auto simp: js_slice_def Let_def split: if_splits)
  then show False using assms by simp
qed


section \<open>An example\<close>

definition ex_driver :: "nat driver" where
  "ex_driver = \<lparr>dr_connect = (\<lambda>w. (Inr 7, w)), dr_query = (\<lambda>c sql vs w. (Inr \<lparr>qr_rows = [], qr_rowCount = 2\<rparr>, Suc w)),
     dr_release = (\<lambda>c w. w), dr_run = (\<lambda>sql vs w. (Inr \<lparr>qr_rows = [], qr_rowCount = 0\<rparr>, w)), dr_reconnect = (\<lambda>c w. (Inr (), w)),
     dr_hasConnect = True, dr_now = int, dr_uuid = (\<lambda>w. (''0a1b-2c3d'', w))\<rparr>"

definition ex_base :: "nat gateway repo" where
  "ex_base = \<lparr>rp_query = pool_query ex_driver, rp_audit = (\<lambda>_ g. g), rp_param = (\<lambda>_. HNull), rp_host = ex_host, rp_env = ex_env\<rparr>"

definition ex_store :: "nat repository" where
  "ex_store = new_repository ex_driver ex_base PoolDb 1000"

definition ex_bulk :: bulk_options where
  "ex_bulk = \<lparr>bo_write = ex_options, bo_batchSize = None, bo_timeoutMs = None\<rparr>"

definition ex_items :: "host_record list" where
  "ex_items = [ex_payload, [(''email'', HStr ''c@d''), (''nick'', HStr ''y''), (''version'', HNum ''1'')]]"

definition ex_start :: "nat gateway" where
  "ex_start = \<lparr>gw_world = 0, gw_noop = [], gw_log = []\<rparr>"

section \<open>The methods return\<close>

definition returns :: "('w, 'a) run \<Rightarrow> bool" where
  "returns m \<longleftrightarrow> (\<forall>w. m w \<noteq> None)"

named_theorems returns_intros

lemma returns_op [returns_intros]: "returns (run_op m)"
  by (simp add: returns_def run_op_def)

lemma returns_ret [returns_intros]: "returns (run_ret a)"
  by (simp add: run_ret_def returns_op)

lemma returns_bind [returns_intros]: "returns m \<Longrightarrow> (\<And>a. returns (f a)) \<Longrightarrow> returns (run_bind m f)"
  by (auto simp: returns_def run_bind_def split: option.splits sum.splits)

lemma returns_lift_bind: "(\<And>x. q = Inr x \<Longrightarrow> returns (f x)) \<Longrightarrow> returns (run_bind (run_op (op_lift q)) f)"
  by (cases q) (auto simp: returns_def run_bind_def run_op_def op_lift_def)

lemma returns_batches: "0 < sz \<Longrightarrow> returns (batches sz f rows 0)"
  unfolding returns_def using batches_returns [of sz 0 f rows] by fastforce

lemma returns_transaction [returns_intros]: "(\<And>c d. returns (body c d)) \<Longrightarrow> returns (bulk_transaction S t body)"
  unfolding bulk_transaction_def
  by (intro returns_bind returns_op) (auto simp: returns_def bulk_try_def split: option.splits sum.splits)

lemma distinct_set_add: "distinct xs \<Longrightarrow> distinct (set_add x xs)"
  by (simp add: set_add_def)

lemma distinct_fold_set_add: "distinct xs \<Longrightarrow> distinct (fold (\<lambda>c. set_add (f c)) cs xs)"
  by (induction cs arbitrary: xs) (simp_all add: distinct_set_add)

lemma selector_props_distinct: "selector_props meta ks r = Inr s \<Longrightarrow> distinct r \<Longrightarrow> distinct s"
  by (induction ks arbitrary: r) (auto simp: distinct_fold_set_add distinct_set_add split: option.splits if_splits)

lemma uniform_identity_props:
  "uniform_identity name cls items ks required = Inr s \<Longrightarrow> distinct required \<Longrightarrow> distinct s \<and> set s \<subseteq> set required \<union> set ks"
proof (induction ks arbitrary: required)
  case Nil
  then show ?case by simp
next
  case (Cons k ks)
  then show ?case
    by (cases "k \<in> set required \<or> list_all (\<lambda>r. prop_of r k = HUndefined) items"; cases "missing_at items k")
       (fastforce dest: Cons.IH)+
qed

lemma col_by_prop_key: "col_by_prop meta k = Some c \<Longrightarrow> k \<in> cm_propertyKey ` set (cols meta)"
  unfolding col_by_prop_def by (drule map_of_SomeD) force

lemma selected_props_known:
  assumes "selector_props meta ks [] = Inr s" shows "set s \<subseteq> cm_propertyKey ` set (cols meta)"
proof
  fix p assume "p \<in> set s"
  then obtain k where k: "k \<in> set ks" "p \<in> identity_props meta k" using selector_props_ok [OF assms] by auto
  show "p \<in> cm_propertyKey ` set (cols meta)"
  proof (cases "group_of meta k")
    case (Some g)
    then show ?thesis using k(2) unique_groups_members [of "fst g" "snd g" meta] group_of_props [OF Some]
      by (fastforce simp: identity_props_def)
  next
    case None
    then have "p = k" using k(2) by (simp add: identity_props_def)
    moreover obtain pk where "findPkColumn meta = Some pk" "cm_propertyKey pk = k"
      using selector_props_ok [OF assms] k(1) None by fastforce
    ultimately show ?thesis unfolding findPkColumn_def find_Some_iff by (metis imageI nth_mem)
  qed
qed


lemma implicit_known: "set (implicit_identity meta) \<subseteq> cm_propertyKey ` set (cols meta)"
  unfolding implicit_identity_def findPkColumn_def uuid_col_def
  by (auto simp: map_filter_simps find_Some_iff split: option.splits)

lemma match_columns_few:
  assumes "resolveBulkMatchColumns meta items matchBy name = Inr ms"
  shows "length ms \<le> length (cols meta)"
proof -
  obtain selected required where s: "selector_props meta matchBy [] = Inr selected"
    and r: "uniform_identity name (em_entityClassName meta) items (implicit_identity meta) selected = Inr required"
    and ms: "ms = map (\<lambda>k. the (col_by_prop meta k)) required"
    using assms by (auto simp: resolveBulkMatchColumns_def resolveSelectorProps_def res_bind_Inr split: if_splits)
  have d: "distinct required" "set required \<subseteq> cm_propertyKey ` set (cols meta)"
    using uniform_identity_props [OF r selector_props_distinct [OF s]] selected_props_known [OF s] implicit_known [of meta] by auto
  have "length required = card (set required)" using distinct_card [OF d(1)] by simp
  also have "\<dots> \<le> card (cm_propertyKey ` set (cols meta))" using d(2) by (simp add: card_mono)
  also have "\<dots> \<le> card (set (cols meta))" by (simp add: card_image_le)
  also have "\<dots> \<le> length (cols meta)" by (rule card_length)
  finally show ?thesis using ms by simp
qed

lemma prepare_keys_few:
  assumes "prepare_keys S entity items opts name check versioned = Inr (meta, table, ms, guard)"
  shows "ee_meta (env_of_repo S) entity = Inr meta \<and> length ms \<le> length (cols meta)"
  using assms match_columns_few by (auto simp: prepare_keys_def plain_Inr res_bind_Inr)

lemma stage_keys_returns: "length ms \<le> 65533 \<Longrightarrow> returns (stage_keys S c d name stem meta table ms guard items)"
  unfolding stage_keys_def
  by (intro returns_intros returns_batches) (simp add: key_batch_size_def autoBatchSize_pos)

lemma batch_size_pos:
  "(case bo_batchSize opts of Some b \<Rightarrow> 0 < b | None \<Rightarrow> True) \<Longrightarrow> n \<le> 65535 \<Longrightarrow> 0 < batch_size opts n"
  by (simp add: batch_size_def autoBatchSize_pos split: option.splits)

lemma insert_keys_few: "length (insert_keys meta row) \<le> length row"
  by (auto simp: insert_keys_def Let_def intro: order.trans [OF length_filter_le] split: option.splits)

lemma audit_props_few: "length (audit_props meta opts keys) \<le> length (cols meta)"
  by (auto simp: audit_props_def)

lemma stamps_few: "length (stamp_columns_of meta opts) \<le> 2"
  unfolding stamp_columns_of_def using map_filter_length [of id "[auditable_col UPDATED_AT meta, auditable_col UPDATED_BY meta]"] by simp

lemma update_keys_few: "length (update_keys meta ms guard row) \<le> length row"
  unfolding update_keys_def by (rule order.trans [OF length_filter_le]) simp

text \<open>C17: a bulk method returns, whatever the database answers, when the batch size is computed or positive and the item and the entity have fewer
  columns than a statement can have parameters.\<close>

theorem bulk_methods_return:
  assumes "m \<in> set (bulk_methods S)" and "ee_meta (env_of_repo S) entity = Inr meta"
    and "length (hd items) + length (cols meta) + 4 \<le> 65535"
    and "case bo_batchSize opts of Some b \<Rightarrow> 0 < b | None \<Rightarrow> True"
  shows "\<exists>r g'. m entity items opts g = Some (r, g')"
proof -
  have few: "length ms \<le> 65533 \<and> meta' = meta" if "prepare_keys S entity items o' name check versioned = Inr (meta', table, ms, guard)"
    for o' name check versioned meta' table ms guard
    using prepare_keys_few [OF that] assms(2,3) by simp
  have soft: "returns (soft_many S entity items opts name stem what action stamps)" for name stem what action stamps
    unfolding soft_many_def
    by (auto intro!: returns_lift_bind returns_intros stage_keys_returns dest: few split: prod.splits)
  have hard: "returns (hardDeleteMany S entity items opts)"
    unfolding hardDeleteMany_def
    by (auto intro!: returns_lift_bind returns_intros stage_keys_returns dest: few split: prod.splits)
  have add: "returns (addMany S entity items opts)"
  proof -
    have "returns (batches (batch_size opts (length (keys @ aud))) f items 0)"
      if "add_prepare S entity items (bo_write opts) = Inr (meta', table, keys, aud, qs)" for f meta' table keys aud qs
    proof (rule returns_batches, rule batch_size_pos [OF assms(4)])
      have "meta' = meta" "keys = insert_keys meta (hd items)" "aud = audit_props meta (bo_write opts) keys"
        using that assms(2) by (auto simp: add_prepare_def plain_Inr res_bind_Inr Let_def split: if_splits)
      then show "length (keys @ aud) \<le> 65535"
        using insert_keys_few [of meta "hd items"] audit_props_few [of meta "bo_write opts" keys] assms(3) by simp
    qed
    note b = this
    show ?thesis unfolding addMany_def
      by (auto intro!: returns_lift_bind returns_intros b simp del: length_append split: prod.splits)
  qed
  have upd: "returns (updateMany S entity items opts)"
  proof -
    have b: "returns (batches (batch_size opts n) f items 0)"
      if "update_prepare S entity items (bo_write opts) = Inr (meta', table, ms, guard, ks, sets)"
        and "n \<le> length ms + length ks + length (stamp_columns_of meta' (bo_write opts)) + 2"
      for f meta' table ms guard ks sets n
    proof (rule returns_batches, rule batch_size_pos [OF assms(4)])
      have p: "prepare_keys S entity items (bo_write opts) ''updateMany'' (\<lambda>_. Inr ()) (\<lambda>_. True) = Inr (meta', table, ms, guard)"
        and k: "ks = update_keys meta' ms guard (hd items)"
        using that(1) by (auto simp: update_prepare_def res_bind_Inr Let_def split: if_splits)
      show "n \<le> 65535"
        using prepare_keys_few [OF p] k that(2) assms(2,3) update_keys_few [of meta' ms guard "hd items"] stamps_few [of meta' "bo_write opts"] by simp
    qed
    show ?thesis unfolding updateMany_def Let_def
      by (auto intro!: returns_lift_bind returns_intros elim!: b split: prod.splits)
  qed
  have "returns (m entity items opts)"
    using assms(1) soft hard add upd by (auto simp: bulk_methods_def deleteMany_def restoreMany_def)
  then show ?thesis unfolding returns_def by (metis option.exhaust prod.exhaust)
qed


theorem bulk_methods_return_witness: "\<exists>r g'. updateMany ex_store 0 ex_items ex_bulk ex_start = Some (r, g')"
  by (rule bulk_methods_return [of "updateMany ex_store" ex_store 0 ex_meta ex_items ex_bulk ex_start])
     (simp_all add: bulk_methods_def ex_store_def new_repository_def env_of_repo_def ex_base_def ex_env_def ex_items_def ex_payload_def ex_meta_def cols_def ex_bulk_def)

section \<open>On the repository of an open transaction\<close>

text \<open>A client has a method \<open>connect\<close> (as those of \<open>pg\<close> do): then every bulk method fails before it sends anything.\<close>

lemma bulk_on_client_fails:
  assumes "ry_db S = ClientDb c" and "dr_hasConnect (ry_driver S)"
    and "bulk_transaction S t body g = Some (r, g')"
  shows "isl r \<and> gw_log g' = gw_log g"
  using assms by (auto simp: bulk_transaction_def bulkBegin_def getClient_def run_bind_def run_op_def op_bind_def op_fail_def split: sum.splits prod.splits)

text \<open>A client without one: the bulk method begins and commits on the client of the open transaction, and the client is never given
  back, because its \<open>release\<close> has been replaced.\<close>

lemma bulk_on_client_commits:
  assumes db: "ry_db S = ClientDb c" and no: "\<not> dr_hasConnect (ry_driver S)"
    and body: "\<And>d. committing False c (body c d)" and run: "bulk_transaction S t body g = Some (Inr x, g')"
  shows "(\<exists>es. gw_log g' = gw_log g @ Sent c ''BEGIN'' [] # es @ [Sent c ''COMMIT'' []]) \<and> release (ry_driver S) c g' = g'"
proof -
  obtain b g1 where q: "bulkBegin S t g = (b, g1)" by fastforce
  obtain d where b: "b = Inr (c, d)" and tr: "bulk_try S c (body c d) g1 = Some (Inr x, g')"
    using run q db no by (cases b) (auto simp: bulk_transaction_def run_bind_def run_op_def bulkBegin_def getClient_def op_bind_def
      op_ret_def clock_def split: if_splits prod.splits sum.splits)
  have l1: "(\<exists>es. gw_log g1 = gw_log g @ Sent c ''BEGIN'' [] # es) \<and> c \<in> set (gw_noop g1)"
    using q b db no by (auto simp: bulkBegin_def getClient_def op_bind_def op_ret_def clock_def client_query_def
      split: if_splits prod.splits sum.splits)
  obtain h where h: "body c d g1 = Some (Inr x, h)" "g' = release (ry_driver S) c h"
    using tr by (auto simp: bulk_try_def split: option.splits sum.splits)
  then obtain g2 where "stays gw_log gw_noop c (orderly False) g1 g2" "gw_log h = gw_log g2 @ [Sent c ''COMMIT'' []]" "gw_noop h = gw_noop g2"
    using body [of d] unfolding committing_def by fastforce
  then have l2: "\<exists>es. gw_log h = gw_log g1 @ es @ [Sent c ''COMMIT'' []]" "c \<in> set (gw_noop h)"
    using l1 unfolding stays_def by auto
  then have "g' = h" using h(2) by (simp add: release_def)
  then show ?thesis using l1 l2 by (auto simp: release_def)
qed

section \<open>Outcomes\<close>

lemma run_bind_InrE:
  assumes "run_bind m f g = Some (Inr x, g')"
  obtains a h where "m g = Some (Inr a, h)" and "f a h = Some (Inr x, g')"
  using assms by (auto simp: run_bind_def split: option.splits sum.splits)

lemma op_bind_InrE:
  assumes "op_bind m f g = (Inr x, g')"
  obtains a h where "m g = (Inr a, h)" and "f a h = (Inr x, g')"
  using assms by (auto simp: op_bind_def split: prod.splits sum.splits)

lemma run_lift_InrE:
  assumes "run_bind (run_op (op_lift q)) f g = Some (Inr x, g')"
  obtains a where "q = Inr a" and "f a g = Some (Inr x, g')"
  using assms by (cases q) (auto simp: run_bind_def run_op_def op_lift_def)

lemma transaction_InrE:
  assumes "bulk_transaction S t body g = Some (Inr x, g')"
  obtains c d h h' where "body c d h = Some (Inr x, h')"
  using assms unfolding bulk_transaction_def
  by (elim run_bind_InrE) (auto simp: bulk_try_def split: option.splits sum.splits prod.splits)

lemma guarded_write_complete:
  assumes "guarded_bulk_write S c d name meta table ms (Some guard) tmp head vals wanted audit h = (Inr res, h')"
  shows "br_received res = wanted \<and> wanted \<le> br_affected res"
  using assms unfolding guarded_bulk_write_def
  by (elim op_bind_InrE) (auto simp: op_lift_def race_guard_def commit_result_def op_ret_def op_bind_def split: if_splits sum.splits prod.splits)

lemma prepare_keys_guard:
  assumes "prepare_keys S entity items opts name check versioned = Inr (meta', table, ms, guard)"
    and "ee_meta (env_of_repo S) entity = Inr meta" and "findVersionColumn meta = Some vc" and "versioned meta"
  shows "guard \<noteq> None"
  using assms by (auto simp: prepare_keys_def plain_Inr res_bind_Inr extractExpectedVersions_def Let_def split: if_splits)

lemma versioned_auditable: "findVersionColumn meta = Some vc \<Longrightarrow> isAuditableEntity meta"
  unfolding findVersionColumn_def auditable_col_def find_Some_iff isAuditableEntity_def list_ex_iff by (metis nth_mem option.discI)

lemma ex_purge: "\<exists>res g'. hardDeleteMany ex_store 0 [hd ex_items] ex_bulk ex_start = Some (Inr res, g')"
proof -
  have "case hardDeleteMany ex_store 0 [hd ex_items] ex_bulk ex_start of Some (Inr _, _) \<Rightarrow> True | _ \<Rightarrow> False" by code_simp
  then show ?thesis by (auto split: option.splits prod.splits sum.splits)
qed

lemma ex_store_fields: "ry_db ex_store = PoolDb" "ee_meta (env_of_repo ex_store) 0 = Inr ex_meta"
  by (simp_all add: ex_store_def new_repository_def env_of_repo_def ex_base_def ex_env_def)

text \<open>C4: a bulk update, delete, restore or purge of a versioned entity that succeeds has written at least as many rows as it got items: it
  never leaves a part of them unwritten.\<close>

theorem versioned_bulk_is_complete:
  assumes "m \<in> set (tl (bulk_methods S))" and "ee_meta (env_of_repo S) entity = Inr meta" and "findVersionColumn meta = Some vc"
    and "m entity items opts g = Some (Inr res, g')"
  shows "br_received res = length items \<and> length items \<le> br_affected res"
proof (cases "items = []")
  case True
  then show ?thesis using assms(1,4)
    by (auto simp: bulk_methods_def updateMany_def deleteMany_def restoreMany_def soft_many_def hardDeleteMany_def run_ret_def run_op_def op_ret_def)
next
  case False
  have ok: ?thesis if p: "prepare_keys S entity items opts' name check versioned = Inr (meta', table, ms, guard)" and v: "versioned meta"
      and w: "guarded_bulk_write S c d name' meta'' table' ms' guard tmp head vals (length items) audit h = (Inr res, h')"
    for opts' name check versioned meta' table ms guard c d name' meta'' table' ms' tmp head vals audit h h'
  proof -
    obtain x where "guard = Some x" using prepare_keys_guard [OF p assms(2,3) v] by auto
    then show ?thesis using guarded_write_complete w by blast
  qed
  have soft: ?thesis if "soft_many S entity items opts name stem what action stamps g = Some (Inr res, g')" for name stem what action stamps
    using that False unfolding soft_many_def
    by (auto elim!: run_lift_InrE run_bind_InrE transaction_InrE simp: run_op_def op_lift_def split: prod.splits dest: ok)
  have hard: ?thesis if "hardDeleteMany S entity items opts g = Some (Inr res, g')"
    using that False versioned_auditable [OF assms(3)] unfolding hardDeleteMany_def
    by (auto elim!: run_lift_InrE run_bind_InrE transaction_InrE simp: run_op_def op_lift_def split: prod.splits dest: ok)
  have upd: ?thesis if "updateMany S entity items opts g = Some (Inr res, g')"
    using that False unfolding updateMany_def Let_def
    by (auto elim!: run_lift_InrE run_bind_InrE transaction_InrE simp: run_op_def op_lift_def update_prepare_def res_bind_Inr Let_def
        split: prod.splits if_splits dest: ok)
  show ?thesis using assms(1,4) soft hard upd by (auto simp: bulk_methods_def deleteMany_def restoreMany_def)
qed

theorem versioned_bulk_is_complete_witness:
  "\<exists>res g'. hardDeleteMany ex_store 0 [hd ex_items] ex_bulk ex_start = Some (Inr res, g') \<and> br_received res = 1 \<and> 1 \<le> br_affected res"
proof -
  obtain res g' where r: "hardDeleteMany ex_store 0 [hd ex_items] ex_bulk ex_start = Some (Inr res, g')" using ex_purge by blast
  have "findVersionColumn ex_meta = Some (ex_column ''version'' False False (Some VERSION))"
    by (simp add: findVersionColumn_def auditable_col_def ex_meta_def cols_def ex_column_def)
  then show ?thesis using r versioned_bulk_is_complete [of "hardDeleteMany ex_store" ex_store 0 ex_meta _ "[hd ex_items]" ex_bulk ex_start res g']
    by (simp add: bulk_methods_def ex_store_fields)
qed



text \<open>C18: with the batch size that the code computes, no statement of a bulk method binds more than the 65535 parameters of PostgreSQL.\<close>

theorem bulk_parameters_bounded:
  assumes "ry_db S = PoolDb" and "m \<in> set (bulk_methods S)" and "m entity items opts g = Some (r, g')" and "bo_batchSize opts = None"
  shows "\<exists>es. gw_log g' = gw_log g @ es \<and> list_all (\<lambda>(sql, vs). length vs \<le> 65535) (calls es)"
proof -
  obtain es where es: "gw_log g' = gw_log g @ es" "es = [] \<or> whole_transaction True (isl r) es \<or> isl r \<and> leaked es"
    using bulk_outcomes [OF assms(1-3), of True] assms(4) by (auto simp: bulk_outcome_def default_batch_def)
  let ?small = "list_all (\<lambda>(sql, vs). length vs \<le> 65535)"
  have o: "?small xs" if "\<forall>(sql, vs) \<in> set xs. orderly True sql vs" for xs :: "(string \<times> host_value list) list"
    using that by (fastforce simp: list_all_iff orderly_def)
  have c: "?small (calls fin)" if "closing c f fin" for c f fin
    using that by (auto simp: closing_def split: if_splits)
  have "?small (calls es)"
    using es(2) unfolding whole_transaction_def leaked_def by (elim disjE exE conjE) (simp_all add: o c)
  then show ?thesis using es(1) by blast
qed

theorem bulk_parameters_bounded_witness:
  "\<exists>res g'. hardDeleteMany ex_store 0 [hd ex_items] ex_bulk ex_start = Some (Inr res, g')
     \<and> list_all (\<lambda>(sql, vs). length vs \<le> 65535) (calls (gw_log g'))"
proof -
  obtain res g' where r: "hardDeleteMany ex_store 0 [hd ex_items] ex_bulk ex_start = Some (Inr res, g')" using ex_purge by blast
  then show ?thesis using bulk_parameters_bounded [of ex_store "hardDeleteMany ex_store" 0 "[hd ex_items]" ex_bulk ex_start "Inr res" g']
    by (auto simp: bulk_methods_def ex_store_fields ex_start_def ex_bulk_def)
qed

end
