(* ===== verification/RepositoryClone.thy ===== *)
theory RepositoryClone
  imports RepositoryFacts
begin

text \<open>
  The method \<open>clone\<close> of \<open>src/repository/repository.ts\<close>.  The new uuid and the time are arguments.
\<close>

text \<open>The column that is taken for the uuid: the first one that is named \<open>uuid\<close> or declared unique.\<close>

definition clone_uuid_col :: "entity_meta \<Rightarrow> column_meta option" where
  "clone_uuid_col meta = map_option snd (List.find (\<lambda>(name, c). name = ''uuid'' \<or> cm_isUnique c) (em_columns meta))"

definition clone_field :: "host_value \<Rightarrow> int \<Rightarrow> host_record \<Rightarrow> column_meta \<Rightarrow> host_value option" where
  "clone_field actor now source c =
     (if cm_isKey c \<or> cm_isUnique c \<or> cm_isClone c then None
      else case cm_auditableType c of
             Some CREATED_AT \<Rightarrow> Some (HDate now)
           | Some UPDATED_AT \<Rightarrow> Some (HDate now)
           | Some CREATED_BY \<Rightarrow> Some actor
           | Some UPDATED_BY \<Rightarrow> Some actor
           | Some VERSION \<Rightarrow> Some (HNum ''1'')
           | None \<Rightarrow>
               if cm_deletableType c \<noteq> None then Some HNull
               else if prop_of source (cm_sqlName c) \<noteq> HUndefined then Some (prop_of source (cm_sqlName c)) else None)"

text \<open>An assignment of a property that keeps its place in the object.\<close>

definition assign :: "string \<Rightarrow> host_value option \<Rightarrow> host_record \<Rightarrow> host_record" where
  "assign k v r = (case v of Some x \<Rightarrow> AList.update k x r | None \<Rightarrow> r)"

definition clone_record :: "entity_meta \<Rightarrow> column_meta \<Rightarrow> host_value \<Rightarrow> int \<Rightarrow> string \<Rightarrow> string \<Rightarrow> host_record \<Rightarrow> host_record" where
  "clone_record meta uuidCol actor now sourceUuid newUuid source =
     (let copied = fold (\<lambda>c. assign (cm_sqlName c) (clone_field actor now source c)) (cols meta) [];
          named = AList.update (cm_sqlName uuidCol) (HStr newUuid) copied
      in case List.find cm_isClone (cols meta) of
           Some c \<Rightarrow> AList.update (cm_sqlName c) (HStr sourceUuid) named
         | None \<Rightarrow> named)"

definition clone_insert :: "string \<Rightarrow> host_record \<Rightarrow> string \<Rightarrow> (dal_error, string) res" where
  "clone_insert table row retSql =
     res_bind (map_res (\<lambda>(k, _). plain (quoteIdent k)) row) (\<lambda>qs.
       Inr (''INSERT INTO '' @ table @ '' ('' @ join '', '' qs @ '') VALUES ('' @ join '', '' (param_list (length row)) @ '') '' @ retSql))"

definition clone_audit :: "'w repo \<Rightarrow> entity_meta \<Rightarrow> write_options \<Rightarrow> int \<Rightarrow> string \<Rightarrow> host_record \<Rightarrow> ('w, unit) op" where
  "clone_audit R meta opts now newUuid inserted =
     (case wo_actor opts of
        Some actor \<Rightarrow>
          if wo_audit opts then
            send_audit R (\<lambda>d. \<lparr>ae_entityClassName = em_entityClassName meta, ae_tableName = em_tableName meta,
                ae_entityId = (case findPkColumn meta of
                    Some pk \<Rightarrow> coalesce_host (prop_of inserted (cm_sqlName pk)) (HBig 0) | None \<Rightarrow> HBig 0),
                ae_entityUuid = HStr newUuid, ae_action = CLONE, ae_changedAt = now, ae_version = HNum ''1'',
                ae_changedBy = actor, ae_delta = d\<rparr>)
              (calculateDelta (rp_host R) [] inserted)
          else op_ret ()
      | None \<Rightarrow> op_ret ())"

definition clone :: "'w repo \<Rightarrow> nat \<Rightarrow> string \<Rightarrow> write_options \<Rightarrow> string \<Rightarrow> int \<Rightarrow> ('w, host_record) op" where
  "clone R entity sourceUuid opts newUuid now =
     op_bind (op_lift (plain (ee_meta (rp_env R) entity))) (\<lambda>meta.
     op_bind (op_lift (plain (ee_qualified (rp_env R) entity))) (\<lambda>table.
       case clone_uuid_col meta of
         None \<Rightarrow> op_fail (PlainError (''Entity '' @ em_entityClassName meta @ '' has no uuid column''))
       | Some uc \<Rightarrow>
           op_bind (op_lift (plain (quoteIdent (cm_sqlName uc)))) (\<lambda>q.
           op_bind (rp_query R (''SELECT * FROM '' @ table @ '' WHERE '' @ q @ '' = $1'') [HStr sourceUuid]) (\<lambda>found.
             if qr_rowCount found = 0 then op_fail (NotFound (''Source record not found with uuid '' @ sourceUuid))
             else
               (let source = (case qr_rows found of r # _ \<Rightarrow> r | [] \<Rightarrow> []);
                    row = clone_record meta uc (actor_value opts) now sourceUuid newUuid source
                in op_bind (op_lift (res_bind (buildReturningClause (rp_env R) entity (wo_returning opts)) (\<lambda>ret.
                       res_bind (clone_insert table row (rt_clause ret)) (\<lambda>sql. Inr (ret, sql))))) (\<lambda>(ret, sql).
                   op_bind (rp_query R sql (map snd row)) (\<lambda>ins.
                     if qr_rowCount ins = 0 then op_fail (PlainError (''Failed to clone record for '' @ em_tableName meta))
                     else (case qr_rows ins of
                             [] \<Rightarrow> op_fail (PlainError ''Cannot convert undefined or null to object'')
                           | inserted # _ \<Rightarrow>
                               op_bind (clone_audit R meta opts now newUuid inserted) (\<lambda>_.
                                 op_ret (pickReturningRow inserted (rt_visibleKeys ret)))))))))))"

section \<open>Facts\<close>

lemma map_of_assign: "map_of (assign k v r) k' = (if k = k' \<and> v \<noteq> None then v else map_of r k')"
  by (cases v) (auto simp: assign_def update_conv')

lemma fold_assign_other:
  "k \<notin> f ` set cs \<Longrightarrow> map_of (fold (\<lambda>c. assign (f c) (g c)) cs r) k = map_of r k"
  by (induction cs arbitrary: r) (auto simp: map_of_assign)

lemma fold_assign:
  "distinct (map f cs) \<Longrightarrow> c \<in> set cs \<Longrightarrow>
     map_of (fold (\<lambda>c. assign (f c) (g c)) cs r) (f c) = (if g c \<noteq> None then g c else map_of r (f c))"
  by (induction cs arbitrary: r) (auto simp: fold_assign_other map_of_assign)



text \<open>A unique column that is declared before the column \<open>uuid\<close> is taken for it: its value is compared with the uuid of the source and
  replaced by the new uuid.\<close>

lemma clone_takes_first_unique:
  assumes "em_columns meta = (''email'', e) # rest" and "cm_isUnique e"
  shows "clone_uuid_col meta = Some e"
  using assms by (simp add: clone_uuid_col_def)

end
