(* ===== verification/PartitionMaintenance.thy ===== *)
theory PartitionMaintenance
  imports Connections
begin

text \<open>
  \<open>src/dal/partition-maintenance.ts\<close>: the retention executor for partitioned entities.  \<open>ask\<close> is \<open>client.query\<close>.
\<close>

record parent_report =
  pr_table :: string
  pr_partition_column :: string
  pr_retention :: "string option"
  pr_children_purged :: "(string \<times> nat) list"
  pr_strays_deleted :: nat
  pr_partitions_before :: host_value
  pr_partitions_after :: host_value
  pr_skipped :: "string option"

record maintenance_report =
  mr_parents :: "parent_report list"
  mr_maintenance_ran :: bool

type_synonym 'w client_op = "string \<Rightarrow> host_value list \<Rightarrow> ('w, query_result) op"

definition dotted :: "entity_meta \<Rightarrow> string" where
  "dotted m = em_tableSchema m @ ''.'' @ em_tableName m"

definition fq_table :: "entity_meta \<Rightarrow> (dal_error, string) res" where
  "fq_table m = res_bind (plain (quoteIdent (em_tableSchema m))) (\<lambda>s. res_bind (plain (quoteIdent (em_tableName m))) (\<lambda>t. Inr (s @ ''.'' @ t)))"

definition count_sql :: string where
  "count_sql = ''SELECT count(*)::int AS c FROM pg_inherits WHERE inhparent = $1::regclass''"

definition countPartitions :: "'w client_op \<Rightarrow> host \<Rightarrow> string \<Rightarrow> ('w, host_value) op" where
  "countPartitions ask H regclassName =
     op_bind (ask count_sql [HStr regclassName]) (\<lambda>r.
       op_ret (host_number H (case qr_rows r of [] \<Rightarrow> HNum ''0'' | x # _ \<Rightarrow> coalesce_host (prop_of x ''c'') (HNum ''0''))))"

section \<open>One parent\<close>

definition purge_sql :: "string \<Rightarrow> string \<Rightarrow> string \<Rightarrow> string \<Rightarrow> string \<Rightarrow> string" where
  "purge_sql childFq refColumn parentRef fq part =
     ''DELETE FROM '' @ childFq @ '' WHERE '' @ refColumn @ '' IN ('' @ lf
     @ ''           SELECT '' @ parentRef @ '' FROM '' @ fq @ lf
     @ ''           WHERE '' @ part @ '' < now() - $1::interval'' @ lf @ ''         )''"

text \<open>\<open>c\<close> declares itself a child of \<open>p\<close>.\<close>

definition child_of :: "entity_meta \<Rightarrow> entity_meta \<Rightarrow> child_of_meta option" where
  "child_of p c =
     (case em_partitionChildOf c of
        Some co \<Rightarrow> if ch_parentTable co = em_tableName p \<and> ch_parentSchema co = em_tableSchema p then Some co else None
      | None \<Rightarrow> None)"

fun purge_children :: "'w client_op \<Rightarrow> entity_meta \<Rightarrow> partition_meta \<Rightarrow> string \<Rightarrow> string \<Rightarrow> entity_meta list \<Rightarrow> (string \<times> nat) list
    \<Rightarrow> ('w, (string \<times> nat) list) op" where
  "purge_children ask p part fq retention [] purged = op_ret purged"
| "purge_children ask p part fq retention (c # cs) purged =
     (case child_of p c of
        None \<Rightarrow> purge_children ask p part fq retention cs purged
      | Some co \<Rightarrow>
          op_bind (op_lift (fq_table c)) (\<lambda>childFq.
          op_bind (op_lift (plain (quoteIdent (ch_refColumn co)))) (\<lambda>rc.
          op_bind (op_lift (plain (quoteIdent (ch_parentRefColumn co)))) (\<lambda>prc.
          op_bind (op_lift (plain (quoteIdent (pm_column part)))) (\<lambda>pc.
          op_bind (ask (purge_sql childFq rc prc fq pc) [HStr retention]) (\<lambda>del.
            purge_children ask p part fq retention cs (AList.update childFq (qr_rowCount del) purged)))))))"

definition default_sql :: string where
  "default_sql = ''SELECT c.relname FROM pg_inherits i'' @ lf @ ''         JOIN pg_class c ON c.oid = i.inhrelid'' @ lf
     @ ''       WHERE i.inhparent = $1::regclass AND c.relname LIKE '' @ qlit (''%'' @ [CHR 0x5C] @ ''_default'') @ '' ESCAPE '' @ qlit [CHR 0x5C]"

definition stray_sql :: "string \<Rightarrow> string \<Rightarrow> string \<Rightarrow> string" where
  "stray_sql schema rel part =
     ''DELETE FROM '' @ schema @ ''.'' @ rel @ lf @ ''         WHERE '' @ part @ '' < now() - $1::interval''"

fun delete_strays :: "'w client_op \<Rightarrow> host \<Rightarrow> entity_meta \<Rightarrow> partition_meta \<Rightarrow> string \<Rightarrow> host_record list \<Rightarrow> nat \<Rightarrow> ('w, nat) op" where
  "delete_strays ask H p part retention [] n = op_ret n"
| "delete_strays ask H p part retention (d # ds) n =
     op_bind (op_lift (plain (quoteIdent (em_tableSchema p)))) (\<lambda>schema.
     op_bind (op_lift (plain (quoteIdent (host_string H (prop_of d ''relname''))))) (\<lambda>rel.
     op_bind (op_lift (plain (quoteIdent (pm_column part)))) (\<lambda>pc.
     op_bind (ask (stray_sql schema rel pc) [HStr retention]) (\<lambda>del.
       delete_strays ask H p part retention ds (n + qr_rowCount del)))))"

definition blank_report :: "string \<Rightarrow> partition_meta \<Rightarrow> parent_report" where
  "blank_report fq part =
     \<lparr>pr_table = fq, pr_partition_column = pm_column part, pr_retention = pm_retention part, pr_children_purged = [],
      pr_strays_deleted = 0, pr_partitions_before = HNum ''0'', pr_partitions_after = HNum ''0'', pr_skipped = None\<rparr>"

definition config_sql :: string where
  "config_sql = ''SELECT retention FROM partman.part_config WHERE parent_table = $1''"

text \<open>The retention of \<open>part_config\<close>, or else of the entity; \<open>None\<close> when neither has one.\<close>

definition effective_retention :: "host \<Rightarrow> host_record list \<Rightarrow> partition_meta \<Rightarrow> string option" where
  "effective_retention H rows part =
     (let v = (case rows of r # _ \<Rightarrow> prop_of r ''retention'' | [] \<Rightarrow> HNull);
          t = (if host_nullish v then pm_retention part else Some (host_string H v))
      in if truthy t then t else None)"

definition maintain_parent :: "'w client_op \<Rightarrow> host \<Rightarrow> entity_meta list \<Rightarrow> entity_meta \<Rightarrow> ('w, parent_report) op" where
  "maintain_parent ask H metas p =
     op_bind (op_lift (fq_table p)) (\<lambda>fq.
       let part = the (em_partition p); blank = blank_report fq part
       in op_bind (ask config_sql [HStr (dotted p)]) (\<lambda>cfg.
            if qr_rowCount cfg = 0 then op_ret (blank\<lparr>pr_skipped := Some ''not registered in partman.part_config''\<rparr>)
            else
              (case effective_retention H (qr_rows cfg) part of
                 None \<Rightarrow> op_ret (blank\<lparr>pr_skipped := Some ''no retention configured (entity meta nor part_config)''\<rparr>)
               | Some retention \<Rightarrow>
                   op_bind (countPartitions ask H (dotted p)) (\<lambda>before.
                   op_bind (purge_children ask p part fq retention metas []) (\<lambda>purged.
                   op_bind (ask default_sql [HStr (dotted p)]) (\<lambda>def.
                   op_bind (delete_strays ask H p part retention (qr_rows def) 0) (\<lambda>strays.
                     op_ret (blank\<lparr>pr_retention := Some retention, pr_partitions_before := before, pr_children_purged := purged,
                       pr_strays_deleted := strays\<rparr>))))))))"

fun maintain_parents :: "'w client_op \<Rightarrow> host \<Rightarrow> entity_meta list \<Rightarrow> entity_meta list \<Rightarrow> ('w, parent_report list) op" where
  "maintain_parents ask H metas [] = op_ret []"
| "maintain_parents ask H metas (p # ps) =
     op_bind (maintain_parent ask H metas p) (\<lambda>r. op_bind (maintain_parents ask H metas ps) (\<lambda>rs. op_ret (r # rs)))"

section \<open>Maintenance and counts\<close>

definition maintenance_sql :: string where
  "maintenance_sql = ''SELECT partman.run_maintenance($1, p_analyze := false, p_jobmon := false)''"

fun run_maintenance :: "'w client_op \<Rightarrow> parent_report list \<Rightarrow> entity_meta list \<Rightarrow> bool \<Rightarrow> ('w, bool) op" where
  "run_maintenance ask reports [] started = op_ret started"
| "run_maintenance ask reports (p # ps) started =
     op_bind (op_lift (fq_table p)) (\<lambda>fq.
       case List.find (\<lambda>r. pr_table r = fq) reports of
         None \<Rightarrow> run_maintenance ask reports ps started
       | Some r \<Rightarrow>
           if truthy (pr_skipped r) then run_maintenance ask reports ps started
           else op_bind (ask maintenance_sql [HStr (dotted p)]) (\<lambda>_. run_maintenance ask reports ps True))"

fun final_counts :: "'w client_op \<Rightarrow> host \<Rightarrow> parent_report list \<Rightarrow> ('w, parent_report list) op" where
  "final_counts ask H [] = op_ret []"
| "final_counts ask H (r # rs) =
     (if truthy (pr_skipped r) then op_bind (final_counts ask H rs) (\<lambda>rs'. op_ret (r # rs'))
      else op_bind (countPartitions ask H (filter (\<lambda>c. c \<noteq> CHR 0x22) (pr_table r))) (\<lambda>n.
           op_bind (final_counts ask H rs) (\<lambda>rs'. op_ret (r\<lparr>pr_partitions_after := n\<rparr> # rs'))))"

definition runPartitionMaintenance :: "'w client_op \<Rightarrow> host \<Rightarrow> entity_env \<Rightarrow> nat list \<Rightarrow> ('w, maintenance_report) op" where
  "runPartitionMaintenance ask H env entities =
     op_bind (op_lift (map_res (\<lambda>e. plain (ee_meta env e)) entities)) (\<lambda>metas.
       let partitioned = filter (\<lambda>m. em_partition m \<noteq> None) metas
       in if partitioned = [] then op_ret \<lparr>mr_parents = [], mr_maintenance_ran = False\<rparr>
          else
            op_bind (maintain_parents ask H metas partitioned) (\<lambda>reports.
            op_bind (run_maintenance ask reports partitioned False) (\<lambda>started.
            op_bind (final_counts ask H reports) (\<lambda>final.
              op_ret \<lparr>mr_parents = final, mr_maintenance_ran = started\<rparr>))))"

end
