(* ===== verification/PartitionFacts.thy ===== *)
theory PartitionFacts
  imports PartitionMaintenance BulkRuns
begin

text \<open>
  What the partition maintenance sends, and in which order: the rows of the children go before the partitions that
  hold their parents.
\<close>

section \<open>Traces of operations\<close>

text \<open>\<open>m\<close> only sends statements that satisfy \<open>ok\<close>; its value and the statements it sent satisfy \<open>P\<close>.\<close>

definition traces :: "(string \<Rightarrow> host_value list \<Rightarrow> bool) \<Rightarrow> ('w gateway, 'a) op \<Rightarrow> ('a \<Rightarrow> (string \<times> host_value list) list \<Rightarrow> bool) \<Rightarrow> bool" where
  "traces ok m P \<longleftrightarrow> (\<forall>g r g'. m g = (r, g') \<longrightarrow>
     (\<exists>es. gw_log g' = gw_log g @ es \<and> list_all (\<lambda>(q, vs). ok q vs) (calls es) \<and> (\<forall>v. r = Inr v \<longrightarrow> P v (calls es))))"

lemma tracesD:
  assumes "traces ok m P" and "m g = (r, g')"
  shows "\<exists>es. gw_log g' = gw_log g @ es \<and> list_all (\<lambda>(q, vs). ok q vs) (calls es) \<and> (\<forall>v. r = Inr v \<longrightarrow> P v (calls es))"
  by (rule assms(1) [unfolded traces_def, THEN spec, THEN spec, THEN spec, THEN mp, OF assms(2)])

lemma traces_bind:
  fixes m :: "('w gateway, 'a) op"
  assumes m: "traces ok m P" and f: "\<And>v ss. P v ss \<Longrightarrow> traces ok (f v) (\<lambda>u ss'. Q u (ss @ ss'))"
  shows "traces ok (op_bind m f) Q"
  unfolding traces_def
proof (intro allI impI)
  fix g :: "'w gateway" and r g' assume run: "op_bind m f g = (r, g')"
  obtain q h where mg: "m g = (q, h)" by (cases "m g")
  obtain es where es: "gw_log h = gw_log g @ es" "list_all (\<lambda>(q, vs). ok q vs) (calls es)" "\<forall>v. q = Inr v \<longrightarrow> P v (calls es)"
    using tracesD [OF m mg] by (elim exE conjE) (rule that)
  show "\<exists>es. gw_log g' = gw_log g @ es \<and> list_all (\<lambda>(q, vs). ok q vs) (calls es) \<and> (\<forall>v. r = Inr v \<longrightarrow> Q v (calls es))"
  proof (cases q)
    case (Inl e)
    then show ?thesis using run mg es by (auto simp: op_bind_def)
  next
    case (Inr v)
    then have fv: "f v h = (r, g')" using run mg by (simp add: op_bind_def)
    have pv: "P v (calls es)" using es(3) Inr by simp
    obtain fs where fs: "gw_log g' = gw_log h @ fs" "list_all (\<lambda>(q, vs). ok q vs) (calls fs)"
        "\<forall>u. r = Inr u \<longrightarrow> Q u (calls es @ calls fs)"
      using tracesD [OF f [OF pv] fv] by (elim exE conjE) (rule that)
    then show ?thesis using es by (intro exI [of _ "es @ fs"]) simp
  qed
qed

lemma traces_ret: "P a [] \<Longrightarrow> traces ok (op_ret a) P"
  by (auto simp: traces_def op_ret_def)

lemma traces_lift: "(\<And>v. r = Inr v \<Longrightarrow> P v []) \<Longrightarrow> traces ok (op_lift r) P"
  by (auto simp: traces_def op_lift_def)

lemma traces_query:
  fixes D :: "'w driver"
  assumes "ok sql vs" and "\<And>r. P r [(sql, vs)]"
  shows "traces ok (client_query D c sql vs) P"
  unfolding traces_def
proof (intro allI impI)
  fix g :: "'w gateway" and r g' assume "client_query D c sql vs g = (r, g')"
  then have "gw_log g' = gw_log g @ [Sent c sql vs]" by (auto simp: client_query_def split: prod.splits)
  then show "\<exists>es. gw_log g' = gw_log g @ es \<and> list_all (\<lambda>(q, vs). ok q vs) (calls es) \<and> (\<forall>v. r = Inr v \<longrightarrow> P v (calls es))"
    using assms by (intro exI [of _ "[Sent c sql vs]"]) simp
qed

lemma traces_weaken: "traces ok m P \<Longrightarrow> (\<And>v ss. P v ss \<Longrightarrow> Q v ss) \<Longrightarrow> traces ok m Q"
  unfolding traces_def by meson

lemma traces_lift_bind: "(\<And>v. r = Inr v \<Longrightarrow> traces ok (f v) Q) \<Longrightarrow> traces ok (op_bind (op_lift r) f) Q"
  by (rule traces_bind [of _ _ "\<lambda>v ss. r = Inr v \<and> ss = []"]) (auto intro: traces_lift)

lemma traces_query_bind:
  assumes "ok sql vs" and "\<And>r. traces ok (f r) (\<lambda>u ss. Q u ((sql, vs) # ss))"
  shows "traces ok (op_bind (client_query D c sql vs) f) Q"
  by (rule traces_bind [of _ _ "\<lambda>_ ss. ss = [(sql, vs)]"]) (auto intro: traces_query assms)

lemma traces_if: "(b \<Longrightarrow> traces ok m P) \<Longrightarrow> (\<not> b \<Longrightarrow> traces ok m' P) \<Longrightarrow> traces ok (if b then m else m') P"
  by simp

lemma traces_option:
  "(x = None \<Longrightarrow> traces ok m P) \<Longrightarrow> (\<And>a. x = Some a \<Longrightarrow> traces ok (f a) P) \<Longrightarrow> traces ok (case x of None \<Rightarrow> m | Some a \<Rightarrow> f a) P"
  by (simp split: option.split)

section \<open>Purging\<close>

text \<open>The statement that purges \<open>c\<close>, a child of \<open>p\<close>.\<close>

definition purge_text :: "entity_meta \<Rightarrow> entity_meta \<Rightarrow> child_of_meta \<Rightarrow> (dal_error, string) res" where
  "purge_text p c co =
     res_bind (fq_table c) (\<lambda>childFq.
     res_bind (plain (quoteIdent (ch_refColumn co))) (\<lambda>rc.
     res_bind (plain (quoteIdent (ch_parentRefColumn co))) (\<lambda>prc.
     res_bind (plain (quoteIdent (pm_column (the (em_partition p))))) (\<lambda>pc.
     res_bind (fq_table p) (\<lambda>fq. Inr (purge_sql childFq rc prc fq pc))))))"

text \<open>Every child of \<open>p\<close> among \<open>metas\<close> has been purged by the statements \<open>ss\<close>, with one retention.\<close>

definition purged :: "entity_meta list \<Rightarrow> entity_meta \<Rightarrow> string \<Rightarrow> (string \<times> host_value list) list \<Rightarrow> bool" where
  "purged metas p retention ss \<longleftrightarrow>
     list_all (\<lambda>c. case child_of p c of
         None \<Rightarrow> True
       | Some co \<Rightarrow> list_ex (\<lambda>(q, vs). purge_text p c co = Inr q \<and> vs = [HStr retention]) ss) metas"

lemma purged_mono: "purged metas p t ss \<Longrightarrow> set ss \<subseteq> set ss' \<Longrightarrow> purged metas p t ss'"
  unfolding purged_def list_all_iff list_ex_iff by (fastforce split: option.splits)

abbreviation not_maintenance :: "string \<Rightarrow> host_value list \<Rightarrow> bool" where
  "not_maintenance q vs \<equiv> q \<noteq> maintenance_sql"

lemma other_statements: "purge_sql a b d e f \<noteq> maintenance_sql" "default_sql \<noteq> maintenance_sql" "stray_sql a b d \<noteq> maintenance_sql"
  "config_sql \<noteq> maintenance_sql" "count_sql \<noteq> maintenance_sql"
  by (simp_all add: purge_sql_def default_sql_def stray_sql_def config_sql_def count_sql_def maintenance_sql_def)

lemma purge_children_traces:
  assumes "fq_table p = Inr fq" and "em_partition p = Some part"
  shows "traces not_maintenance (purge_children (client_query D c) p part fq retention cs acc) (\<lambda>_ ss. purged cs p retention ss)"
proof (induction cs arbitrary: acc)
  case Nil
  show ?case by (simp add: purged_def traces_ret)
next
  case (Cons x xs)
  show ?case
  proof (cases "child_of p x")
    case None
    have "traces not_maintenance (purge_children (client_query D c) p part fq retention xs acc) (\<lambda>_ ss. purged (x # xs) p retention ss)"
      by (rule traces_weaken [OF Cons.IH]) (simp add: purged_def None)
    then show ?thesis by (simp add: None)
  next
    case (Some co)
    have head: "purged (x # xs) p retention ((q, [HStr retention]) # ss)"
      if "purge_text p x co = Inr q" "purged xs p retention ss" for q ss
      using that purged_mono [of xs p retention ss "(q, [HStr retention]) # ss"] by (auto simp: purged_def Some)
    show ?thesis unfolding purge_children.simps Some option.case
      by (intro traces_lift_bind traces_query_bind traces_weaken [OF Cons.IH] head)
        (auto simp: other_statements purge_text_def assms res_bind_Inr)
  qed
qed

lemma strays_traces: "traces not_maintenance (delete_strays (client_query D c) H p part retention ds n) (\<lambda>_ _. True)"
  by (induction ds arbitrary: n) (auto intro!: traces_ret traces_lift_bind traces_query_bind simp: other_statements)

lemma count_traces: "ok count_sql [HStr t] \<Longrightarrow> traces ok (countPartitions (client_query D c) H t) (\<lambda>_ _. True)"
  unfolding countPartitions_def by (auto intro!: traces_query_bind traces_ret)

text \<open>What the report of a parent says about the statements sent.\<close>

definition reported :: "entity_meta list \<Rightarrow> entity_meta \<Rightarrow> parent_report \<Rightarrow> (string \<times> host_value list) list \<Rightarrow> bool" where
  "reported metas p r ss \<longleftrightarrow> fq_table p = Inr (pr_table r) \<and> (\<not> truthy (pr_skipped r) \<longrightarrow> (\<exists>t. purged metas p t ss))"

lemma reported_mono: "reported metas p r ss \<Longrightarrow> set ss \<subseteq> set ss' \<Longrightarrow> reported metas p r ss'"
  unfolding reported_def by (blast intro: purged_mono)

lemma maintain_parent_traces:
  assumes "em_partition p = Some part"
  shows "traces not_maintenance (maintain_parent (client_query D c) H metas p) (\<lambda>r ss. reported metas p r ss)"
proof -
  have steps: "traces not_maintenance
       (op_bind (countPartitions (client_query D c) H (dotted p)) (\<lambda>before.
        op_bind (purge_children (client_query D c) p part fq t metas []) (\<lambda>dead.
        op_bind (client_query D c default_sql [HStr (dotted p)]) (\<lambda>def.
        op_bind (delete_strays (client_query D c) H p part t (qr_rows def) 0) (\<lambda>strays.
          op_ret ((blank_report fq part)\<lparr>pr_retention := Some t, pr_partitions_before := before, pr_children_purged := dead,
            pr_strays_deleted := strays\<rparr>))))))
       (\<lambda>r ss. reported metas p r (cfg # ss))" if "fq_table p = Inr fq" for fq t cfg
    by (rule traces_bind [OF count_traces], simp add: other_statements,
        rule traces_bind [OF purge_children_traces [OF that assms]],
        intro traces_query_bind traces_bind [OF strays_traces] traces_ret)
      (auto simp: other_statements reported_def blank_report_def that intro!: exI [of _ t] elim!: purged_mono)
  show ?thesis
    unfolding maintain_parent_def assms option.sel Let_def
    by (intro traces_lift_bind traces_query_bind traces_if traces_option traces_ret steps)
      (simp_all add: other_statements reported_def blank_report_def truthy_def)
qed

lemma maintain_parents_traces:
  assumes "list_all (\<lambda>p. em_partition p \<noteq> None) ps"
  shows "traces not_maintenance (maintain_parents (client_query D c) H metas ps)
    (\<lambda>rs ss. list_all2 (\<lambda>p r. reported metas p r ss) ps rs)"
  using assms
proof (induction ps)
  case Nil
  show ?case by (simp add: traces_ret)
next
  case (Cons p ps)
  then obtain part where part: "em_partition p = Some part" by auto
  have all: "list_all2 (\<lambda>p r. reported metas p r (ss @ ss')) (p # ps) (r # rs)"
    if "reported metas p r ss" "list_all2 (\<lambda>p r. reported metas p r ss') ps rs" for r rs ss ss'
    using that by (auto intro: reported_mono elim!: list_all2_mono)
  show ?case unfolding maintain_parents.simps
    by (rule traces_bind [OF maintain_parent_traces [OF part]], rule traces_bind [OF Cons.IH])
      (use Cons.prems in \<open>auto intro!: traces_ret dest: all\<close>)
qed

section \<open>Maintenance\<close>

text \<open>A statement of the last two steps: a count, or the maintenance of a parent whose children are purged.\<close>

definition after_purge :: "entity_meta list \<Rightarrow> (string \<times> host_value list) list \<Rightarrow> string \<Rightarrow> host_value list \<Rightarrow> bool" where
  "after_purge metas sent q vs \<longleftrightarrow>
     q = count_sql \<or>
     q = maintenance_sql \<and> (\<exists>p \<in> set metas. em_partition p \<noteq> None \<and> vs = [HStr (dotted p)] \<and> (\<exists>t. purged metas p t sent))"

lemma run_maintenance_traces:
  assumes "\<And>p r. p \<in> set ps \<Longrightarrow> r \<in> set reports \<Longrightarrow> fq_table p = Inr (pr_table r) \<Longrightarrow> reported metas p r sent"
    and "set ps \<subseteq> set metas" and "list_all (\<lambda>p. em_partition p \<noteq> None) ps"
  shows "traces (after_purge metas sent) (run_maintenance (client_query D c) reports ps started) (\<lambda>_ _. True)"
  using assms
proof (induction ps arbitrary: started)
  case Nil
  show ?case by (simp add: traces_ret)
next
  case (Cons p ps)
  have rest: "traces (after_purge metas sent) (run_maintenance (client_query D c) reports ps b) (\<lambda>_ _. True)" for b
    using Cons.prems by (intro Cons.IH) auto
  have "after_purge metas sent maintenance_sql [HStr (dotted p)]"
    if fq: "fq_table p = Inr fq" and r: "List.find (\<lambda>r. pr_table r = fq) reports = Some r" and "\<not> truthy (pr_skipped r)" for fq r
  proof -
    have "r \<in> set reports" "pr_table r = fq" using r by (auto simp: find_Some_iff)
    then have "reported metas p r sent" using Cons.prems(1) [of p r] fq by simp
    then show ?thesis using that(3) Cons.prems(2,3) by (auto simp: after_purge_def reported_def)
  qed
  then show ?case unfolding run_maintenance.simps
    by (intro traces_lift_bind traces_option traces_if traces_query_bind rest)
qed

lemma final_counts_traces: "traces (after_purge metas sent) (final_counts (client_query D c) H rs) (\<lambda>_ _. True)"
proof (induction rs)
  case Nil
  show ?case by (simp add: traces_ret)
next
  case (Cons r rs)
  show ?case unfolding final_counts.simps
    by (intro traces_if traces_bind [OF count_traces] traces_bind [OF Cons.IH] traces_ret) (simp_all add: after_purge_def)
qed

lemma reports_match:
  assumes "list_all2 (\<lambda>p r. reported metas p r sent) ps rs" and "distinct (map fq_table ps)"
    and "p \<in> set ps" and "r \<in> set rs" and "fq_table p = Inr (pr_table r)"
  shows "reported metas p r sent"
proof -
  obtain p' where p': "p' \<in> set ps" "reported metas p' r sent" using assms(1,4) by (fastforce simp: list_all2_conv_all_nth in_set_conv_nth)
  then have "p' = p" using assms(2,3,5) by (auto simp: reported_def distinct_map inj_on_def)
  then show ?thesis using p' by simp
qed

text \<open>C10: the partitions of a parent are only dropped by a maintenance that follows the purge of all its children.\<close>

theorem children_purged_before_drop:
  assumes "map_res (\<lambda>e. plain (ee_meta env e)) entities = Inr metas"
    and "distinct (map fq_table (filter (\<lambda>m. em_partition m \<noteq> None) metas))"
    and "runPartitionMaintenance (client_query D c) H env entities g = (r, g')"
  shows "\<exists>pre post. gw_log g' = gw_log g @ pre @ post
    \<and> list_all (\<lambda>(q, vs). q \<noteq> maintenance_sql) (calls pre)
    \<and> list_all (\<lambda>(q, vs). q = count_sql \<or> q = maintenance_sql
        \<and> (\<exists>p \<in> set metas. em_partition p \<noteq> None \<and> vs = [HStr (dotted p)] \<and> (\<exists>t. purged metas p t (calls pre)))) (calls post)"
proof -
  let ?ps = "filter (\<lambda>m. em_partition m \<noteq> None) metas"
  have parts: "list_all (\<lambda>p. em_partition p \<noteq> None) ?ps" by (simp add: list_all_iff)
  show ?thesis
  proof (cases "?ps = []")
    case True
    then have "g' = g" using assms(1,3) by (auto simp: runPartitionMaintenance_def op_bind_def op_lift_def op_ret_def)
    then show ?thesis by (intro exI [of _ "[]"]) simp
  next
    case False
    obtain q h where phase1: "maintain_parents (client_query D c) H metas ?ps g = (q, h)"
      by (cases "maintain_parents (client_query D c) H metas ?ps g")
    obtain es where es: "gw_log h = gw_log g @ es" "list_all (\<lambda>(q, vs). q \<noteq> maintenance_sql) (calls es)"
        "\<forall>rs. q = Inr rs \<longrightarrow> list_all2 (\<lambda>p r. reported metas p r (calls es)) ?ps rs"
      using tracesD [OF maintain_parents_traces [OF parts] phase1] by (elim exE conjE) (rule that)
    show ?thesis
    proof (cases q)
      case (Inl e)
      then have "g' = h" using assms(1,3) False phase1 by (simp add: runPartitionMaintenance_def op_bind_def op_lift_def Let_def)
      then show ?thesis using es by (intro exI [of _ es] exI [of _ "[]"]) simp
    next
      case (Inr rs)
      have run: "op_bind (run_maintenance (client_query D c) rs ?ps False) (\<lambda>started.
          op_bind (final_counts (client_query D c) H rs) (\<lambda>final. op_ret \<lparr>mr_parents = final, mr_maintenance_ran = started\<rparr>)) h = (r, g')"
        using assms(1,3) False phase1 Inr by (simp add: runPartitionMaintenance_def op_bind_def op_lift_def Let_def)
      have "reported metas p r (calls es)" if "p \<in> set ?ps" "r \<in> set rs" "fq_table p = Inr (pr_table r)" for p r
        using reports_match [OF _ assms(2) that] es(3) Inr by blast
      then have phase2: "traces (after_purge metas (calls es)) (run_maintenance (client_query D c) rs ?ps False) (\<lambda>_ _. True)"
        using parts by (intro run_maintenance_traces) auto
      have "traces (after_purge metas (calls es)) (op_bind (run_maintenance (client_query D c) rs ?ps False) (\<lambda>started.
          op_bind (final_counts (client_query D c) H rs) (\<lambda>final. op_ret \<lparr>mr_parents = final, mr_maintenance_ran = started\<rparr>))) (\<lambda>_ _. True)"
        by (intro traces_bind [OF phase2] traces_bind [OF final_counts_traces] traces_ret) simp
      from tracesD [OF this run] obtain fs where "gw_log g' = gw_log h @ fs" "list_all (\<lambda>(q, vs). after_purge metas (calls es) q vs) (calls fs)"
        by (elim exE conjE) (rule that)
      then show ?thesis using es unfolding after_purge_def by (intro exI [of _ es] exI [of _ fs]) simp
    qed
  qed
qed

definition ex_parent :: entity_meta where
  "ex_parent = ex_meta\<lparr>em_partition := Some \<lparr>pm_column = ''at'', pm_interval = ''1 day'', pm_retention = Some ''30 days'',
     pm_keepTable = False, pm_premake = None\<rparr>\<rparr>"

definition ex_child :: entity_meta where
  "ex_child = ex_meta\<lparr>em_tableName := ''logins'', em_partitionChildOf := Some \<lparr>ch_parentTable = ''users'', ch_parentSchema = ''app'',
     ch_refColumn = ''user_id'', ch_parentRefColumn = ''id''\<rparr>\<rparr>"

definition ex_partitions :: entity_env where
  "ex_partitions = ex_env\<lparr>ee_meta := \<lambda>e. Inr (if e = 0 then ex_parent else ex_child)\<rparr>"

theorem children_purged_before_drop_witness:
  "\<exists>pre post. gw_log (snd (runPartitionMaintenance (client_query ex_driver 7) ex_host ex_partitions [0, 1] ex_start)) = pre @ post
    \<and> list_all (\<lambda>(q, vs). q \<noteq> maintenance_sql) (calls pre)
    \<and> list_all (\<lambda>(q, vs). q = count_sql \<or> q = maintenance_sql
        \<and> list_ex (\<lambda>p. em_partition p \<noteq> None \<and> vs = [HStr (dotted p)] \<and> (\<exists>t. purged [ex_parent, ex_child] p t (calls pre)))
            [ex_parent, ex_child]) (calls post)"
proof -
  have metas: "map_res (\<lambda>e. plain (ee_meta ex_partitions e)) [0, 1] = Inr [ex_parent, ex_child]"
    by (simp add: ex_partitions_def plain_def)
  have dist: "distinct (map fq_table (filter (\<lambda>m. em_partition m \<noteq> None) [ex_parent, ex_child]))"
    by (simp add: ex_parent_def ex_child_def ex_meta_def)
  show ?thesis
    using children_purged_before_drop [OF metas dist surjective_pairing, where D = ex_driver and c = 7 and g = ex_start]
    by (simp add: ex_start_def)
qed

end
