(* ===== verification/Dal.thy ===== *)
theory Dal
  imports DeferredSession ClientSessions PartitionMaintenance SchemaDomain
begin

text \<open>
  The gateway \<open>src/dal/dal.ts\<close> and the type parsers of \<open>src/dal/type-parsers.ts\<close>: configuration, construction, the session
  that every connection gets, closing, the singleton, dedicated clients, transactions, and the delegated methods.

  The process is a state: the instances constructed so far, the schema domain and the parsers that they share, the
  singleton, and the calls of \<open>resetDal\<close> that have not returned.  \<open>pool\<close> is the constructor \<open>pg.Pool\<close>, \<open>base\<close> holds the
  metadata, the host and the audit port of the process.
\<close>

section \<open>Configuration\<close>

record 'w dal_config =
  dc_connectionString :: string
  dc_schemas :: "string list"
  dc_sharedTables :: "string list option"
  dc_max :: "int option"
  dc_statementTimeoutMs :: "int option"
  dc_bulkTimeoutMs :: "int option"
  dc_connectionTimeoutMillis :: "int option"
  dc_idleTimeoutMillis :: "int option"
  dc_maxUses :: "int option"
  dc_applicationName :: "string option"
  dc_repoDecorator :: "('w repository \<Rightarrow> 'w repository) option"

record 'w dal_settings =
  st_connectionString :: string
  st_schemas :: "string list"
  st_max :: int
  st_statementTimeoutMs :: int
  st_bulkTimeoutMs :: int
  st_connectionTimeoutMillis :: int
  st_idleTimeoutMillis :: int
  st_maxUses :: "int option"
  st_sharedTables :: "string list option"
  st_applicationName :: string
  st_repoDecorator :: "('w repository \<Rightarrow> 'w repository) option"

definition or_default :: "'a option \<Rightarrow> 'a \<Rightarrow> 'a" where
  "or_default v d = (case v of Some x \<Rightarrow> x | None \<Rightarrow> d)"

text \<open>\<open>repoDecorator\<close> is not among the fields that the constructor copies.\<close>

definition resolve_config :: "'w dal_config \<Rightarrow> 'w dal_settings" where
  "resolve_config cfg =
     \<lparr>st_connectionString = dc_connectionString cfg, st_schemas = dc_schemas cfg, st_max = or_default (dc_max cfg) 10,
      st_statementTimeoutMs = or_default (dc_statementTimeoutMs cfg) 30000,
      st_bulkTimeoutMs = or_default (dc_bulkTimeoutMs cfg) 1800000,
      st_connectionTimeoutMillis = or_default (dc_connectionTimeoutMillis cfg) 5000,
      st_idleTimeoutMillis = or_default (dc_idleTimeoutMillis cfg) 30000, st_maxUses = dc_maxUses cfg,
      st_sharedTables = dc_sharedTables cfg, st_applicationName = or_default (dc_applicationName cfg) ''primebrick-dal'',
      st_repoDecorator = None\<rparr>"

section \<open>Connections\<close>

definition searchPath :: "'w dal_settings \<Rightarrow> string list" where
  "searchPath st = fold set_add (st_schemas st @ [''public'']) []"

definition connect_statements :: "'w dal_settings \<Rightarrow> (dal_error, string list) res" where
  "connect_statements st =
     res_bind (quoted_list (searchPath st)) (\<lambda>path.
       Inr ([''SET search_path TO '' @ path]
            @ (if st_statementTimeoutMs st \<noteq> 0 then [''SET statement_timeout TO '' @ int_str (st_statementTimeoutMs st)] else [])
            @ (if st_applicationName st \<noteq> [] then [''SET application_name TO '' @ escapeLiteral (st_applicationName st)] else [])))"

text \<open>The one query that every new connection gets; no query when there is no statement.\<close>

definition onConnect :: "'w dal_settings \<Rightarrow> (dal_error, string option) res" where
  "onConnect st = res_bind (connect_statements st) (\<lambda>ss. Inr (if ss \<noteq> [] then Some (join ''; '' ss) else None))"

record pool_config =
  pc_connectionString :: string
  pc_max :: int
  pc_connectionTimeoutMillis :: int
  pc_idleTimeoutMillis :: int
  pc_maxUses :: "int option"
  pc_onConnect :: "(dal_error, string option) res"

definition poolConfig :: "'w dal_settings \<Rightarrow> pool_config" where
  "poolConfig st =
     \<lparr>pc_connectionString = st_connectionString st, pc_max = st_max st,
      pc_connectionTimeoutMillis = st_connectionTimeoutMillis st, pc_idleTimeoutMillis = st_idleTimeoutMillis st,
      pc_maxUses = st_maxUses st, pc_onConnect = onConnect st\<rparr>"

section \<open>The process\<close>

datatype pg_parser = ParseBigInt | ParseVerbatim

record 'w dal =
  dl_config :: "'w dal_settings"
  dl_driver :: "'w driver"
  dl_base :: "'w gateway repo"
  dl_repo :: "'w repository"
  dl_closed :: bool
  dl_isClosing :: bool
  dl_ends :: nat

text \<open>\<open>dl_ends\<close> counts the calls of \<open>pool.end\<close>.\<close>

record 'w process =
  ps_typeParsersRegistered :: bool
  ps_parsers :: "(string \<times> pg_parser) list"
  ps_domain :: "schema_domain option"
  ps_dals :: "'w dal list"
  ps_defaultDal :: "nat option"
  ps_resets :: "nat option list"

definition ensureTypeParsers :: "'w process \<Rightarrow> 'w process" where
  "ensureTypeParsers p =
     (if ps_typeParsersRegistered p then p
      else p\<lparr>ps_parsers := AList.update ''DATE'' ParseVerbatim (AList.update ''NUMERIC'' ParseVerbatim
               (AList.update ''INT8'' ParseBigInt (ps_parsers p))),
             ps_typeParsersRegistered := True\<rparr>)"

definition resetTypeParserGuard :: "'w process \<Rightarrow> 'w process" where
  "resetTypeParserGuard p = p\<lparr>ps_typeParsersRegistered := False\<rparr>"

definition root_repository :: "'w dal_settings \<Rightarrow> 'w driver \<Rightarrow> 'w gateway repo \<Rightarrow> 'w repository" where
  "root_repository st D base =
     (case st_repoDecorator st of
        Some f \<Rightarrow> f (new_repository D base PoolDb (st_bulkTimeoutMs st))
      | None \<Rightarrow> new_repository D base PoolDb (st_bulkTimeoutMs st))"

text \<open>\<open>new Dal(config)\<close>; the value is the number of the instance.\<close>

definition new_dal :: "(pool_config \<Rightarrow> 'w driver) \<Rightarrow> 'w gateway repo \<Rightarrow> 'w dal_config \<Rightarrow> 'w process \<Rightarrow> (dal_error, nat) res \<times> 'w process" where
  "new_dal pool base cfg p =
     (if dc_connectionString cfg = [] then (Inl (PlainError ''DalConfig.connectionString is required''), p)
      else
        (let st = resolve_config cfg; p1 = ensureTypeParsers p
         in case configureSchemaDomain (st_schemas st) (or_default (st_sharedTables st) []) of
              Inl (SchemaDomainViolation e) \<Rightarrow> (Inl (PlainError e), p1)
            | Inr d \<Rightarrow>
                (let D = pool (poolConfig st)
                 in (Inr (length (ps_dals p1)),
                     p1\<lparr>ps_domain := Some d,
                        ps_dals := ps_dals p1 @ [\<lparr>dl_config = st, dl_driver = D, dl_base = base, dl_repo = root_repository st D base,
                          dl_closed = False, dl_isClosing = False, dl_ends = 0\<rparr>]\<rparr>))))"

section \<open>Closing and the singleton\<close>

text \<open>\<open>close\<close> up to its first \<open>await\<close>: whether it has returned already.\<close>

definition close_begin :: "nat \<Rightarrow> 'w process \<Rightarrow> bool \<times> 'w process" where
  "close_begin i p =
     (let d = ps_dals p ! i
      in if dl_closed d \<or> dl_isClosing d then (True, p)
         else (False, p\<lparr>ps_dals := (ps_dals p)[i := d\<lparr>dl_isClosing := True, dl_ends := Suc (dl_ends d)\<rparr>]\<rparr>))"

text \<open>The rest of \<open>close\<close>, once \<open>pool.end\<close> has returned or failed or the time is up.\<close>

definition close_settled :: "nat \<Rightarrow> 'w process \<Rightarrow> 'w process" where
  "close_settled i p = p\<lparr>ps_dals := (ps_dals p)[i := (ps_dals p ! i)\<lparr>dl_closed := True, dl_isClosing := False\<rparr>]\<rparr>"

definition isClosed :: "'w dal \<Rightarrow> bool" where
  "isClosed d = dl_closed d"

definition isClosing :: "'w dal \<Rightarrow> bool" where
  "isClosing d = dl_isClosing d"

definition getDal :: "(pool_config \<Rightarrow> 'w driver) \<Rightarrow> 'w gateway repo \<Rightarrow> 'w dal_config option \<Rightarrow> 'w process \<Rightarrow> (dal_error, nat) res \<times> 'w process" where
  "getDal pool base config p =
     (case ps_defaultDal p of
        Some i \<Rightarrow>
          (case config of
             Some cfg \<Rightarrow>
               if st_connectionString (dl_config (ps_dals p ! i)) \<noteq> dc_connectionString cfg then
                 (Inl (PlainError ''getDal: a Dal instance already exists with a different connectionString. Use `new Dal(config)` for multi-DB.''), p)
               else (Inr i, p)
           | None \<Rightarrow> (Inr i, p))
      | None \<Rightarrow>
          (case config of
             None \<Rightarrow> (Inl (PlainError ''getDal: config is required on the first call''), p)
           | Some cfg \<Rightarrow>
               (case new_dal pool base cfg p of
                  (Inl e, p') \<Rightarrow> (Inl e, p')
                | (Inr i, p') \<Rightarrow> (Inr i, p'\<lparr>ps_defaultDal := Some i\<rparr>))))"

text \<open>\<open>resetDal\<close> up to its \<open>await\<close>, and behind it; \<open>Some i\<close> waits for the instance \<open>i\<close> to be closed.\<close>

definition reset_begin :: "'w process \<Rightarrow> 'w process" where
  "reset_begin p =
     (case ps_defaultDal p of
        None \<Rightarrow> p
      | Some i \<Rightarrow> (case close_begin i p of (returned, p') \<Rightarrow> p'\<lparr>ps_resets := ps_resets p' @ [if returned then None else Some i]\<rparr>))"

definition reset_ready :: "'w process \<Rightarrow> nat \<Rightarrow> bool" where
  "reset_ready p k \<longleftrightarrow> k < length (ps_resets p) \<and> (case ps_resets p ! k of None \<Rightarrow> True | Some i \<Rightarrow> dl_closed (ps_dals p ! i))"

definition reset_end :: "nat \<Rightarrow> 'w process \<Rightarrow> 'w process" where
  "reset_end k p = p\<lparr>ps_defaultDal := None, ps_resets := take k (ps_resets p) @ drop (Suc k) (ps_resets p)\<rparr>"

datatype lifecycle_event =
    Constructed "(dal_error, nat) res" | Gotten "(dal_error, nat) res" | CloseCalled nat | CloseSettled nat | ResetCalled | ResetReturned nat

text \<open>The interleavings of the calls of one process.\<close>

inductive lifecycle :: "(pool_config \<Rightarrow> 'w driver) \<Rightarrow> 'w gateway repo \<Rightarrow> 'w process \<Rightarrow> lifecycle_event \<Rightarrow> 'w process \<Rightarrow> bool"
  for pool and base where
  construct: "new_dal pool base cfg p = (r, p') \<Longrightarrow> lifecycle pool base p (Constructed r) p'"
| get: "getDal pool base config p = (r, p') \<Longrightarrow> lifecycle pool base p (Gotten r) p'"
| close: "i < length (ps_dals p) \<Longrightarrow> close_begin i p = (b, p') \<Longrightarrow> lifecycle pool base p (CloseCalled i) p'"
| settle: "i < length (ps_dals p) \<Longrightarrow> dl_isClosing (ps_dals p ! i) \<Longrightarrow> lifecycle pool base p (CloseSettled i) (close_settled i p)"
| reset: "lifecycle pool base p ResetCalled (reset_begin p)"
| reset_return: "reset_ready p k \<Longrightarrow> lifecycle pool base p (ResetReturned k) (reset_end k p)"

inductive_cases lifecycle_cases: "lifecycle pool base p e p'"

inductive lifecycles :: "(pool_config \<Rightarrow> 'w driver) \<Rightarrow> 'w gateway repo \<Rightarrow> 'w process \<Rightarrow> lifecycle_event list \<Rightarrow> 'w process \<Rightarrow> bool"
  for pool and base where
  stop: "lifecycles pool base p [] p"
| step: "lifecycle pool base p e p' \<Longrightarrow> lifecycles pool base p' es p'' \<Longrightarrow> lifecycles pool base p (e # es) p''"

definition new_process :: "'w process" where
  "new_process = \<lparr>ps_typeParsersRegistered = False, ps_parsers = [], ps_domain = None, ps_dals = [], ps_defaultDal = None, ps_resets = []\<rparr>"

section \<open>Dedicated clients\<close>

definition timeout_sql :: "int \<Rightarrow> string" where
  "timeout_sql ms = ''SET statement_timeout TO '' @ int_str ms"

definition open_client :: "'w dal \<Rightarrow> nat \<Rightarrow> int option \<Rightarrow> ('w gateway, unit) op" where
  "open_client d c timeoutMs =
     (case timeoutMs of
        Some t \<Rightarrow> op_bind (client_query (dl_driver d) c (timeout_sql t) []) (\<lambda>_. op_ret ())
      | None \<Rightarrow> op_ret ())"

text \<open>The \<open>finally\<close> of \<open>withClient\<close>: an error of the resetting statement replaces the result, and \<open>release\<close> is not reached.\<close>

definition close_client :: "'w dal \<Rightarrow> nat \<Rightarrow> int option \<Rightarrow> (dal_error, 'a) res \<times> 'w gateway \<Rightarrow> (dal_error, 'a) res \<times> 'w gateway" where
  "close_client d c timeoutMs x =
     (case x of (r, g) \<Rightarrow>
        (case timeoutMs of
           None \<Rightarrow> (r, release (dl_driver d) c g)
         | Some _ \<Rightarrow>
             (case client_query (dl_driver d) c (timeout_sql (st_statementTimeoutMs (dl_config d))) [] g of
                (Inl e, g') \<Rightarrow> (Inl e, g')
              | (Inr _, g') \<Rightarrow> (r, release (dl_driver d) c g'))))"

definition withClient :: "'w dal \<Rightarrow> int option \<Rightarrow> (nat \<Rightarrow> ('w gateway, 'a) run) \<Rightarrow> ('w gateway, 'a) run" where
  "withClient d timeoutMs fn =
     run_bind (run_op (connect (dl_driver d))) (\<lambda>c g.
       map_option (close_client d c timeoutMs) (run_bind (run_op (open_client d c timeoutMs)) (\<lambda>_. fn c) g))"

text \<open>The same for a callback that always returns.\<close>

definition withClient_op :: "'w dal \<Rightarrow> int option \<Rightarrow> (nat \<Rightarrow> ('w gateway, 'a) op) \<Rightarrow> ('w gateway, 'a) op" where
  "withClient_op d timeoutMs fn =
     op_bind (connect (dl_driver d)) (\<lambda>c g.
       close_client d c timeoutMs (op_bind (open_client d c timeoutMs) (\<lambda>_. fn c) g))"

lemma withClient_op: "withClient d t (\<lambda>c. run_op (f c)) = run_op (withClient_op d t f)"
  by (auto simp: withClient_def withClient_op_def run_bind_def run_op_def op_bind_def fun_eq_iff split: prod.splits sum.splits) (metis surj_pair)+

section \<open>Transactions\<close>

definition tx_repository :: "'w dal \<Rightarrow> nat \<Rightarrow> 'w repository" where
  "tx_repository d c = new_repository (dl_driver d) (dl_base d) (ClientDb c) (st_bulkTimeoutMs (dl_config d))"

definition tx_work :: "'w dal \<Rightarrow> int option \<Rightarrow> ('w repository \<Rightarrow> ('w gateway, 'a) run) \<Rightarrow> nat \<Rightarrow> ('w gateway, 'a) run" where
  "tx_work d timeoutMs fn c =
     run_bind (run_op (case timeoutMs of
         Some t \<Rightarrow> op_bind (client_query (dl_driver d) c (''SET LOCAL statement_timeout TO '' @ int_str t) []) (\<lambda>_. op_ret ())
       | None \<Rightarrow> op_ret ())) (\<lambda>_.
     run_bind (fn (tx_repository d c)) (\<lambda>a.
     run_bind (run_op (client_query (dl_driver d) c ''COMMIT'' [])) (\<lambda>_. run_ret a)))"

definition tx_catch :: "'w dal \<Rightarrow> nat \<Rightarrow> (dal_error, 'a) res \<times> 'w gateway \<Rightarrow> (dal_error, 'a) res \<times> 'w gateway" where
  "tx_catch d c x =
     (case x of
        (Inl e, g) \<Rightarrow> (Inl e, snd (client_query (dl_driver d) c ''ROLLBACK'' [] g))
      | (Inr a, g) \<Rightarrow> (Inr a, g))"

definition transaction :: "'w dal \<Rightarrow> ('w repository \<Rightarrow> ('w gateway, 'a) run) \<Rightarrow> int option \<Rightarrow> ('w gateway, 'a) run" where
  "transaction d fn timeoutMs =
     withClient d None (\<lambda>c.
       run_bind (run_op (client_query (dl_driver d) c ''BEGIN'' [])) (\<lambda>_ g.
         map_option (tx_catch d c) (tx_work d timeoutMs fn c g)))"

text \<open>\<open>beginTransaction\<close> and the \<open>commit\<close> of the transaction that it returns.\<close>

definition deferred_run :: "'w dal \<Rightarrow> int option \<Rightarrow> string \<Rightarrow> host_value list \<Rightarrow> ('w gateway, query_result) op" where
  "deferred_run d timeoutMs sql vs = withClient_op d timeoutMs (\<lambda>c. client_query (dl_driver d) c sql vs)"

definition beginTransaction :: "'w dal \<Rightarrow> int option
    \<Rightarrow> deferred_tx \<times> (deferred_tx \<Rightarrow> 'w gateway \<Rightarrow> (dal_error, unit) res \<times> deferred_tx \<times> 'w gateway)" where
  "beginTransaction d timeoutMs =
     (new_tx, commit (deferred_run d timeoutMs) (rp_host (dl_base d)) (rp_env (dl_base d)))"

definition partitionMaintenance :: "'w dal \<Rightarrow> nat list \<Rightarrow> int option \<Rightarrow> ('w gateway, maintenance_report) op" where
  "partitionMaintenance d entities timeoutMs =
     withClient_op d timeoutMs (\<lambda>c.
       runPartitionMaintenance (client_query (dl_driver d) c) (rp_host (dl_base d)) (rp_env (dl_base d)) entities)"

section \<open>Delegated methods\<close>

text \<open>\<open>None\<close> is the \<open>undefined\<close> of an answer without rows.\<close>

definition serverVersion :: "'w dal \<Rightarrow> ('w gateway, host_record option) op" where
  "serverVersion d =
     op_bind (pool_query (dl_driver d)
         (''SELECT current_setting('' @ qlit ''server_version'' @ '') AS server_version, version() AS version'') []) (\<lambda>r.
       op_ret (case qr_rows r of [] \<Rightarrow> None | x # _ \<Rightarrow> Some x))"

definition dal_truncate :: "'w dal \<Rightarrow> nat \<Rightarrow> bool \<Rightarrow> bool \<Rightarrow> ('w gateway, unit) op" where
  "dal_truncate d = RepositoryReads.truncate (ry_repo (dl_repo d))"

definition dal_findById :: "'w dal \<Rightarrow> nat \<Rightarrow> js_value \<Rightarrow> deleted_records option \<Rightarrow> bool \<Rightarrow> ('w gateway, host_record option) op" where
  "dal_findById d = findById (ry_repo (dl_repo d))"

definition dal_findByUUID :: "'w dal \<Rightarrow> nat \<Rightarrow> string \<Rightarrow> deleted_records option \<Rightarrow> bool \<Rightarrow> ('w gateway, host_record option) op" where
  "dal_findByUUID d = findByUUID (ry_repo (dl_repo d))"

definition dal_find :: "'w dal \<Rightarrow> nat \<Rightarrow> field_projector list \<Rightarrow> find_options \<Rightarrow> ('w gateway, host_record option) op" where
  "dal_find d = RepositoryReads.find (ry_repo (dl_repo d))"

definition dal_findAll :: "'w dal \<Rightarrow> nat \<Rightarrow> field_projector list \<Rightarrow> find_options \<Rightarrow> ('w gateway, host_record list) op" where
  "dal_findAll d = findAll (ry_repo (dl_repo d))"

definition dal_findByPage :: "'w dal \<Rightarrow> nat \<Rightarrow> int \<Rightarrow> int \<Rightarrow> field_projector list \<Rightarrow> find_options \<Rightarrow> ('w gateway, paginated) op" where
  "dal_findByPage d = findByPage (ry_repo (dl_repo d))"

definition dal_count :: "'w dal \<Rightarrow> nat \<Rightarrow> ('w gateway, host_value) op" where
  "dal_count d entity = RepositoryReads.count (ry_repo (dl_repo d)) entity None"

definition dal_vectorSearch :: "'w dal \<Rightarrow> nat \<Rightarrow> field_ref \<Rightarrow> js_value \<Rightarrow> vector_options \<Rightarrow> ('w gateway, host_record list) op" where
  "dal_vectorSearch d = vectorSearch (ry_repo (dl_repo d))"

definition dal_add :: "'w dal \<Rightarrow> nat \<Rightarrow> host_record \<Rightarrow> write_options \<Rightarrow> int \<Rightarrow> ('w gateway, host_record option) op" where
  "dal_add d = RepositoryMethods.add (ry_repo (dl_repo d))"

definition dal_update :: "'w dal \<Rightarrow> nat \<Rightarrow> host_record \<Rightarrow> write_options \<Rightarrow> int \<Rightarrow> ('w gateway, host_record) op" where
  "dal_update d = RepositoryUpdates.update (ry_repo (dl_repo d))"

definition dal_delete :: "'w dal \<Rightarrow> nat \<Rightarrow> host_record \<Rightarrow> write_options \<Rightarrow> int \<Rightarrow> ('w gateway, host_record) op" where
  "dal_delete d = RepositoryUpdates.delete (ry_repo (dl_repo d))"

definition dal_restore :: "'w dal \<Rightarrow> nat \<Rightarrow> host_record \<Rightarrow> write_options \<Rightarrow> int \<Rightarrow> ('w gateway, host_record) op" where
  "dal_restore d = restore (ry_repo (dl_repo d))"

definition dal_hardDelete :: "'w dal \<Rightarrow> nat \<Rightarrow> host_record \<Rightarrow> write_options \<Rightarrow> int \<Rightarrow> ('w gateway, host_record) op" where
  "dal_hardDelete d = hardDelete (ry_repo (dl_repo d))"

definition dal_addMany :: "'w dal \<Rightarrow> nat \<Rightarrow> host_record list \<Rightarrow> bulk_options \<Rightarrow> ('w gateway, bulk_result) run" where
  "dal_addMany d = addMany (dl_repo d)"

definition dal_updateMany :: "'w dal \<Rightarrow> nat \<Rightarrow> host_record list \<Rightarrow> bulk_options \<Rightarrow> ('w gateway, bulk_result) run" where
  "dal_updateMany d = updateMany (dl_repo d)"

definition dal_deleteMany :: "'w dal \<Rightarrow> nat \<Rightarrow> host_record list \<Rightarrow> bulk_options \<Rightarrow> ('w gateway, bulk_result) run" where
  "dal_deleteMany d = deleteMany (dl_repo d)"

definition dal_restoreMany :: "'w dal \<Rightarrow> nat \<Rightarrow> host_record list \<Rightarrow> bulk_options \<Rightarrow> ('w gateway, bulk_result) run" where
  "dal_restoreMany d = restoreMany (dl_repo d)"

definition dal_hardDeleteMany :: "'w dal \<Rightarrow> nat \<Rightarrow> host_record list \<Rightarrow> bulk_options \<Rightarrow> ('w gateway, bulk_result) run" where
  "dal_hardDeleteMany d = hardDeleteMany (dl_repo d)"

end
