(* ===== verification/DalFacts.thy ===== *)
theory DalFacts
  imports Dal BulkRuns
begin

text \<open>
  The gateway of \<open>src/dal/dal.ts\<close>: its transactions end with \<open>COMMIT\<close> or \<open>ROLLBACK\<close> and give their client back, and its instances
  are closed once, whatever the order of the calls.
\<close>

section \<open>Transactions\<close>

lemma commit_and_return:
  fixes D :: "'w driver"
  shows "committing b c (run_bind (run_op (client_query D c ''COMMIT'' [])) (\<lambda>_. run_ret a))"
  unfolding committing_def
proof (intro allI impI)
  fix g :: "'w gateway" and r g'
  assume a: "run_bind (run_op (client_query D c ''COMMIT'' [])) (\<lambda>_. run_ret a) g = Some (r, g')"
  obtain q h where q: "client_query D c ''COMMIT'' [] g = (q, h)" by fastforce
  then have "g' = h" "isl r = isl q"
    using a by (auto simp: run_op_def run_bind_def run_ret_def op_ret_def split: sum.splits)
  then show "\<exists>g1. stays gw_log gw_noop c (orderly b) g g1
        \<and> (if isl r then (gw_log g' = gw_log g1 \<or> gw_log g' = gw_log g1 @ [Sent c ''COMMIT'' []]) else gw_log g' = gw_log g1 @ [Sent c ''COMMIT'' []])
        \<and> gw_noop g' = gw_noop g1"
    using pool.ask_logged [OF q] by (intro exI [of _ g]) simp
qed

lemma tx_work_committing:
  assumes "at_client c (orderly False) (fn (tx_repository d c))"
  shows "committing False c (tx_work d t fn c)"
proof -
  have "at_client c (orderly False) (run_op (case t of
      Some t \<Rightarrow> op_bind (client_query (dl_driver d) c (''SET LOCAL statement_timeout TO '' @ int_str t) []) (\<lambda>_. op_ret ())
    | None \<Rightarrow> op_ret ()))"
    by (cases t) (auto intro!: confined_intros pool.confined_ask simp: orderly_def)
  then show ?thesis unfolding tx_work_def by (intro committing_bind commit_and_return assms)
qed

text \<open>The traffic of a transaction whose work was \<open>m\<close>, behind its \<open>BEGIN\<close>.\<close>

lemma tx_catch_closing:
  assumes "committing False c m" and "m g1 = Some x" and "tx_catch d c x = (r, g2)"
  shows "\<exists>work fin. gw_log g2 = gw_log g1 @ work @ fin \<and> on_client c work \<and> (\<forall>(sql, vs) \<in> set (calls work). orderly False sql vs)
    \<and> closing c (isl r) fin \<and> gw_noop g2 = gw_noop g1"
proof -
  obtain q h where x: "x = (q, h)" by (cases x)
  obtain g0 where st: "stays gw_log gw_noop c (orderly False) g1 g0"
      and fin: "if isl q then (gw_log h = gw_log g0 \<or> gw_log h = gw_log g0 @ [Sent c ''COMMIT'' []]) else gw_log h = gw_log g0 @ [Sent c ''COMMIT'' []]"
      and noop: "gw_noop h = gw_noop g0"
    using assms(1,2) x unfolding committing_def by blast
  obtain work where work: "gw_log g0 = gw_log g1 @ work" "on_client c work" "\<forall>(sql, vs) \<in> set (calls work). orderly False sql vs" "gw_noop g0 = gw_noop g1"
    using st unfolding stays_def by (elim exE conjE) (rule that)
  show ?thesis
  proof (cases q)
    case (Inl e)
    obtain y g3 where rb: "client_query (dl_driver d) c ''ROLLBACK'' [] h = (y, g3)" by fastforce
    then have r: "r = Inl e" "g2 = g3" using assms(3) x Inl by (auto simp: tx_catch_def)
    have log: "gw_log g3 = gw_log h @ [Sent c ''ROLLBACK'' []]" "gw_noop g3 = gw_noop h" using pool.ask_logged [OF rb] by auto
    show ?thesis
    proof (cases "gw_log h = gw_log g0")
      case True
      then show ?thesis using r log work noop by (intro exI [of _ work] exI [of _ "[Sent c ''ROLLBACK'' []]"]) (simp add: closing_def)
    next
      case False
      then show ?thesis using r log work noop fin Inl
        by (intro exI [of _ work] exI [of _ "[Sent c ''COMMIT'' [], Sent c ''ROLLBACK'' []]"]) (simp add: closing_def)
    qed
  next
    case (Inr a)
    then have "r = Inr a" "g2 = h" using assms(3) x by (auto simp: tx_catch_def)
    then show ?thesis using work noop fin Inr by (intro exI [of _ work] exI [of _ "[Sent c ''COMMIT'' []]"]) (simp add: closing_def)
  qed
qed

text \<open>C6: a transaction whose callback only sends ordinary statements on its client is one \<open>BEGIN\<close>, the work, and \<open>COMMIT\<close> when it succeeds
  or \<open>ROLLBACK\<close> when anything fails, on one client that is given back in every case.\<close>

theorem transaction_commits_or_rolls_back:
  assumes fn: "\<And>c. at_client c (orderly False) (fn (tx_repository d c))" and run: "transaction d fn t g = Some (r, g')"
  shows "\<exists>es. gw_log g' = gw_log g @ es \<and>
    (whole_transaction False (isl r) es \<or> isl r \<and> (es = [] \<or> (\<exists>c. es = [Connected c, Sent c ''BEGIN'' [], Released c])))"
proof -
  obtain q h where conn: "connect (dl_driver d) g = (q, h)" by fastforce
  show ?thesis
  proof (cases q)
    case (Inl e)
    then have "r = Inl e" "g' = h" using run conn by (auto simp: transaction_def withClient_def run_bind_def run_op_def)
    then show ?thesis using pool.checkout_failed [of _ g e h] conn Inl by auto
  next
    case (Inr c)
    have ck: "gw_log h = gw_log g @ [Connected c]" "c \<notin> set (gw_noop h)" using pool.checkout_ok [of _ g c h] conn Inr by auto
    obtain b g1 where start: "client_query (dl_driver d) c ''BEGIN'' [] h = (b, g1)" by fastforce
    have lb: "gw_log g1 = gw_log h @ [Sent c ''BEGIN'' []]" "gw_noop g1 = gw_noop h" using pool.ask_logged [OF start] by auto
    show ?thesis
    proof (cases b)
      case (Inl e)
      then have "r = Inl e" "g' = release (dl_driver d) c g1" using run conn Inr start
        by (auto simp: transaction_def withClient_def run_bind_def run_op_def open_client_def close_client_def op_ret_def)
      then show ?thesis using ck lb pool.given_back [of c g1] by auto
    next
      case (Inr u)
      then obtain x where work: "tx_work d t fn c g1 = Some x" and res: "(r, g') = close_client d c None (tx_catch d c x)"
        using run conn \<open>q = Inr c\<close> start
        by (auto simp: transaction_def withClient_def run_bind_def run_op_def open_client_def op_ret_def)
      obtain r2 g2 where tc: "tx_catch d c x = (r2, g2)" by fastforce
      have eq: "r = r2" "g' = release (dl_driver d) c g2" using res tc by (auto simp: close_client_def)
      obtain work' fin where w: "gw_log g2 = gw_log g1 @ work' @ fin" "on_client c work'" "\<forall>(sql, vs) \<in> set (calls work'). orderly False sql vs"
          "closing c (isl r2) fin" "gw_noop g2 = gw_noop g1"
        using tx_catch_closing [OF tx_work_committing [of c fn d t, OF fn] work tc] by (elim exE conjE) (rule that)
      have "gw_log g' = gw_log g @ (Connected c # Sent c ''BEGIN'' [] # work' @ fin @ [Released c])"
        using pool.given_back [of c g2] ck lb w eq by simp
      moreover have "whole_transaction False (isl r) (Connected c # Sent c ''BEGIN'' [] # work' @ fin @ [Released c])"
        unfolding whole_transaction_def using w eq by blast
      ultimately show ?thesis by blast
    qed
  qed
qed

lemma returns_map: "returns m \<Longrightarrow> returns (\<lambda>g. map_option f (m g))"
  by (simp add: returns_def)

lemma transaction_returns:
  assumes "\<And>T. returns (fn T)"
  shows "returns (transaction d fn t)"
  unfolding transaction_def withClient_def tx_work_def by (intro returns_intros returns_map assms)

definition ex_config :: "nat dal_config" where
  "ex_config = \<lparr>dc_connectionString = ''postgres://db'', dc_schemas = [''app''], dc_sharedTables = None, dc_max = None,
     dc_statementTimeoutMs = None, dc_bulkTimeoutMs = None, dc_connectionTimeoutMillis = None, dc_idleTimeoutMillis = None,
     dc_maxUses = None, dc_applicationName = None, dc_repoDecorator = None\<rparr>"

definition ex_dal :: "nat dal" where
  "ex_dal = \<lparr>dl_config = resolve_config ex_config, dl_driver = ex_driver, dl_base = ex_base,
     dl_repo = root_repository (resolve_config ex_config) ex_driver ex_base, dl_closed = False, dl_isClosing = False, dl_ends = 0\<rparr>"

lemma count_at_client:
  "at_client c (orderly False) (run_op (RepositoryReads.count (ry_repo (tx_repository d c)) entity None))"
  unfolding RepositoryReads.count_def tx_repository_def new_repository_def
  by (auto intro!: confined_intros pool.confined_ask simp: orderly_def)

theorem transaction_commits_or_rolls_back_witness:
  "\<exists>r g'. transaction ex_dal (\<lambda>T. run_op (RepositoryReads.count (ry_repo T) 0 None)) (Some 5) ex_start = Some (r, g')
    \<and> (whole_transaction False (isl r) (gw_log g') \<or> isl r)"
proof -
  let ?fn = "\<lambda>T. run_op (RepositoryReads.count (ry_repo T) 0 None)"
  have "returns (transaction ex_dal ?fn (Some 5))" by (intro transaction_returns returns_intros)
  then have "transaction ex_dal ?fn (Some 5) ex_start \<noteq> None" by (simp add: returns_def)
  then obtain r g' where run: "transaction ex_dal ?fn (Some 5) ex_start = Some (r, g')" by auto
  then show ?thesis
    using transaction_commits_or_rolls_back [OF count_at_client run] by (auto simp: ex_start_def)
qed

text \<open>An error of the statement that restores the timeout hides the result, and the client is not given back.\<close>

lemma withClient_leaks:
  assumes "client_query (dl_driver d) c (timeout_sql (st_statementTimeoutMs (dl_config d))) [] g = (Inl e, g')"
  shows "close_client d c (Some t) (r, g) = (Inl e, g')" and "held (gw_log g') c = held (gw_log g) c"
  using pool.ask_logged [OF assms] assms by (auto simp: close_client_def)

section \<open>The session of a connection\<close>

lemma lower_valid: "re_test lower_ident_re s \<Longrightarrow> valid_ident s"
  by (auto simp: lower_ident_re_def ident_shape_test valid_ident_def is_ident_start_def is_word_def is_alpha_def is_alnum_def list_all_iff)

lemma quote_all: "list_all valid_ident ss \<Longrightarrow> map_res quoted ss = Inr (map (\<lambda>s. ''\"'' @ s @ ''\"'') ss)"
  by (induction ss) (auto simp: quoted_def plain_def quoteIdent_Inr [THEN iffD2])

lemma fold_set_add_extends: "\<exists>zs. fold set_add xs acc = acc @ zs"
proof (induction xs arbitrary: acc)
  case (Cons x xs)
  obtain zs where zs: "fold set_add xs (set_add x acc) = set_add x acc @ zs" using Cons by blast
  moreover obtain ys where "set_add x acc = acc @ ys" by (cases "x \<in> set acc") (auto simp: set_add_def)
  ultimately show ?case by simp
qed simp

lemma fold_set_add_set: "set (fold set_add xs acc) = set acc \<union> set xs"
  by (induction xs arbitrary: acc) auto

lemma fold_set_add_distinct: "distinct acc \<Longrightarrow> distinct (fold set_add xs acc)"
  by (induction xs arbitrary: acc) (auto simp: distinct_set_add)

text \<open>In a configured domain every connection starts with a search path of the declared schemas, quoted, each once and the primary one
  first, and \<open>public\<close>.\<close>

theorem connection_session:
  assumes "configureSchemaDomain (st_schemas st) tables = Inr d"
  shows "\<exists>path rest. connect_statements st = Inr ((''SET search_path TO '' @ join '', '' (map (\<lambda>s. ''\"'' @ s @ ''\"'') path)) # rest)
    \<and> distinct path \<and> set path = insert ''public'' (set (sd_allowed d)) \<and> hd path = sd_primary d"
proof -
  obtain s0 ss where st: "st_schemas st = s0 # ss" "sd_allowed d = s0 # ss" "sd_primary d = s0" "list_all (re_test lower_ident_re) (s0 # ss)"
    using assms by (auto simp: configureSchemaDomain_def Let_def list_all_iff filter_empty_conv split: list.splits if_splits)
  obtain zs where path: "searchPath st = s0 # zs"
    using fold_set_add_extends [of "ss @ [''public'']" "[s0]"] st by (auto simp: searchPath_def set_add_def)
  have "set (searchPath st) = insert ''public'' (set (s0 # ss))" using st by (auto simp: searchPath_def fold_set_add_set)
  moreover have "valid_ident ''public''" by (simp add: valid_ident_def char_class_defs)
  ultimately have "list_all valid_ident (searchPath st)" using st lower_valid by (auto simp: list_all_iff)
  then obtain rest where "connect_statements st = Inr ((''SET search_path TO '' @ join '', '' (map (\<lambda>s. ''\"'' @ s @ ''\"'') (searchPath st))) # rest)"
    by (simp add: connect_statements_def quoted_list_def quote_all)
  moreover have "distinct (searchPath st)" unfolding searchPath_def by (rule fold_set_add_distinct) simp
  ultimately show ?thesis using st path \<open>set (searchPath st) = _\<close>
    by (intro exI [of _ "searchPath st"] exI [of _ rest]) auto
qed

theorem connection_session_witness:
  "\<exists>path. set path = {''app'', ''public''} \<and> hd path = ''app'' \<and> (\<exists>rest. connect_statements (resolve_config ex_config)
     = Inr ((''SET search_path TO '' @ join '', '' (map (\<lambda>s. ''\"'' @ s @ ''\"'') path)) # rest))"
proof -
  have "configureSchemaDomain (st_schemas (resolve_config ex_config)) [] = Inr \<lparr>sd_allowed = [''app''], sd_primary = ''app'', sd_sharedTables = PLATFORM_SHARED_TABLES\<rparr>"
    by (simp add: ex_config_def resolve_config_def configureSchemaDomain_def lower_ident_re_def ident_shape_test is_lower_def is_digit_def code_unit_def)
  then show ?thesis using connection_session by fastforce
qed

text \<open>The domain is the one of the instance made last, and the decorator of the root repository is not applied.\<close>

lemma last_instance_sets_domain: "new_dal pool base cfg p = (Inr i, p') \<Longrightarrow>
    \<exists>tables d. configureSchemaDomain (dc_schemas cfg) tables = Inr d \<and> ps_domain p' = Some d"
  by (auto simp: new_dal_def Let_def resolve_config_def split: if_splits sum.splits domain_error.splits)

lemma decorator_ignored: "root_repository (resolve_config cfg) D base = new_repository D base PoolDb (st_bulkTimeoutMs (resolve_config cfg))"
  by (simp add: root_repository_def resolve_config_def)

section \<open>The life of the instances\<close>

text \<open>\<open>pool.end\<close> has been called once for an instance that is closed or closing, which exclude each other, and not at all for another.\<close>

definition instance_ok :: "'w dal \<Rightarrow> bool" where
  "instance_ok d \<longleftrightarrow> dl_ends d = (if dl_closed d \<or> dl_isClosing d then 1 else 0) \<and> \<not> (dl_closed d \<and> dl_isClosing d)
     \<and> st_connectionString (dl_config d) \<noteq> []"

definition shared_ok :: "'w process \<Rightarrow> bool" where
  "shared_ok p \<longleftrightarrow> (ps_dals p \<noteq> [] \<longrightarrow> ps_domain p \<noteq> None \<and> ps_typeParsersRegistered p)
     \<and> (ps_typeParsersRegistered p \<longrightarrow> map_of (ps_parsers p) ''INT8'' = Some ParseBigInt \<and> map_of (ps_parsers p) ''NUMERIC'' = Some ParseVerbatim
          \<and> map_of (ps_parsers p) ''DATE'' = Some ParseVerbatim)"

definition process_ok :: "'w process \<Rightarrow> bool" where
  "process_ok p \<longleftrightarrow> list_all instance_ok (ps_dals p) \<and> shared_ok p
     \<and> (case ps_defaultDal p of Some i \<Rightarrow> i < length (ps_dals p) | None \<Rightarrow> True)"

lemma parsers_ok: "shared_ok p \<Longrightarrow> shared_ok (ensureTypeParsers p)"
  by (auto simp: shared_ok_def ensureTypeParsers_def update_conv')

lemma ensure_keeps [simp]: "ps_dals (ensureTypeParsers p) = ps_dals p" "ps_defaultDal (ensureTypeParsers p) = ps_defaultDal p"
    "ps_resets (ensureTypeParsers p) = ps_resets p" "ps_typeParsersRegistered (ensureTypeParsers p)"
  by (auto simp: ensureTypeParsers_def)

lemma new_dal_ok:
  assumes "new_dal pool base cfg p = (r, p')" and "process_ok p"
  shows "process_ok p'" and "r = Inr i \<Longrightarrow> i < length (ps_dals p')"
  using assms parsers_ok [of p]
  by (auto simp: new_dal_def process_ok_def Let_def instance_ok_def resolve_config_def shared_ok_def
      split: if_splits sum.splits domain_error.splits option.splits)

lemma list_all_set: "list_all P xs \<Longrightarrow> P x \<Longrightarrow> list_all P (xs[i := x])"
  by (auto simp: list_all_iff dest!: subsetD [OF set_update_subset_insert])

lemma close_begin_ok:
  assumes "close_begin i p = (b, p')" and "process_ok p" and "i < length (ps_dals p)"
  shows "process_ok p'" and "ps_defaultDal p' = ps_defaultDal p" and "length (ps_dals p') = length (ps_dals p)"
proof -
  have "instance_ok (ps_dals p ! i)" using assms(2,3) by (auto simp: process_ok_def list_all_length)
  then show "process_ok p'" and "ps_defaultDal p' = ps_defaultDal p" and "length (ps_dals p') = length (ps_dals p)"
    using assms by (auto simp: close_begin_def Let_def process_ok_def shared_ok_def instance_ok_def intro!: list_all_set split: if_splits option.splits)
qed

lemma close_settled_ok:
  assumes "process_ok p" and "i < length (ps_dals p)" and "dl_isClosing (ps_dals p ! i)"
  shows "process_ok (close_settled i p)"
proof -
  have "instance_ok (ps_dals p ! i)" using assms(1,2) by (auto simp: process_ok_def list_all_length)
  then show ?thesis using assms
    by (auto simp: close_settled_def process_ok_def shared_ok_def instance_ok_def intro!: list_all_set split: option.splits)
qed

lemma getDal_ok:
  assumes "getDal pool base config p = (r, p')" and "process_ok p"
  shows "process_ok p'"
  using assms new_dal_ok [of pool base _ p _ p']
  by (auto simp: getDal_def split: option.splits if_splits prod.splits sum.splits dest: new_dal_ok simp: process_ok_def shared_ok_def)

lemma lifecycle_ok: "lifecycle pool base p e p' \<Longrightarrow> process_ok p \<Longrightarrow> process_ok p'"
proof (induction rule: lifecycle.induct)
  case (reset p)
  show ?case
  proof (cases "ps_defaultDal p")
    case None
    then show ?thesis using reset by (simp add: reset_begin_def)
  next
    case (Some i)
    then have i: "i < length (ps_dals p)" using reset by (simp add: process_ok_def)
    obtain b q where "close_begin i p = (b, q)" by fastforce
    then show ?thesis using close_begin_ok [of i p b q] reset i Some by (simp add: reset_begin_def process_ok_def shared_ok_def)
  qed
next
  case (reset_return p k)
  then show ?case by (simp add: reset_end_def process_ok_def shared_ok_def)
qed (auto dest: new_dal_ok getDal_ok close_begin_ok intro: close_settled_ok)

text \<open>C9: however constructions, \<open>getDal\<close>, \<open>close\<close> and \<open>resetDal\<close> interleave, \<open>pool.end\<close> is called at most once for each instance, an instance
  is never closed and closing at once, and whenever an instance exists the schema domain is configured and the type parsers are registered.\<close>

theorem gateway_lifecycle:
  assumes "lifecycles pool base new_process es p"
  shows "process_ok p"
proof -
  have "process_ok p \<Longrightarrow> process_ok p'" if "lifecycles pool base p es p'" for p es p'
    using that by (induction rule: lifecycles.induct) (auto dest: lifecycle_ok)
  moreover have "process_ok new_process" by (simp add: process_ok_def shared_ok_def new_process_def)
  ultimately show ?thesis using assms by blast
qed

definition ex_pool :: "pool_config \<Rightarrow> nat driver" where
  "ex_pool = (\<lambda>_. ex_driver)"

lemma ex_first: "\<exists>p. getDal ex_pool ex_base (Some ex_config) new_process = (Inr 0, p) \<and> ps_dals p \<noteq> [] \<and> \<not> dl_isClosing (ps_dals p ! 0)
    \<and> ps_defaultDal p = Some 0 \<and> length (ps_dals p) = 1 \<and> ps_resets p = [] \<and> \<not> dl_closed (ps_dals p ! 0)"
  by (simp add: getDal_def new_process_def new_dal_def ex_config_def resolve_config_def configureSchemaDomain_def or_default_def
      lower_ident_re_def ident_shape_test is_lower_def is_digit_def code_unit_def ensureTypeParsers_def Let_def)

theorem gateway_lifecycle_witness:
  "process_ok (snd (close_begin 0 (snd (getDal ex_pool ex_base (Some ex_config) new_process))))"
proof -
  obtain p where p: "getDal ex_pool ex_base (Some ex_config) new_process = (Inr 0, p)" "length (ps_dals p) = 1" using ex_first by blast
  obtain b q where "close_begin 0 p = (b, q)" by fastforce
  then have "lifecycles ex_pool ex_base new_process [Gotten (Inr 0), CloseCalled 0] q"
    using p by (auto intro!: lifecycles.intros lifecycle.get lifecycle.close)
  then show ?thesis using gateway_lifecycle p \<open>close_begin 0 p = (b, q)\<close> by auto
qed

section \<open>The singleton\<close>

definition no_reset_returns :: "lifecycle_event list \<Rightarrow> bool" where
  "no_reset_returns es \<longleftrightarrow> list_all (\<lambda>e. case e of ResetReturned _ \<Rightarrow> False | _ \<Rightarrow> True) es"

lemma new_dal_default: "new_dal pool base cfg p = (r, p') \<Longrightarrow> ps_defaultDal p' = ps_defaultDal p"
  by (auto simp: new_dal_def Let_def split: if_splits sum.splits domain_error.splits)

lemma getDal_default:
  "getDal pool base config p = (r, p') \<Longrightarrow> (\<forall>i. ps_defaultDal p = Some i \<longrightarrow> ps_defaultDal p' = Some i) \<and> (\<forall>i. r = Inr i \<longrightarrow> ps_defaultDal p' = Some i)"
  by (auto simp: getDal_def split: option.splits if_splits prod.splits sum.splits)

lemma close_begin_default: "close_begin i p = (b, p') \<Longrightarrow> ps_defaultDal p' = ps_defaultDal p"
  by (auto simp: close_begin_def Let_def split: if_splits)

lemma lifecycle_default:
  assumes "lifecycle pool base p e p'" and "no_reset_returns [e]"
  shows "(\<forall>i. ps_defaultDal p = Some i \<longrightarrow> ps_defaultDal p' = Some i) \<and> (\<forall>i. e = Gotten (Inr i) \<longrightarrow> ps_defaultDal p' = Some i)"
  using assms
proof (cases rule: lifecycle.cases)
  case reset
  then show ?thesis by (auto simp: reset_begin_def dest!: close_begin_default split: option.splits prod.splits)
qed (auto simp: no_reset_returns_def close_settled_def dest: new_dal_default getDal_default close_begin_default)

lemma lifecycles_default:
  assumes "lifecycles pool base p es p'" and "no_reset_returns es"
  shows "(\<forall>i. ps_defaultDal p = Some i \<longrightarrow> ps_defaultDal p' = Some i) \<and> (\<forall>i. Gotten (Inr i) \<in> set es \<longrightarrow> ps_defaultDal p' = Some i)"
  using assms
proof (induction rule: lifecycles.induct)
  case (step p e p' es p'')
  then have "no_reset_returns [e]" "no_reset_returns es" by (auto simp: no_reset_returns_def)
  then show ?case using lifecycle_default [OF step.hyps(1)] step.IH by auto
qed simp

text \<open>As long as no \<open>resetDal\<close> has finished, every successful \<open>getDal\<close> returns the same instance.\<close>

theorem getDal_singleton:
  assumes "lifecycles pool base p es p'" and "no_reset_returns es" and "Gotten (Inr i) \<in> set es" and "Gotten (Inr j) \<in> set es"
  shows "i = j"
proof -
  have "ps_defaultDal p' = Some k" if "Gotten (Inr k) \<in> set es" for k
    using lifecycles_default [OF assms(1,2)] that by blast
  from this [OF assms(3)] this [OF assms(4)] have "Some i = Some j" by (rule subst)
  then show ?thesis by simp
qed

theorem getDal_singleton_witness: "\<exists>p. getDal ex_pool ex_base None (snd (getDal ex_pool ex_base (Some ex_config) new_process)) = (Inr 0, p)"
proof -
  obtain p where p: "getDal ex_pool ex_base (Some ex_config) new_process = (Inr 0, p)" "ps_defaultDal p = Some 0" using ex_first by blast
  then have q: "getDal ex_pool ex_base None p = (Inr 0, p)" by (simp add: getDal_def)
  have "lifecycles ex_pool ex_base new_process [Gotten (Inr 0), Gotten (Inr 0)] p"
    using p q by (auto intro!: lifecycles.intros lifecycle.get)
  then have "(0::nat) = 0" by (rule getDal_singleton) (simp_all add: no_reset_returns_def)
  then show ?thesis using p q by simp
qed

text \<open>\<open>resetDal\<close> clears the singleton after its \<open>await\<close> without looking at it again: called twice, its first call can drop an open instance
  that a \<open>getDal\<close> in between has made.\<close>

lemma reset_drops_new_instance:
  "\<exists>p j. lifecycles ex_pool ex_base new_process
      [Gotten (Inr 0), ResetCalled, ResetCalled, ResetReturned 1, Gotten (Inr j), CloseSettled 0, ResetReturned 0] p
    \<and> ps_defaultDal p = None \<and> j = 1 \<and> \<not> dl_closed (ps_dals p ! j) \<and> \<not> dl_isClosing (ps_dals p ! j)"
proof -
  obtain p0 where p0: "getDal ex_pool ex_base (Some ex_config) new_process = (Inr 0, p0)" "\<not> dl_isClosing (ps_dals p0 ! 0)"
      "ps_defaultDal p0 = Some 0" "length (ps_dals p0) = 1" "ps_resets p0 = []" "\<not> dl_closed (ps_dals p0 ! 0)" using ex_first by blast
  define p1 where "p1 = reset_begin p0"
  define p2 where "p2 = reset_begin p1"
  have p1: "ps_defaultDal p1 = Some 0" "length (ps_dals p1) = 1" "ps_resets p1 = [Some 0]" "dl_isClosing (ps_dals p1 ! 0)"
    using p0 by (simp_all add: p1_def reset_begin_def close_begin_def Let_def)
  have p2: "ps_defaultDal p2 = Some 0" "length (ps_dals p2) = 1" "ps_resets p2 = [Some 0, None]" "dl_isClosing (ps_dals p2 ! 0)"
    using p1 by (simp_all add: p2_def reset_begin_def close_begin_def Let_def)
  define p3 where "p3 = reset_end 1 p2"
  have p3: "ps_defaultDal p3 = None" "length (ps_dals p3) = 1" "ps_resets p3 = [Some 0]" "dl_isClosing (ps_dals p3 ! 0)"
    using p2 by (simp_all add: p3_def reset_end_def)
  obtain p4 where p4: "getDal ex_pool ex_base (Some ex_config) p3 = (Inr 1, p4)" "length (ps_dals p4) = 2" "ps_resets p4 = [Some 0]"
      "dl_isClosing (ps_dals p4 ! 0)" "\<not> dl_isClosing (ps_dals p4 ! 1)" "\<not> dl_closed (ps_dals p4 ! 1)"
    using p3 by (simp add: getDal_def new_dal_def ex_config_def resolve_config_def configureSchemaDomain_def or_default_def
      lower_ident_re_def ident_shape_test is_lower_def is_digit_def code_unit_def ensure_keeps Let_def nth_append)
  define p5 where "p5 = close_settled 0 p4"
  have p5: "ps_resets p5 = [Some 0]" "dl_closed (ps_dals p5 ! 0)" "\<not> dl_isClosing (ps_dals p5 ! 1)" "\<not> dl_closed (ps_dals p5 ! 1)"
    using p4 by (simp_all add: p5_def close_settled_def)
  have ready: "reset_ready p2 1" "reset_ready p5 0" using p2 p5 by (simp_all add: reset_ready_def)
  have settle: "lifecycle ex_pool ex_base p4 (CloseSettled 0) p5"
    unfolding p5_def using p4 by (intro lifecycle.settle) auto
  have "lifecycles ex_pool ex_base new_process
      [Gotten (Inr 0), ResetCalled, ResetCalled, ResetReturned 1, Gotten (Inr 1), CloseSettled 0, ResetReturned 0] (reset_end 0 p5)"
    by (rule lifecycles.step [OF lifecycle.get [OF p0(1)] lifecycles.step [OF lifecycle.reset lifecycles.step [OF lifecycle.reset
        lifecycles.step [OF lifecycle.reset_return [OF ready(1) [unfolded p2_def p1_def]]
        lifecycles.step [OF lifecycle.get [OF p4(1) [unfolded p3_def p2_def p1_def]]
        lifecycles.step [OF settle lifecycles.step [OF lifecycle.reset_return [OF ready(2)] lifecycles.stop]]]]]]])
  then show ?thesis using p5 by (intro exI [of _ "reset_end 0 p5"] exI [of _ 1]) (simp add: reset_end_def)
qed

end
