(* ===== verification/EntityListing.thy ===== *)
theory EntityListing
  imports RepositoryReads
begin

text \<open>
  The reading half of \<open>src/entity/entity-service.ts\<close>: search terms, list filters, the shape of a list query and the rows
  handed out; with \<open>src/audit/auditable-joins.ts\<close> and \<open>src/entity/audit-query.ts\<close>, which it uses.  The entity classes
  \<open>UserProfileRefEntity\<close> and \<open>AuditLogEntity\<close> are arguments.
\<close>

section \<open>Search terms\<close>

text \<open>The escaped term, the number of characters that stand for themselves, and whether a wildcard was written with a backslash.\<close>

definition like_escape :: "char \<Rightarrow> string" where
  "like_escape c = (if c = CHR ''%'' then ''#%'' else if c = CHR ''_'' then ''#_'' else if c = CHR ''#'' then ''##'' else [c])"

definition scan_literal :: "char \<Rightarrow> string \<times> nat \<times> bool \<Rightarrow> string \<times> nat \<times> bool" where
  "scan_literal c x = (case x of (out, k, w) \<Rightarrow> (like_escape c @ out, Suc k, w))"

definition escaped_wildcard :: "char \<Rightarrow> char \<Rightarrow> bool" where
  "escaped_wildcard c n \<longleftrightarrow> c = CHR 0x5C \<and> (n = CHR ''*'' \<or> n = CHR ''?'')"

fun needle_scan :: "string \<Rightarrow> string \<times> nat \<times> bool" where
  "needle_scan [] = ([], 0, False)"
| "needle_scan [c] = scan_literal c ([], 0, False)"
| "needle_scan (c # n # r) =
     (if escaped_wildcard c n then
        (case needle_scan r of (out, k, _) \<Rightarrow> ((if n = CHR ''*'' then CHR ''%'' else CHR ''_'') # out, k, True))
      else scan_literal c (needle_scan (n # r)))"

definition buildIlikeNeedle :: "string \<Rightarrow> string \<times> nat \<times> bool" where
  "buildIlikeNeedle raw = (case needle_scan raw of (out, k, w) \<Rightarrow> (''%'' @ out @ ''%'', k, w))"

definition uuid_hex :: re where
  "uuid_hex = Cls (\<lambda>c. is_digit c \<or> lower_char c \<in> set ''abcdef'')"

definition UUID_RE :: re where
  "UUID_RE = re_seq (Bol # replicate 8 uuid_hex @ [chr CHR ''-''] @ replicate 4 uuid_hex @ [chr CHR ''-''] @ replicate 4 uuid_hex
     @ [chr CHR ''-''] @ replicate 4 uuid_hex @ [chr CHR ''-''] @ replicate 12 uuid_hex @ [Eol])"

section \<open>Joins with the users\<close>

definition user_join :: "nat \<Rightarrow> nat \<Rightarrow> string \<Rightarrow> string \<Rightarrow> join_expr" where
  "user_join entity userEntity column alias =
     Join_on (field userEntity ''uuid'') (field entity column) (Some LEFT) (Some ''text'') (Some ''text'') (Some alias)"

definition buildAuditableJoins :: "nat \<Rightarrow> nat \<Rightarrow> join_expr list" where
  "buildAuditableJoins entity userEntity =
     [user_join entity userEntity ''created_by'' ''creator'',
      user_join entity userEntity ''updated_by'' ''updater'',
      user_join entity userEntity ''deleted_by'' ''deleter'']"

definition buildAuditableJoinsSelective :: "nat \<Rightarrow> nat \<Rightarrow> bool option \<Rightarrow> bool option \<Rightarrow> bool option \<Rightarrow> join_expr list" where
  "buildAuditableJoinsSelective entity userEntity includeCreator includeUpdater includeDeleter =
     (if includeCreator \<noteq> Some False then [user_join entity userEntity ''created_by'' ''creator''] else [])
     @ (if includeUpdater \<noteq> Some False then [user_join entity userEntity ''updated_by'' ''updater''] else [])
     @ (if includeDeleter \<noteq> Some False then [user_join entity userEntity ''deleted_by'' ''deleter''] else [])"

definition buildAuditTrailJoins :: "entity_env \<Rightarrow> nat \<Rightarrow> nat \<Rightarrow> string \<Rightarrow> (string, join_expr list \<times> field_projector list) res" where
  "buildAuditTrailJoins env auditEntity userEntity baseTableRef =
     res_bind (ee_meta env auditEntity) (\<lambda>meta.
       let changedByCol = (case em_auditTrailChangedByColumn meta of Some c \<Rightarrow> c | None \<Rightarrow> ''changed_by'')
       in Inr ([Join_on (field userEntity ''uuid'') (field auditEntity changedByCol) (Some LEFT) (Some ''uuid'') (Some ''uuid'') (Some ''creator'')],
               [Project_expr (''COALESCE(\"creator\".\"display_name\", '' @ baseTableRef @ ''.\"'' @ changedByCol @ ''\")'') ''changed_by_display_name'' None,
                Project_expr ''\"creator\".\"idp_code\"'' ''changed_by_idp_code'' None]))"

section \<open>Rows and projections\<close>

definition dto_value :: "host \<Rightarrow> host_value \<Rightarrow> host_value" where
  "dto_value H v = (case v of HDate t \<Rightarrow> HStr (h_isoDate H t) | _ \<Rightarrow> v)"

definition toDto :: "host \<Rightarrow> host_record \<Rightarrow> host_record" where
  "toDto H row = map (\<lambda>(k, v). (k, dto_value H v)) row"

definition projectAllExceptPk :: "entity_env \<Rightarrow> nat \<Rightarrow> (string, field_projector list) res" where
  "projectAllExceptPk env entity =
     res_bind (ee_meta env entity) (\<lambda>meta.
       Inr (map (\<lambda>c. Project_field (field entity (cm_propertyKey c)) None) (filter (\<lambda>c. \<not> cm_isKey c) (cols meta))))"

section \<open>List queries\<close>

record entity_list_query =
  eq_search :: "string option"
  eq_search_in :: "string list option"
  eq_sort_key :: "string option"
  eq_sort_dir :: "string option"
  eq_page :: "int option"
  eq_page_size :: "int option"
  eq_filters :: "list_filter_condition list option"
  eq_connector :: "expression_operand option"
  eq_deleted_records :: "deleted_records option"
  eq_others :: "(string \<times> js_value) list"

record aggregate_decl =
  ag_name :: string
  ag_expr :: string
  ag_cast :: "string option"
  ag_entity :: nat
  ag_alias :: string
  ag_base :: string
  ag_joined :: string
  ag_extra :: "string option"

record list_config =
  ls_searchableKeys :: "string list"
  ls_filterableKeys :: "string list"
  ls_defaultSort :: "(string \<times> string) option"
  ls_extraFilters :: "(entity_list_query \<Rightarrow> filter_expr list) option"
  ls_aggregates :: "aggregate_decl list"

definition search_field :: "nat \<Rightarrow> string \<Rightarrow> string \<Rightarrow> string \<Rightarrow> filter_expr" where
  "search_field entity raw needle f =
     (if f = ''uuid'' \<and> re_test UUID_RE raw then Filter_fieldValue (field entity ''uuid'') ''='' (js_value.JStr raw) (Some OR_OP)
      else Filter_fieldValue (field entity f) ''ILIKE'' (js_value.JStr needle) (Some OR_OP))"

definition search_fields :: "list_config \<Rightarrow> entity_list_query \<Rightarrow> string list" where
  "search_fields L q =
     filter (\<lambda>f. f \<in> set (ls_searchableKeys L @ [''uuid'']))
       (case eq_search_in q of Some (f # fs) \<Rightarrow> f # fs | _ \<Rightarrow> ls_searchableKeys L)"

text \<open>The group of a search; a term that is too short matches nothing.\<close>

definition search_filters :: "nat \<Rightarrow> list_config \<Rightarrow> entity_list_query \<Rightarrow> string \<Rightarrow> filter_expr list" where
  "search_filters entity L q raw =
     (case buildIlikeNeedle raw of (needle, trueChars, hasEscapedWildcard) \<Rightarrow>
        if \<not> (trueChars \<ge> 3 \<or> hasEscapedWildcard \<and> trueChars \<ge> 1) then
          [Filter_group [Filter_raw ''1'' ''='' ''0'' None] (Some AND_OP) None]
        else
          (let ors = map (search_field entity raw needle) (search_fields L q)
           in if ors \<noteq> [] then [Filter_group ors (Some OR_OP) None] else []))"

definition buildListFilters :: "nat \<Rightarrow> list_config \<Rightarrow> entity_list_query \<Rightarrow> filter_expr list" where
  "buildListFilters entity L q =
     (case ls_extraFilters L of Some f \<Rightarrow> f q | None \<Rightarrow> [])
     @ (case eq_search q of
          Some s \<Rightarrow> if trim s \<noteq> [] then search_filters entity L q (trim s) else []
        | None \<Rightarrow> [])
     @ (case eq_filters q of
          Some (c # cs) \<Rightarrow>
            (case translateFilterConditions entity (Some (c # cs))
                \<lparr>lo_allowedFields = ls_filterableKeys L, lo_connector = Some (or_and (eq_connector q)), lo_validOps = None, lo_escapeIlike = None\<rparr> of
               Some fs \<Rightarrow> fs
             | None \<Rightarrow> [])
        | _ \<Rightarrow> [])"

definition aggregate_join :: "nat \<Rightarrow> aggregate_decl \<Rightarrow> join_expr" where
  "aggregate_join entity a =
     Join_on (field (ag_entity a) (ag_joined a)) (field entity (ag_base a)) (Some LEFT) None None (Some (ag_alias a))"

definition aggregate_field :: "aggregate_decl \<Rightarrow> field_projector" where
  "aggregate_field a =
     (let filtered = ag_expr a @ (if truthy (ag_extra a) then '' FILTER (WHERE '' @ the (ag_extra a) @ '')'' else [])
      in Project_expr (if truthy (ag_cast a) then ''CAST('' @ filtered @ '' AS '' @ the (ag_cast a) @ '')'' else filtered) (ag_name a) None)"

definition buildListShape :: "entity_env \<Rightarrow> nat \<Rightarrow> entity_meta \<Rightarrow> list_config \<Rightarrow> join_expr list
    \<Rightarrow> (string, field_projector list \<times> join_expr list \<times> group_by_operand list) res" where
  "buildListShape env entity meta L joins =
     res_bind (projectAllExceptPk env entity) (\<lambda>fields.
       if ls_aggregates L = [] then Inr (fields, joins, [])
       else Inr (fields @ map aggregate_field (ls_aggregates L), joins @ map (aggregate_join entity) (ls_aggregates L),
              case List.find cm_isKey (cols meta) of
                Some c \<Rightarrow> if cm_propertyKey c \<noteq> [] then [GroupField (field entity (cm_propertyKey c))] else []
              | None \<Rightarrow> []))"

text \<open>The key and the direction of the sorting.\<close>

definition list_sorting :: "nat \<Rightarrow> list_config \<Rightarrow> entity_list_query \<Rightarrow> sorting_expr" where
  "list_sorting entity L q =
     (let key = (case eq_sort_key q of Some k \<Rightarrow> k | None \<Rightarrow> (case ls_defaultSort L of Some (k, _) \<Rightarrow> k | None \<Rightarrow> ''updated_at''));
          dir = (case eq_sort_dir q of Some d \<Rightarrow> d | None \<Rightarrow> (case ls_defaultSort L of Some (_, d) \<Rightarrow> d | None \<Rightarrow> ''desc''))
      in Sort_by (field entity key) (Some (if to_upper dir = ''ASC'' then ASC else DESC)))"

definition list_options :: "nat \<Rightarrow> list_config \<Rightarrow> entity_list_query \<Rightarrow> join_expr list \<Rightarrow> group_by_operand list \<Rightarrow> find_options" where
  "list_options entity L q joins groupBy =
     no_options\<lparr>fo_filters := buildListFilters entity L q, fo_sorting := [list_sorting entity L q],
       fo_deletedRecords := Some (case eq_deleted_records q of Some d \<Rightarrow> d | None \<Rightarrow> EXCLUDED),
       fo_joins := joins, fo_groupBy := groupBy\<rparr>"

section \<open>Audit pages\<close>

record audit_page_options =
  ap_tableName :: string
  ap_entityUuid :: string
  ap_page :: int
  ap_limit :: int

record audit_page_result =
  ar_data :: "host_record list"
  ar_page :: int
  ar_limit :: int
  ar_total :: host_value
  ar_hasMore :: bool

definition audit_columns :: "string list" where
  "audit_columns = [''id'', ''entity_id'', ''entity_uuid'', ''action'', ''changed_at'', ''changed_by'', ''version'', ''delta'']"

definition audit_row :: "host \<Rightarrow> host_record \<Rightarrow> host_record" where
  "audit_row H row =
     [(''id'', prop_of row ''id''), (''entity_id'', prop_of row ''entity_id''), (''entity_uuid'', prop_of row ''entity_uuid''),
      (''action'', prop_of row ''action''), (''changed_at'', dto_value H (prop_of row ''changed_at'')),
      (''changed_by'', prop_of row ''changed_by''),
      (''changed_by_display_name'', coalesce_host (prop_of row ''changed_by_display_name'') HNull),
      (''changed_by_idp_code'', coalesce_host (prop_of row ''changed_by_idp_code'') HNull),
      (''version'', prop_of row ''version''), (''delta'', coalesce_host (prop_of row ''delta'') (HObj []))]"

text \<open>\<open>BigInt(page * limit) < total\<close>; a total that is no integer compares as false.\<close>

definition has_more :: "host \<Rightarrow> int \<Rightarrow> int \<Rightarrow> host_value \<Rightarrow> bool" where
  "has_more H page limit n =
     (case n of
        HBig i \<Rightarrow> page * limit < i
      | _ \<Rightarrow> (case h_bigInt H (host_string H n) of Inr i \<Rightarrow> page * limit < i | Inl _ \<Rightarrow> False))"

definition findAuditPage :: "'w repo \<Rightarrow> nat \<Rightarrow> nat \<Rightarrow> audit_page_options \<Rightarrow> ('w, audit_page_result) op" where
  "findAuditPage R auditLog userRef opts =
     op_bind (op_lift (plain (ee_meta (rp_env R) auditLog))) (\<lambda>auditMeta.
     op_bind (op_lift (plain (quoteIdent (em_tableSchema auditMeta)))) (\<lambda>schema.
     op_bind (op_lift (plain (quoteIdent (ap_tableName opts)))) (\<lambda>tableQ.
     op_bind (op_lift (plain (buildAuditTrailJoins (rp_env R) auditLog userRef (schema @ ''.'' @ tableQ)))) (\<lambda>(joins, projections).
     op_bind (findByPage R auditLog (ap_page opts) (ap_limit opts)
         (map (\<lambda>k. Project_field (field auditLog k) None) audit_columns @ projections)
         (no_options\<lparr>fo_filters := [Filter_fieldValue (field auditLog ''entity_uuid'') ''='' (js_value.JStr (ap_entityUuid opts)) None],
            fo_sorting := [Sort_by (field auditLog ''changed_at'') (Some DESC)], fo_tableName := Some (ap_tableName opts),
            fo_joins := joins\<rparr>)) (\<lambda>result.
       op_ret \<lparr>ar_data = map (audit_row (rp_host R)) (pg_entities result), ar_page = ap_page opts, ar_limit = ap_limit opts,
         ar_total = pg_total result, ar_hasMore = has_more (rp_host R) (ap_page opts) (ap_limit opts) (pg_total result)\<rparr>)))))"

end
