(* ===== verification/EntityService.thy ===== *)
theory EntityService
  imports EntityListing RepositoryClone Dal
begin

text \<open>
  The service of \<open>src/entity/entity-service.ts\<close>, built for one entity on a repository, its standard audit port, and the base class
  \<open>src/entity/domain-service.ts\<close>.  \<open>stream\<close> reads its rows through a server-side cursor and is not modelled beyond its query, which
  is that of \<open>list\<close> without a page.
\<close>

section \<open>The standard audit port\<close>

text \<open>The entity classes that the library owns.\<close>

record platform_entities =
  pe_auditLog :: nat
  pe_userProfileRef :: nat

definition audit_action_text :: "audit_action \<Rightarrow> string" where
  "audit_action_text a =
     (case a of INSERT \<Rightarrow> ''INSERT'' | UPDATE \<Rightarrow> ''UPDATE'' | SOFT_DELETE \<Rightarrow> ''SOFT_DELETE'' | HARD_DELETE \<Rightarrow> ''HARD_DELETE''
      | RESTORE \<Rightarrow> ''RESTORE'' | CLONE \<Rightarrow> ''CLONE'')"

definition audit_payload :: "audit_entry \<Rightarrow> host_record" where
  "audit_payload e =
     [(''entity_id'', ae_entityId e), (''entity_uuid'', ae_entityUuid e), (''action'', HStr (audit_action_text (ae_action e))),
      (''changed_at'', HDate (ae_changedAt e)), (''changed_by'', HStr (ae_changedBy e)), (''version'', ae_version e),
      (''delta'', HObj (map (\<lambda>(k, old, new). (k, HObj [(''old'', old), (''new'', new)])) (ae_delta e)))]"

definition audit_port_options :: "string \<Rightarrow> write_options" where
  "audit_port_options table =
     \<lparr>wo_actor = None, wo_audit = False, wo_returning = [], wo_matchBy = [], wo_tableName = Some table, wo_ignore = False,
      wo_conflictKeys = None\<rparr>"

definition writeAudit :: "platform_entities \<Rightarrow> 'w repository \<Rightarrow> audit_entry \<Rightarrow> ('w gateway, host_value) op" where
  "writeAudit P S e =
     op_bind (clock (ry_driver S)) (\<lambda>now.
     op_bind (RepositoryMethods.add (ry_repo S) (pe_auditLog P) (audit_payload e) (audit_port_options (ae_tableName e @ ''_audit'')) now) (\<lambda>inserted.
       case inserted of
         Some row \<Rightarrow> op_ret (prop_of row ''id'')
       | None \<Rightarrow> op_fail (PlainError (''Cannot read properties of null (reading '' @ qlit ''id'' @ '')''))))"

text \<open>The writes of a repository do not wait for their audit row; a failure is only logged.\<close>

definition makeTableAuditPort :: "platform_entities \<Rightarrow> 'w repository \<Rightarrow> audit_entry \<Rightarrow> 'w gateway \<Rightarrow> 'w gateway" where
  "makeTableAuditPort P S e g = snd (writeAudit P S e g)"

section \<open>The service\<close>

datatype entity_action =
    Act_meta | Act_list | Act_export | Act_create | Act_duplicate | Act_bulkDelete | Act_bulkRestore | Act_get | Act_update | Act_delete
  | Act_purge | Act_restore | Act_audit

record 'w service_config =
  es_entity :: nat
  es_repo :: "'w repository option"
  es_auditPort :: "(audit_entry \<Rightarrow> 'w gateway \<Rightarrow> 'w gateway) option"
  es_actor :: "('w gateway \<Rightarrow> string) option"
  es_auditTableName :: "string option"
  es_list :: list_config
  es_afterWrite :: "(entity_action \<Rightarrow> host_record \<Rightarrow> ('w gateway, unit) op) option"
  es_beforeCreate :: "(host_record \<Rightarrow> ('w gateway, host_record option) op) option"
  es_beforeUpdate :: "(string \<Rightarrow> host_record \<Rightarrow> ('w gateway, host_record option) op) option"

record 'w entity_service =
  sv_config :: "'w service_config"
  sv_platform :: platform_entities
  sv_meta :: entity_meta
  sv_repo :: "'w repository"
  sv_auditPort :: "audit_entry \<Rightarrow> 'w gateway \<Rightarrow> 'w gateway"
  sv_auditTable :: string
  sv_uuidCol :: "column_meta option"
  sv_hasDeletedBy :: bool
  sv_auditable :: bool

definition makeEntityService :: "platform_entities \<Rightarrow> entity_env \<Rightarrow> 'w service_config \<Rightarrow> (dal_error, 'w entity_service) res" where
  "makeEntityService P env cfg =
     res_bind (plain (ee_meta env (es_entity cfg))) (\<lambda>meta.
       case es_repo cfg of
         None \<Rightarrow> Inl (Validation (''EntityServiceConfig.repo is required '' @ dash
           @ '' use `dal.entityService(cfg)` so the gateway injects its own Repository''))
       | Some S \<Rightarrow>
           Inr \<lparr>sv_config = cfg, sv_platform = P, sv_meta = meta, sv_repo = S,
                sv_auditPort = (case es_auditPort cfg of Some p \<Rightarrow> p | None \<Rightarrow> makeTableAuditPort P S),
                sv_auditTable = (case es_auditTableName cfg of Some t \<Rightarrow> t | None \<Rightarrow> em_tableName meta @ ''_audit''),
                sv_uuidCol = List.find (\<lambda>c. cm_propertyKey c = ''uuid'' \<or> cm_isUnique c) (cols meta),
                sv_hasDeletedBy = list_ex (\<lambda>c. cm_deletableType c = Some DELETED_BY) (cols meta),
                sv_auditable = isAuditableEntity meta\<rparr>)"

definition joinsFor :: "'w entity_service \<Rightarrow> join_expr list" where
  "joinsFor v =
     (if sv_auditable v then
        buildAuditableJoinsSelective (es_entity (sv_config v)) (pe_userProfileRef (sv_platform v)) None None (Some (sv_hasDeletedBy v))
      else [])"

definition service_actor :: "'w entity_service \<Rightarrow> ('w gateway, string) op" where
  "service_actor v g = (Inr (case es_actor (sv_config v) of Some f \<Rightarrow> f g | None \<Rightarrow> ''system''), g)"

definition fireAfterWrite :: "'w entity_service \<Rightarrow> entity_action \<Rightarrow> host_record \<Rightarrow> ('w gateway, unit) op" where
  "fireAfterWrite v act row = (case es_afterWrite (sv_config v) of Some h \<Rightarrow> h act row | None \<Rightarrow> op_ret ())"

text \<open>The repository of a write: the one of the transaction or the own one; the audit port is always the one of the service.\<close>

definition repoFor :: "'w entity_service \<Rightarrow> 'w repository option \<Rightarrow> 'w repository" where
  "repoFor v tx =
     (let S = (case tx of Some T \<Rightarrow> T | None \<Rightarrow> sv_repo v) in S\<lparr>ry_repo := (ry_repo S)\<lparr>rp_audit := sv_auditPort v\<rparr>\<rparr>)"

definition service_env :: "'w entity_service \<Rightarrow> entity_env" where
  "service_env v = rp_env (ry_repo (sv_repo v))"

definition service_dto :: "'w entity_service \<Rightarrow> host_record \<Rightarrow> host_record" where
  "service_dto v row = toDto (rp_host (ry_repo (sv_repo v))) row"

definition projections :: "'w entity_service \<Rightarrow> ('w gateway, field_projector list) op" where
  "projections v = op_lift (plain (projectAllExceptPk (service_env v) (es_entity (sv_config v))))"

definition service_options :: "'w entity_service \<Rightarrow> string list \<Rightarrow> ('w gateway, write_options) op" where
  "service_options v matchBy =
     op_bind (service_actor v) (\<lambda>actor.
     op_bind (projections v) (\<lambda>returning.
       op_ret \<lparr>wo_actor = Some actor, wo_audit = True, wo_returning = returning, wo_matchBy = matchBy, wo_tableName = None,
         wo_ignore = False, wo_conflictKeys = None\<rparr>))"

section \<open>Reads\<close>

record list_result =
  lr_rows :: "host_record list"
  lr_page :: int
  lr_page_size :: int
  lr_total :: host_value

definition service_list :: "'w entity_service \<Rightarrow> entity_list_query \<Rightarrow> ('w gateway, list_result) op" where
  "service_list v q =
     (let entity = es_entity (sv_config v); L = es_list (sv_config v);
          page = (case eq_page q of Some p \<Rightarrow> p | None \<Rightarrow> 1); size = (case eq_page_size q of Some s \<Rightarrow> s | None \<Rightarrow> 25)
      in op_bind (op_lift (plain (buildListShape (service_env v) entity (sv_meta v) L (joinsFor v)))) (\<lambda>(fields, joins, groupBy).
         op_bind (findByPage (ry_repo (sv_repo v)) entity page size fields (list_options entity L q joins groupBy)) (\<lambda>result.
           op_ret \<lparr>lr_rows = map (service_dto v) (pg_entities result), lr_page = page, lr_page_size = size, lr_total = pg_total result\<rparr>)))"

definition service_get :: "'w entity_service \<Rightarrow> string \<Rightarrow> ('w gateway, host_record) op" where
  "service_get v uuid =
     op_bind (projections v) (\<lambda>fields.
     op_bind (RepositoryReads.find (ry_repo (sv_repo v)) (es_entity (sv_config v)) fields
         (no_options\<lparr>fo_filters := [Filter_fieldValue (field (es_entity (sv_config v)) ''uuid'') ''='' (js_value.JStr uuid) None],
            fo_joins := joinsFor v, fo_throwIfNotFound := False\<rparr>)) (\<lambda>row.
       case row of
         None \<Rightarrow> op_fail (NotFound (''The requested '' @ em_entityClassName (sv_meta v) @ '' could not be found''))
       | Some r \<Rightarrow> op_ret (service_dto v r)))"

definition service_audit :: "'w entity_service \<Rightarrow> string \<Rightarrow> int \<Rightarrow> int \<Rightarrow> ('w gateway, audit_page_result) op" where
  "service_audit v uuid page limit =
     op_bind (findAuditPage (ry_repo (sv_repo v)) (pe_auditLog (sv_platform v)) (pe_userProfileRef (sv_platform v))
         \<lparr>ap_tableName = sv_auditTable v, ap_entityUuid = uuid, ap_page = page, ap_limit = limit\<rparr>) (\<lambda>r.
       op_ret (r\<lparr>ar_data := map (\<lambda>row. row @ [(''changed_by_name'', coalesce_host (prop_of row ''changed_by_display_name'') HNull)]) (ar_data r)\<rparr>))"

section \<open>Writes\<close>

definition prepared :: "(host_record \<Rightarrow> ('w gateway, host_record option) op) option \<Rightarrow> host_record \<Rightarrow> ('w gateway, host_record) op" where
  "prepared hook body =
     (case hook of
        None \<Rightarrow> op_ret body
      | Some h \<Rightarrow> op_bind (h body) (\<lambda>r. op_ret (case r of Some b \<Rightarrow> b | None \<Rightarrow> body)))"

definition service_uuid :: "'w repository \<Rightarrow> host_record \<Rightarrow> ('w gateway, host_value) op" where
  "service_uuid S body =
     (if host_nullish (prop_of body ''uuid'') then op_bind (randomUUID (ry_driver S)) (\<lambda>u. op_ret (HStr u))
      else op_ret (prop_of body ''uuid''))"

text \<open>The hook for the time after a write is left to the caller of a transaction.\<close>

definition after_write :: "'w entity_service \<Rightarrow> 'w repository option \<Rightarrow> entity_action \<Rightarrow> host_record \<Rightarrow> ('w gateway, host_record) op" where
  "after_write v tx act row =
     op_bind (if tx = None then fireAfterWrite v act (service_dto v row) else op_ret ()) (\<lambda>_. op_ret (service_dto v row))"

definition service_create :: "'w entity_service \<Rightarrow> host_record \<Rightarrow> 'w repository option \<Rightarrow> ('w gateway, host_record) op" where
  "service_create v body tx =
     op_bind (prepared (es_beforeCreate (sv_config v)) body) (\<lambda>p.
     op_bind (service_uuid (sv_repo v) p) (\<lambda>uuid.
     op_bind (service_options v []) (\<lambda>opts.
     op_bind (clock (ry_driver (sv_repo v))) (\<lambda>now.
     op_bind (RepositoryMethods.add (ry_repo (repoFor v tx)) (es_entity (sv_config v)) (AList.update ''uuid'' uuid p) opts now) (\<lambda>row.
       case row of
         Some r \<Rightarrow> after_write v tx Act_create r
       | None \<Rightarrow> op_fail (PlainError ''Cannot convert undefined or null to object''))))))"

definition service_update :: "'w entity_service \<Rightarrow> string \<Rightarrow> host_record \<Rightarrow> 'w repository option \<Rightarrow> ('w gateway, host_record) op" where
  "service_update v uuid body tx =
     op_bind (prepared (map_option (\<lambda>h. h uuid) (es_beforeUpdate (sv_config v))) body) (\<lambda>p.
     op_bind (service_options v []) (\<lambda>opts.
     op_bind (clock (ry_driver (sv_repo v))) (\<lambda>now.
     op_bind (RepositoryUpdates.update (ry_repo (repoFor v tx)) (es_entity (sv_config v)) (AList.update ''uuid'' (HStr uuid) p) opts now) (\<lambda>row.
       after_write v tx Act_update row))))"

definition versioned_match :: "string \<Rightarrow> int \<Rightarrow> host_record" where
  "versioned_match uuid version = [(''uuid'', HStr uuid), (''version'', HNum (int_str version))]"

definition service_write :: "'w entity_service \<Rightarrow> ('w gateway repo \<Rightarrow> nat \<Rightarrow> host_record \<Rightarrow> write_options \<Rightarrow> int \<Rightarrow> ('w gateway, host_record) op)
    \<Rightarrow> entity_action \<Rightarrow> string \<Rightarrow> int \<Rightarrow> ('w gateway, host_record) op" where
  "service_write v method act uuid version =
     op_bind (service_options v [''uuid'']) (\<lambda>opts.
     op_bind (clock (ry_driver (sv_repo v))) (\<lambda>now.
     op_bind (method (ry_repo (repoFor v None)) (es_entity (sv_config v)) (versioned_match uuid version) opts now) (\<lambda>row.
       after_write v None act row)))"

definition service_delete :: "'w entity_service \<Rightarrow> string \<Rightarrow> int \<Rightarrow> ('w gateway, host_record) op" where
  "service_delete v = service_write v RepositoryUpdates.delete Act_delete"

definition service_restore :: "'w entity_service \<Rightarrow> string \<Rightarrow> int \<Rightarrow> ('w gateway, host_record) op" where
  "service_restore v = service_write v restore Act_restore"

definition service_purge :: "'w entity_service \<Rightarrow> string \<Rightarrow> int \<Rightarrow> ('w gateway, host_record) op" where
  "service_purge v = service_write v hardDelete Act_purge"

definition error_text :: "dal_error \<Rightarrow> string" where
  "error_text e =
     (case e of NotFound s \<Rightarrow> s | MultipleRows s \<Rightarrow> s | UnknownColumn s \<Rightarrow> s | Validation s \<Rightarrow> s | MissingVersion s \<Rightarrow> s
      | RecordVanished s \<Rightarrow> s | DuplicateRecord s \<Rightarrow> s | MatchSelector s \<Rightarrow> s | IdentityConflict s \<Rightarrow> s | OptimisticLock s \<Rightarrow> s
      | BulkTimeout s \<Rightarrow> s | PlainError s \<Rightarrow> s | DatabaseError _ s \<Rightarrow> s | CaptureSignal s _ \<Rightarrow> s)"

record duplicate_result =
  dr_uuids :: "host_value list"
  dr_errors :: "(string \<times> string) list"

definition clone_one :: "'w entity_service \<Rightarrow> string \<Rightarrow> ('w gateway, host_value) op" where
  "clone_one v uuid =
     op_bind (service_actor v) (\<lambda>actor.
     op_bind (randomUUID (ry_driver (sv_repo v))) (\<lambda>newUuid.
     op_bind (clock (ry_driver (sv_repo v))) (\<lambda>now.
     op_bind (clone (ry_repo (repoFor v None)) (es_entity (sv_config v)) uuid
         \<lparr>wo_actor = Some actor, wo_audit = True, wo_returning = [], wo_matchBy = [], wo_tableName = None, wo_ignore = False, wo_conflictKeys = None\<rparr>
         newUuid now) (\<lambda>row. op_ret (prop_of row ''uuid'')))))"

text \<open>An error is noted under its uuid and does not stop the others.\<close>

fun clone_all :: "'w entity_service \<Rightarrow> string list \<Rightarrow> duplicate_result \<Rightarrow> 'w gateway \<Rightarrow> duplicate_result \<times> 'w gateway" where
  "clone_all v [] acc g = (acc, g)"
| "clone_all v (u # us) acc g =
     (case clone_one v u g of
        (Inr x, g') \<Rightarrow> clone_all v us (acc\<lparr>dr_uuids := dr_uuids acc @ [x]\<rparr>) g'
      | (Inl e, g') \<Rightarrow> clone_all v us (acc\<lparr>dr_errors := dr_errors acc @ [(u, error_text e)]\<rparr>) g')"

definition service_duplicate :: "'w entity_service \<Rightarrow> string list \<Rightarrow> ('w gateway, duplicate_result) op" where
  "service_duplicate v uuids g =
     (if sv_uuidCol v = None then
        (Inl (NotFound (em_entityClassName (sv_meta v) @ '' has no uuid column '' @ dash @ '' duplicate unsupported'')), g)
      else (case clone_all v uuids \<lparr>dr_uuids = [], dr_errors = []\<rparr> g of (acc, g') \<Rightarrow>
         op_bind (if dr_uuids acc \<noteq> [] then fireAfterWrite v Act_duplicate [(''uuids'', HArr (dr_uuids acc))] else op_ret ())
           (\<lambda>_. op_ret acc) g'))"

definition bulk_service_options :: "string \<Rightarrow> bulk_options" where
  "bulk_service_options actor =
     \<lparr>bo_write = \<lparr>wo_actor = Some actor, wo_audit = True, wo_returning = [], wo_matchBy = [''uuid''], wo_tableName = None, wo_ignore = False,
        wo_conflictKeys = None\<rparr>, bo_batchSize = None, bo_timeoutMs = None\<rparr>"

definition bulk_items :: "(string \<times> int) list \<Rightarrow> host_record list" where
  "bulk_items items = map (\<lambda>(uuid, version). versioned_match uuid version) items"

definition service_bulkDelete :: "'w entity_service \<Rightarrow> (string \<times> int) list \<Rightarrow> ('w gateway, bulk_result) run" where
  "service_bulkDelete v items =
     run_bind (run_op (service_actor v)) (\<lambda>actor.
       deleteMany (repoFor v None) (es_entity (sv_config v)) (bulk_items items) (bulk_service_options actor))"

definition service_bulkRestore :: "'w entity_service \<Rightarrow> (string \<times> int) list \<Rightarrow> ('w gateway, bulk_result) run" where
  "service_bulkRestore v items =
     run_bind (run_op (service_actor v)) (\<lambda>actor.
       restoreMany (repoFor v None) (es_entity (sv_config v)) (bulk_items items) (bulk_service_options actor))"

section \<open>The gateway and the base class of domain services\<close>

definition entityService :: "platform_entities \<Rightarrow> 'w dal \<Rightarrow> 'w service_config \<Rightarrow> (dal_error, 'w entity_service) res" where
  "entityService P d cfg =
     makeEntityService P (rp_env (dl_base d)) (cfg\<lparr>es_repo := Some (case es_repo cfg of Some S \<Rightarrow> S | None \<Rightarrow> dl_repo d)\<rparr>)"

definition tableAuditPort :: "platform_entities \<Rightarrow> 'w dal \<Rightarrow> audit_entry \<Rightarrow> 'w gateway \<Rightarrow> 'w gateway" where
  "tableAuditPort P d = makeTableAuditPort P (dl_repo d)"

text \<open>A domain service resolves the singleton and its entity service on first use; \<open>ds_buildConfig\<close> is the seam for subclasses.\<close>

record 'w domain_service =
  ds_buildConfig :: "'w dal \<Rightarrow> 'w service_config"
  ds_dal :: "nat option"
  ds_svc :: "'w entity_service option"

definition new_domain_service :: "'w service_config \<Rightarrow> 'w domain_service" where
  "new_domain_service cfg = \<lparr>ds_buildConfig = (\<lambda>_. cfg), ds_dal = None, ds_svc = None\<rparr>"

definition ds_get_dal :: "'w process \<Rightarrow> 'w domain_service \<Rightarrow> (dal_error, nat) res \<times> 'w domain_service" where
  "ds_get_dal p s =
     (case ds_dal s of
        Some i \<Rightarrow> (Inr i, s)
      | None \<Rightarrow>
          (case ps_defaultDal p of
             Some i \<Rightarrow> (Inr i, s\<lparr>ds_dal := Some i\<rparr>)
           | None \<Rightarrow> (Inl (PlainError ''getDal: config is required on the first call''), s)))"

definition ds_get_svc :: "platform_entities \<Rightarrow> 'w process \<Rightarrow> 'w domain_service \<Rightarrow> (dal_error, 'w entity_service) res \<times> 'w domain_service" where
  "ds_get_svc P p s =
     (case ds_svc s of
        Some v \<Rightarrow> (Inr v, s)
      | None \<Rightarrow>
          (case ds_get_dal p s of
             (Inl e, s') \<Rightarrow> (Inl e, s')
           | (Inr i, s') \<Rightarrow>
               (case entityService P (ps_dals p ! i) (ds_buildConfig s' (ps_dals p ! i)) of
                  Inl e \<Rightarrow> (Inl e, s')
                | Inr v \<Rightarrow> (Inr v, s'\<lparr>ds_svc := Some v\<rparr>))))"

text \<open>The methods of a domain service delegate to the entity service.\<close>

definition ds_call :: "platform_entities \<Rightarrow> 'w process \<Rightarrow> 'w domain_service \<Rightarrow> ('w entity_service \<Rightarrow> ('w gateway, 'a) op)
    \<Rightarrow> 'w gateway \<Rightarrow> ((dal_error, 'a) res \<times> 'w gateway) \<times> 'w domain_service" where
  "ds_call P p s method g =
     (case ds_get_svc P p s of
        (Inl e, s') \<Rightarrow> ((Inl e, g), s')
      | (Inr v, s') \<Rightarrow> (method v g, s'))"

end
