(* ===== verification/ServiceFacts.thy ===== *)
theory ServiceFacts
  imports EntityService RepositoryFacts QueryFacts
begin

text \<open>
  What a search of \<open>src/entity/entity-service.ts\<close> matches, which fields a list query can touch, and what a write inside a
  transaction leaves to the caller.
\<close>

section \<open>LIKE\<close>

text \<open>The patterns of PostgreSQL with the escape character \<open>#\<close>, under \<open>ILIKE\<close>.  \<open>None\<close> is a pattern that ends with the escape character.\<close>

datatype like_token = Lit char | AnyOne | AnySeq

fun like_tokens :: "string \<Rightarrow> like_token list option" where
  "like_tokens [] = Some []"
| "like_tokens (c # r) =
     (if c = CHR ''#'' then (case r of [] \<Rightarrow> None | x # r' \<Rightarrow> map_option ((#) (Lit x)) (like_tokens r'))
      else map_option ((#) (if c = CHR ''%'' then AnySeq else if c = CHR ''_'' then AnyOne else Lit c)) (like_tokens r))"

fun token_match :: "like_token list \<Rightarrow> string \<Rightarrow> bool" where
  "token_match [] s \<longleftrightarrow> s = []"
| "token_match (Lit c # ts) s \<longleftrightarrow> (case s of [] \<Rightarrow> False | x # s' \<Rightarrow> lower_char x = lower_char c \<and> token_match ts s')"
| "token_match (AnyOne # ts) s \<longleftrightarrow> (case s of [] \<Rightarrow> False | _ # s' \<Rightarrow> token_match ts s')"
| "token_match (AnySeq # ts) s \<longleftrightarrow> token_match ts s \<or> (case s of [] \<Rightarrow> False | _ # s' \<Rightarrow> token_match (AnySeq # ts) s')"

definition like_match :: "string \<Rightarrow> string \<Rightarrow> bool" where
  "like_match pattern v \<longleftrightarrow> (case like_tokens pattern of Some ts \<Rightarrow> token_match ts v | None \<Rightarrow> False)"

text \<open>What a search term means: an asterisk or question mark behind a backslash is a wildcard, every other character stands for itself.\<close>

fun search_tokens :: "string \<Rightarrow> like_token list" where
  "search_tokens [] = []"
| "search_tokens [c] = [Lit c]"
| "search_tokens (c # n # r) =
     (if c = CHR 0x5C \<and> n = CHR ''*'' then AnySeq # search_tokens r
      else if c = CHR 0x5C \<and> n = CHR ''?'' then AnyOne # search_tokens r
      else Lit c # search_tokens (n # r))"

lemma match_any: "token_match (AnySeq # ts) v \<longleftrightarrow> (\<exists>a b. v = a @ b \<and> token_match ts b)"
proof (induction v)
  case Nil
  then show ?case by simp
next
  case (Cons x v)
  have "(\<exists>a b. x # v = a @ b \<and> token_match ts b) \<longleftrightarrow> token_match ts (x # v) \<or> (\<exists>a b. v = a @ b \<and> token_match ts b)"
    by (auto simp: Cons_eq_append_conv)
  then show ?case using Cons by simp
qed

lemma split_cons: "(\<exists>m. (\<exists>b. x # v = m @ b) \<and> P m) \<longleftrightarrow> P [] \<or> (\<exists>m. (\<exists>b. v = m @ b) \<and> P (x # m))"
  by (auto simp: Cons_eq_append_conv)

lemma match_append_any: "token_match (ts @ [AnySeq]) v \<longleftrightarrow> (\<exists>m b. v = m @ b \<and> token_match ts m)"
proof (induction ts arbitrary: v)
  case Nil
  have "token_match [AnySeq] v" by (simp add: match_any del: token_match.simps(4))
  then show ?case by auto
next
  case (Cons t ts)
  show ?case
  proof (cases t)
    case AnySeq
    have "token_match (AnySeq # ts @ [AnySeq]) v \<longleftrightarrow> (\<exists>a m b. v = a @ m @ b \<and> token_match ts m)"
      using Cons by (auto simp: match_any simp del: token_match.simps(4))
    also have "\<dots> \<longleftrightarrow> (\<exists>m b. v = m @ b \<and> token_match (AnySeq # ts) m)"
      unfolding match_any by (metis append_assoc)
    finally show ?thesis using AnySeq by simp
  next
    case (Lit c)
    then show ?thesis by (cases v) (auto simp: Cons split_cons)
  next
    case AnyOne
    then show ?thesis by (cases v) (auto simp: Cons split_cons)
  qed
qed

lemma escape_tokens: "like_tokens (like_escape c @ rest) = map_option ((#) (Lit c)) (like_tokens rest)"
  by (simp add: like_escape_def)

lemma needle_tokens: "like_tokens (fst (needle_scan raw) @ rest) = map_option ((@) (search_tokens raw)) (like_tokens rest)"
proof (induction raw rule: needle_scan.induct)
  case 1
  show ?case by (simp add: option.map_ident)
next
  case (2 c)
  show ?case by (simp add: scan_literal_def escape_tokens)
next
  case (3 c n r)
  show ?case
  proof (cases "escaped_wildcard c n")
    case True
    then show ?thesis using "3.IH"(1)
      by (auto simp: escaped_wildcard_def option.map_comp o_def split: prod.splits)
  next
    case False
    then have "search_tokens (c # n # r) = Lit c # search_tokens (n # r)" by (simp add: escaped_wildcard_def)
    then show ?thesis using False "3.IH"(2)
      by (simp add: scan_literal_def escape_tokens option.map_comp o_def case_prod_beta)
  qed
qed

text \<open>C21: under \<open>ILIKE \<dots> ESCAPE '#'\<close> the term built for a search matches exactly the texts that contain, somewhere, what the search means.\<close>

theorem search_matches_within:
  "like_match (fst (buildIlikeNeedle raw)) v \<longleftrightarrow> (\<exists>a m b. v = a @ m @ b \<and> token_match (search_tokens raw) m)"
proof -
  have tokens: "like_tokens (fst (needle_scan raw) @ ''%'') = Some (search_tokens raw @ [AnySeq])" using needle_tokens [of raw "''%''"] by simp
  then have "like_match (fst (buildIlikeNeedle raw)) v \<longleftrightarrow> token_match (AnySeq # search_tokens raw @ [AnySeq]) v"
    by (simp add: like_match_def buildIlikeNeedle_def tokens case_prod_beta del: token_match.simps)
  also have "\<dots> \<longleftrightarrow> (\<exists>a m b. v = a @ m @ b \<and> token_match (search_tokens raw) m)"
    unfolding match_any match_append_any by blast
  finally show ?thesis .
qed

lemma plain_search: "CHR 0x5C \<notin> set raw \<Longrightarrow> search_tokens raw = map Lit raw"
  by (induction raw rule: search_tokens.induct) (auto split: list.splits)

lemma literal_match: "token_match (map Lit raw) m \<longleftrightarrow> map lower_char m = map lower_char raw"
  by (induction raw arbitrary: m) (auto split: list.splits)

section \<open>Fields of a list query\<close>

definition on_field :: "nat \<Rightarrow> string set \<Rightarrow> filter_expr \<Rightarrow> bool" where
  "on_field entity keys x \<longleftrightarrow> x = Raw ''1'' ''='' ''0'' AND_OP
     \<or> (\<exists>f p v y. x = FieldValue f p v y \<and> fr_entity f = entity \<and> fr_key f \<in> keys)"

lemma search_leaves:
  "x \<in> set (filters_leaves (search_filters entity L q raw)) \<Longrightarrow> on_field entity (set (ls_searchableKeys L) \<union> {''uuid''}) x"
  by (auto simp: search_filters_def search_fields_def search_field_def on_field_def Filter_group_def Filter_raw_def Filter_fieldValue_def
      or_and_def field_def filters_leaves_concat Let_def split: prod.splits if_splits)


definition ex_list :: list_config where
  "ex_list = \<lparr>ls_searchableKeys = [''nick''], ls_filterableKeys = [''email''], ls_defaultSort = None, ls_extraFilters = None, ls_aggregates = []\<rparr>"

definition ex_query :: entity_list_query where
  "ex_query = \<lparr>eq_search = Some '' bob '', eq_search_in = Some [''password'', ''nick''], eq_sort_key = None, eq_sort_dir = None, eq_page = None,
     eq_page_size = None, eq_filters = Some [\<lparr>lc_field = ''password'', lc_op = ''='', lc_value = js_value.JStr ''x''\<rparr>], eq_connector = None,
     eq_deleted_records = None, eq_others = []\<rparr>"


section \<open>Writes inside a transaction\<close>

definition with_hook :: "(entity_action \<Rightarrow> host_record \<Rightarrow> ('w gateway, unit) op) option \<Rightarrow> 'w entity_service \<Rightarrow> 'w entity_service" where
  "with_hook h v = v\<lparr>sv_config := (sv_config v)\<lparr>es_afterWrite := h\<rparr>\<rparr>"

lemma hook_kept:
  "service_actor (with_hook h v) = service_actor v" "projections (with_hook h v) = projections v" "sv_repo (with_hook h v) = sv_repo v"
  "after_write (with_hook h v) (Some T) = after_write v (Some T)" "repoFor (with_hook h v) = repoFor v"
  "es_entity (sv_config (with_hook h v)) = es_entity (sv_config v)"
  "es_beforeCreate (sv_config (with_hook h v)) = es_beforeCreate (sv_config v)"
  "es_beforeUpdate (sv_config (with_hook h v)) = es_beforeUpdate (sv_config v)"
  by (simp_all add: with_hook_def fun_eq_iff service_actor_def projections_def service_env_def after_write_def service_dto_def repoFor_def Let_def split: option.split)

text \<open>A write on a repository of the caller's transaction never runs the hook for the time after a write.\<close>

theorem hooks_wait_for_commit:
  "service_create (with_hook h v) body (Some T) = service_create v body (Some T)
   \<and> service_update (with_hook h v) uuid body (Some T) = service_update v uuid body (Some T)"
  by (simp add: service_create_def service_update_def service_options_def hook_kept cong: option.case_cong)

text \<open>The audit port stays the one of the service: the rows of a write inside a transaction are written on the pool, outside it.\<close>

lemma audit_outside_transaction:
  assumes "makeEntityService P env cfg = Inr v" and "es_auditPort cfg = None" and "es_repo cfg = Some S"
  shows "rp_audit (ry_repo (repoFor v (Some T))) = makeTableAuditPort P S"
  using assms by (auto simp: makeEntityService_def res_bind_Inr repoFor_def)

end
