(* ===== verification/Spec2Isabelle.thy ===== *)
theory Spec2Isabelle
  imports SplitterFacts EngineRuns EntityFacts QueryFacts EmitFacts DeferredFacts BulkRuns RepositoryClone PartitionFacts DalFacts ServiceFacts
begin

text \<open>
  Verification library of the data access layer (placeholder header).
\<close>

end
